(* ===== verification/Prelude.thy ===== *)
theory Prelude
  imports Main
begin

text \<open>
  The shared layer of the development: the exceptions the services raise, the result type of a
  request, and the list-shaped tables behind the Prisma client with the queries the code uses on
  them.

  Conventions. A table is the list of its rows in the order the database scans them; every theorem
  is about an arbitrary list, so no scan order is assumed. A time is a number of milliseconds
  since the epoch. One operation reads the clock once: all the \<^verbatim>\<open>new Date()\<close> of one call are the
  argument \<open>now\<close>. Strings are byte strings; \<open>toLowerCase\<close> and \<open>trim\<close> act on the ASCII letters and
  blanks (theory \<open>Js_Runtime\<close>). The host's time zone has a constant UTC offset \<open>tz\<close> (in milliseconds).
\<close>

named_theorems tbl_simps \<open>facts about queries and writes on tables\<close>
named_theorems frame_simps \<open>what an operation leaves unchanged\<close>

section \<open>Types\<close>

type_synonym ident = string
type_synonym time = int

text \<open>The exceptions of the Nest framework that the services throw, and the errors of the Prisma
  client: a write to a missing record (P2025), a duplicate of a unique column (P2002) and a
  dangling foreign key (P2003).\<close>

datatype exn =
    NotFoundException string
  | ForbiddenException string
  | BadRequestException string
  | UnauthorizedException string
  | ConflictException string
  | InternalServerErrorException string
  | PrismaRecordNotFound
  | PrismaUniqueViolation
  | PrismaForeignKeyViolation
  | JsError string

text \<open>A request ends in an exception or a value, and in a state: writes made before the exception
  stay, as nothing rolls them back.\<close>

type_synonym 'a result = "exn + 'a"

definition is_ok :: "'a result \<Rightarrow> bool" where
  "is_ok r = (case r of Inl _ \<Rightarrow> False | Inr _ \<Rightarrow> True)"

lemma is_ok_simps [simp]: "is_ok (Inr x)" "\<not> is_ok (Inl e)"
  by (simp_all add: is_ok_def)

lemma is_ok_iff: "is_ok r \<longleftrightarrow> (\<exists>x. r = Inr x)"
  by (cases r) simp_all

section \<open>Tables\<close>

definition findFirst :: "('r \<Rightarrow> bool) \<Rightarrow> 'r list \<Rightarrow> 'r option" where
  "findFirst P rows = find P rows"

definition findUnique :: "('r \<Rightarrow> 'k) \<Rightarrow> 'k \<Rightarrow> 'r list \<Rightarrow> 'r option" where
  "findUnique key k rows = find (\<lambda>r. key r = k) rows"

definition findMany :: "('r \<Rightarrow> bool) \<Rightarrow> 'r list \<Rightarrow> 'r list" where
  "findMany P rows = filter P rows"

definition updateMany :: "('r \<Rightarrow> bool) \<Rightarrow> ('r \<Rightarrow> 'r) \<Rightarrow> 'r list \<Rightarrow> 'r list" where
  "updateMany P f rows = map (\<lambda>r. if P r then f r else r) rows"

definition deleteMany :: "('r \<Rightarrow> bool) \<Rightarrow> 'r list \<Rightarrow> 'r list" where
  "deleteMany P rows = filter (\<lambda>r. \<not> P r) rows"

definition orderByDesc :: "('r \<Rightarrow> int) \<Rightarrow> 'r list \<Rightarrow> 'r list" where
  "orderByDesc f rows = sort_key (\<lambda>r. - f r) rows"

definition orderByAsc :: "('r \<Rightarrow> int) \<Rightarrow> 'r list \<Rightarrow> 'r list" where
  "orderByAsc f rows = sort_key f rows"

text \<open>The two checks with which the services guard a row they were asked for.\<close>

definition owned :: "('r \<Rightarrow> ident) \<Rightarrow> string \<Rightarrow> string \<Rightarrow> ident \<Rightarrow> 'r option \<Rightarrow> 'r result" where
  "owned owner notFound notYours parentId row =
     (case row of
        None \<Rightarrow> Inl (NotFoundException notFound)
      | Some r \<Rightarrow> if owner r \<noteq> parentId then Inl (ForbiddenException notYours) else Inr r)"

lemma owned_Inr_iff [tbl_simps]:
  "owned owner nf ny p row = Inr r \<longleftrightarrow> row = Some r \<and> owner r = p"
  by (auto simp: owned_def split: option.splits if_splits)

lemma owned_Inl_iff [tbl_simps]:
  "owned owner nf ny p row = Inl e \<longleftrightarrow>
     (row = None \<and> e = NotFoundException nf) \<or>
     (\<exists>r. row = Some r \<and> owner r \<noteq> p \<and> e = ForbiddenException ny)"
  by (auto simp: owned_def split: option.splits if_splits)

lemma owned_None [simp]: "owned owner nf ny p None = Inl (NotFoundException nf)"
  by (simp add: owned_def)

lemma owned_foreign [simp]:
  "owner r \<noteq> p \<Longrightarrow> owned owner nf ny p (Some r) = Inl (ForbiddenException ny)"
  by (simp add: owned_def)

lemma owned_own [simp]: "owned owner nf ny (owner r) (Some r) = Inr r"
  by (simp add: owned_def)

lemma findUnique_Some_iff:
  "findUnique key k rows = Some r \<Longrightarrow> r \<in> set rows \<and> key r = k"
  by (auto simp: findUnique_def find_Some_iff)

lemma findUnique_None_iff [tbl_simps]:
  "findUnique key k rows = None \<longleftrightarrow> k \<notin> key ` set rows"
  by (auto simp: findUnique_def find_None_iff)

lemma findUnique_Nil [simp]: "findUnique key k [] = None"
  by (simp add: findUnique_def)

lemma findUnique_Cons [simp]:
  "findUnique key k (r # rows) = (if key r = k then Some r else findUnique key k rows)"
  by (simp add: findUnique_def)

lemma findUnique_append [simp]:
  "findUnique key k (xs @ ys) =
     (case findUnique key k xs of Some r \<Rightarrow> Some r | None \<Rightarrow> findUnique key k ys)"
  by (induction xs) simp_all

lemma findUnique_distinct:
  assumes "distinct (map key rows)" and "r \<in> set rows"
  shows "findUnique key (key r) rows = Some r"
  using assms by (induction rows) auto

lemma findFirst_Nil [simp]: "findFirst P [] = None"
  by (simp add: findFirst_def)

lemma findFirst_Cons [simp]:
  "findFirst P (r # rows) = (if P r then Some r else findFirst P rows)"
  by (simp add: findFirst_def)

lemma findFirst_None_iff [tbl_simps]: "findFirst P rows = None \<longleftrightarrow> (\<forall>r \<in> set rows. \<not> P r)"
  by (auto simp: findFirst_def find_None_iff)

lemma findFirst_SomeD: "findFirst P rows = Some r \<Longrightarrow> r \<in> set rows \<and> P r"
  by (auto simp: findFirst_def find_Some_iff)

lemma set_findMany [simp]: "set (findMany P rows) = {r \<in> set rows. P r}"
  by (simp add: findMany_def)

lemma findMany_Nil [simp]: "findMany P [] = []"
  by (simp add: findMany_def)

lemma findMany_Cons [simp]:
  "findMany P (r # rows) = (if P r then r # findMany P rows else findMany P rows)"
  by (simp add: findMany_def)

lemma findMany_append [simp]: "findMany P (xs @ ys) = findMany P xs @ findMany P ys"
  by (simp add: findMany_def)

lemma updateMany_Nil [simp]: "updateMany P f [] = []"
  by (simp add: updateMany_def)

lemma updateMany_Cons [simp]:
  "updateMany P f (r # rows) = (if P r then f r else r) # updateMany P f rows"
  by (simp add: updateMany_def)

lemma updateMany_append [simp]:
  "updateMany P f (xs @ ys) = updateMany P f xs @ updateMany P f ys"
  by (simp add: updateMany_def)

lemma length_updateMany [simp]: "length (updateMany P f rows) = length rows"
  by (simp add: updateMany_def)

lemma set_updateMany: "set (updateMany P f rows) = (\<lambda>r. if P r then f r else r) ` set rows"
  by (simp add: updateMany_def)

lemma in_updateMany_iff:
  "r \<in> set (updateMany P f rows) \<longleftrightarrow>
     (\<exists>q \<in> set rows. P q \<and> r = f q) \<or> (r \<in> set rows \<and> \<not> P r)"
  by (auto simp: updateMany_def)

text \<open>A write that keeps the key keeps the key column, so unique keys stay unique.\<close>

lemma map_key_updateMany [simp]:
  "(\<And>r. key (f r) = key r) \<Longrightarrow> map key (updateMany P f rows) = map key rows"
  by (induction rows) simp_all

lemma image_key_updateMany [simp]:
  "(\<And>r. key (f r) = key r) \<Longrightarrow> key ` set (updateMany P f rows) = key ` set rows"
  by (induction rows) auto

lemma findMany_updateMany_irrelevant:
  "(\<And>r. r \<in> set rows \<Longrightarrow> Q r \<Longrightarrow> \<not> P r \<and> \<not> P (f r)) \<Longrightarrow>
   findMany P (updateMany Q f rows) = findMany P rows"
  by (induction rows) auto

lemma findUnique_updateMany:
  assumes "\<And>r. key (f r) = key r"
  shows "findUnique key k (updateMany P f rows) =
           map_option (\<lambda>r. if P r then f r else r) (findUnique key k rows)"
  using assms by (induction rows) simp_all

lemma findUnique_updateMany_same [simp]:
  assumes "\<And>r. key (f r) = key r"
  shows "findUnique key k (updateMany (\<lambda>r. key r = k) f rows) =
           map_option f (findUnique key k rows)"
  using assms by (induction rows) simp_all

lemma findUnique_updateMany_other [simp]:
  assumes "\<And>r. key (f r) = key r" and "k \<noteq> k'"
  shows "findUnique key k (updateMany (\<lambda>r. key r = k') f rows) = findUnique key k rows"
  using assms by (induction rows) auto

lemma deleteMany_Nil [simp]: "deleteMany P [] = []"
  by (simp add: deleteMany_def)

lemma deleteMany_Cons [simp]:
  "deleteMany P (r # rows) = (if P r then deleteMany P rows else r # deleteMany P rows)"
  by (simp add: deleteMany_def)

lemma deleteMany_append [simp]: "deleteMany P (xs @ ys) = deleteMany P xs @ deleteMany P ys"
  by (simp add: deleteMany_def)

lemma set_deleteMany [simp]: "set (deleteMany P rows) = {r \<in> set rows. \<not> P r}"
  by (auto simp: deleteMany_def)

lemma set_orderByDesc [simp]: "set (orderByDesc f rows) = set rows"
  by (simp add: orderByDesc_def)

lemma set_orderByAsc [simp]: "set (orderByAsc f rows) = set rows"
  by (simp add: orderByAsc_def)

lemma length_orderBy [simp]:
  "length (orderByDesc f rows) = length rows" "length (orderByAsc f rows) = length rows"
  by (simp_all add: orderByDesc_def orderByAsc_def)

lemma orderBy_Nil [simp]: "orderByDesc f [] = []" "orderByAsc f [] = []"
  by (simp_all add: orderByDesc_def orderByAsc_def)

lemma orderBy_empty_iff [simp]:
  "orderByDesc f rows = [] \<longleftrightarrow> rows = []" "orderByAsc f rows = [] \<longleftrightarrow> rows = []"
  by (metis length_0_conv length_orderBy(1)) (metis length_0_conv length_orderBy(2))

lemma findMany_empty_iff [tbl_simps]: "findMany P rows = [] \<longleftrightarrow> (\<forall>r \<in> set rows. \<not> P r)"
  by (simp add: findMany_def filter_empty_conv)

lemma length_findMany: "length (findMany P rows) = length (filter P rows)"
  by (simp add: findMany_def)

lemma nth_updateMany: "n < length rows \<Longrightarrow> updateMany P f rows ! n = (if P (rows ! n) then f (rows ! n) else rows ! n)"
  by (simp add: updateMany_def)

lemma sorted_orderByDesc: "sorted (map (\<lambda>r. - f r) (orderByDesc f rows))"
  by (simp add: orderByDesc_def)

text \<open>The first row of a descending order is a maximum.\<close>

lemma hd_orderByDesc_max:
  assumes "r \<in> set rows"
  shows "f r \<le> f (hd (orderByDesc f rows))"
proof -
  have s: "sorted (map (\<lambda>r. - f r) (orderByDesc f rows))" by (rule sorted_orderByDesc)
  have m: "r \<in> set (orderByDesc f rows)" using assms by simp
  show ?thesis
  proof (cases "orderByDesc f rows")
    case Nil
    with m show ?thesis by simp
  next
    case (Cons a as)
    with s m show ?thesis by auto
  qed
qed

lemma sum_list_filter_le:
  fixes f :: "'a \<Rightarrow> int"
  assumes "\<And>x. x \<in> set xs \<Longrightarrow> 0 \<le> f x"
  shows "sum_list (map f (filter P xs)) \<le> sum_list (map f xs)"
  using assms
proof (induction xs)
  case Nil
  show ?case by simp
next
  case (Cons a xs)
  then have "0 \<le> f a" and "sum_list (map f (filter P xs)) \<le> sum_list (map f xs)"
    by simp_all
  then show ?case by simp
qed

section \<open>Optional values\<close>

text \<open>A property left \<^verbatim>\<open>undefined\<close> in the data of an update keeps the column: \<open>patch\<close> for a required
  column, \<open>patchOpt\<close> for a nullable one (which is also the operator \<^verbatim>\<open>??\<close>).\<close>

definition patch :: "'a option \<Rightarrow> 'a \<Rightarrow> 'a" where
  "patch v old = (case v of None \<Rightarrow> old | Some x \<Rightarrow> x)"

definition patchOpt :: "'a option \<Rightarrow> 'a option \<Rightarrow> 'a option" where
  "patchOpt v old = (case v of None \<Rightarrow> old | Some x \<Rightarrow> Some x)"

text \<open>A string (or \<^verbatim>\<open>null\<close> or \<^verbatim>\<open>undefined\<close>) as a condition.\<close>

definition truthy :: "string option \<Rightarrow> bool" where
  "truthy v = (case v of None \<Rightarrow> False | Some x \<Rightarrow> x \<noteq> [])"

lemma patch_simps [simp]: "patch None old = old" "patch (Some x) old = x"
  by (simp_all add: patch_def)

lemma patchOpt_simps [simp]: "patchOpt None old = old" "patchOpt (Some x) old = Some x"
  by (simp_all add: patchOpt_def)

lemma truthy_simps [simp]: "\<not> truthy None" "truthy (Some x) \<longleftrightarrow> x \<noteq> []"
  by (simp_all add: truthy_def)

text \<open>The value of a handler passed on in another form; errors and the state stay.\<close>

definition mapResult :: "('a \<Rightarrow> 'b) \<Rightarrow> 'a result \<times> 's \<Rightarrow> 'b result \<times> 's" where
  "mapResult f rs = (case rs of (Inl e, s) \<Rightarrow> (Inl e, s) | (Inr x, s) \<Rightarrow> (Inr (f x), s))"

lemma snd_mapResult [simp]: "snd (mapResult f rs) = snd rs"
  by (cases rs) (simp add: mapResult_def split: sum.split)

section \<open>Operations guarded by ownership\<close>

text \<open>
  The contract that every parent-facing operation on one row shares: it looks the row up, refuses a
  missing row and a row of another parent, and in both cases writes nothing. \<open>act i p\<close> is the
  operation on row \<open>i\<close> for parent \<open>p\<close>.
\<close>

locale owner_guarded =
  fixes lookup :: "'s \<Rightarrow> ident \<Rightarrow> 'r option"
    and owner :: "'r \<Rightarrow> ident"
    and notFound :: string
    and notYours :: string
    and act :: "ident \<Rightarrow> ident \<Rightarrow> 's \<Rightarrow> 'a result \<times> 's"
  assumes act_guard: "owned owner notFound notYours p (lookup s i) = Inl e \<Longrightarrow> act i p s = (Inl e, s)"
begin

lemma missing_rejected: "lookup s i = None \<Longrightarrow> act i p s = (Inl (NotFoundException notFound), s)"
  by (rule act_guard) simp

lemma foreign_rejected:
  "lookup s i = Some r \<Longrightarrow> owner r \<noteq> p \<Longrightarrow> act i p s = (Inl (ForbiddenException notYours), s)"
  by (rule act_guard) simp

lemma ok_imp_owned: "act i p s = (Inr a, s') \<Longrightarrow> \<exists>r. lookup s i = Some r \<and> owner r = p"
  using missing_rejected foreign_rejected by (cases "lookup s i") force+

lemma change_imp_owned: "snd (act i p s) \<noteq> s \<Longrightarrow> \<exists>r. lookup s i = Some r \<and> owner r = p"
  using missing_rejected foreign_rejected by (cases "lookup s i") force+

end

end
