(* ===== verification/Js_Runtime.thy ===== *)
theory Js_Runtime
  imports Prelude
begin

text \<open>
  The operations of the JavaScript runtime that the services use: strings (\<open>toLowerCase\<close>, \<open>trim\<close>,
  \<open>split\<close>, \<open>join\<close>, \<open>startsWith\<close>, \<open>endsWith\<close>, \<open>includes\<close>, \<open>padStart\<close>, \<open>parseInt\<close>), decimal printing,
  \<open>Math.round\<close> on a quotient of integers, \<open>JSON.stringify\<close>, and dates (hours and minutes of the day,
  day of the week, start of the day, \<open>toISOString\<close>).
\<close>

section \<open>Strings\<close>

definition lowerChar :: "char \<Rightarrow> char" where
  "lowerChar c = (let n = (of_char c :: nat) in if 65 \<le> n \<and> n \<le> 90 then char_of (n + 32) else c)"

definition toLowerCase :: "string \<Rightarrow> string" where
  "toLowerCase s = map lowerChar s"

definition isBlank :: "char \<Rightarrow> bool" where
  "isBlank c = ((of_char c :: nat) \<in> {9, 10, 11, 12, 13, 32})"

definition trim :: "string \<Rightarrow> string" where
  "trim s = rev (dropWhile isBlank (rev (dropWhile isBlank s)))"

text \<open>\<^verbatim>\<open>s.replace(/\.$/, '')\<close>\<close>

definition stripTrailingDot :: "string \<Rightarrow> string" where
  "stripTrailingDot s = (if s \<noteq> [] \<and> last s = CHR ''.'' then butlast s else s)"

fun splitOn :: "char \<Rightarrow> string \<Rightarrow> string list" where
  "splitOn d [] = [[]]"
| "splitOn d (c # cs) =
     (if c = d then [] # splitOn d cs
      else (case splitOn d cs of [] \<Rightarrow> [[c]] | w # ws \<Rightarrow> (c # w) # ws))"

fun joinWith :: "string \<Rightarrow> string list \<Rightarrow> string" where
  "joinWith sep [] = []"
| "joinWith sep [w] = w"
| "joinWith sep (w # v # ws) = w @ sep @ joinWith sep (v # ws)"

text \<open>The non-ASCII characters of the source's messages, in UTF-8.\<close>

definition emdash :: string where "emdash = [CHR 0xE2, CHR 0x80, CHR 0x94]"
definition starFull :: string where "starFull = [CHR 0xE2, CHR 0x98, CHR 0x85]"
definition starEmpty :: string where "starEmpty = [CHR 0xE2, CHR 0x98, CHR 0x86]"

definition startsWith :: "string \<Rightarrow> string \<Rightarrow> bool" where
  "startsWith s p = (take (length p) s = p)"

definition endsWith :: "string \<Rightarrow> string \<Rightarrow> bool" where
  "endsWith s p = (length p \<le> length s \<and> drop (length s - length p) s = p)"

fun includesStr :: "string \<Rightarrow> string \<Rightarrow> bool" where
  "includesStr [] p = (p = [])"
| "includesStr (c # cs) p = (startsWith (c # cs) p \<or> includesStr cs p)"

lemma splitOn_nonempty [simp]: "splitOn d s \<noteq> []"
  by (induction s) (auto split: list.splits)

lemma splitOn_no_delim: "w \<in> set (splitOn d s) \<Longrightarrow> d \<notin> set w"
  by (induction s arbitrary: w) (auto split: list.splits if_splits)

lemma join_splitOn: "joinWith [d] (splitOn d s) = s"
proof (induction s)
  case Nil
  show ?case by simp
next
  case (Cons c cs)
  obtain w ws where w: "splitOn d cs = w # ws" by (cases "splitOn d cs") auto
  with Cons show ?case by (cases ws) auto
qed

lemma splitOn_plain: "d \<notin> set w \<Longrightarrow> splitOn d w = [w]"
  by (induction w) auto

lemma splitOn_append:
  "d \<notin> set w \<Longrightarrow> splitOn d (w @ d # s) = w # splitOn d s"
  by (induction w) auto

lemma split_joinWith:
  "ws \<noteq> [] \<Longrightarrow> (\<And>w. w \<in> set ws \<Longrightarrow> d \<notin> set w) \<Longrightarrow> splitOn d (joinWith [d] ws) = ws"
proof (induction ws rule: induct_list012)
  case (2 w)
  then show ?case by (simp add: splitOn_plain)
next
  case (3 w v ws)
  then show ?case by (simp add: splitOn_append)
qed simp

lemma startsWith_append [simp]: "startsWith (p @ s) p"
  by (simp add: startsWith_def)

lemma startsWith_iff: "startsWith s p \<longleftrightarrow> (\<exists>t. s = p @ t)"
  by (auto simp: startsWith_def) (metis append_take_drop_id)

lemma endsWith_iff: "endsWith s p \<longleftrightarrow> (\<exists>t. s = t @ p)"
  by (auto simp: endsWith_def) (metis append_take_drop_id)

lemma includes_iff: "includesStr s p \<longleftrightarrow> (\<exists>a b. s = a @ p @ b)"
proof (induction s)
  case Nil
  show ?case by auto
next
  case (Cons c cs)
  have "(\<exists>a b. c # cs = a @ p @ b) \<longleftrightarrow> (\<exists>b. c # cs = p @ b) \<or> (\<exists>a b. cs = a @ p @ b)"
    by (metis append_Cons append_Nil list.exhaust list.inject)
  with Cons show ?case by (simp add: startsWith_iff)
qed

lemma toLowerCase_append [simp]: "toLowerCase (s @ t) = toLowerCase s @ toLowerCase t"
  by (simp add: toLowerCase_def)

lemma length_toLowerCase [simp]: "length (toLowerCase s) = length s"
  by (simp add: toLowerCase_def)

lemma lowerChar_idem [simp]: "lowerChar (lowerChar c) = lowerChar c"
proof (cases "65 \<le> (of_char c :: nat) \<and> (of_char c :: nat) \<le> 90")
  case True
  then have "(of_char (lowerChar c) :: nat) = of_char c + 32"
    by (simp add: lowerChar_def)
  then have "(of_char (lowerChar c) :: nat) > 90" using True by linarith
  then show ?thesis by (simp add: lowerChar_def [of "lowerChar c"])
next
  case False
  then show ?thesis by (auto simp: lowerChar_def Let_def)
qed

lemma toLowerCase_idem [simp]: "toLowerCase (toLowerCase s) = toLowerCase s"
  by (simp add: toLowerCase_def)

section \<open>Numbers\<close>

fun showNat :: "nat \<Rightarrow> string" where
  "showNat n = (if n < 10 then [char_of (48 + n)] else showNat (n div 10) @ [char_of (48 + n mod 10)])"

declare showNat.simps [simp del]

definition showInt :: "int \<Rightarrow> string" where
  "showInt i = (if i < 0 then ''-'' @ showNat (nat (- i)) else showNat (nat i))"

definition padStart2 :: "string \<Rightarrow> string" where
  "padStart2 s = replicate (2 - length s) (CHR ''0'') @ s"

definition isDigit :: "char \<Rightarrow> bool" where
  "isDigit c = (48 \<le> (of_char c :: nat) \<and> (of_char c :: nat) \<le> 57)"

definition digitVal :: "char \<Rightarrow> int" where
  "digitVal c = int (of_char c) - 48"

definition digitsVal :: "string \<Rightarrow> int" where
  "digitsVal ds = foldl (\<lambda>acc c. acc * 10 + digitVal c) 0 ds"

text \<open>\<^verbatim>\<open>parseInt(s, 10)\<close>: leading blanks, a sign, the longest run of digits; \<open>None\<close> is \<^verbatim>\<open>NaN\<close>.\<close>

definition parseInt10 :: "string \<Rightarrow> int option" where
  "parseInt10 s =
     (let t = dropWhile isBlank s;
          neg = (t \<noteq> [] \<and> hd t = CHR ''-'');
          u = (if t \<noteq> [] \<and> (hd t = CHR ''-'' \<or> hd t = CHR ''+'') then tl t else t);
          ds = takeWhile isDigit u
      in if ds = [] then None else Some (if neg then - digitsVal ds else digitsVal ds))"

text \<open>\<^verbatim>\<open>Math.round(a / b)\<close> for integers with \<open>0 < b\<close>: the nearest integer, halves towards plus
  infinity.\<close>

definition roundDiv :: "int \<Rightarrow> int \<Rightarrow> int" where
  "roundDiv a b = (2 * a + b) div (2 * b)"

lemma div_mult_le_self: "0 < (b :: int) \<Longrightarrow> (a div b) * b \<le> a"
  by (metis add_increasing2 div_mod_decomp_int order_refl pos_mod_sign)

lemma div_less_of_less_mult:
  assumes "(a :: int) < n * b" "0 < b"
  shows "a div b < n"
proof (rule ccontr)
  assume "\<not> a div b < n"
  then have "n * b \<le> (a div b) * b" using assms(2) by (simp add: mult_right_mono)
  with div_mult_le_self [OF assms(2), of a] assms(1) show False by linarith
qed

lemma roundDiv_bounds:
  assumes "0 < b" "0 \<le> a" "a \<le> n * b"
  shows "0 \<le> roundDiv a b \<and> roundDiv a b \<le> n"
proof -
  have "0 \<le> (2 * a + b) div (2 * b)"
    using assms by (simp add: pos_imp_zdiv_nonneg_iff)
  moreover have "(2 * a + b) div (2 * b) \<le> n"
  proof -
    have "2 * a + b < (n + 1) * (2 * b)"
      using assms by (simp add: algebra_simps)
    then have "(2 * a + b) div (2 * b) < n + 1"
      using assms(1) by (intro div_less_of_less_mult) simp_all
    then show ?thesis by simp
  qed
  ultimately show ?thesis by (simp add: roundDiv_def)
qed

lemma roundDiv_0 [simp]: "0 < b \<Longrightarrow> roundDiv 0 b = 0"
  by (simp add: roundDiv_def)

lemma roundDiv_mult [simp]:
  assumes "0 < b" shows "roundDiv (n * b) b = n"
proof -
  have "2 * (n * b) + b = b + n * (2 * b)" by simp
  then have "(2 * (n * b) + b) div (2 * b) = n + b div (2 * b)"
    using assms by (simp only: div_mult_self1)
  then show ?thesis using assms by (simp add: roundDiv_def div_pos_pos_trivial)
qed

lemma of_char_digit: "(n :: nat) < 10 \<Longrightarrow> (of_char (char_of (48 + n) :: char) :: nat) = 48 + n"
  by simp

lemma digitVal_digit: "(n :: nat) < 10 \<Longrightarrow> digitVal (char_of (48 + n)) = int n"
  by (simp add: digitVal_def)

lemma isDigit_digit: "(n :: nat) < 10 \<Longrightarrow> isDigit (char_of (48 + n))"
  by (simp add: isDigit_def)

lemma digitsVal_append [simp]: "digitsVal (ds @ [c]) = digitsVal ds * 10 + digitVal c"
  by (simp add: digitsVal_def)

lemma showNat_digits: "list_all isDigit (showNat n) \<and> showNat n \<noteq> []"
proof (induction n rule: showNat.induct)
  case (1 n)
  then show ?case
    by (subst (1 2) showNat.simps) (simp add: isDigit_digit)
qed

lemma digitsVal_showNat: "digitsVal (showNat n) = int n"
proof (induction n rule: showNat.induct)
  case (1 n)
  show ?case
  proof (cases "n < 10")
    case True
    then show ?thesis
      by (subst showNat.simps) (simp add: digitsVal_def digitVal_digit)
  next
    case False
    have "10 * int (n div 10) + int (n mod 10) = int n"
      by (simp flip: of_nat_add of_nat_mult add: zdiv_int zmod_int)
    with False 1 show ?thesis
      by (subst showNat.simps) (simp add: digitVal_digit mult.commute)
  qed
qed

text \<open>Printing and \<open>parseInt\<close> are inverse on every integer.\<close>

lemma parseInt10_showInt: "parseInt10 (showInt i) = Some i"
proof -
  have tw: "takeWhile isDigit (showNat n) = showNat n" for n
    using showNat_digits [of n] by (simp add: takeWhile_eq_all_conv list_all_iff)
  have hd_digit: "isDigit (hd (showNat n))" for n
    using showNat_digits [of n] by (cases "showNat n") auto
  have nb: "isDigit c \<Longrightarrow> \<not> isBlank c \<and> c \<noteq> CHR ''-'' \<and> c \<noteq> CHR ''+''" for c
    by (auto simp: isDigit_def isBlank_def)
  have dw: "dropWhile isBlank (showNat n) = showNat n" for n
    using nb [OF hd_digit [of n]] showNat_digits [of n] by (cases "showNat n") auto
  have m: "\<not> isBlank (CHR ''-'')" by (simp add: isBlank_def)
  show ?thesis
    using nb [OF hd_digit] showNat_digits
    by (auto simp: parseInt10_def showInt_def dw tw m digitsVal_showNat Let_def)
qed

section \<open>JSON\<close>

datatype json =
    JNull
  | JBool bool
  | JNum int
  | JStr string
  | JArr "json list"
  | JObj "(string \<times> json) list"

definition hexDigit :: "nat \<Rightarrow> char" where
  "hexDigit n = (if n < 10 then char_of (48 + n) else char_of (87 + n))"

definition escapeChar :: "char \<Rightarrow> string" where
  "escapeChar c =
     (let n = (of_char c :: nat) in
      if n = 34 then [CHR 0x5C, CHR 0x22]
      else if n = 92 then [CHR 0x5C, CHR 0x5C]
      else if n = 8 then [CHR 0x5C, CHR ''b'']
      else if n = 9 then [CHR 0x5C, CHR ''t'']
      else if n = 10 then [CHR 0x5C, CHR ''n'']
      else if n = 12 then [CHR 0x5C, CHR ''f'']
      else if n = 13 then [CHR 0x5C, CHR ''r'']
      else if n < 32 then [CHR 0x5C, CHR ''u'', CHR ''0'', CHR ''0'', hexDigit (n div 16), hexDigit (n mod 16)]
      else [c])"

definition quoteJson :: "string \<Rightarrow> string" where
  "quoteJson s = [CHR 0x22] @ concat (map escapeChar s) @ [CHR 0x22]"

fun stringify :: "json \<Rightarrow> string" where
  "stringify JNull = ''null''"
| "stringify (JBool b) = (if b then ''true'' else ''false'')"
| "stringify (JNum i) = showInt i"
| "stringify (JStr s) = quoteJson s"
| "stringify (JArr js) = ''['' @ joinWith '','' (map stringify js) @ '']''"
| "stringify (JObj fs) =
     [CHR 0x7B] @ joinWith '','' (map (\<lambda>(k, v). quoteJson k @ '':'' @ stringify v) fs) @ [CHR 0x7D]"

text \<open>A property whose value is \<^verbatim>\<open>undefined\<close> is left out of the object; \<^verbatim>\<open>null\<close> is printed.\<close>

definition optField :: "string \<Rightarrow> ('a \<Rightarrow> json) \<Rightarrow> 'a option \<Rightarrow> (string \<times> json) list" where
  "optField k f v = (case v of None \<Rightarrow> [] | Some x \<Rightarrow> [(k, f x)])"

definition nullable :: "('a \<Rightarrow> json) \<Rightarrow> 'a option \<Rightarrow> json" where
  "nullable f v = (case v of None \<Rightarrow> JNull | Some x \<Rightarrow> f x)"

section \<open>Dates\<close>

definition msPerMinute :: int where "msPerMinute = 60000"
definition msPerDay :: int where "msPerDay = 86400000"

text \<open>Local wall-clock fields of a time, for a host at UTC offset \<open>tz\<close>.\<close>

definition localMinutes :: "int \<Rightarrow> time \<Rightarrow> int" where
  "localMinutes tz t = ((t + tz) mod msPerDay) div msPerMinute"

definition getHours :: "int \<Rightarrow> time \<Rightarrow> int" where
  "getHours tz t = localMinutes tz t div 60"

definition getMinutes :: "int \<Rightarrow> time \<Rightarrow> int" where
  "getMinutes tz t = localMinutes tz t mod 60"

text \<open>1 January 1970 was a Thursday, day 4 of a week that starts on Sunday.\<close>

definition getDay :: "int \<Rightarrow> time \<Rightarrow> int" where
  "getDay tz t = ((t + tz) div msPerDay + 4) mod 7"

definition startOfDay :: "int \<Rightarrow> time \<Rightarrow> time" where
  "startOfDay tz t = ((t + tz) div msPerDay) * msPerDay - tz"

definition hhmm :: "int \<Rightarrow> time \<Rightarrow> string" where
  "hhmm tz t = padStart2 (showInt (getHours tz t)) @ '':'' @ padStart2 (showInt (getMinutes tz t))"

text \<open>The proleptic Gregorian date of a day number (year, month, day).\<close>

definition civil :: "int \<Rightarrow> int \<times> int \<times> int" where
  "civil days =
     (let z = days + 719468;
          era = z div 146097;
          doe = z - era * 146097;
          yoe = (doe - doe div 1460 + doe div 36524 - doe div 146096) div 365;
          doy = doe - (365 * yoe + yoe div 4 - yoe div 100);
          mp = (5 * doy + 2) div 153;
          d = doy - (153 * mp + 2) div 5 + 1;
          m = (if mp < 10 then mp + 3 else mp - 9)
      in (yoe + era * 400 + (if m \<le> 2 then 1 else 0), m, d))"

definition pad :: "nat \<Rightarrow> int \<Rightarrow> string" where
  "pad w i = (let s = showInt i in replicate (w - length s) (CHR ''0'') @ s)"

text \<open>\<^verbatim>\<open>toISOString().split('T')[0]\<close> and \<^verbatim>\<open>toISOString()\<close>, for the years 0 to 9999.\<close>

definition isoDay :: "time \<Rightarrow> string" where
  "isoDay t = (case civil (t div msPerDay) of (y, m, d) \<Rightarrow> pad 4 y @ ''-'' @ pad 2 m @ ''-'' @ pad 2 d)"

definition toISOString :: "time \<Rightarrow> string" where
  "toISOString t =
     (let r = t mod msPerDay in
      isoDay t @ ''T'' @ pad 2 (r div 3600000) @ '':'' @ pad 2 (r div 60000 mod 60) @ '':''
        @ pad 2 (r div 1000 mod 60) @ ''.'' @ pad 3 (r mod 1000) @ ''Z'')"

lemma startOfDay_le: "startOfDay tz t \<le> t" and startOfDay_lt: "t < startOfDay tz t + msPerDay"
proof -
  have "(t + tz) div msPerDay * msPerDay \<le> t + tz"
    by (rule div_mult_le_self) (simp add: msPerDay_def)
  then show "startOfDay tz t \<le> t" by (simp add: startOfDay_def)
  have "t + tz < (t + tz) div msPerDay * msPerDay + msPerDay"
    using div_mod_decomp_int [of "t + tz" msPerDay] pos_mod_bound [of msPerDay "t + tz"]
    by (simp add: msPerDay_def)
  then show "t < startOfDay tz t + msPerDay" by (simp add: startOfDay_def)
qed

lemma localMinutes_range: "0 \<le> localMinutes tz t \<and> localMinutes tz t < 1440"
proof -
  have "0 \<le> (t + tz) mod msPerDay" "(t + tz) mod msPerDay < msPerDay"
    by (simp_all add: msPerDay_def)
  then show ?thesis by (auto simp: localMinutes_def msPerDay_def msPerMinute_def)
qed

lemma hours_minutes: "getHours tz t * 60 + getMinutes tz t = localMinutes tz t"
  by (simp add: getHours_def getMinutes_def)

end
