(* ===== verification/Schema.thy ===== *)
theory Schema
  imports Js_Runtime
begin

text \<open>
  The data model (\<^verbatim>\<open>prisma/schema.prisma\<close>): the enums, one record per model and the record \<open>store\<close> of
  all tables. Every service is a function on \<open>'z store_scheme\<close>, so that the same definitions run on
  the bare store and on the store extended with the decision cache (theory \<open>Dns_Policy\<close>).

  \<open>db_uuid\<close> and \<open>db_next\<close> are the source of the identifiers and tokens that the database
  (\<^verbatim>\<open>@default(uuid())\<close>) and the services (\<^verbatim>\<open>uuidv4()\<close>, \<^verbatim>\<open>randomUUID()\<close>) draw: a tape of values of
  which the first \<open>db_next\<close> are used up. Columns that the code neither reads nor writes
  (\<^verbatim>\<open>typicalActiveHours\<close>, \<^verbatim>\<open>dnsQueryPatternHash\<close>, the \<^verbatim>\<open>updatedAt\<close> stamps and creation stamps nobody
  reads) are left out.
\<close>

section \<open>Enums\<close>

datatype Role = PARENT | CHILD_DEVICE | GATEWAY | ADMIN

datatype DeviceType =
    ANDROID_PHONE | ANDROID_TABLET | IPHONE | IPAD | XBOX | PLAYSTATION | NINTENDO | STEAM_DECK
  | PC | MAC | SMART_TV | STREAMING_BOX | OTHER

datatype ControlMethod =
    ANDROID_AGENT | IOS_SCREEN_TIME | XBOX_ADAPTER | NETWORK_GATEWAY | DNS_FILTERING
  | ROUTER_GATEWAY | XBOX_ACCOUNT | OFFICIAL_PARENTAL_GUIDE | MOCK

datatype DeviceStatus = DEV_ONLINE | DEV_OFFLINE | DEV_BLOCKED | DEV_PAUSED

datatype SessionStatus = ACTIVE | PAUSED | STOPPED | EXPIRED | VIOLATED

datatype RuleType =
    DAILY_LIMIT | BEDTIME | SCHOOL_TIME | WEEKEND_MODE | REWARD_EXTRA_TIME | BLOCKED_APPS
  | BLOCKED_CATEGORIES

datatype CommandType =
    BLOCK_APPS | UNBLOCK_APPS | LOCK_DEVICE | START_VPN_DNS | STOP_VPN_DNS | REPORT_USAGE | SYNC_RULES

datatype CommandStatus = CMD_PENDING | CMD_DELIVERED | CMD_ACKNOWLEDGED | CMD_FAILED

datatype NotificationType =
    TIME_10_MIN_LEFT | TIME_ENDED | DEVICE_BLOCKED | CHILD_REQUEST_MORE_TIME | PARENT_APPROVED
  | PARENT_DENIED | NT_POSSIBLE_DNS_BYPASS | OFFLINE_SETUP_INCOMPLETE | PROTECTION_LOW
  | REPEATED_BYPASS | DEVICE_DISCONNECTED

datatype SubscriptionPlan = FREE | PREMIUM | FAMILY

datatype BlockCategory = GAMING | STREAMING | SOCIAL | ADULT | CUSTOM

datatype BlockingMode = GAMING_ONLY | FULL_INTERNET_LOCK

datatype ProtectionStatus = NORMAL | POSSIBLE_DNS_BYPASS | COMPROMISED

datatype PairStatus = PAIR_WAITING | PAIR_PAIRED | PAIR_EXPIRED | PAIR_FAILED

datatype ConnectionEventType = EV_PAIRED | EV_UNPAIRED | EV_IP_CHANGED | EV_RECONNECTED | EV_CONNECTION_LOST

datatype GatewayType = SOFTWARE_AGENT | ROUTER_PLUGIN

datatype RouterIntegrationStatus = OFFICIAL_API | GUIDE_ONLY | UNDETECTED

datatype RouterDetectionMethod =
    UPNP | SSDP | MDNS | DHCP_FINGERPRINT | HTTP_HEADER | OUI_LOOKUP | MANUAL

datatype RouterCommandType =
    DETECT | TEST_CONNECTION | CHANGE_DNS | PAUSE_DEVICE | RESUME_DEVICE | DISCONNECT_CLIENT
  | APPLY_FIREWALL_RULE | REMOVE_FIREWALL_RULE | BLOCK_MAC | UNBLOCK_MAC | END_GAMING_SESSION
  | BLOCK_DEVICE | UNBLOCK_DEVICE

section \<open>Models\<close>

record User =
  usr_id :: ident
  usr_email :: string
  usr_passwordHash :: string
  usr_role :: Role
  usr_firstName :: "string option"
  usr_lastName :: "string option"
  usr_refreshToken :: "string option"
  usr_failedLoginAttempts :: int
  usr_lockedUntil :: "time option"
  usr_createdAt :: time

record PushToken =
  ptk_id :: ident
  ptk_userId :: ident
  ptk_token :: string
  ptk_platform :: string
  ptk_lastUsedAt :: time

record Child =
  chd_id :: ident
  chd_parentId :: ident
  chd_name :: string
  chd_avatar :: "string option"
  chd_age :: "int option"
  chd_defaultLimit :: "int option"

record Device =
  dev_id :: ident
  dev_childId :: "ident option"
  dev_parentId :: ident
  dev_name :: string
  dev_type :: DeviceType
  dev_platform :: "string option"
  dev_macAddress :: "string option"
  dev_ipAddress :: "string option"
  dev_ipv6Address :: "string option"
  dev_status :: DeviceStatus
  dev_controlMethod :: ControlMethod
  dev_lastSeen :: "time option"
  dev_dnsSourceIp :: "string option"
  dev_dnsConfigured :: bool
  dev_lastDnsSeenAt :: "time option"
  dev_blockingMode :: BlockingMode
  dev_internetLocked :: bool
  dev_internetLockedReason :: "string option"
  dev_internetLockedAt :: "time option"
  dev_protectionStatus :: ProtectionStatus
  dev_protectionScore :: int
  dev_lastBypassDetectedAt :: "time option"
  dev_bypassAttempts :: int
  dev_dailyLimitMinutes :: "int option"
  dev_bedtimeStart :: "string option"
  dev_bedtimeEnd :: "string option"
  dev_autoBlockEnabled :: bool
  dev_offlineControlEnabled :: bool
  dev_offlineControlMethod :: "string option"
  dev_offlineSetupCompletedAt :: "time option"
  dev_offlineSetupVerified :: bool
  dev_offlineControlNotes :: "string option"
  dev_gatewayId :: "ident option"
  dev_hostname :: "string option"
  dev_dhcpClientId :: "string option"
  dev_vendorOui :: "string option"
  dev_osHint :: "string option"
  dev_fingerprintHash :: "string option"
  dev_fingerprintUpdatedAt :: "time option"
  dev_vpnBlockEnabled :: bool
  dev_quicBlockEnabled :: bool
  dev_paired :: bool
  dev_pairStatus :: PairStatus
  dev_pairedAt :: "time option"
  dev_resolverRegion :: "string option"
  dev_publicIp :: "string option"
  dev_dnsBeaconToken :: "string option"

record PairingSession =
  pse_id :: ident
  pse_deviceId :: ident
  pse_parentId :: ident
  pse_token :: string
  pse_status :: PairStatus
  pse_expiresAt :: time
  pse_attempts :: int
  pse_createdAt :: time

record DeviceIpHistory =
  iph_deviceId :: ident
  iph_ipAddress :: string
  iph_firstSeenAt :: time
  iph_lastSeenAt :: time

record DeviceConnectionEvent =
  cev_id :: ident
  cev_deviceId :: ident
  cev_type :: ConnectionEventType
  cev_ipAddress :: "string option"
  cev_metadata :: "json option"
  cev_createdAt :: time

record UnknownDomainLog =
  udl_domain :: string
  udl_sourceIp :: string
  udl_deviceId :: ident
  udl_count :: int
  udl_lastSeenAt :: time
  udl_suggestedCategory :: "BlockCategory option"
  udl_classified :: bool

record BandwidthLimit =
  bwl_id :: ident
  bwl_parentId :: ident
  bwl_childId :: "ident option"
  bwl_deviceId :: "ident option"
  bwl_category :: "BlockCategory option"
  bwl_downloadKbps :: "int option"
  bwl_uploadKbps :: "int option"
  bwl_enabled :: bool
  bwl_createdAt :: time

record VpnDetectionLog =
  vpn_gatewayId :: ident
  vpn_deviceId :: ident
  vpn_provider :: string
  vpn_method :: string
  vpn_detail :: "string option"
  vpn_confidence :: "int option"
  vpn_overallConfidence :: "int option"
  vpn_detectedAt :: time

record OfflineControlChecklist =
  ocl_deviceId :: ident
  ocl_pinEnabled :: bool
  ocl_childAccountLinked :: bool
  ocl_playTimeLimitEnabled :: bool
  ocl_ageRatingEnabled :: bool
  ocl_purchasesBlocked :: bool
  ocl_networkSettingsLocked :: bool
  ocl_notes :: "string option"

record Rule =
  rul_id :: ident
  rul_childId :: ident
  rul_type :: RuleType
  rul_value :: string
  rul_startTime :: "string option"
  rul_endTime :: "string option"
  rul_daysOfWeek :: "string option"
  rul_blockedApps :: "string list"
  rul_blockedCategories :: "string list"
  rul_extraMinutes :: "int option"
  rul_active :: bool

record Session =
  ses_id :: ident
  ses_deviceId :: ident
  ses_childId :: ident
  ses_parentId :: ident
  ses_status :: SessionStatus
  ses_startedAt :: time
  ses_pausedAt :: "time option"
  ses_resumedAt :: "time option"
  ses_stoppedAt :: "time option"
  ses_expiredAt :: "time option"
  ses_durationMinutes :: int
  ses_remainingMinutes :: int
  ses_extendedMinutes :: int
  ses_violated :: bool
  ses_activeApp :: "string option"

record UsageLog =
  ulg_deviceId :: ident
  ulg_childId :: ident
  ulg_appName :: "string option"
  ulg_category :: "string option"
  ulg_durationSec :: int
  ulg_loggedAt :: time

record Command =
  cmd_id :: ident
  cmd_deviceId :: ident
  cmd_type :: CommandType
  cmd_payload :: "string option"
  cmd_status :: CommandStatus
  cmd_deliveredAt :: "time option"
  cmd_ackedAt :: "time option"
  cmd_createdAt :: time

record CommandAck =
  ack_commandId :: ident
  ack_success :: bool
  ack_resultData :: "string option"

record Gateway =
  gwy_id :: ident
  gwy_parentId :: ident
  gwy_name :: string
  gwy_description :: "string option"
  gwy_gatewayType :: GatewayType
  gwy_token :: string
  gwy_endpoint :: "string option"
  gwy_paired :: bool
  gwy_pairedAt :: "time option"
  gwy_lastSeen :: "time option"
  gwy_agentVersion :: "string option"
  gwy_createdAt :: time
  gwy_previousToken :: "string option"
  gwy_previousTokenExpiresAt :: "time option"

record DetectedRouter =
  rtr_gatewayId :: ident
  rtr_vendor :: "string option"
  rtr_model :: "string option"
  rtr_firmwareVersion :: "string option"
  rtr_pluginId :: "string option"
  rtr_integrationStatus :: RouterIntegrationStatus
  rtr_detectionMethod :: "RouterDetectionMethod option"
  rtr_confidence :: "int option"
  rtr_macOui :: "string option"
  rtr_ipAddress :: "string option"
  rtr_hostname :: "string option"
  rtr_adminCredentialsEncrypted :: "string option"
  rtr_lastDetectedAt :: "time option"
  rtr_lastTestedAt :: "time option"
  rtr_lastTestResult :: "bool option"

record RouterCommand =
  rcm_id :: ident
  rcm_gatewayId :: ident
  rcm_deviceId :: "ident option"
  rcm_type :: RouterCommandType
  rcm_payload :: "string option"
  rcm_status :: CommandStatus
  rcm_resultData :: "string option"
  rcm_createdAt :: time
  rcm_deliveredAt :: "time option"
  rcm_ackedAt :: "time option"

record OAuthAccount =
  oac_id :: ident
  oac_userId :: ident
  oac_provider :: string
  oac_providerUserId :: string
  oac_accessToken :: string
  oac_refreshToken :: string
  oac_tokenExpiresAt :: time
  oac_scope :: "string option"

record NotificationEvent =
  nev_id :: ident
  nev_userId :: ident
  nev_type :: NotificationType
  nev_title :: string
  nev_message :: string
  nev_deviceId :: "ident option"
  nev_childId :: "ident option"
  nev_sessionId :: "ident option"
  nev_read :: bool
  nev_sentViaFcm :: bool
  nev_createdAt :: time

record AuditLog =
  aud_userId :: "ident option"
  aud_action :: string
  aud_entity :: string
  aud_entityId :: "ident option"
  aud_details :: "string option"
  aud_ipAddress :: "string option"
  aud_createdAt :: time

record BlockedDomain =
  bdm_id :: ident
  bdm_domain :: string
  bdm_category :: "BlockCategory option"
  bdm_wildcard :: bool

record CategoryBlock =
  cbl_childId :: ident
  cbl_category :: BlockCategory
  cbl_reason :: "string option"
  cbl_active :: bool

record DnsQueryLog =
  dql_domain :: string
  dql_sourceIp :: string
  dql_action :: string
  dql_createdAt :: time

record Subscription =
  sub_userId :: ident
  sub_plan :: SubscriptionPlan
  sub_active :: bool

text \<open>A job of the BullMQ queue \<^verbatim>\<open>command-delivery\<close> (\<^verbatim>\<open>CommandJobData\<close>).\<close>

record CommandJobData =
  job_commandId :: ident
  job_deviceId :: ident
  job_type :: CommandType
  job_payload :: string
  job_controlMethod :: ControlMethod

section \<open>The store\<close>

record store =
  users :: "User list"
  pushTokens :: "PushToken list"
  children :: "Child list"
  devices :: "Device list"
  pairingSessions :: "PairingSession list"
  ipHistory :: "DeviceIpHistory list"
  connectionEvents :: "DeviceConnectionEvent list"
  unknownDomains :: "UnknownDomainLog list"
  bandwidthLimits :: "BandwidthLimit list"
  vpnDetections :: "VpnDetectionLog list"
  checklists :: "OfflineControlChecklist list"
  rules :: "Rule list"
  sessions :: "Session list"
  usageLogs :: "UsageLog list"
  commands :: "Command list"
  commandAcks :: "CommandAck list"
  gateways :: "Gateway list"
  detectedRouters :: "DetectedRouter list"
  routerCommands :: "RouterCommand list"
  oauthAccounts :: "OAuthAccount list"
  notifications :: "NotificationEvent list"
  auditLogs :: "AuditLog list"
  blockedDomains :: "BlockedDomain list"
  categoryBlocks :: "CategoryBlock list"
  dnsQueryLogs :: "DnsQueryLog list"
  subscriptions :: "Subscription list"
  jobs :: "CommandJobData list"
  db_uuid :: "nat \<Rightarrow> ident"
  db_next :: nat

text \<open>Draw the next value of the identifier tape.\<close>

definition newId :: "'z store_scheme \<Rightarrow> ident" where
  "newId s = db_uuid s (db_next s)"

definition drawId :: "'z store_scheme \<Rightarrow> 'z store_scheme" where
  "drawId s = s\<lparr>db_next := db_next s + 1\<rparr>"

definition emptyStore :: "(nat \<Rightarrow> ident) \<Rightarrow> store" where
  "emptyStore tape =
     \<lparr>users = [], pushTokens = [], children = [], devices = [], pairingSessions = [], ipHistory = [],
      connectionEvents = [], unknownDomains = [], bandwidthLimits = [], vpnDetections = [],
      checklists = [], rules = [], sessions = [], usageLogs = [], commands = [], commandAcks = [],
      gateways = [], detectedRouters = [], routerCommands = [], oauthAccounts = [],
      notifications = [], auditLogs = [], blockedDomains = [], categoryBlocks = [],
      dnsQueryLogs = [], subscriptions = [], jobs = [], db_uuid = tape, db_next = 0\<rparr>"

text \<open>Single-row lookups of the tables keyed by \<^verbatim>\<open>@id\<close>.\<close>

abbreviation findDevice :: "'z store_scheme \<Rightarrow> ident \<Rightarrow> Device option" where
  "findDevice s i \<equiv> findUnique dev_id i (devices s)"

abbreviation findSession :: "'z store_scheme \<Rightarrow> ident \<Rightarrow> Session option" where
  "findSession s i \<equiv> findUnique ses_id i (sessions s)"

abbreviation findGateway :: "'z store_scheme \<Rightarrow> ident \<Rightarrow> Gateway option" where
  "findGateway s i \<equiv> findUnique gwy_id i (gateways s)"

abbreviation findChild :: "'z store_scheme \<Rightarrow> ident \<Rightarrow> Child option" where
  "findChild s i \<equiv> findUnique chd_id i (children s)"

abbreviation findUser :: "'z store_scheme \<Rightarrow> ident \<Rightarrow> User option" where
  "findUser s i \<equiv> findUnique usr_id i (users s)"

abbreviation findRouter :: "'z store_scheme \<Rightarrow> ident \<Rightarrow> DetectedRouter option" where
  "findRouter s g \<equiv> findUnique rtr_gatewayId g (detectedRouters s)"

text \<open>\<^verbatim>\<open>prisma.device.update({ where: { id }, data })\<close> on a row known to exist.\<close>

definition updateDevice :: "ident \<Rightarrow> (Device \<Rightarrow> Device) \<Rightarrow> 'z store_scheme \<Rightarrow> 'z store_scheme" where
  "updateDevice i f s = s\<lparr>devices := updateMany (\<lambda>d. dev_id d = i) f (devices s)\<rparr>"

definition updateSession :: "ident \<Rightarrow> (Session \<Rightarrow> Session) \<Rightarrow> 'z store_scheme \<Rightarrow> 'z store_scheme" where
  "updateSession i f s = s\<lparr>sessions := updateMany (\<lambda>x. ses_id x = i) f (sessions s)\<rparr>"

definition updateGateway :: "ident \<Rightarrow> (Gateway \<Rightarrow> Gateway) \<Rightarrow> 'z store_scheme \<Rightarrow> 'z store_scheme" where
  "updateGateway i f s = s\<lparr>gateways := updateMany (\<lambda>g. gwy_id g = i) f (gateways s)\<rparr>"

definition updateUser :: "ident \<Rightarrow> (User \<Rightarrow> User) \<Rightarrow> 'z store_scheme \<Rightarrow> 'z store_scheme" where
  "updateUser i f s = s\<lparr>users := updateMany (\<lambda>u. usr_id u = i) f (users s)\<rparr>"

text \<open>\<open>categoryBlock.upsert\<close> on the unique key (child, category).\<close>

definition upsertCategoryBlock ::
  "ident \<Rightarrow> BlockCategory \<Rightarrow> bool \<Rightarrow> string option \<Rightarrow> 'z store_scheme \<Rightarrow> 'z store_scheme" where
  "upsertCategoryBlock c cat act reason s =
     (if list_ex (\<lambda>b. cbl_childId b = c \<and> cbl_category b = cat) (categoryBlocks s)
      then s\<lparr>categoryBlocks := updateMany (\<lambda>b. cbl_childId b = c \<and> cbl_category b = cat)
               (\<lambda>b. b\<lparr>cbl_active := act, cbl_reason := (case reason of None \<Rightarrow> cbl_reason b | Some r \<Rightarrow> Some r)\<rparr>)
               (categoryBlocks s)\<rparr>
      else s\<lparr>categoryBlocks := categoryBlocks s @
               [\<lparr>cbl_childId = c, cbl_category = cat, cbl_reason = reason, cbl_active = act\<rparr>]\<rparr>)"

definition categoryActive :: "'z store_scheme \<Rightarrow> ident \<Rightarrow> BlockCategory \<Rightarrow> bool" where
  "categoryActive s c cat =
     (case findFirst (\<lambda>b. cbl_childId b = c \<and> cbl_category b = cat) (categoryBlocks s) of
        None \<Rightarrow> False | Some b \<Rightarrow> cbl_active b)"

lemma findDevice_updateDevice [simp]:
  assumes "\<And>d. dev_id (f d) = dev_id d"
  shows "findDevice (updateDevice i f s) j =
           (if j = i then map_option f (findDevice s j) else findDevice s j)"
  using assms by (simp add: updateDevice_def)

lemma findSession_updateSession [simp]:
  assumes "\<And>x. ses_id (f x) = ses_id x"
  shows "findSession (updateSession i f s) j =
           (if j = i then map_option f (findSession s j) else findSession s j)"
  using assms by (simp add: updateSession_def)

lemma findGateway_updateGateway [simp]:
  assumes "\<And>x. gwy_id (f x) = gwy_id x"
  shows "findGateway (updateGateway i f s) j =
           (if j = i then map_option f (findGateway s j) else findGateway s j)"
  using assms by (simp add: updateGateway_def)

lemma findUser_updateUser [simp]:
  assumes "\<And>x. usr_id (f x) = usr_id x"
  shows "findUser (updateUser i f s) j =
           (if j = i then map_option f (findUser s j) else findUser s j)"
  using assms by (simp add: updateUser_def)

lemma updateDevice_frame [frame_simps, simp]:
  "sessions (updateDevice i f s) = sessions s"
  "gateways (updateDevice i f s) = gateways s"
  "users (updateDevice i f s) = users s"
  "children (updateDevice i f s) = children s"
  "rules (updateDevice i f s) = rules s"
  "categoryBlocks (updateDevice i f s) = categoryBlocks s"
  "blockedDomains (updateDevice i f s) = blockedDomains s"
  "auditLogs (updateDevice i f s) = auditLogs s"
  "notifications (updateDevice i f s) = notifications s"
  "pairingSessions (updateDevice i f s) = pairingSessions s"
  "detectedRouters (updateDevice i f s) = detectedRouters s"
  "routerCommands (updateDevice i f s) = routerCommands s"
  "commands (updateDevice i f s) = commands s"
  "ipHistory (updateDevice i f s) = ipHistory s"
  "connectionEvents (updateDevice i f s) = connectionEvents s"
  by (simp_all add: updateDevice_def)

lemma drawId_frame [frame_simps, simp]:
  "devices (drawId s) = devices s" "sessions (drawId s) = sessions s"
  "gateways (drawId s) = gateways s" "users (drawId s) = users s"
  "children (drawId s) = children s" "rules (drawId s) = rules s"
  "categoryBlocks (drawId s) = categoryBlocks s" "blockedDomains (drawId s) = blockedDomains s"
  "auditLogs (drawId s) = auditLogs s" "notifications (drawId s) = notifications s"
  "pairingSessions (drawId s) = pairingSessions s" "detectedRouters (drawId s) = detectedRouters s"
  "routerCommands (drawId s) = routerCommands s" "commands (drawId s) = commands s"
  "ipHistory (drawId s) = ipHistory s" "connectionEvents (drawId s) = connectionEvents s"
  "db_uuid (drawId s) = db_uuid s" "db_next (drawId s) = db_next s + 1"
  by (simp_all add: drawId_def)

text \<open>After the upsert the child's category is blocked exactly as requested, others are as before.\<close>

lemma findFirst_updateMany_same:
  "(\<And>r. P (f r) = P r) \<Longrightarrow> findFirst P (updateMany P f rows) = map_option f (findFirst P rows)"
  by (induction rows) auto

lemma findFirst_updateMany_disjoint:
  "(\<And>r. Q r \<Longrightarrow> Q (f r) = P (f r) \<and> \<not> P r) \<Longrightarrow> (\<And>r. Q r \<Longrightarrow> \<not> P (f r)) \<Longrightarrow>
   findFirst P (updateMany Q f rows) = findFirst P rows"
  by (induction rows) auto

lemma findFirst_append:
  "findFirst P (xs @ ys) = (case findFirst P xs of Some r \<Rightarrow> Some r | None \<Rightarrow> findFirst P ys)"
  by (induction xs) auto

lemma categoryActive_upsert_same:
  "categoryActive (upsertCategoryBlock c cat act reason s) c cat = act"
proof (cases "list_ex (\<lambda>b. cbl_childId b = c \<and> cbl_category b = cat) (categoryBlocks s)")
  case True
  then obtain b where "findFirst (\<lambda>b. cbl_childId b = c \<and> cbl_category b = cat) (categoryBlocks s) = Some b"
    by (cases "findFirst (\<lambda>b. cbl_childId b = c \<and> cbl_category b = cat) (categoryBlocks s)")
      (auto simp: tbl_simps list_ex_iff)
  with True show ?thesis
    by (simp add: categoryActive_def upsertCategoryBlock_def findFirst_updateMany_same)
next
  case False
  then have "findFirst (\<lambda>b. cbl_childId b = c \<and> cbl_category b = cat) (categoryBlocks s) = None"
    by (auto simp: tbl_simps list_ex_iff)
  with False show ?thesis
    by (simp add: categoryActive_def upsertCategoryBlock_def findFirst_append)
qed

lemma upsertCategoryBlock_frame [frame_simps, simp]:
  "devices (upsertCategoryBlock c cat act r s) = devices s"
  "sessions (upsertCategoryBlock c cat act r s) = sessions s"
  "gateways (upsertCategoryBlock c cat act r s) = gateways s"
  "auditLogs (upsertCategoryBlock c cat act r s) = auditLogs s"
  "notifications (upsertCategoryBlock c cat act r s) = notifications s"
  "blockedDomains (upsertCategoryBlock c cat act r s) = blockedDomains s"
  "rules (upsertCategoryBlock c cat act r s) = rules s"
  "children (upsertCategoryBlock c cat act r s) = children s"
  by (simp_all add: upsertCategoryBlock_def)

end
