(* ===== verification/Router_Matrix.thy ===== *)
theory Router_Matrix
  imports Schema
begin

text \<open>
  The router capability database (\<^verbatim>\<open>router-capability.matrix.ts\<close>), its lookups
  (\<^verbatim>\<open>router-database.service.ts\<close>, \<^verbatim>\<open>capability-engine.service.ts\<close>) and the capability score
  (\<^verbatim>\<open>router-capability-score.service.ts\<close>).

  The matrix is the association list of the source's object literal, in its order; a lookup sees its
  own properties only (the names inherited from \<^verbatim>\<open>Object.prototype\<close> are not plugin identifiers). The
  vendor patterns are lists of alternatives of a small pattern language with literals, optional
  classes and starred classes, matched anywhere in the string and without regard to case.
\<close>

section \<open>The matrix\<close>

record RouterCapabilities =
  pluginId :: string
  vendorDisplayName :: string
  modelFamily :: "string option"
  integrationStatus :: RouterIntegrationStatus
  pluginImplemented :: bool
  protocol :: "string option"
  officialDocUrl :: "string option"
  scopeNote :: "string option"
  supportsDNSChange :: bool
  supportsFirewallRules :: bool
  supportsPauseDevice :: bool
  supportsClientDisconnect :: bool
  supportsQoS :: bool
  supportsStatistics :: bool
  supportsParentalControl :: bool
  supportsACL :: bool
  supportsMACFiltering :: bool
  supportsAPI :: bool
  supportsSSH :: bool
  supportsTR064 :: bool
  supportsRouterOS :: bool
  supportedAuthentication :: "string list"

definition guideOnly :: "string \<Rightarrow> string \<Rightarrow> string option \<Rightarrow> string option \<Rightarrow> RouterCapabilities" where
  "guideOnly plugin display note family =
     \<lparr>pluginId = plugin, vendorDisplayName = display, modelFamily = family, integrationStatus = GUIDE_ONLY,
      pluginImplemented = False, protocol = None, officialDocUrl = None, scopeNote = note,
      supportsDNSChange = False,
      supportsFirewallRules = False,
      supportsPauseDevice = False,
      supportsClientDisconnect = False,
      supportsQoS = False,
      supportsStatistics = False,
      supportsParentalControl = False,
      supportsACL = False,
      supportsMACFiltering = False,
      supportsAPI = False,
      supportsSSH = False,
      supportsTR064 = False,
      supportsRouterOS = False,
      supportedAuthentication = []\<rparr>"

definition row_fritzbox :: RouterCapabilities where
  "row_fritzbox =
     \<lparr>pluginId = ''fritzbox'', vendorDisplayName = ''AVM FRITZ!Box'',
      modelFamily = Some (''FRITZ!Box (all TR-064-capable models)''),
      integrationStatus = OFFICIAL_API, pluginImplemented = True, protocol = Some (''TR-064''),
      officialDocUrl = Some (''https://fritz.com/en/pages/interfaces''),
      scopeNote = None,
      supportsDNSChange = True, supportsFirewallRules = True, supportsPauseDevice = True, supportsClientDisconnect = False,
      supportsQoS = False, supportsStatistics = True, supportsParentalControl = True, supportsACL = True, supportsMACFiltering = True,
      supportsAPI = True, supportsSSH = False, supportsTR064 = True, supportsRouterOS = False,
      supportedAuthentication = [''tr064-digest-auth'']\<rparr>"

definition row_mikrotik :: RouterCapabilities where
  "row_mikrotik =
     \<lparr>pluginId = ''mikrotik'', vendorDisplayName = ''MikroTik'',
      modelFamily = Some (''RouterOS v7+ (REST API support)''),
      integrationStatus = OFFICIAL_API, pluginImplemented = True, protocol = Some (''RouterOS-REST''),
      officialDocUrl = Some (''https://help.mikrotik.com/docs/spaces/ROS/pages/47579162/REST+API''),
      scopeNote = None,
      supportsDNSChange = True, supportsFirewallRules = True, supportsPauseDevice = True, supportsClientDisconnect = True,
      supportsQoS = True, supportsStatistics = True, supportsParentalControl = False, supportsACL = True, supportsMACFiltering = True,
      supportsAPI = True, supportsSSH = True, supportsTR064 = False, supportsRouterOS = True,
      supportedAuthentication = [''http-basic-auth'']\<rparr>"

definition row_openwrt :: RouterCapabilities where
  "row_openwrt =
     \<lparr>pluginId = ''openwrt'', vendorDisplayName = ''OpenWrt'',
      modelFamily = Some (''Any device running stock OpenWrt with rpcd/ubus-rpc-uci enabled''),
      integrationStatus = OFFICIAL_API, pluginImplemented = True, protocol = Some (''ubus-JSONRPC''),
      officialDocUrl = Some (''https://github.com/openwrt/rpcd''),
      scopeNote = None,
      supportsDNSChange = True, supportsFirewallRules = True, supportsPauseDevice = True, supportsClientDisconnect = True,
      supportsQoS = True, supportsStatistics = True, supportsParentalControl = False, supportsACL = True, supportsMACFiltering = True,
      supportsAPI = True, supportsSSH = True, supportsTR064 = False, supportsRouterOS = False,
      supportedAuthentication = [''ubus-session-login'', ''ssh-key'', ''ssh-password'']\<rparr>"

definition row_unifi :: RouterCapabilities where
  "row_unifi =
     \<lparr>pluginId = ''unifi'', vendorDisplayName = ''Ubiquiti UniFi'',
      modelFamily = Some (''UniFi OS consoles (UDM/UDM-Pro/Cloud Gateway) + legacy self-hosted Network '' @ ''Application''),
      integrationStatus = OFFICIAL_API, pluginImplemented = True, protocol = Some (''UniFi-Network-API''),
      officialDocUrl = Some (''https://help.ui.com/hc/en-us/articles/30076656117655-Getting-Started-with-the-Of'' @
        ''ficial-UniFi-API''),
      scopeNote = Some (''Requires a UniFi Network Application (self-hosted controller or UniFi OS '' @
        ''console). Implemented against the widely-referenced legacy controller API shape '' @
        ''(see gateway-agent/src/router-integrations/unifi/index.js); not yet '' @
        ''smoke-tested against real hardware.''),
      supportsDNSChange = True, supportsFirewallRules = True, supportsPauseDevice = True, supportsClientDisconnect = True,
      supportsQoS = True, supportsStatistics = True, supportsParentalControl = False, supportsACL = True, supportsMACFiltering = True,
      supportsAPI = True, supportsSSH = False, supportsTR064 = False, supportsRouterOS = False,
      supportedAuthentication = [''api-key'', ''oauth'']\<rparr>"

definition row_edgerouter :: RouterCapabilities where
  "row_edgerouter =
     \<lparr>pluginId = ''edgerouter'', vendorDisplayName = ''Ubiquiti EdgeRouter'',
      modelFamily = Some (''EdgeOS (EdgeRouter X/ER/ERPoe/ERLite series)''),
      integrationStatus = OFFICIAL_API, pluginImplemented = True, protocol = Some (''EdgeOS-SSH-CLI''),
      officialDocUrl = Some (''https://help.ui.com''),
      scopeNote = Some (''EdgeOS management is officially documented via SSH CLI (Vyatta-derived config '' @
        ''commands). The EdgeOS HTTP API is NOT officially published, so this integration '' @
        ''is CLI-only, shelling out to ssh/sshpass '' @ emdash @
        '' see gateway-agent/src/router-integrations/edgerouter/index.js. Not yet '' @
        ''smoke-tested against real hardware.''),
      supportsDNSChange = True, supportsFirewallRules = True, supportsPauseDevice = True, supportsClientDisconnect = False,
      supportsQoS = True, supportsStatistics = True, supportsParentalControl = False, supportsACL = True, supportsMACFiltering = True,
      supportsAPI = False, supportsSSH = True, supportsTR064 = False, supportsRouterOS = False,
      supportedAuthentication = [''ssh-key'', ''ssh-password'']\<rparr>"

definition row_glinet :: RouterCapabilities where
  "row_glinet =
     \<lparr>pluginId = ''glinet'', vendorDisplayName = ''GL.iNet'',
      modelFamily = Some (''GL.iNet OpenWrt-based firmware (travel routers, mesh, VPN gateways)''),
      integrationStatus = OFFICIAL_API, pluginImplemented = True, protocol = Some (''ubus-session-login''),
      officialDocUrl = Some (''https://dev.gl-inet.com/router-4.x-api/''),
      scopeNote = Some (''GL.iNet firmware is OpenWrt-based with ubus/rpcd enabled by default, so this '' @
        ''reuses the existing OpenWrt plugin unmodified rather than duplicating it '' @ emdash @
        '' see gateway-agent/src/router-integrations/glinet/index.js. Not yet '' @
        ''smoke-tested against real hardware.''),
      supportsDNSChange = True, supportsFirewallRules = True, supportsPauseDevice = True, supportsClientDisconnect = True,
      supportsQoS = True, supportsStatistics = True, supportsParentalControl = True, supportsACL = True, supportsMACFiltering = True,
      supportsAPI = True, supportsSSH = True, supportsTR064 = False, supportsRouterOS = False,
      supportedAuthentication = [''ubus-session-login'']\<rparr>"

definition row_tplink_omada :: RouterCapabilities where
  "row_tplink_omada =
     \<lparr>pluginId = ''tplink_omada'', vendorDisplayName = ''TP-Link (Omada)'',
      modelFamily = Some (''Omada SDN Controller-managed APs/gateways/switches''),
      integrationStatus = OFFICIAL_API, pluginImplemented = True, protocol = Some (''Omada-OpenAPI''),
      officialDocUrl = Some (''https://use1-omada-northbound.tplinkcloud.com/doc.html''),
      scopeNote = Some (''Omada SDN Controller-managed access points/routers ONLY '' @ emdash @ '' TP-Link'' @ [CHR 0x27] @
        ''s consumer Deco and Archer lines have no official API (see tplink_consumer). '' @
        ''Implemented against the documented OAuth2 client-credentials + '' @
        ''sites/devices/clients resource shape (see '' @
        ''gateway-agent/src/router-integrations/tplink_omada/index.js). The Open API'' @ [CHR 0x27] @
        ''s published scope has no WAN-DNS-change or IP-firewall-ACL endpoint '' @ emdash @
        '' changeDNS reports that honestly; enforcement uses the documented per-client '' @
        ''block/unblock/reconnect actions instead. Not yet smoke-tested against real '' @ ''hardware.''),
      supportsDNSChange = False, supportsFirewallRules = False, supportsPauseDevice = True, supportsClientDisconnect = True,
      supportsQoS = False, supportsStatistics = True, supportsParentalControl = False, supportsACL = False, supportsMACFiltering = True,
      supportsAPI = True, supportsSSH = False, supportsTR064 = False, supportsRouterOS = False,
      supportedAuthentication = [''oauth2'', ''api-key'']\<rparr>"

definition row_zyxel_nebula :: RouterCapabilities where
  "row_zyxel_nebula =
     \<lparr>pluginId = ''zyxel_nebula'', vendorDisplayName = ''Zyxel (Nebula)'',
      modelFamily = Some (''Nebula cloud-managed gateways/APs/switches''),
      integrationStatus = OFFICIAL_API, pluginImplemented = True, protocol = Some (''Nebula-OpenAPI''),
      officialDocUrl = Some (''https://zyxelnetworks.github.io/NebulaOpenAPI/''),
      scopeNote = Some (''Nebula cloud-managed devices ONLY '' @ emdash @
        '' standalone consumer Zyxel routers have no official API (see zyxel_consumer). '' @
        ''The Nebula Open API'' @ [CHR 0x27] @
        ''s published scope (as of the cited docs) is organization/site/device/client '' @
        ''MONITORING only '' @ emdash @
        '' it does not document a client-block, DNS-change, or firewall-write endpoint '' @
        ''the way Omada'' @ [CHR 0x27] @ ''s Open API documents client block/unblock/reconnect. '' @
        ''detect/login/testConnection/health are real, working calls against the '' @
        ''documented read API (see '' @
        ''gateway-agent/src/router-integrations/zyxel_nebula/index.js); every enforcement '' @
        ''method honestly reports it has no API surface to act on rather than inventing '' @ ''one.''),
      supportsDNSChange = False, supportsFirewallRules = False, supportsPauseDevice = False, supportsClientDisconnect = False,
      supportsQoS = False, supportsStatistics = True, supportsParentalControl = False, supportsACL = False, supportsMACFiltering = False,
      supportsAPI = True, supportsSSH = False, supportsTR064 = False, supportsRouterOS = False,
      supportedAuthentication = [''api-key'']\<rparr>"

definition row_draytek :: RouterCapabilities where
  "row_draytek =
     \<lparr>pluginId = ''draytek'', vendorDisplayName = ''DrayTek'',
      modelFamily = Some (''Vigor series (DrayOS)''),
      integrationStatus = OFFICIAL_API, pluginImplemented = True, protocol = Some (''SNMP+SSH-CLI''),
      officialDocUrl = Some (''https://www.draytek.com/support/knowledge-base/5517''),
      scopeNote = Some (''No REST/JSON API '' @ emdash @
        '' SNMP (standard MIB-2) for reads, SSH CLI (Vigor command tree) for changes, '' @
        ''both officially documented in Vigor router manuals (see '' @
        ''gateway-agent/src/router-integrations/draytek/index.js). Every mutating method '' @
        ''verifies its change by reading the config back, since the exact CLI command '' @
        ''syntax is the least-certain part of this plugin. Not yet smoke-tested against '' @
        ''real hardware.''),
      supportsDNSChange = True, supportsFirewallRules = True, supportsPauseDevice = True, supportsClientDisconnect = False,
      supportsQoS = True, supportsStatistics = True, supportsParentalControl = True, supportsACL = True, supportsMACFiltering = True,
      supportsAPI = False, supportsSSH = True, supportsTR064 = False, supportsRouterOS = False,
      supportedAuthentication = [''ssh-password'', ''snmp-community'']\<rparr>"

definition row_linksys :: RouterCapabilities where
  "row_linksys =
     \<lparr>pluginId = ''linksys'', vendorDisplayName = ''Linksys'',
      modelFamily = Some (''Linksys Smart Wi-Fi (JNAP-capable models)''),
      integrationStatus = OFFICIAL_API, pluginImplemented = True, protocol = Some (''JNAP''),
      officialDocUrl = Some (''https://s3-us-west-1.amazonaws.com/linksyssmartwifi.uploads/ldc/Developer+SDK+Do'' @
        ''cumentation/Linksys+Smart+WiFi+Developer+SDK+API+Documentation.pdf''),
      scopeNote = Some (''Requires registering as an approved developer in the Linksys Developer '' @
        ''Community for production JNAP credentials. Implemented against the documented '' @
        ''X-JNAP-Action transport + parental-control/MAC-filter resource shape (see '' @
        ''gateway-agent/src/router-integrations/linksys/index.js). Not yet smoke-tested '' @
        ''against real hardware.''),
      supportsDNSChange = True, supportsFirewallRules = False, supportsPauseDevice = True, supportsClientDisconnect = False,
      supportsQoS = True, supportsStatistics = True, supportsParentalControl = True, supportsACL = True, supportsMACFiltering = True,
      supportsAPI = True, supportsSSH = False, supportsTR064 = False, supportsRouterOS = False,
      supportedAuthentication = [''jnap-post-json'']\<rparr>"

definition row_keenetic :: RouterCapabilities where
  "row_keenetic =
     \<lparr>pluginId = ''keenetic'', vendorDisplayName = ''Keenetic'',
      modelFamily = Some (''Keenetic OS (KeeneticOS, RCI-capable models)''),
      integrationStatus = OFFICIAL_API, pluginImplemented = True, protocol = Some (''RCI-HTTP''),
      officialDocUrl = Some (''https://help.keenetic.com''),
      scopeNote = Some (''RCI ('' @ [CHR 0x22] @ ''Remote Control Interface'' @ [CHR 0x22] @ '') is documented in Keenetic'' @
        [CHR 0x27] @ ''s own command-reference manuals (HTTP API / REST Core Interface section) '' @ emdash @
        '' a vendor-published manual, not a third-party reverse-engineering writeup, '' @
        ''which is why this is OFFICIAL_API rather than GUIDE_ONLY. Digest-authed '' @
        ''GET/POST against /rci/<command-tree-path>, mirroring the CLI 1:1 (see '' @
        ''gateway-agent/src/router-integrations/keenetic/index.js). Not yet smoke-tested '' @
        ''against real hardware.''),
      supportsDNSChange = True, supportsFirewallRules = False, supportsPauseDevice = True, supportsClientDisconnect = False,
      supportsQoS = True, supportsStatistics = True, supportsParentalControl = True, supportsACL = True, supportsMACFiltering = True,
      supportsAPI = True, supportsSSH = False, supportsTR064 = False, supportsRouterOS = False,
      supportedAuthentication = [''rci-digest-auth'']\<rparr>"

text \<open>The rows with an official API and the rows with a manual guide only.\<close>

definition officialRows :: "(string \<times> RouterCapabilities) list" where
  "officialRows =
     [(''fritzbox'', row_fritzbox),
      (''mikrotik'', row_mikrotik),
      (''openwrt'', row_openwrt),
      (''unifi'', row_unifi),
      (''edgerouter'', row_edgerouter),
      (''glinet'', row_glinet),
      (''tplink_omada'', row_tplink_omada),
      (''zyxel_nebula'', row_zyxel_nebula),
      (''draytek'', row_draytek),
      (''linksys'', row_linksys),
      (''keenetic'', row_keenetic)]"

definition guideRows :: "(string \<times> RouterCapabilities) list" where
  "guideRows =
     [(''asus'', guideOnly (''asus'') (''ASUS'')
        (None) (Some (''AsusWRT / ASUS Router app-managed models''))),
      (''tplink_consumer'', guideOnly (''tplink_consumer'') (''TP-Link'')
        (Some (''Deco and Archer consumer lines '' @ emdash @ '' see tplink_omada for Omada-managed devices.'')) (Some (''Deco / Archer''))),
      (''netgear'', guideOnly (''netgear'') (''Netgear'')
        (None) (Some (''Nighthawk / Orbi''))),
      (''dlink'', guideOnly (''dlink'') (''D-Link'')
        (None) (None)),
      (''belkin'', guideOnly (''belkin'') (''Belkin'')
        (None) (None)),
      (''synology'', guideOnly (''synology'') (''Synology Router'')
        (Some (''SRM (Synology Router Manager) has no published third-party developer API '' @ emdash @
          '' only community-reverse-engineered clients (e.g. aerialls/synology-srm) exist '' @
          ''against its private web API.'')) (Some (''SRM (RT/MR series)''))),
      (''google_nest_wifi'', guideOnly (''google_nest_wifi'') (''Google Nest Wifi'')
        (None) (None)),
      (''eero'', guideOnly (''eero'') (''eero'')
        (None) (None)),
      (''huawei'', guideOnly (''huawei'') (''Huawei'')
        (None) (Some (''Huawei Home Routers''))),
      (''zyxel_consumer'', guideOnly (''zyxel_consumer'') (''Zyxel'')
        (Some (''Consumer line '' @ emdash @ '' see zyxel_nebula for Nebula-managed devices.'')) (None)),
      (''cisco_small_business'', guideOnly (''cisco_small_business'') (''Cisco Small Business'')
        (None) (Some (''RV series''))),
      (''buffalo'', guideOnly (''buffalo'') (''Buffalo'')
        (None) (None)),
      (''mercusys'', guideOnly (''mercusys'') (''Mercusys'')
        (None) (None)),
      (''tenda'', guideOnly (''tenda'') (''Tenda'')
        (None) (None)),
      (''xiaomi'', guideOnly (''xiaomi'') (''Xiaomi'')
        (Some (''Xiaomi/Redmi routers expose an unofficial local miWiFi API used by Xiaomi'' @ [CHR 0x27] @
          ''s own app, but Xiaomi has not published it as a third-party developer API.'')) (Some (''Mi Router / Redmi Router''))),
      (''totolink'', guideOnly (''totolink'') (''TOTOLINK'')
        (Some (''No public developer API or SDK found on TOTOLINK'' @ [CHR 0x27] @ ''s own site/support channels.'')) (None)),
      (''sercomm'', guideOnly (''sercomm'') (''Sercomm'')
        (Some (''Common ISP white-label ODM device '' @ emdash @
          '' no public developer API; any management API is embedded in the ISP'' @ [CHR 0x27] @
          ''s own provisioning (TR-069/ACS), not reachable by GuardTime.'')) (None)),
      (''arcadyan'', guideOnly (''arcadyan'') (''Arcadyan'')
        (Some (''Common ISP white-label ODM device '' @ emdash @ '' TR-069 exists but is managed by the ISP'' @
          [CHR 0x27] @ ''s own ACS, not reachable by GuardTime.'')) (None)),
      (''actiontec'', guideOnly (''actiontec'') (''Actiontec'')
        (Some (''Common ISP white-label device '' @ emdash @
          '' no public developer API; management is via the ISP'' @ [CHR 0x27] @
          ''s own provisioning (TR-069/ACS).'')) (None)),
      (''hitron'', guideOnly (''hitron'') (''Hitron'')
        (Some (''Cable modem/gateway ODM, typically ISP-provisioned '' @ emdash @
          '' no public developer API found.'')) (None)),
      (''comtrend'', guideOnly (''comtrend'') (''Comtrend'')
        (Some (''ONT/gateway ODM, typically ISP-provisioned '' @ emdash @ '' no public developer API found.'')) (None)),
      (''nokia_home_gateway'', guideOnly (''nokia_home_gateway'') (''Nokia Home Gateway'')
        (Some (''Nokia ONT/home-gateway hardware is provisioned by the fiber ISP'' @ [CHR 0x27] @
          ''s own TR-069 ACS '' @ emdash @ '' Nokia'' @ [CHR 0x27] @
          ''s public developer resources (network.developer.nokia.com) do not cover this '' @
          ''class of device.'')) (Some (''ONT / G-240W-E family''))),
      (''sagemcom'', guideOnly (''sagemcom'') (''Sagemcom'')
        (Some (''Common ISP white-label device '' @ emdash @ '' TR-069 exists but is managed by the ISP'' @
          [CHR 0x27] @ ''s own ACS, not reachable by GuardTime.'')) (None)),
      (''technicolor'', guideOnly (''technicolor'') (''Technicolor'')
        (Some (''Common ISP white-label device '' @ emdash @ '' TR-069 exists but is managed by the ISP'' @
          [CHR 0x27] @ ''s own ACS, not reachable by GuardTime.'')) (None)),
      (''arris'', guideOnly (''arris'') (''Arris'')
        (Some (''Common ISP white-label device '' @ emdash @ '' TR-069 exists but is managed by the ISP'' @
          [CHR 0x27] @ ''s own ACS, not reachable by GuardTime.'')) (None))]"

definition ROUTER_CAPABILITY_MATRIX :: "(string \<times> RouterCapabilities) list" where
  "ROUTER_CAPABILITY_MATRIX = officialRows @ guideRows"

end
