(* ===== verification/Router_Capability.thy ===== *)
theory Router_Capability
  imports Router_Matrix
begin

text \<open>
  Lookups in the router database (\<^verbatim>\<open>router-database.service.ts\<close>, \<^verbatim>\<open>capability-engine.service.ts\<close>) and the
  capability score (\<^verbatim>\<open>router-capability-score.service.ts\<close>).
\<close>

section \<open>Vendor patterns\<close>

datatype ritem = Lits string | OptOf string | StarOf string

definition blanks :: string where
  "blanks = [CHR 0x09, CHR 0x0A, CHR 0x0B, CHR 0x0C, CHR 0x0D, CHR 0x20]"

fun skipOne :: "string \<Rightarrow> string \<Rightarrow> string list" where
  "skipOne cs [] = []"
| "skipOne cs (x # xs) = (if x \<in> set cs then [xs] else [])"

fun skipMany :: "string \<Rightarrow> string \<Rightarrow> string list" where
  "skipMany cs [] = [[]]"
| "skipMany cs (x # xs) = (x # xs) # (if x \<in> set cs then skipMany cs xs else [])"

text \<open>The rests of the string after each way to match the items at its beginning.\<close>

fun matchItem :: "ritem \<Rightarrow> string \<Rightarrow> string list" where
  "matchItem (Lits l) s = (if toLowerCase (take (length l) s) = l then [drop (length l) s] else [])"
| "matchItem (OptOf cs) s = s # skipOne cs s"
| "matchItem (StarOf cs) s = skipMany cs s"

fun matchHere :: "ritem list \<Rightarrow> string \<Rightarrow> bool" where
  "matchHere [] s = True"
| "matchHere (i # is) s = list_ex (matchHere is) (matchItem i s)"

fun testPattern :: "ritem list \<Rightarrow> string \<Rightarrow> bool" where
  "testPattern p [] = matchHere p []"
| "testPattern p (c # cs) = (matchHere p (c # cs) \<or> testPattern p cs)"

definition VENDOR_NAME_PATTERNS :: "(ritem list list \<times> string) list" where
  "VENDOR_NAME_PATTERNS =
     [([[Lits ''avm''], [Lits ''fritz'', StarOf blanks, OptOf ''!'', StarOf blanks, Lits ''box''], [Lits ''fritzbox'']], ''fritzbox''),
      ([[Lits ''mikrotik''], [Lits ''routeros'']], ''mikrotik''),
      ([[Lits ''openwrt''], [Lits ''lede'']], ''openwrt''),
      ([[Lits ''unifi'']], ''unifi''),
      ([[Lits ''edgerouter''], [Lits ''edgemax''], [Lits ''edgeos'']], ''edgerouter''),
      ([[Lits ''gl'', OptOf (blanks @ ''.-''), Lits ''inet'']], ''glinet''),
      ([[Lits ''omada'']], ''tplink_omada''),
      ([[Lits ''deco''], [Lits ''archer''], [Lits ''tp'', OptOf (blanks @ ''-''), Lits ''link'']], ''tplink_consumer''),
      ([[Lits ''nebula'']], ''zyxel_nebula''),
      ([[Lits ''zyxel'']], ''zyxel_consumer''),
      ([[Lits ''draytek''], [Lits ''vigor'']], ''draytek''),
      ([[Lits ''linksys'']], ''linksys''),
      ([[Lits ''keenetic'']], ''keenetic''),
      ([[Lits ''asus'']], ''asus''),
      ([[Lits ''netgear'']], ''netgear''),
      ([[Lits ''d'', OptOf (blanks @ ''-''), Lits ''link'']], ''dlink''),
      ([[Lits ''belkin'']], ''belkin''),
      ([[Lits ''synology'']], ''synology''),
      ([[Lits ''nest'', StarOf blanks, Lits ''wifi''], [Lits ''google'', StarOf blanks, Lits ''wifi''], [Lits ''onhub'']], ''google_nest_wifi''),
      ([[Lits ''eero'']], ''eero''),
      ([[Lits ''huawei'']], ''huawei''),
      ([[Lits ''cisco'']], ''cisco_small_business''),
      ([[Lits ''buffalo'']], ''buffalo''),
      ([[Lits ''mercusys'']], ''mercusys''),
      ([[Lits ''tenda'']], ''tenda''),
      ([[Lits ''xiaomi''], [Lits ''mi'', StarOf blanks, Lits ''router''], [Lits ''redmi'']], ''xiaomi''),
      ([[Lits ''totolink'']], ''totolink''),
      ([[Lits ''sercomm'']], ''sercomm''),
      ([[Lits ''actiontec'']], ''actiontec''),
      ([[Lits ''hitron'']], ''hitron''),
      ([[Lits ''comtrend'']], ''comtrend''),
      ([[Lits ''nokia'']], ''nokia_home_gateway''),
      ([[Lits ''sagemcom'']], ''sagemcom''),
      ([[Lits ''technicolor'']], ''technicolor''),
      ([[Lits ''arris'']], ''arris''),
      ([[Lits ''arcadyan'']], ''arcadyan'')]"

section \<open>Lookups\<close>

definition listVendors :: "RouterCapabilities list" where
  "listVendors = map snd ROUTER_CAPABILITY_MATRIX"

definition getCapabilities_Database :: "string \<Rightarrow> RouterCapabilities option" where
  "getCapabilities_Database plugin = map_of ROUTER_CAPABILITY_MATRIX plugin"

fun firstVendor :: "(ritem list list \<times> string) list \<Rightarrow> string \<Rightarrow> string option" where
  "firstVendor [] raw = None"
| "firstVendor ((alts, plugin) # ps) raw =
     (if list_ex (\<lambda>p. testPattern p raw) alts then Some plugin else firstVendor ps raw)"

definition resolveVendorNameToPluginId :: "string option \<Rightarrow> string option" where
  "resolveVendorNameToPluginId rawVendorString =
     (case rawVendorString of
        None \<Rightarrow> None
      | Some raw \<Rightarrow> if raw = [] then None else firstVendor VENDOR_NAME_PATTERNS raw)"

definition getCapabilities :: "string option \<Rightarrow> RouterCapabilities option" where
  "getCapabilities plugin =
     (case plugin of None \<Rightarrow> None | Some p \<Rightarrow> if p = [] then None else getCapabilities_Database p)"

definition isSupported :: "string option \<Rightarrow> (RouterCapabilities \<Rightarrow> bool) \<Rightarrow> bool" where
  "isSupported plugin flag = (case getCapabilities plugin of None \<Rightarrow> False | Some c \<Rightarrow> flag c)"

section \<open>The score\<close>

datatype SupportLevel = FULL_SUPPORT | EXCELLENT | GOOD | LIMITED | BASIC | UNSUPPORTED

record CapabilityScoreCategory =
  csc_key :: string
  csc_label :: string
  csc_weight :: int
  csc_earned :: int
  csc_supported :: bool
  csc_reasoning :: string

record RouterCapabilityScore =
  rcs_score :: int
  rcs_maxScore :: int
  rcs_level :: SupportLevel
  rcs_stars :: nat
  rcs_badge :: string
  rcs_supportedFeatures :: "string list"
  rcs_unsupportedFeatures :: "string list"
  rcs_breakdown :: "CapabilityScoreCategory list"
  rcs_recommendations :: "string list"

definition MAX_SCORE :: int where "MAX_SCORE = 100"

fun LEVEL_LABELS :: "SupportLevel \<Rightarrow> string" where
  "LEVEL_LABELS FULL_SUPPORT = ''Full Support''"
| "LEVEL_LABELS EXCELLENT = ''Excellent''"
| "LEVEL_LABELS GOOD = ''Good''"
| "LEVEL_LABELS LIMITED = ''Limited''"
| "LEVEL_LABELS BASIC = ''Basic''"
| "LEVEL_LABELS UNSUPPORTED = ''Unsupported''"

fun LEVEL_STARS :: "SupportLevel \<Rightarrow> nat" where
  "LEVEL_STARS FULL_SUPPORT = 5"
| "LEVEL_STARS EXCELLENT = 4"
| "LEVEL_STARS GOOD = 3"
| "LEVEL_STARS LIMITED = 2"
| "LEVEL_STARS BASIC = 1"
| "LEVEL_STARS UNSUPPORTED = 0"

definition levelForScore :: "int \<Rightarrow> SupportLevel" where
  "levelForScore score =
     (if score \<ge> 85 then FULL_SUPPORT
      else if score \<ge> 65 then EXCELLENT
      else if score \<ge> 45 then GOOD
      else if score \<ge> 20 then LIMITED
      else if score \<ge> 1 then BASIC
      else UNSUPPORTED)"

definition starBadge :: "nat \<Rightarrow> string \<Rightarrow> string" where
  "starBadge stars label =
     concat (replicate stars starFull) @ concat (replicate (5 - stars) starEmpty) @ '' '' @ label"

definition cap :: "(RouterCapabilities \<Rightarrow> bool) \<Rightarrow> RouterCapabilities option \<Rightarrow> bool" where
  "cap flag c = (case c of None \<Rightarrow> False | Some r \<Rightarrow> flag r)"

text \<open>One entry of \<^verbatim>\<open>categories\<close> after the loop that fills \<^verbatim>\<open>earned\<close>, with the reasoning for a supported and
  an unsupported feature.\<close>

definition scoreCategory ::
  "string \<Rightarrow> string \<Rightarrow> int \<Rightarrow> bool \<Rightarrow> string \<Rightarrow> string \<Rightarrow> CapabilityScoreCategory" where
  "scoreCategory k label w supp yes no =
     \<lparr>csc_key = k, csc_label = label, csc_weight = w, csc_earned = (if supp then w else 0),
      csc_supported = supp, csc_reasoning = (if supp then yes else no)\<rparr>"

text \<open>\<open>firmware\<close> is \<^verbatim>\<open>detectedRouter?.firmwareVersion\<close>.\<close>

definition scoreCategories :: "RouterCapabilities option \<Rightarrow> string option \<Rightarrow> CapabilityScoreCategory list" where
  "scoreCategories c firmware =
     [scoreCategory ''pauseDevice'' (''Pause Device'') 25 (cap supportsPauseDevice c)
        (''Router plugin supports pausing a device'' @ [CHR 0x27] @
          ''s internet access directly (supportsPauseDevice).'')
        (''This router'' @ [CHR 0x27] @ ''s plugin has no documented pause-device action.''),
      scoreCategory ''accessSchedule'' (''Access Schedule'') 20 (cap supportsPauseDevice c \<or> cap supportsFirewallRules c \<or> cap supportsMACFiltering c)
        (''GuardTime'' @ [CHR 0x27] @ ''s own scheduler can drive this router'' @ [CHR 0x27] @
          ''s pause/firewall/MAC-filter action on a timer for bedtime and daily-limit '' @ ''schedules.'')
        (''No pause, firewall-rule, or MAC-filter action for the scheduler to drive on a '' @ ''timer.''),
      scoreCategory ''blockDevice'' (''Block Device'') 15 (cap supportsFirewallRules c \<or> cap supportsMACFiltering c)
        (''Router plugin can persistently block a device via a firewall rule or MAC filter '' @ ''entry.'')
        (''No documented persistent per-device block action (firewall rule or MAC filter).''),
      scoreCategory ''dnsFiltering'' (''DNS Filtering'') 15 (cap supportsDNSChange c)
        (''Router plugin can change the router'' @ [CHR 0x27] @ ''s DNS server (supportsDNSChange).'')
        (''This router'' @ [CHR 0x27] @ ''s plugin has no documented DNS-change action '' @ emdash @
          '' GuardTime'' @ [CHR 0x27] @ ''s device-level DNS filtering still applies independently.''),
      scoreCategory ''statistics'' (''Statistics'') 10 (cap supportsStatistics c)
        (''Router exposes usage/connection statistics (supportsStatistics).'')
        (''No documented statistics/monitoring endpoint for this router.''),
      scoreCategory ''parentalControls'' (''Parental Controls'') 10 (cap supportsParentalControl c)
        (''Router has its own native parental-control feature GuardTime can drive '' @
          ''(supportsParentalControl).'')
        (''No native parental-control feature documented for this router.''),
      scoreCategory ''deviceDiscovery'' (''Device Discovery'') 5 (c \<noteq> None)
        (''Device discovery (ARP/mDNS/DHCP) runs on the gateway agent itself, independent '' @
          ''of router vendor '' @ emdash @ '' available whenever a router is recognized.'')
        (''No router recognized on this gateway yet, so there is nothing to discover '' @ ''devices behind.''),
      scoreCategory ''firmwareDetection'' (''Firmware Detection'') 5 (truthy firmware)
        (''Firmware version reported by this specific router: '' @ patch firmware [] @ ''.'')
        (''This router has not reported a firmware/model string yet (or its plugin does '' @
          ''not surface one).'')]"

definition recommendations :: "RouterCapabilities option \<Rightarrow> string list \<Rightarrow> string list" where
  "recommendations capabilities unsupportedFeatures =
     (case capabilities of
        None \<Rightarrow> [''Run router detection (Scan) so GuardTime can identify this router and its capabilities.'']
      | Some c \<Rightarrow>
          (if integrationStatus c = GUIDE_ONLY
           then [if truthy (scopeNote c) then patch (scopeNote c) []
                 else vendorDisplayName c @ '' has no official management API '' @ emdash
                        @ '' see Supported Features for manual setup instructions.'']
           else []) @
          (if \<not> supportsPauseDevice c \<and> \<not> supportsFirewallRules c \<and> \<not> supportsMACFiltering c
           then [''Consider a Software Gateway (Advanced) for full pause/block enforcement independent of this router.'']
           else []) @
          (if unsupportedFeatures \<noteq> [] \<and> integrationStatus c = OFFICIAL_API
           then [vendorDisplayName c @ [CHR 0x27] @ ''s official API does not cover: ''
                   @ joinWith '', '' unsupportedFeatures @ ''.'']
           else []))"

definition computeScore :: "RouterCapabilities option \<Rightarrow> string option \<Rightarrow> RouterCapabilityScore" where
  "computeScore capabilities firmware =
     (let categories = scoreCategories capabilities firmware;
          rawScore = sum_list (map csc_earned categories);
          score = min rawScore MAX_SCORE;
          level = levelForScore score;
          stars = LEVEL_STARS level;
          unsupportedFeatures = map csc_label (filter (\<lambda>cat. \<not> csc_supported cat) categories)
      in \<lparr>rcs_score = score, rcs_maxScore = MAX_SCORE, rcs_level = level, rcs_stars = stars,
          rcs_badge = starBadge stars (LEVEL_LABELS level),
          rcs_supportedFeatures = map csc_label (filter csc_supported categories),
          rcs_unsupportedFeatures = unsupportedFeatures,
          rcs_breakdown = categories,
          rcs_recommendations = recommendations capabilities unsupportedFeatures\<rparr>)"

section \<open>The matrix is consistent\<close>

lemmas official_row_defs =
  row_fritzbox_def row_mikrotik_def row_openwrt_def row_unifi_def row_edgerouter_def row_glinet_def
  row_tplink_omada_def row_zyxel_nebula_def row_draytek_def row_linksys_def row_keenetic_def

definition guideRow :: "RouterCapabilities \<Rightarrow> bool" where
  "guideRow c \<longleftrightarrow> integrationStatus c = GUIDE_ONLY \<and> \<not> pluginImplemented c \<and>
     \<not> supportsDNSChange c \<and> \<not> supportsFirewallRules c \<and> \<not> supportsPauseDevice c \<and>
     \<not> supportsClientDisconnect c \<and> \<not> supportsQoS c \<and> \<not> supportsStatistics c \<and>
     \<not> supportsParentalControl c \<and> \<not> supportsACL c \<and> \<not> supportsMACFiltering c \<and>
     \<not> supportsAPI c \<and> \<not> supportsSSH c \<and> \<not> supportsTR064 c \<and> \<not> supportsRouterOS c"

lemma guideRow_guideOnly [simp]: "guideRow (guideOnly p v n f)"
  by (simp add: guideRow_def guideOnly_def)

lemma pluginId_guideOnly [simp]: "pluginId (guideOnly p v n f) = p"
  by (simp add: guideOnly_def)

lemma guideRows_guide: "list_all (\<lambda>(k, c). guideRow c \<and> pluginId c = k) guideRows"
  by (simp add: guideRows_def)

lemma officialRows_official:
  "list_all (\<lambda>(k, c). integrationStatus c = OFFICIAL_API \<and> pluginImplemented c \<and> pluginId c = k) officialRows"
  by (simp add: officialRows_def official_row_defs)

lemma matrix_row:
  assumes "getCapabilities plugin = Some c"
  shows "plugin = Some (pluginId c) \<and> (pluginImplemented c = (integrationStatus c = OFFICIAL_API)) \<and>
         (integrationStatus c = OFFICIAL_API \<or> guideRow c)"
proof -
  obtain p where p: "plugin = Some p" "(p, c) \<in> set officialRows \<union> set guideRows"
    using assms by (auto simp: getCapabilities_def getCapabilities_Database_def ROUTER_CAPABILITY_MATRIX_def
        split: option.splits if_splits dest: map_of_SomeD)
  then show ?thesis
    using guideRows_guide officialRows_official by (auto simp: list_all_iff guideRow_def)
qed

lemma isSupported_official:
  assumes "isSupported plugin flag"
    and "flag \<in> {supportsDNSChange, supportsFirewallRules, supportsPauseDevice, supportsClientDisconnect, supportsMACFiltering}"
  shows "\<exists>c. getCapabilities plugin = Some c \<and> integrationStatus c = OFFICIAL_API"
proof -
  from assms(1) obtain c where c: "getCapabilities plugin = Some c" "flag c"
    by (auto simp: isSupported_def split: option.splits)
  with assms(2) matrix_row [OF c(1)] show ?thesis by (auto simp: guideRow_def)
qed

lemma firstVendor_in: "firstVendor ps raw = Some plugin \<Longrightarrow> plugin \<in> set (map snd ps)"
  by (induction ps raw rule: firstVendor.induct) (auto split: if_splits)

lemma patterns_known: "set (map snd VENDOR_NAME_PATTERNS) \<subseteq> set (map fst ROUTER_CAPABILITY_MATRIX)"
  by (simp add: VENDOR_NAME_PATTERNS_def ROUTER_CAPABILITY_MATRIX_def officialRows_def guideRows_def)

section \<open>Properties\<close>

text \<open>Detection never invents a router. The plugin that a vendor string resolves to is a row of the
  matrix under that very identifier; a row claims an implemented plugin exactly when its integration
  status is OFFICIAL_API, and a guide-only row claims no capability at all.\<close>
theorem resolved_vendor_is_known:
  assumes "resolveVendorNameToPluginId raw = Some plugin"
  shows "\<exists>c. getCapabilities (Some plugin) = Some c \<and> pluginId c = plugin \<and>
             pluginImplemented c = (integrationStatus c = OFFICIAL_API) \<and>
             (integrationStatus c = OFFICIAL_API \<or> guideRow c)"
proof -
  have "plugin \<in> set (map snd VENDOR_NAME_PATTERNS)"
    using assms firstVendor_in by (auto simp: resolveVendorNameToPluginId_def split: option.splits if_splits)
  then have "plugin \<in> set (map fst ROUTER_CAPABILITY_MATRIX)" using patterns_known by blast
  moreover have "[] \<notin> set (map fst ROUTER_CAPABILITY_MATRIX)"
    by (simp add: ROUTER_CAPABILITY_MATRIX_def officialRows_def guideRows_def)
  ultimately have "plugin \<noteq> []" "map_of ROUTER_CAPABILITY_MATRIX plugin \<noteq> None"
    unfolding map_of_eq_None_iff by (metis, simp)
  then obtain c where c: "getCapabilities (Some plugin) = Some c"
    by (auto simp: getCapabilities_def getCapabilities_Database_def)
  from matrix_row [OF c] c show ?thesis by auto
qed

theorem resolved_vendor_is_known_witness:
  "resolveVendorNameToPluginId (Some ''TP-Link Omada'') = Some ''tplink_omada'' \<and>
   (\<exists>c. getCapabilities (Some ''tplink_omada'') = Some c \<and> pluginId c = ''tplink_omada'' \<and>
        pluginImplemented c = (integrationStatus c = OFFICIAL_API) \<and>
        (integrationStatus c = OFFICIAL_API \<or> guideRow c))"
proof -
  have "resolveVendorNameToPluginId (Some ''TP-Link Omada'') = Some ''tplink_omada''"
    by code_simp
  with resolved_vendor_is_known [OF this] show ?thesis by blast
qed

lemma score_value:
  "rcs_score (computeScore c firmware) =
     min 100 ((if cap supportsPauseDevice c then 25 else 0)
       + (if cap supportsPauseDevice c \<or> cap supportsFirewallRules c \<or> cap supportsMACFiltering c then 20 else 0)
       + (if cap supportsFirewallRules c \<or> cap supportsMACFiltering c then 15 else 0)
       + (if cap supportsDNSChange c then 15 else 0) + (if cap supportsStatistics c then 10 else 0)
       + (if cap supportsParentalControl c then 10 else 0) + (if c \<noteq> None then 5 else 0)
       + (if truthy firmware then 5 else 0))"
  by (simp add: computeScore_def scoreCategories_def scoreCategory_def MAX_SCORE_def Let_def add.assoc)

text \<open>The capability score is between 0 and 100, is 0 exactly when no router is recognised and no
  firmware was reported, and a recognised guide-only router scores 5 or 10 and is rated BASIC, never
  UNSUPPORTED.\<close>
theorem computeScore_range:
  "0 \<le> rcs_score (computeScore c firmware) \<and> rcs_score (computeScore c firmware) \<le> 100 \<and>
   rcs_stars (computeScore c firmware) \<le> 5 \<and>
   (rcs_score (computeScore c firmware) = 0 \<longleftrightarrow> c = None \<and> \<not> truthy firmware) \<and>
   (\<forall>r. c = Some r \<longrightarrow> guideRow r \<longrightarrow>
      rcs_score (computeScore c firmware) \<in> {5, 10} \<and> rcs_level (computeScore c firmware) = BASIC)"
proof -
  have l: "rcs_level (computeScore c firmware) = levelForScore (rcs_score (computeScore c firmware))"
    "rcs_stars (computeScore c firmware) = LEVEL_STARS (rcs_level (computeScore c firmware))"
    by (simp_all add: computeScore_def Let_def)
  have "LEVEL_STARS v \<le> 5" for v by (cases v) simp_all
  moreover have "rcs_score (computeScore c firmware) \<in> {5, 10}" if "c = Some r" "guideRow r" for r
    using that by (simp add: score_value cap_def guideRow_def)
  moreover have "levelForScore 5 = BASIC" "levelForScore 10 = BASIC" by (simp_all add: levelForScore_def)
  moreover have "rcs_score (computeScore c firmware) = 0 \<longleftrightarrow> c = None \<and> \<not> truthy firmware"
    by (cases c) (auto simp: score_value cap_def min_def)
  moreover have "0 \<le> rcs_score (computeScore c firmware)" "rcs_score (computeScore c firmware) \<le> 100"
    by (simp_all add: score_value)
  ultimately show ?thesis unfolding l by (metis insertE singletonD)
qed

theorem computeScore_range_witness:
  "rcs_level (computeScore (Some (guideOnly ''eero'' ''eero'' None None)) None) = BASIC"
  using computeScore_range [of "Some (guideOnly ''eero'' ''eero'' None None)" None] guideRow_guideOnly by blast

end
