(* ===== verification/Notify.thy ===== *)
theory Notify
  imports Schema "HOL-Library.Multiset"
begin

text \<open>
  The audit trail (\<^verbatim>\<open>audit.service.ts\<close>), push delivery over Firebase (\<^verbatim>\<open>fcm.sender.ts\<close>,
  \<^verbatim>\<open>push.service.ts\<close>) and the notification centre (\<^verbatim>\<open>notifications.service.ts\<close>). The Firebase SDK is the
  parameter record \<open>fcm\<close>: whether it is initialised, and what a multicast call answers on the given
  attempt for a list of tokens (\<open>None\<close>: the whole call threw; otherwise one outcome per token, \<open>None\<close>
  for success or the error code). The waits between attempts are not modelled.
\<close>

section \<open>Audit log\<close>

record AuditData =
  ad_userId :: "ident option"
  ad_action :: string
  ad_entity :: string
  ad_entityId :: "ident option"
  ad_details :: "string option"
  ad_ipAddress :: "string option"

definition auditLog :: "time \<Rightarrow> AuditData \<Rightarrow> 'z store_scheme \<Rightarrow> 'z store_scheme" where
  "auditLog now d s =
     s\<lparr>auditLogs := auditLogs s @
        [\<lparr>aud_userId = ad_userId d, aud_action = ad_action d, aud_entity = ad_entity d,
          aud_entityId = ad_entityId d, aud_details = ad_details d, aud_ipAddress = ad_ipAddress d,
          aud_createdAt = now\<rparr>]\<rparr>"

definition findByEntity_Audit :: "string \<Rightarrow> ident \<Rightarrow> 'z store_scheme \<Rightarrow> AuditLog list" where
  "findByEntity_Audit entity entityId s =
     take 50 (orderByDesc aud_createdAt
       (findMany (\<lambda>a. aud_entity a = entity \<and> aud_entityId a = Some entityId) (auditLogs s)))"

definition findByUser_Audit :: "ident \<Rightarrow> 'z store_scheme \<Rightarrow> AuditLog list" where
  "findByUser_Audit userId s =
     take 50 (orderByDesc aud_createdAt (findMany (\<lambda>a. aud_userId a = Some userId) (auditLogs s)))"

section \<open>Firebase multicast with retries\<close>

record FcmMessage =
  fm_title :: string
  fm_body :: string
  fm_data :: "(string \<times> string) list"

record fcm =
  fcm_ready :: bool
  fcm_multicast :: "nat \<Rightarrow> string list \<Rightarrow> FcmMessage \<Rightarrow> string option list option"

record MulticastResult =
  mr_sent :: "string list"
  mr_invalid :: "string list"
  mr_errored :: "string list"
  mr_skipped :: bool

definition MAX_RETRIES :: nat where "MAX_RETRIES = 2"

definition TRANSIENT_CODES :: "string list" where
  "TRANSIENT_CODES =
     [''messaging/internal-error'', ''messaging/server-unavailable'', ''messaging/unknown-error'',
      ''messaging/timeout'', ''messaging/quota-exceeded'']"

definition INVALID_TOKEN_CODES :: "string list" where
  "INVALID_TOKEN_CODES =
     [''messaging/registration-token-not-registered'', ''messaging/invalid-registration-token'',
      ''messaging/invalid-argument'', ''messaging/unregistered'', ''messaging/mismatched-credential'']"

text \<open>Sorting one batch of answers: the tokens to retry and the classified ones.\<close>

fun classifyResponses ::
  "bool \<Rightarrow> string list \<Rightarrow> string option list \<Rightarrow>
   string list \<times> string list \<times> string list \<times> string list \<Rightarrow>
   string list \<times> string list \<times> string list \<times> string list" where
  "classifyResponses isLast (token # ts) (r # rs) (retryNext, sent, invalid, errored) =
     classifyResponses isLast ts rs
       (case r of
          None \<Rightarrow> (retryNext, sent @ [token], invalid, errored)
        | Some code \<Rightarrow>
            if code \<in> set INVALID_TOKEN_CODES then (retryNext, sent, invalid @ [token], errored)
            else if code \<in> set TRANSIENT_CODES \<and> \<not> isLast then (retryNext @ [token], sent, invalid, errored)
            else (retryNext, sent, invalid, errored @ [token]))"
| "classifyResponses isLast _ _ acc = acc"

text \<open>The retry loop from attempt \<open>attempt\<close>; it runs while \<open>attempt \<le> MAX_RETRIES\<close> and tokens are
  pending.\<close>

function multicastLoop ::
  "fcm \<Rightarrow> FcmMessage \<Rightarrow> nat \<Rightarrow> string list \<Rightarrow> string list \<Rightarrow> string list \<Rightarrow> string list \<Rightarrow> MulticastResult"
where
  "multicastLoop F m attempt pending sent invalid errored =
     (if attempt \<le> MAX_RETRIES \<and> pending \<noteq> [] then
        (case fcm_multicast F attempt pending m of
           None \<Rightarrow>
             if attempt = MAX_RETRIES
             then \<lparr>mr_sent = sent, mr_invalid = invalid, mr_errored = errored @ pending, mr_skipped = False\<rparr>
             else multicastLoop F m (attempt + 1) pending sent invalid errored
         | Some responses \<Rightarrow>
             (case classifyResponses (attempt = MAX_RETRIES) pending responses ([], sent, invalid, errored) of
                (retryNext, sent', invalid', errored') \<Rightarrow>
                  multicastLoop F m (attempt + 1) retryNext sent' invalid' errored'))
      else \<lparr>mr_sent = sent, mr_invalid = invalid, mr_errored = errored, mr_skipped = False\<rparr>)"
  by pat_completeness auto
termination
  by (relation "measure (\<lambda>(F, m, attempt, pending, sent, invalid, errored). Suc MAX_RETRIES - attempt)") auto

declare multicastLoop.simps [simp del]

definition sendMulticast :: "fcm \<Rightarrow> string list \<Rightarrow> FcmMessage \<Rightarrow> MulticastResult" where
  "sendMulticast F tokens m =
     (if tokens = [] then \<lparr>mr_sent = [], mr_invalid = [], mr_errored = [], mr_skipped = False\<rparr>
      else if \<not> fcm_ready F then \<lparr>mr_sent = [], mr_invalid = [], mr_errored = [], mr_skipped = True\<rparr>
      else multicastLoop F m 0 tokens [] [] [])"

text \<open>Sending to one token: \<open>one attempt token m\<close> is the SDK's answer, \<open>None\<close> or an error code.\<close>

datatype FcmSendResult = FS_sent | FS_invalid | FS_skipped | FS_error

function sendLoop :: "(nat \<Rightarrow> string \<Rightarrow> FcmMessage \<Rightarrow> string option) \<Rightarrow> string \<Rightarrow> FcmMessage \<Rightarrow> nat \<Rightarrow> FcmSendResult" where
  "sendLoop one token m attempt =
     (if attempt \<le> MAX_RETRIES then
        (case one attempt token m of
           None \<Rightarrow> FS_sent
         | Some code \<Rightarrow>
             if code \<in> set INVALID_TOKEN_CODES then FS_invalid
             else if code \<in> set TRANSIENT_CODES \<and> attempt < MAX_RETRIES then sendLoop one token m (attempt + 1)
             else FS_error)
      else FS_error)"
  by pat_completeness auto
termination
  by (relation "measure (\<lambda>(one, token, m, attempt). Suc MAX_RETRIES - attempt)") auto

declare sendLoop.simps [simp del]

definition send_Fcm :: "bool \<Rightarrow> (nat \<Rightarrow> string \<Rightarrow> FcmMessage \<Rightarrow> string option) \<Rightarrow> string \<Rightarrow> FcmMessage \<Rightarrow> FcmSendResult" where
  "send_Fcm isConfigured one token m = (if \<not> isConfigured then FS_skipped else sendLoop one token m 0)"

section \<open>Push tokens\<close>

definition registerToken :: "time \<Rightarrow> ident \<Rightarrow> string \<Rightarrow> string \<Rightarrow> 'z store_scheme \<Rightarrow> 'z store_scheme" where
  "registerToken now userId token platform s =
     (if list_ex (\<lambda>t. ptk_token t = token) (pushTokens s)
      then s\<lparr>pushTokens := updateMany (\<lambda>t. ptk_token t = token)
               (\<lambda>t. t\<lparr>ptk_userId := userId, ptk_platform := platform, ptk_lastUsedAt := now\<rparr>)
               (pushTokens s)\<rparr>
      else drawId (s\<lparr>pushTokens := pushTokens s @
               [\<lparr>ptk_id = newId s, ptk_userId = userId, ptk_token = token, ptk_platform = platform,
                 ptk_lastUsedAt = now\<rparr>]\<rparr>))"

definition removeToken :: "ident \<Rightarrow> string \<Rightarrow> 'z store_scheme \<Rightarrow> 'z store_scheme" where
  "removeToken userId token s =
     s\<lparr>pushTokens := deleteMany (\<lambda>t. ptk_userId t = userId \<and> ptk_token t = token) (pushTokens s)\<rparr>"

definition sendToUser :: "fcm \<Rightarrow> ident \<Rightarrow> FcmMessage \<Rightarrow> 'z store_scheme \<Rightarrow> 'z store_scheme" where
  "sendToUser F userId m s =
     (let tokens = map ptk_token (findMany (\<lambda>t. ptk_userId t = userId) (pushTokens s)) in
      if tokens = [] then s
      else let result = sendMulticast F tokens m in
        if mr_invalid result \<noteq> []
        then s\<lparr>pushTokens := deleteMany (\<lambda>t. ptk_token t \<in> set (mr_invalid result)) (pushTokens s)\<rparr>
        else s)"

section \<open>Notifications\<close>

record NotificationData =
  nd_userId :: ident
  nd_type :: NotificationType
  nd_title :: string
  nd_message :: string
  nd_deviceId :: "ident option"
  nd_childId :: "ident option"
  nd_sessionId :: "ident option"

primrec showNotificationType :: "NotificationType \<Rightarrow> string" where
  "showNotificationType TIME_10_MIN_LEFT = ''TIME_10_MIN_LEFT''"
| "showNotificationType TIME_ENDED = ''TIME_ENDED''"
| "showNotificationType DEVICE_BLOCKED = ''DEVICE_BLOCKED''"
| "showNotificationType CHILD_REQUEST_MORE_TIME = ''CHILD_REQUEST_MORE_TIME''"
| "showNotificationType PARENT_APPROVED = ''PARENT_APPROVED''"
| "showNotificationType PARENT_DENIED = ''PARENT_DENIED''"
| "showNotificationType NT_POSSIBLE_DNS_BYPASS = ''POSSIBLE_DNS_BYPASS''"
| "showNotificationType OFFLINE_SETUP_INCOMPLETE = ''OFFLINE_SETUP_INCOMPLETE''"
| "showNotificationType PROTECTION_LOW = ''PROTECTION_LOW''"
| "showNotificationType REPEATED_BYPASS = ''REPEATED_BYPASS''"
| "showNotificationType DEVICE_DISCONNECTED = ''DEVICE_DISCONNECTED''"

definition notificationPayload :: "ident \<Rightarrow> NotificationData \<Rightarrow> (string \<times> string) list" where
  "notificationPayload i d =
     [(''notificationId'', i), (''type'', showNotificationType (nd_type d))]
     @ (case nd_deviceId d of Some x \<Rightarrow> if x = [] then [] else [(''deviceId'', x)] | None \<Rightarrow> [])
     @ (case nd_childId d of Some x \<Rightarrow> if x = [] then [] else [(''childId'', x)] | None \<Rightarrow> [])
     @ (case nd_sessionId d of Some x \<Rightarrow> if x = [] then [] else [(''sessionId'', x)] | None \<Rightarrow> [])"

definition deliver :: "fcm \<Rightarrow> ident \<Rightarrow> NotificationData \<Rightarrow> 'z store_scheme \<Rightarrow> bool \<times> 'z store_scheme" where
  "deliver F i d s =
     (if \<not> fcm_ready F then (False, s)
      else (True, sendToUser F (nd_userId d)
                    \<lparr>fm_title = nd_title d, fm_body = nd_message d, fm_data = notificationPayload i d\<rparr> s))"

definition create_Notification ::
  "fcm \<Rightarrow> time \<Rightarrow> NotificationData \<Rightarrow> 'z store_scheme \<Rightarrow> NotificationEvent \<times> 'z store_scheme" where
  "create_Notification F now d s =
     (let n = \<lparr>nev_id = newId s, nev_userId = nd_userId d, nev_type = nd_type d, nev_title = nd_title d,
               nev_message = nd_message d, nev_deviceId = nd_deviceId d, nev_childId = nd_childId d,
               nev_sessionId = nd_sessionId d, nev_read = False, nev_sentViaFcm = False,
               nev_createdAt = now\<rparr>;
          s1 = drawId (s\<lparr>notifications := notifications s @ [n]\<rparr>)
      in case deliver F (nev_id n) d s1 of
           (delivered, s2) \<Rightarrow>
             if delivered
             then (n, s2\<lparr>notifications := updateMany (\<lambda>x. nev_id x = nev_id n)
                          (\<lambda>x. x\<lparr>nev_sentViaFcm := True\<rparr>) (notifications s2)\<rparr>)
             else (n, s2))"

abbreviation notify :: "fcm \<Rightarrow> time \<Rightarrow> NotificationData \<Rightarrow> 'z store_scheme \<Rightarrow> 'z store_scheme" where
  "notify F now d s \<equiv> snd (create_Notification F now d s)"

definition findByUser_Notifications :: "ident \<Rightarrow> 'z store_scheme \<Rightarrow> NotificationEvent list" where
  "findByUser_Notifications userId s =
     take 50 (orderByDesc nev_createdAt (findMany (\<lambda>n. nev_userId n = userId) (notifications s)))"

definition markRead :: "ident \<Rightarrow> 'z store_scheme \<Rightarrow> NotificationEvent result \<times> 'z store_scheme" where
  "markRead i s =
     (case findUnique nev_id i (notifications s) of
        None \<Rightarrow> (Inl PrismaRecordNotFound, s)
      | Some n \<Rightarrow> (Inr (n\<lparr>nev_read := True\<rparr>),
                  s\<lparr>notifications := updateMany (\<lambda>x. nev_id x = i) (\<lambda>x. x\<lparr>nev_read := True\<rparr>) (notifications s)\<rparr>))"

definition markReadForUser ::
  "ident \<Rightarrow> ident \<Rightarrow> 'z store_scheme \<Rightarrow> NotificationEvent result \<times> 'z store_scheme" where
  "markReadForUser userId i s =
     (case findFirst (\<lambda>n. nev_id n = i \<and> nev_userId n = userId) (notifications s) of
        None \<Rightarrow> (Inl (NotFoundException ''Notification not found''), s)
      | Some n \<Rightarrow> markRead i s)"

section \<open>Frames\<close>

lemma auditLog_auditLogs [simp]:
  "auditLogs (auditLog now d s) = auditLogs s @
     [\<lparr>aud_userId = ad_userId d, aud_action = ad_action d, aud_entity = ad_entity d,
       aud_entityId = ad_entityId d, aud_details = ad_details d, aud_ipAddress = ad_ipAddress d,
       aud_createdAt = now\<rparr>]"
  by (simp add: auditLog_def)

lemma auditLog_frame [frame_simps, simp]:
  "devices (auditLog now d s) = devices s" "sessions (auditLog now d s) = sessions s"
  "gateways (auditLog now d s) = gateways s" "users (auditLog now d s) = users s"
  "children (auditLog now d s) = children s" "rules (auditLog now d s) = rules s"
  "categoryBlocks (auditLog now d s) = categoryBlocks s"
  "blockedDomains (auditLog now d s) = blockedDomains s"
  "notifications (auditLog now d s) = notifications s"
  "pairingSessions (auditLog now d s) = pairingSessions s"
  "detectedRouters (auditLog now d s) = detectedRouters s"
  "routerCommands (auditLog now d s) = routerCommands s"
  "commands (auditLog now d s) = commands s" "ipHistory (auditLog now d s) = ipHistory s"
  "connectionEvents (auditLog now d s) = connectionEvents s"
  "vpnDetections (auditLog now d s) = vpnDetections s"
  "db_uuid (auditLog now d s) = db_uuid s" "db_next (auditLog now d s) = db_next s"
  by (simp_all add: auditLog_def)

lemma categoryActive_auditLog [simp]: "categoryActive (auditLog now d s) c cat = categoryActive s c cat"
  by (simp add: categoryActive_def)

lemma sendToUser_frame [frame_simps, simp]:
  "devices (sendToUser F u m s) = devices s" "sessions (sendToUser F u m s) = sessions s"
  "gateways (sendToUser F u m s) = gateways s" "users (sendToUser F u m s) = users s"
  "children (sendToUser F u m s) = children s" "rules (sendToUser F u m s) = rules s"
  "categoryBlocks (sendToUser F u m s) = categoryBlocks s"
  "blockedDomains (sendToUser F u m s) = blockedDomains s"
  "notifications (sendToUser F u m s) = notifications s"
  "auditLogs (sendToUser F u m s) = auditLogs s"
  "routerCommands (sendToUser F u m s) = routerCommands s"
  "commands (sendToUser F u m s) = commands s"
  "db_uuid (sendToUser F u m s) = db_uuid s" "db_next (sendToUser F u m s) = db_next s"
  by (simp_all add: sendToUser_def Let_def)

lemma notify_frame [frame_simps, simp]:
  "devices (notify F now d s) = devices s" "sessions (notify F now d s) = sessions s"
  "gateways (notify F now d s) = gateways s" "users (notify F now d s) = users s"
  "children (notify F now d s) = children s" "rules (notify F now d s) = rules s"
  "categoryBlocks (notify F now d s) = categoryBlocks s"
  "blockedDomains (notify F now d s) = blockedDomains s"
  "auditLogs (notify F now d s) = auditLogs s"
  "routerCommands (notify F now d s) = routerCommands s"
  "commands (notify F now d s) = commands s"
  by (simp_all add: create_Notification_def deliver_def Let_def)

lemma categoryActive_notify [simp]: "categoryActive (notify F now d s) c cat = categoryActive s c cat"
  by (simp add: categoryActive_def)

lemma notify_adds:
  "\<exists>n \<in> set (notifications (notify F now d s)).
     nev_type n = nd_type d \<and> nev_userId n = nd_userId d \<and> nev_deviceId n = nd_deviceId d \<and>
     nev_sessionId n = nd_sessionId d \<and> nev_createdAt n = now"
  by (auto simp: create_Notification_def deliver_def Let_def in_updateMany_iff)

section \<open>Every token ends in exactly one class\<close>

lemma classifyResponses_mset:
  assumes "length responses = length pending"
    and "classifyResponses isLast pending responses (rt, s, i, e) = (rt', s', i', e')"
  shows "mset rt' + mset s' + mset i' + mset e' = mset rt + mset s + mset i + mset e + mset pending"
  using assms
proof (induction isLast pending responses "(rt, s, i, e)" arbitrary: rt s i e rule: classifyResponses.induct)
  case (1 isLast token ts r rs rt s i e)
  then show ?case by (auto split: option.splits if_splits)
qed auto

lemma classifyResponses_last:
  assumes "classifyResponses True pending responses (rt, s, i, e) = (rt', s', i', e')"
  shows "rt' = rt"
  using assms
proof (induction True pending responses "(rt, s, i, e)" arbitrary: rt s i e rule: classifyResponses.induct)
  case (1 token ts r rs rt s i e)
  then show ?case by (auto split: option.splits if_splits)
qed auto

definition delivered_all :: "MulticastResult \<Rightarrow> string multiset \<Rightarrow> bool" where
  "delivered_all R M \<longleftrightarrow> mset (mr_sent R) + mset (mr_invalid R) + mset (mr_errored R) = M"

lemma multicastLoop_partition:
  assumes law: "\<And>a ts r. fcm_multicast F a ts m = Some r \<Longrightarrow> length r = length ts"
    and "attempt \<le> MAX_RETRIES \<or> pending = []"
  shows "delivered_all (multicastLoop F m attempt pending s i e) (mset s + mset i + mset e + mset pending)"
  using assms(2)
proof (induction "Suc MAX_RETRIES - attempt" arbitrary: attempt pending s i e rule: less_induct)
  case less
  note unfold = multicastLoop.simps [of F m attempt pending]
  show ?case
  proof (cases "attempt \<le> MAX_RETRIES \<and> pending \<noteq> []")
    case run: True
    then have smaller: "Suc MAX_RETRIES - (attempt + 1) < Suc MAX_RETRIES - attempt" by (simp add: Suc_diff_le)
    show ?thesis
    proof (cases "fcm_multicast F attempt pending m")
      case None
      show ?thesis
      proof (cases "attempt = MAX_RETRIES")
        case True
        with None run show ?thesis
          by (subst multicastLoop.simps) (simp add: delivered_all_def ac_simps)
      next
        case False
        with run less.hyps [OF smaller, of pending s i e] None show ?thesis by (simp add: unfold)
      qed
    next
      case (Some responses)
      obtain rt' s' i' e' where cl:
        "classifyResponses (attempt = MAX_RETRIES) pending responses ([], s, i, e) = (rt', s', i', e')"
        by (metis prod_cases4)
      have "mset rt' + mset s' + mset i' + mset e' = mset s + mset i + mset e + mset pending"
        using classifyResponses_mset [OF law [OF Some] cl] by simp
      moreover have "attempt = MAX_RETRIES \<Longrightarrow> rt' = []"
        using cl classifyResponses_last by force
      then have "attempt + 1 \<le> MAX_RETRIES \<or> rt' = []" using run by linarith
      then have "delivered_all (multicastLoop F m (attempt + 1) rt' s' i' e')
                   (mset s' + mset i' + mset e' + mset rt')"
        by (rule less.hyps [OF smaller])
      ultimately show ?thesis using run Some cl by (simp add: unfold ac_simps)
    qed
  next
    case False
    with less.prems show ?thesis by (auto simp: unfold delivered_all_def)
  qed
qed

section \<open>Properties\<close>

text \<open>C20: Push fan-out loses and duplicates no registration. When Firebase answers each multicast
  with one result per token, the retry loop of \<^verbatim>\<open>FcmSender.sendMulticast\<close> (at most three attempts, with
  whole-batch failures and per-token transient errors retried) ends, and every token it was given
  is in exactly one of sent, invalid and errored, with its multiplicity.\<close>
theorem sendMulticast_partition:
  assumes "\<And>a ts r. fcm_multicast F a ts m = Some r \<Longrightarrow> length r = length ts"
    and "fcm_ready F"
  shows "mset (mr_sent (sendMulticast F tokens m)) + mset (mr_invalid (sendMulticast F tokens m))
           + mset (mr_errored (sendMulticast F tokens m)) = mset tokens"
  using multicastLoop_partition [of F m 0 tokens "[]" "[]" "[]"] assms
  by (simp add: sendMulticast_def delivered_all_def)

definition flakyFcm :: fcm where
  "flakyFcm = \<lparr>fcm_ready = True,
     fcm_multicast = (\<lambda>a ts m. if a = 0 then None
        else Some (map (\<lambda>t. if t = ''dead'' then Some ''messaging/unregistered''
                           else if t = ''slow'' then Some ''messaging/timeout'' else None) ts))\<rparr>"

definition greeting :: FcmMessage where
  "greeting = \<lparr>fm_title = ''Hi'', fm_body = ''10 minutes left'', fm_data = []\<rparr>"

theorem sendMulticast_partition_witness:
  "mset (mr_sent (sendMulticast flakyFcm [''a'', ''dead'', ''slow''] greeting))
     + mset (mr_invalid (sendMulticast flakyFcm [''a'', ''dead'', ''slow''] greeting))
     + mset (mr_errored (sendMulticast flakyFcm [''a'', ''dead'', ''slow''] greeting)) = mset [''a'', ''dead'', ''slow'']
   \<and> mr_invalid (sendMulticast flakyFcm [''a'', ''dead'', ''slow''] greeting) = [''dead'']"
proof
  show "mset (mr_sent (sendMulticast flakyFcm [''a'', ''dead'', ''slow''] greeting))
     + mset (mr_invalid (sendMulticast flakyFcm [''a'', ''dead'', ''slow''] greeting))
     + mset (mr_errored (sendMulticast flakyFcm [''a'', ''dead'', ''slow''] greeting)) = mset [''a'', ''dead'', ''slow'']"
    by (rule sendMulticast_partition) (auto simp: flakyFcm_def split: if_splits)
  show "mr_invalid (sendMulticast flakyFcm [''a'', ''dead'', ''slow''] greeting) = [''dead'']"
    by (simp add: sendMulticast_def flakyFcm_def multicastLoop.simps MAX_RETRIES_def
        INVALID_TOKEN_CODES_def TRANSIENT_CODES_def)
qed

section \<open>One token and many\<close>

text \<open>What a multicast to one token says about it.\<close>

definition outcomeOf :: "string \<Rightarrow> MulticastResult \<Rightarrow> FcmSendResult" where
  "outcomeOf t r =
     (if mr_skipped r then FS_skipped else if t \<in> set (mr_sent r) then FS_sent
      else if t \<in> set (mr_invalid r) then FS_invalid else FS_error)"

lemma outcomeOf_skipped [simp]: "mr_skipped r \<Longrightarrow> outcomeOf t r = FS_skipped"
  by (simp add: outcomeOf_def)

lemma multicast_single:
  assumes one: "\<And>a. fcm_multicast F a [t] m = Some [one a t m]" and "attempt \<le> MAX_RETRIES"
  shows "outcomeOf t (multicastLoop F m attempt [t] [] [] []) = sendLoop one t m attempt"
  using assms(2)
proof (induction "MAX_RETRIES - attempt" arbitrary: attempt rule: less_induct)
  case less
  have empty: "multicastLoop F m a [] x y z = \<lparr>mr_sent = x, mr_invalid = y, mr_errored = z, mr_skipped = False\<rparr>" for a x y z
    by (simp add: multicastLoop.simps)
  show ?case
  proof (cases "one attempt t m")
    case None
    then show ?thesis using less.prems
      by (simp add: multicastLoop.simps [of F m attempt] sendLoop.simps [of one t m attempt] one empty outcomeOf_def)
  next
    case (Some code)
    show ?thesis
    proof (cases "code \<notin> set INVALID_TOKEN_CODES \<and> code \<in> set TRANSIENT_CODES \<and> attempt < MAX_RETRIES")
      case True
      then have "outcomeOf t (multicastLoop F m (attempt + 1) [t] [] [] []) = sendLoop one t m (attempt + 1)"
        by (intro less.hyps) auto
      with True Some show ?thesis
        by (simp add: multicastLoop.simps [of F m attempt] sendLoop.simps [of one t m attempt] one)
    next
      case False
      with Some less.prems show ?thesis
        by (auto simp: multicastLoop.simps [of F m attempt] sendLoop.simps [of one t m attempt] one empty outcomeOf_def)
    qed
  qed
qed

text \<open>Sending to one token and multicasting to it agree. When the SDK answers a multicast to a single
  token as it answers a single send, the multicast classifies the token exactly as the single sender does:
  sent, invalid, failed after the retries, or skipped when Firebase is not configured.\<close>
theorem send_multicast_agree:
  assumes "\<And>a. fcm_multicast F a [t] m = Some [one a t m]"
  shows "outcomeOf t (sendMulticast F [t] m) = send_Fcm (fcm_ready F) one t m"
  using multicast_single [of F t m one 0] assms by (simp add: sendMulticast_def send_Fcm_def)

definition steadyFcm :: fcm where
  "steadyFcm = \<lparr>fcm_ready = True, fcm_multicast = (\<lambda>a ts m. Some (map (\<lambda>t. if a = 0 then Some ''messaging/timeout'' else None) ts))\<rparr>"

theorem send_multicast_agree_witness:
  "outcomeOf ''t'' (sendMulticast steadyFcm [''t''] greeting) = send_Fcm True (\<lambda>a t m. if a = 0 then Some ''messaging/timeout'' else None) ''t'' greeting"
  using send_multicast_agree [of steadyFcm "''t''" greeting "\<lambda>a t m. if a = 0 then Some ''messaging/timeout'' else None"]
  by (simp add: steadyFcm_def)

end
