(* ===== verification/Encryption.thy ===== *)
theory Encryption
  imports Js_Runtime
begin

text \<open>
  Encryption of third-party secrets at rest (\<^verbatim>\<open>encryption.service.ts\<close>): the key check of the
  constructor, the \<^verbatim>\<open>iv:ciphertext\<close> format with its hexadecimal encoding, and the checks on decryption.
  The cryptographic primitives of Node's \<^verbatim>\<open>crypto\<close> (\<^verbatim>\<open>scryptSync\<close> and AES-256-CBC) are the parameter record
  \<open>crypto\<close>; \<open>cbc\<close> states what the code relies on. The 16 random bytes of \<^verbatim>\<open>randomBytes\<close> are an
  argument.
\<close>

section \<open>Hexadecimal\<close>

type_synonym bytes = "nat list"

definition byteHex :: "nat \<Rightarrow> string" where
  "byteHex b = [hexDigit (b div 16), hexDigit (b mod 16)]"

definition toHex :: "bytes \<Rightarrow> string" where
  "toHex bs = concat (map byteHex bs)"

definition hexVal :: "char \<Rightarrow> nat option" where
  "hexVal c =
     (let n = (of_char c :: nat) in
      if 48 \<le> n \<and> n \<le> 57 then Some (n - 48)
      else if 97 \<le> n \<and> n \<le> 102 then Some (n - 87)
      else if 65 \<le> n \<and> n \<le> 70 then Some (n - 55)
      else None)"

text \<open>\<^verbatim>\<open>Buffer.from(s, 'hex')\<close>: pairs of digits up to the first pair that is not one.\<close>

fun fromHex :: "string \<Rightarrow> bytes" where
  "fromHex (c # d # cs) =
     (case (hexVal c, hexVal d) of (Some h, Some l) \<Rightarrow> (16 * h + l) # fromHex cs | _ \<Rightarrow> [])"
| "fromHex _ = []"

section \<open>The service\<close>

text \<open>\<open>cr_cipher k iv text\<close> is the hexadecimal ciphertext; \<open>cr_decipher\<close> is \<open>None\<close> when \<^verbatim>\<open>final\<close> throws.\<close>

record crypto =
  cr_scrypt :: "string \<Rightarrow> string \<Rightarrow> bytes"
  cr_cipher :: "bytes \<Rightarrow> bytes \<Rightarrow> string \<Rightarrow> string"
  cr_decipher :: "bytes \<Rightarrow> bytes \<Rightarrow> string \<Rightarrow> string option"

definition encryptionKey :: "crypto \<Rightarrow> string option \<Rightarrow> bytes result" where
  "encryptionKey K envKey =
     (case envKey of
        None \<Rightarrow> Inl (InternalServerErrorException ''ENCRYPTION_KEY must be defined and at least 32 characters long.'')
      | Some k \<Rightarrow>
          if length k < 32
          then Inl (InternalServerErrorException ''ENCRYPTION_KEY must be defined and at least 32 characters long.'')
          else Inr (cr_scrypt K k ''salt''))"

definition encrypt :: "crypto \<Rightarrow> bytes \<Rightarrow> bytes \<Rightarrow> string \<Rightarrow> string" where
  "encrypt K key iv plain = toHex iv @ '':'' @ cr_cipher K key iv plain"

definition decrypt :: "crypto \<Rightarrow> bytes \<Rightarrow> string \<Rightarrow> string result" where
  "decrypt K key encryptedText =
     (case splitOn (CHR '':'') encryptedText of
        [p0, p1] \<Rightarrow>
          if p0 = [] \<or> p1 = [] then Inl (InternalServerErrorException ''Malformed encrypted payload'')
          else
            (let iv = fromHex p0 in
             if length iv \<noteq> 16 then Inl (InternalServerErrorException ''Malformed encryption IV'')
             else (case cr_decipher K key iv p1 of
                     None \<Rightarrow> Inl (JsError ''bad decrypt'') | Some t \<Rightarrow> Inr t))
      | _ \<Rightarrow> Inl (InternalServerErrorException ''Malformed encrypted payload''))"

section \<open>Hexadecimal round trip\<close>

lemma hexVal_hexDigit: "n < 16 \<Longrightarrow> hexVal (hexDigit n) = Some n"
  by (auto simp: hexVal_def hexDigit_def)

lemma colon_not_hex: "n < 16 \<Longrightarrow> hexDigit n \<noteq> CHR '':''"
proof -
  assume "n < 16"
  then have "hexVal (hexDigit n) \<noteq> None" by (simp add: hexVal_hexDigit)
  moreover have "hexVal (CHR '':'') = None" by (simp add: hexVal_def)
  ultimately show ?thesis by metis
qed

lemma fromHex_toHex: "(\<And>b. b \<in> set bs \<Longrightarrow> b < 256) \<Longrightarrow> fromHex (toHex bs) = bs"
proof (induction bs)
  case Nil
  show ?case by (simp add: toHex_def)
next
  case (Cons b bs)
  then have "b div 16 < 16" by (simp add: less_mult_imp_div_less)
  with Cons show ?case by (simp add: toHex_def byteHex_def hexVal_hexDigit)
qed

lemma colon_not_in_toHex: "(\<And>b. b \<in> set bs \<Longrightarrow> b < 256) \<Longrightarrow> CHR '':'' \<notin> set (toHex bs)"
proof (induction bs)
  case Nil
  show ?case by (simp add: toHex_def)
next
  case (Cons b bs)
  then have "b div 16 < 16" by (simp add: less_mult_imp_div_less)
  with Cons colon_not_hex [of "b div 16"] colon_not_hex [of "b mod 16"] show ?case
    by (auto simp: toHex_def byteHex_def dest: sym)
qed

section \<open>The contract of the cipher\<close>

text \<open>What AES-256-CBC with padding promises: the ciphertext is a non-empty string without a colon, and
  deciphering it with the same key and vector gives the text back.\<close>

definition cbc :: "crypto \<Rightarrow> bool" where
  "cbc K \<longleftrightarrow> (\<forall>k iv t. cr_cipher K k iv t \<noteq> [] \<and> CHR '':'' \<notin> set (cr_cipher K k iv t) \<and>
                 cr_decipher K k iv (cr_cipher K k iv t) = Some t)"

text \<open>An instance: the bytes of the text in hexadecimal behind a marker.\<close>

definition hexCipher :: crypto where
  "hexCipher =
     \<lparr>cr_scrypt = (\<lambda>k salt. replicate 32 0),
      cr_cipher = (\<lambda>k iv t. ''00'' @ toHex (map of_char t)),
      cr_decipher = (\<lambda>k iv c. Some (map char_of (fromHex (drop 2 c))))\<rparr>"

lemma hexCipher_cbc: "cbc hexCipher"
proof -
  have "CHR '':'' \<notin> set (toHex (map of_char t)) \<and> fromHex (toHex (map of_char t)) = map of_char t" for t :: string
    by (intro conjI colon_not_in_toHex fromHex_toHex) auto
  then show ?thesis by (simp add: cbc_def hexCipher_def comp_def)
qed

lemma decrypt_encrypted:
  assumes "cbc K" and "length iv = 16" and "\<And>b. b \<in> set iv \<Longrightarrow> b < 256"
  shows "decrypt K k (encrypt K k iv t) = Inr t"
proof -
  have "splitOn (CHR '':'') (encrypt K k iv t) = [toHex iv, cr_cipher K k iv t]"
    using colon_not_in_toHex [OF assms(3)] assms(1)
    by (simp add: encrypt_def splitOn_append splitOn_plain cbc_def)
  moreover have "toHex iv \<noteq> []"
    using assms(2) by (cases iv) (auto simp: toHex_def byteHex_def)
  ultimately show ?thesis
    using assms fromHex_toHex [OF assms(3)] by (simp add: decrypt_def cbc_def Let_def)
qed

section \<open>Properties\<close>

text \<open>Decryption inverts encryption. For a cipher that keeps its contract and any 16-byte vector,
  decrypting an encrypted secret with the same key returns the secret, through the hexadecimal
  \<^verbatim>\<open>iv:ciphertext\<close> format and all its checks.\<close>
theorem decrypt_encrypt:
  assumes "cbc K" and "length iv = 16" and "\<And>b. b \<in> set iv \<Longrightarrow> b < 256"
  shows "decrypt K k (encrypt K k iv t) = Inr t"
  using assms by (rule decrypt_encrypted)

theorem decrypt_encrypt_witness:
  "decrypt hexCipher [1] (encrypt hexCipher [1] [0, 15, 16, 255, 4, 5, 6, 7, 8, 9, 10, 11, 12, 13, 14, 15] ''a:b'') =
     Inr ''a:b''"
  by (rule decrypt_encrypt [OF hexCipher_cbc]) auto

end
