(* ===== verification/Router_Commands.thy ===== *)
theory Router_Commands
  imports Router_Capability Notify Encryption
begin

text \<open>
  The router command queue (\<^verbatim>\<open>router-command.service.ts\<close>), the smart block engine that picks router
  strategies (\<^verbatim>\<open>smart-block-engine.service.ts\<close>), router detection (\<^verbatim>\<open>router-detection.service.ts\<close>) and the
  parent's router operations (\<^verbatim>\<open>router-integration.service.ts\<close>).

  The locale \<open>command_queue\<close> is the contract that this queue shares with the command queue of the child
  devices (theory \<open>Child_Agent\<close>): a poll returns the owner's pending commands and marks exactly those.
\<close>

section \<open>The command queue\<close>

fun showRouterCommandType :: "RouterCommandType \<Rightarrow> string" where
  "showRouterCommandType DETECT = ''DETECT''"
| "showRouterCommandType TEST_CONNECTION = ''TEST_CONNECTION''"
| "showRouterCommandType CHANGE_DNS = ''CHANGE_DNS''"
| "showRouterCommandType PAUSE_DEVICE = ''PAUSE_DEVICE''"
| "showRouterCommandType RESUME_DEVICE = ''RESUME_DEVICE''"
| "showRouterCommandType DISCONNECT_CLIENT = ''DISCONNECT_CLIENT''"
| "showRouterCommandType APPLY_FIREWALL_RULE = ''APPLY_FIREWALL_RULE''"
| "showRouterCommandType REMOVE_FIREWALL_RULE = ''REMOVE_FIREWALL_RULE''"
| "showRouterCommandType BLOCK_MAC = ''BLOCK_MAC''"
| "showRouterCommandType UNBLOCK_MAC = ''UNBLOCK_MAC''"
| "showRouterCommandType END_GAMING_SESSION = ''END_GAMING_SESSION''"
| "showRouterCommandType BLOCK_DEVICE = ''BLOCK_DEVICE''"
| "showRouterCommandType UNBLOCK_DEVICE = ''UNBLOCK_DEVICE''"

definition enqueueCommand_Router ::
  "time \<Rightarrow> ident \<Rightarrow> RouterCommandType \<Rightarrow> json option \<Rightarrow> ident option \<Rightarrow> 'z store_scheme \<Rightarrow>
   RouterCommand \<times> 'z store_scheme" where
  "enqueueCommand_Router now gatewayId ty payload deviceId s =
     (let c = \<lparr>rcm_id = newId s, rcm_gatewayId = gatewayId, rcm_deviceId = deviceId, rcm_type = ty,
               rcm_payload = map_option stringify payload, rcm_status = CMD_PENDING, rcm_resultData = None,
               rcm_createdAt = now, rcm_deliveredAt = None, rcm_ackedAt = None\<rparr>
      in (c, drawId (s\<lparr>routerCommands := routerCommands s @ [c]\<rparr>)))"

definition getPendingCommands ::
  "time \<Rightarrow> ident \<Rightarrow> 'z store_scheme \<Rightarrow> RouterCommand list \<times> 'z store_scheme" where
  "getPendingCommands now gatewayId s =
     (let pending = orderByAsc rcm_createdAt
            (findMany (\<lambda>c. rcm_gatewayId c = gatewayId \<and> rcm_status c = CMD_PENDING) (routerCommands s))
      in if pending = [] then ([], s)
         else (map (\<lambda>c. c\<lparr>rcm_status := CMD_DELIVERED, rcm_deliveredAt := Some now\<rparr>) pending,
               s\<lparr>routerCommands := updateMany (\<lambda>c. rcm_id c \<in> set (map rcm_id pending))
                    (\<lambda>c. c\<lparr>rcm_status := CMD_DELIVERED, rcm_deliveredAt := Some now\<rparr>) (routerCommands s)\<rparr>))"

definition acknowledgeCommand_Router ::
  "time \<Rightarrow> ident \<Rightarrow> ident \<Rightarrow> bool \<Rightarrow> json option \<Rightarrow> 'z store_scheme \<Rightarrow> RouterCommand result \<times> 'z store_scheme" where
  "acknowledgeCommand_Router now gatewayId commandId success resultData s =
     (case owned rcm_gatewayId ''Router command not found'' ''Not your command'' gatewayId
             (findUnique rcm_id commandId (routerCommands s)) of
        Inl e \<Rightarrow> (Inl e, s)
      | Inr c \<Rightarrow>
          (let f = (\<lambda>c. c\<lparr>rcm_status := (if success then CMD_ACKNOWLEDGED else CMD_FAILED),
                          rcm_ackedAt := Some now, rcm_resultData := map_option stringify resultData\<rparr>)
           in (Inr (f c), s\<lparr>routerCommands := updateMany (\<lambda>c. rcm_id c = commandId) f (routerCommands s)\<rparr>)))"

definition listRecentCommands :: "ident \<Rightarrow> nat \<Rightarrow> 'z store_scheme \<Rightarrow> RouterCommand list" where
  "listRecentCommands gatewayId n s =
     take n (orderByDesc rcm_createdAt (findMany (\<lambda>c. rcm_gatewayId c = gatewayId) (routerCommands s)))"

section \<open>Smart block engine\<close>

type_synonym strategy = "RouterCommandType \<times> (RouterCapabilities \<Rightarrow> bool)"

definition STRATEGY_PRIORITY :: "strategy list" where
  "STRATEGY_PRIORITY =
     [(DISCONNECT_CLIENT, supportsClientDisconnect),
      (PAUSE_DEVICE, supportsPauseDevice),
      (APPLY_FIREWALL_RULE, supportsFirewallRules),
      (BLOCK_MAC, supportsMACFiltering),
      (CHANGE_DNS, supportsDNSChange)]"

definition BLOCK_STRATEGY_PRIORITY :: "strategy list" where
  "BLOCK_STRATEGY_PRIORITY =
     [(PAUSE_DEVICE, supportsPauseDevice),
      (APPLY_FIREWALL_RULE, supportsFirewallRules),
      (BLOCK_MAC, supportsMACFiltering)]"

definition buildStrategies :: "string option \<Rightarrow> strategy list \<Rightarrow> RouterCommandType list" where
  "buildStrategies plugin priority = map fst (filter (\<lambda>(t, flag). isSupported plugin flag) priority)"

record StrategyOutcome =
  so_enqueued :: bool
  so_commandId :: "ident option"
  so_strategies :: "RouterCommandType list"
  so_reason :: "string option"

definition logFallbackAudit ::
  "time \<Rightarrow> ident \<Rightarrow> ident \<Rightarrow> RouterCommandType \<Rightarrow> (RouterCommandType \<times> bool) list \<Rightarrow>
   RouterCommandType option \<Rightarrow> string \<Rightarrow> string option \<Rightarrow> 'z store_scheme \<Rightarrow> 'z store_scheme" where
  "logFallbackAudit now gatewayId deviceId requestedAction attempts chosen outcome reason s =
     auditLog now
       \<lparr>ad_userId = None, ad_action = ''enforcement_engine.capability_fallback'', ad_entity = ''device'',
        ad_entityId = Some deviceId,
        ad_details = Some (stringify (JObj
          [(''gatewayId'', JStr gatewayId),
           (''requestedAction'', JStr (showRouterCommandType requestedAction)),
           (''attempts'', JArr (map (\<lambda>(c, supported). JStr (showRouterCommandType c @ '':''
              @ (if supported then ''supported'' else ''unavailable''))) attempts)),
           (''chosen'', nullable (\<lambda>c. JStr (showRouterCommandType c)) chosen),
           (''outcome'', JStr outcome),
           (''reason'', nullable JStr reason)])),
        ad_ipAddress = None\<rparr> s"

definition guideOnlyReason :: string where
  "guideOnlyReason = ''This router has no supported control strategy (Guide Only) '' @ emdash
     @ '' see Supported Features for manual instructions.''"

definition enqueueStrategyCommand ::
  "time \<Rightarrow> ident \<Rightarrow> ident \<Rightarrow> RouterCommandType \<Rightarrow> strategy list \<Rightarrow> 'z store_scheme \<Rightarrow>
   StrategyOutcome \<times> 'z store_scheme" where
  "enqueueStrategyCommand now gatewayId deviceId commandType priority s =
     (let plugin = Option.bind (findRouter s gatewayId) rtr_pluginId;
          attempts = map (\<lambda>(t, flag). (t, isSupported plugin flag)) priority;
          strategies = map fst (filter snd attempts)
      in if strategies = []
         then
           (let reason = (if truthy plugin then guideOnlyReason
                          else ''No router has been detected on this gateway yet.'')
            in (\<lparr>so_enqueued = False, so_commandId = None, so_strategies = [], so_reason = Some reason\<rparr>,
                logFallbackAudit now gatewayId deviceId commandType attempts None ''UNSUPPORTED'' (Some reason) s))
         else
           (case enqueueCommand_Router now gatewayId commandType
                   (Some (JObj [(''deviceId'', JStr deviceId),
                                (''strategies'', JArr (map (\<lambda>t. JStr (showRouterCommandType t)) strategies))]))
                   (Some deviceId) s of
              (command, s1) \<Rightarrow>
                (\<lparr>so_enqueued = True, so_commandId = Some (rcm_id command), so_strategies = strategies,
                  so_reason = None\<rparr>,
                 logFallbackAudit now gatewayId deviceId commandType attempts (Some (hd strategies))
                   ''EXECUTED'' None s1)))"

definition endGamingSession ::
  "time \<Rightarrow> ident \<Rightarrow> ident \<Rightarrow> ident \<Rightarrow> 'z store_scheme \<Rightarrow> StrategyOutcome result \<times> 'z store_scheme" where
  "endGamingSession now parentId gatewayId deviceId s =
     (case owned gwy_parentId ''Gateway not found'' ''Not your gateway'' parentId (findGateway s gatewayId) of
        Inl e \<Rightarrow> (Inl e, s)
      | Inr _ \<Rightarrow>
          (case enqueueStrategyCommand now gatewayId deviceId END_GAMING_SESSION STRATEGY_PRIORITY s of
             (r, s1) \<Rightarrow> (Inr r, s1)))"

definition syncBlockToRouter ::
  "time \<Rightarrow> ident \<Rightarrow> ident \<Rightarrow> 'z store_scheme \<Rightarrow> StrategyOutcome \<times> 'z store_scheme" where
  "syncBlockToRouter now gatewayId deviceId s =
     enqueueStrategyCommand now gatewayId deviceId BLOCK_DEVICE BLOCK_STRATEGY_PRIORITY s"

definition syncUnblockToRouter ::
  "time \<Rightarrow> ident \<Rightarrow> ident \<Rightarrow> 'z store_scheme \<Rightarrow> StrategyOutcome \<times> 'z store_scheme" where
  "syncUnblockToRouter now gatewayId deviceId s =
     enqueueStrategyCommand now gatewayId deviceId UNBLOCK_DEVICE BLOCK_STRATEGY_PRIORITY s"

section \<open>Detection\<close>

record RouterDetectionReport =
  rdr_vendor :: "string option"
  rdr_model :: "string option"
  rdr_firmwareVersion :: "string option"
  rdr_detectionMethod :: "RouterDetectionMethod option"
  rdr_macOui :: "string option"
  rdr_ipAddress :: "string option"
  rdr_hostname :: "string option"
  rdr_confidence :: "int option"

text \<open>A row with the column defaults, and the upsert on the unique column \<^verbatim>\<open>gatewayId\<close>.\<close>

definition blankRouter :: "ident \<Rightarrow> DetectedRouter" where
  "blankRouter gatewayId =
     \<lparr>rtr_gatewayId = gatewayId, rtr_vendor = None, rtr_model = None, rtr_firmwareVersion = None,
      rtr_pluginId = None, rtr_integrationStatus = UNDETECTED, rtr_detectionMethod = None,
      rtr_confidence = None, rtr_macOui = None, rtr_ipAddress = None, rtr_hostname = None,
      rtr_adminCredentialsEncrypted = None, rtr_lastDetectedAt = None, rtr_lastTestedAt = None,
      rtr_lastTestResult = None\<rparr>"

definition upsertRouter ::
  "ident \<Rightarrow> DetectedRouter \<Rightarrow> (DetectedRouter \<Rightarrow> DetectedRouter) \<Rightarrow> 'z store_scheme \<Rightarrow> DetectedRouter \<times> 'z store_scheme" where
  "upsertRouter gatewayId new upd s =
     (case findRouter s gatewayId of
        None \<Rightarrow> (new, s\<lparr>detectedRouters := detectedRouters s @ [new]\<rparr>)
      | Some r \<Rightarrow> (upd r, s\<lparr>detectedRouters := updateMany (\<lambda>r. rtr_gatewayId r = gatewayId) upd (detectedRouters s)\<rparr>))"

definition applyReport ::
  "time \<Rightarrow> RouterDetectionReport \<Rightarrow> string option \<Rightarrow> RouterIntegrationStatus \<Rightarrow> DetectedRouter \<Rightarrow> DetectedRouter" where
  "applyReport now report plugin status r =
     r\<lparr>rtr_vendor := rdr_vendor report, rtr_model := rdr_model report,
       rtr_firmwareVersion := rdr_firmwareVersion report, rtr_pluginId := plugin,
       rtr_integrationStatus := status, rtr_detectionMethod := rdr_detectionMethod report,
       rtr_confidence := rdr_confidence report, rtr_macOui := rdr_macOui report,
       rtr_ipAddress := rdr_ipAddress report, rtr_hostname := rdr_hostname report,
       rtr_lastDetectedAt := Some now\<rparr>"

definition recordDetection ::
  "time \<Rightarrow> ident \<Rightarrow> RouterDetectionReport \<Rightarrow> 'z store_scheme \<Rightarrow> DetectedRouter result \<times> 'z store_scheme" where
  "recordDetection now gatewayId report s =
     (case findGateway s gatewayId of
        None \<Rightarrow> (Inl (NotFoundException ''Gateway not found''), s)
      | Some _ \<Rightarrow>
          (let plugin = resolveVendorNameToPluginId (rdr_vendor report);
               status = (case Option.bind plugin getCapabilities_Database of
                           Some c \<Rightarrow> integrationStatus c | None \<Rightarrow> UNDETECTED)
           in case upsertRouter gatewayId (applyReport now report plugin status (blankRouter gatewayId))
                     (applyReport now report plugin status) s of
                (r, s1) \<Rightarrow> (Inr r, s1)))"

definition getDetectedRouter ::
  "ident \<Rightarrow> ident \<Rightarrow> 'z store_scheme \<Rightarrow> DetectedRouter option result" where
  "getDetectedRouter parentId gatewayId s =
     (case owned gwy_parentId ''Gateway not found'' ''Not your gateway'' parentId (findGateway s gatewayId) of
        Inl e \<Rightarrow> Inl e | Inr _ \<Rightarrow> Inr (findRouter s gatewayId))"

section \<open>Router operations of the parent\<close>

record RouterSetupDto =
  rsd_vendorPluginId :: "string option"
  rsd_username :: "string option"
  rsd_password :: "string option"
  rsd_apiKey :: "string option"

definition assertOwnership :: "ident \<Rightarrow> ident \<Rightarrow> 'z store_scheme \<Rightarrow> Gateway result" where
  "assertOwnership parentId gatewayId s =
     owned gwy_parentId ''Gateway not found'' ''Not your gateway'' parentId (findGateway s gatewayId)"

record RouterFeatures =
  rf_detected :: bool
  rf_capabilities :: "RouterCapabilities option"
  rf_score :: RouterCapabilityScore

definition getFeatures :: "ident \<Rightarrow> ident \<Rightarrow> 'z store_scheme \<Rightarrow> RouterFeatures result" where
  "getFeatures parentId gatewayId s =
     (case assertOwnership parentId gatewayId s of
        Inl e \<Rightarrow> Inl e
      | Inr _ \<Rightarrow>
          (case findRouter s gatewayId of
             None \<Rightarrow> Inr \<lparr>rf_detected = False, rf_capabilities = None, rf_score = computeScore None None\<rparr>
           | Some r \<Rightarrow>
               if \<not> truthy (rtr_pluginId r)
               then Inr \<lparr>rf_detected = False, rf_capabilities = None, rf_score = computeScore None None\<rparr>
               else Inr \<lparr>rf_detected = True, rf_capabilities = getCapabilities (rtr_pluginId r),
                         rf_score = computeScore (getCapabilities (rtr_pluginId r)) (rtr_firmwareVersion r)\<rparr>))"

definition setup_Router ::
  "crypto \<Rightarrow> bytes \<Rightarrow> bytes \<Rightarrow> time \<Rightarrow> ident \<Rightarrow> ident \<Rightarrow> RouterSetupDto \<Rightarrow> 'z store_scheme \<Rightarrow>
   ident result \<times> 'z store_scheme" where
  "setup_Router K key iv now parentId gatewayId dto s =
     (case assertOwnership parentId gatewayId s of
        Inl e \<Rightarrow> (Inl e, s)
      | Inr _ \<Rightarrow>
          (let encrypted = encrypt K key iv (stringify (JObj
                 (optField ''username'' JStr (rsd_username dto) @ optField ''password'' JStr (rsd_password dto)
                  @ optField ''apiKey'' JStr (rsd_apiKey dto))));
               capabilities = (if truthy (rsd_vendorPluginId dto) then getCapabilities (rsd_vendorPluginId dto) else None);
               status = (case capabilities of Some c \<Rightarrow> integrationStatus c | None \<Rightarrow> UNDETECTED);
               s1 = snd (upsertRouter gatewayId
                      ((blankRouter gatewayId)\<lparr>rtr_pluginId := rsd_vendorPluginId dto, rtr_integrationStatus := status,
                         rtr_adminCredentialsEncrypted := Some encrypted\<rparr>)
                      (\<lambda>r. (if truthy (rsd_vendorPluginId dto)
                            then r\<lparr>rtr_pluginId := rsd_vendorPluginId dto, rtr_integrationStatus := status\<rparr>
                            else r)\<lparr>rtr_adminCredentialsEncrypted := Some encrypted\<rparr>) s)
           in case enqueueCommand_Router now gatewayId TEST_CONNECTION (Some (JObj [])) None s1 of
                (command, s2) \<Rightarrow> (Inr (rcm_id command), s2)))"

text \<open>The operations that only queue a command of a type with a payload.\<close>

definition enqueueOwned ::
  "time \<Rightarrow> ident \<Rightarrow> ident \<Rightarrow> RouterCommandType \<Rightarrow> json \<Rightarrow> 'z store_scheme \<Rightarrow> ident result \<times> 'z store_scheme" where
  "enqueueOwned now parentId gatewayId ty payload s =
     (case assertOwnership parentId gatewayId s of
        Inl e \<Rightarrow> (Inl e, s)
      | Inr _ \<Rightarrow> (case enqueueCommand_Router now gatewayId ty (Some payload) None s of
                   (command, s1) \<Rightarrow> (Inr (rcm_id command), s1)))"

definition testConnection :: "time \<Rightarrow> ident \<Rightarrow> ident \<Rightarrow> 'z store_scheme \<Rightarrow> ident result \<times> 'z store_scheme" where
  "testConnection now parentId gatewayId s = enqueueOwned now parentId gatewayId TEST_CONNECTION (JObj []) s"

definition triggerDetection :: "time \<Rightarrow> ident \<Rightarrow> ident \<Rightarrow> 'z store_scheme \<Rightarrow> ident result \<times> 'z store_scheme" where
  "triggerDetection now parentId gatewayId s = enqueueOwned now parentId gatewayId DETECT (JObj []) s"

definition changeDns ::
  "time \<Rightarrow> ident \<Rightarrow> ident \<Rightarrow> string \<Rightarrow> 'z store_scheme \<Rightarrow> ident result \<times> 'z store_scheme" where
  "changeDns now parentId gatewayId dnsServer s =
     enqueueOwned now parentId gatewayId CHANGE_DNS (JObj [(''dnsServer'', JStr dnsServer)]) s"

definition blockMac ::
  "time \<Rightarrow> ident \<Rightarrow> ident \<Rightarrow> string \<Rightarrow> 'z store_scheme \<Rightarrow> ident result \<times> 'z store_scheme" where
  "blockMac now parentId gatewayId macAddress s =
     enqueueOwned now parentId gatewayId BLOCK_MAC (JObj [(''macAddress'', JStr macAddress)]) s"

definition unblockMac ::
  "time \<Rightarrow> ident \<Rightarrow> ident \<Rightarrow> string \<Rightarrow> 'z store_scheme \<Rightarrow> ident result \<times> 'z store_scheme" where
  "unblockMac now parentId gatewayId macAddress s =
     enqueueOwned now parentId gatewayId UNBLOCK_MAC (JObj [(''macAddress'', JStr macAddress)]) s"

text \<open>Diagnostics return the row without its credentials.\<close>

definition getDiagnostics ::
  "ident \<Rightarrow> ident \<Rightarrow> 'z store_scheme \<Rightarrow>
   (DetectedRouter option \<times> RouterCommand list \<times> RouterCapabilityScore) result" where
  "getDiagnostics parentId gatewayId s =
     (case assertOwnership parentId gatewayId s of
        Inl e \<Rightarrow> Inl e
      | Inr _ \<Rightarrow>
          (let router = map_option (\<lambda>r. r\<lparr>rtr_adminCredentialsEncrypted := None\<rparr>) (findRouter s gatewayId);
               plugin = Option.bind router rtr_pluginId;
               capabilities = (if truthy plugin then getCapabilities plugin else None)
           in Inr (router, listRecentCommands gatewayId 20 s,
                   computeScore capabilities (Option.bind router rtr_firmwareVersion))))"

section \<open>The contract of a command queue\<close>

text \<open>Commands with an identifier, an owner that polls, and a status. A poll returns the owner's
  pending commands and changes the status of exactly those rows.\<close>

locale command_queue =
  fixes rows :: "'s \<Rightarrow> 'r list"
    and cid :: "'r \<Rightarrow> ident"
    and belongs :: "'r \<Rightarrow> ident"
    and status :: "'r \<Rightarrow> CommandStatus"
    and poll :: "time \<Rightarrow> ident \<Rightarrow> 's \<Rightarrow> 'r list \<times> 's"
  assumes poll_ids: "set (map cid (fst (poll t g s))) =
      cid ` {r \<in> set (rows s). belongs r = g \<and> status r = CMD_PENDING}"
    and poll_count: "length (fst (poll t g s)) =
      length (filter (\<lambda>r. belongs r = g \<and> status r = CMD_PENDING) (rows s))"
    and poll_length: "length (rows (snd (poll t g s))) = length (rows s)"
    and poll_row: "n < length (rows s) \<Longrightarrow>
      cid (rows (snd (poll t g s)) ! n) = cid (rows s ! n) \<and>
      belongs (rows (snd (poll t g s)) ! n) = belongs (rows s ! n) \<and>
      status (rows (snd (poll t g s)) ! n) =
        (if cid (rows s ! n) \<in> set (map cid (fst (poll t g s))) then CMD_DELIVERED else status (rows s ! n))"
begin

lemma poll_map_ids: "map cid (rows (snd (poll t g s))) = map cid (rows s)"
  by (rule nth_equalityI) (simp_all add: poll_length poll_row)

text \<open>After a poll nothing of the owner is pending, so the next poll returns nothing.\<close>

lemma poll_drains: "r \<in> set (rows (snd (poll t g s))) \<Longrightarrow> belongs r = g \<Longrightarrow> status r \<noteq> CMD_PENDING"
proof -
  assume r: "r \<in> set (rows (snd (poll t g s)))" "belongs r = g"
  then obtain n where n: "n < length (rows s)" "r = rows (snd (poll t g s)) ! n"
    by (auto simp: in_set_conv_nth poll_length)
  show "status r \<noteq> CMD_PENDING"
  proof (cases "status (rows s ! n) = CMD_PENDING")
    case True
    with n r poll_row [OF n(1), of t g] have "rows s ! n \<in> {r \<in> set (rows s). belongs r = g \<and> status r = CMD_PENDING}"
      by auto
    then have "cid (rows s ! n) \<in> set (map cid (fst (poll t g s)))" unfolding poll_ids by blast
    with n poll_row [OF n(1), of t g] show ?thesis by simp
  next
    case False
    with n poll_row [OF n(1), of t g] show ?thesis by auto
  qed
qed

lemma second_poll_empty: "fst (poll t' g (snd (poll t g s))) = []"
proof -
  have "filter (\<lambda>r. belongs r = g \<and> status r = CMD_PENDING) (rows (snd (poll t g s))) = []"
    using poll_drains by (fastforce simp: filter_empty_conv)
  then show ?thesis using poll_count [of t' g "snd (poll t g s)"] by simp
qed

text \<open>With unique identifiers, a poll does not touch a command that is not returned.\<close>

lemma poll_returns_pending: "r \<in> set (rows s) \<Longrightarrow> belongs r = g \<Longrightarrow> status r = CMD_PENDING \<Longrightarrow>
   cid r \<in> set (map cid (fst (poll t g s)))"
  unfolding poll_ids by blast

end

interpretation router_queue: command_queue "routerCommands :: 'z store_scheme \<Rightarrow> _" rcm_id rcm_gatewayId rcm_status
  getPendingCommands
proof
  fix t g and s :: "'z store_scheme"
  let ?P = "\<lambda>r. rcm_gatewayId r = g \<and> rcm_status r = CMD_PENDING"
  show "set (map rcm_id (fst (getPendingCommands t g s))) = rcm_id ` {r \<in> set (routerCommands s). ?P r}"
    by (simp add: getPendingCommands_def Let_def image_image findMany_empty_iff)
  show "length (fst (getPendingCommands t g s)) = length (filter ?P (routerCommands s))"
    by (simp add: getPendingCommands_def Let_def findMany_def)
  show "length (routerCommands (snd (getPendingCommands t g s))) = length (routerCommands s)"
    by (simp add: getPendingCommands_def Let_def)
  fix n assume "n < length (routerCommands s)"
  then show "rcm_id (routerCommands (snd (getPendingCommands t g s)) ! n) = rcm_id (routerCommands s ! n) \<and>
      rcm_gatewayId (routerCommands (snd (getPendingCommands t g s)) ! n) = rcm_gatewayId (routerCommands s ! n) \<and>
      rcm_status (routerCommands (snd (getPendingCommands t g s)) ! n) =
        (if rcm_id (routerCommands s ! n) \<in> set (map rcm_id (fst (getPendingCommands t g s)))
         then CMD_DELIVERED else rcm_status (routerCommands s ! n))"
    by (simp add: getPendingCommands_def Let_def nth_updateMany image_image)
qed

section \<open>Runs of the router queue\<close>

datatype router_op =
    REnqueue ident RouterCommandType "json option" "ident option"
  | RPoll ident
  | RAck ident ident bool "json option"

text \<open>The identifiers that the polls of a sequence of operations hand to the gateways, in order.\<close>

fun router_trace :: "(time \<times> router_op) list \<Rightarrow> 'z store_scheme \<Rightarrow> ident list" where
  "router_trace [] s = []"
| "router_trace ((t, REnqueue g ty payload dev) # ops) s =
     router_trace ops (snd (enqueueCommand_Router t g ty payload dev s))"
| "router_trace ((t, RPoll g) # ops) s =
     map rcm_id (fst (getPendingCommands t g s)) @ router_trace ops (snd (getPendingCommands t g s))"
| "router_trace ((t, RAck g i ok res) # ops) s =
     router_trace ops (snd (acknowledgeCommand_Router t g i ok res s))"

definition pendingIds :: "'z store_scheme \<Rightarrow> ident set" where
  "pendingIds s = rcm_id ` {r \<in> set (routerCommands s). rcm_status r = CMD_PENDING}"

definition freshIds :: "'z store_scheme \<Rightarrow> ident set" where
  "freshIds s = {db_uuid s n | n. db_next s \<le> n}"

definition router_ids_ok :: "'z store_scheme \<Rightarrow> bool" where
  "router_ids_ok s \<longleftrightarrow> inj (db_uuid s) \<and> distinct (map rcm_id (routerCommands s)) \<and>
     rcm_id ` set (routerCommands s) \<inter> freshIds s = {}"

lemma router_ids_enqueue:
  assumes "router_ids_ok s"
  shows "router_ids_ok (snd (enqueueCommand_Router t g ty payload dev s)) \<and>
         pendingIds (snd (enqueueCommand_Router t g ty payload dev s)) \<union>
           freshIds (snd (enqueueCommand_Router t g ty payload dev s)) \<subseteq> pendingIds s \<union> freshIds s"
proof -
  have new: "db_uuid s (db_next s) \<in> freshIds s" by (auto simp: freshIds_def)
  have "db_uuid s (db_next s) \<notin> {db_uuid s n | n. db_next s + 1 \<le> n}"
    using assms by (auto simp: router_ids_ok_def inj_eq)
  moreover have "{db_uuid s n | n. db_next s + 1 \<le> n} \<subseteq> freshIds s" by (auto simp: freshIds_def)
  ultimately show ?thesis
    using assms new
    by (auto simp: router_ids_ok_def enqueueCommand_Router_def Let_def newId_def drawId_def pendingIds_def freshIds_def)
qed

lemma router_ids_ack:
  assumes "router_ids_ok s"
  shows "router_ids_ok (snd (acknowledgeCommand_Router t g i ok res s)) \<and>
         pendingIds (snd (acknowledgeCommand_Router t g i ok res s)) \<union>
           freshIds (snd (acknowledgeCommand_Router t g i ok res s)) \<subseteq> pendingIds s \<union> freshIds s"
  using assms
  by (auto simp: router_ids_ok_def acknowledgeCommand_Router_def Let_def pendingIds_def freshIds_def
      in_updateMany_iff split: sum.splits if_splits)

lemma polled_ids:
  "set (map rcm_id (fst (getPendingCommands t g s))) \<subseteq> pendingIds s"
  unfolding router_queue.poll_ids pendingIds_def by blast

lemma router_ids_poll:
  assumes "router_ids_ok s"
  shows "router_ids_ok (snd (getPendingCommands t g s)) \<and>
         freshIds (snd (getPendingCommands t g s)) = freshIds s \<and>
         pendingIds (snd (getPendingCommands t g s)) \<subseteq>
           pendingIds s - set (map rcm_id (fst (getPendingCommands t g s)))"
proof -
  have f: "db_uuid (snd (getPendingCommands t g s)) = db_uuid s" "db_next (snd (getPendingCommands t g s)) = db_next s"
    by (simp_all add: getPendingCommands_def Let_def)
  have "rcm_id r \<in> pendingIds s - set (map rcm_id (fst (getPendingCommands t g s)))"
    if "r \<in> set (routerCommands (snd (getPendingCommands t g s)))" "rcm_status r = CMD_PENDING" for r
  proof -
    from that obtain n where n: "n < length (routerCommands s)"
      "r = routerCommands (snd (getPendingCommands t g s)) ! n"
      by (auto simp: in_set_conv_nth router_queue.poll_length)
    with that router_queue.poll_row [OF n(1), of t g] show ?thesis
      by (auto simp: pendingIds_def split: if_splits)
  qed
  moreover have "rcm_id ` set (routerCommands (snd (getPendingCommands t g s))) = rcm_id ` set (routerCommands s)"
    using router_queue.poll_map_ids [of t g s] by (metis set_map)
  ultimately show ?thesis
    using assms by (auto simp: router_ids_ok_def freshIds_def f router_queue.poll_map_ids pendingIds_def)
qed

lemma distinct_polled:
  assumes "distinct (map rcm_id (routerCommands s))"
  shows "distinct (map rcm_id (fst (getPendingCommands t g s)))"
proof -
  have "distinct (map rcm_id (sort_key rcm_createdAt (filter P (routerCommands s))))" for P
    using distinct_map_filter [OF assms] by (simp add: distinct_map)
  then show ?thesis
    by (auto simp: getPendingCommands_def Let_def orderByAsc_def findMany_def comp_def)
qed

lemma router_trace_once:
  "router_ids_ok s \<Longrightarrow> distinct (router_trace ops s) \<and> set (router_trace ops s) \<subseteq> pendingIds s \<union> freshIds s"
proof (induction ops s rule: router_trace.induct)
  case (2 t g ty payload dev ops s)
  then show ?case using router_ids_enqueue [OF 2(2), of t g ty payload dev] by auto
next
  case (3 t g ops s)
  note p = router_ids_poll [OF 3(2), of t g]
  have "distinct (map rcm_id (fst (getPendingCommands t g s)))"
    using 3(2) by (intro distinct_polled) (simp add: router_ids_ok_def)
  moreover have "pendingIds s \<inter> freshIds s = {}"
    using 3(2) by (auto simp: router_ids_ok_def pendingIds_def)
  moreover have "distinct (router_trace ops (snd (getPendingCommands t g s)))"
    "set (router_trace ops (snd (getPendingCommands t g s))) \<subseteq>
       (pendingIds s - set (map rcm_id (fst (getPendingCommands t g s)))) \<union> freshIds s"
    using 3(1) p by blast+
  ultimately show ?case
    using polled_ids [of t g s] unfolding router_trace.simps distinct_append set_append by blast
next
  case (4 t g i ok res ops s)
  then show ?case using router_ids_ack [OF 4(2), of t g i ok res] by auto
qed simp

section \<open>What the smart block engine queues\<close>

lemma strategies_eq:
  "map fst (filter snd (map (\<lambda>(t, flag). (t, isSupported plugin flag)) priority)) = buildStrategies plugin priority"
  by (induction priority) (auto simp: buildStrategies_def)

lemma enqueueStrategy_outcome:
  fixes s :: "'z store_scheme"
  defines "plugin \<equiv> \<lambda>g (s :: 'z store_scheme). Option.bind (findRouter s g) rtr_pluginId"
  shows "so_strategies (fst (enqueueStrategyCommand now g d ty priority s)) = buildStrategies (plugin g s) priority \<and>
         so_enqueued (fst (enqueueStrategyCommand now g d ty priority s)) = (buildStrategies (plugin g s) priority \<noteq> []) \<and>
         (so_enqueued (fst (enqueueStrategyCommand now g d ty priority s)) \<longrightarrow>
            (\<exists>c. routerCommands (snd (enqueueStrategyCommand now g d ty priority s)) = routerCommands s @ [c] \<and>
               rcm_gatewayId c = g \<and> rcm_deviceId c = Some d \<and> rcm_type c = ty \<and> rcm_status c = CMD_PENDING \<and>
               so_commandId (fst (enqueueStrategyCommand now g d ty priority s)) = Some (rcm_id c))) \<and>
         (\<not> so_enqueued (fst (enqueueStrategyCommand now g d ty priority s)) \<longrightarrow>
            routerCommands (snd (enqueueStrategyCommand now g d ty priority s)) = routerCommands s \<and>
            so_reason (fst (enqueueStrategyCommand now g d ty priority s)) \<noteq> None) \<and>
         length (auditLogs (snd (enqueueStrategyCommand now g d ty priority s))) = Suc (length (auditLogs s))"
  unfolding plugin_def enqueueStrategyCommand_def Let_def strategies_eq
  by (simp add: logFallbackAudit_def auditLog_def enqueueCommand_Router_def Let_def)

lemma enqueueStrategy_frame [frame_simps, simp]:
  "devices (snd (enqueueStrategyCommand now g d ty priority s)) = devices s"
  "sessions (snd (enqueueStrategyCommand now g d ty priority s)) = sessions s"
  "gateways (snd (enqueueStrategyCommand now g d ty priority s)) = gateways s"
  "blockedDomains (snd (enqueueStrategyCommand now g d ty priority s)) = blockedDomains s"
  "categoryBlocks (snd (enqueueStrategyCommand now g d ty priority s)) = categoryBlocks s"
  "detectedRouters (snd (enqueueStrategyCommand now g d ty priority s)) = detectedRouters s"
  "commands (snd (enqueueStrategyCommand now g d ty priority s)) = commands s"
  "children (snd (enqueueStrategyCommand now g d ty priority s)) = children s"
  "rules (snd (enqueueStrategyCommand now g d ty priority s)) = rules s"
  "notifications (snd (enqueueStrategyCommand now g d ty priority s)) = notifications s"
  by (simp_all add: enqueueStrategyCommand_def Let_def logFallbackAudit_def enqueueCommand_Router_def)

interpretation endGaming_guard: owner_guarded findGateway gwy_parentId "''Gateway not found''" "''Not your gateway''"
  "\<lambda>g p. endGamingSession now p g d" for now d
  by unfold_locales (simp add: endGamingSession_def)

interpretation setup_guard: owner_guarded findGateway gwy_parentId "''Gateway not found''" "''Not your gateway''"
  "\<lambda>g p. setup_Router K key iv now p g dto" for K key iv now dto
  by unfold_locales (simp add: setup_Router_def assertOwnership_def)

interpretation enqueue_guard: owner_guarded findGateway gwy_parentId "''Gateway not found''" "''Not your gateway''"
  "\<lambda>g p. enqueueOwned now p g ty payload" for now ty payload
  by unfold_locales (simp add: enqueueOwned_def assertOwnership_def)

section \<open>Properties\<close>

text \<open>C12: Router commands are delivered at most once. Over any sequence of enqueues, polls and
  acknowledgements by any gateways, no command identifier is handed out by two polls (nor twice by
  one), and each one handed out was pending before or was enqueued in the sequence.\<close>
theorem router_at_most_once:
  assumes "inj (db_uuid s)" and "distinct (map rcm_id (routerCommands s))"
    and "rcm_id ` set (routerCommands s) \<inter> freshIds s = {}"
  shows "distinct (router_trace ops s) \<and> set (router_trace ops s) \<subseteq> pendingIds s \<union> freshIds s"
  using router_trace_once [of s ops] assms by (simp add: router_ids_ok_def)

definition tape :: "nat \<Rightarrow> ident" where "tape n = replicate n (CHR ''x'')"

theorem router_at_most_once_witness:
  "distinct (router_trace [(0, REnqueue ''g'' DETECT None None), (1, RPoll ''g''), (2, RPoll ''g'')] (emptyStore tape)) \<and>
   router_trace [(0, REnqueue ''g'' DETECT None None), (1, RPoll ''g''), (2, RPoll ''g'')] (emptyStore tape) = [[]]"
proof
  show "distinct (router_trace [(0, REnqueue ''g'' DETECT None None), (1, RPoll ''g''), (2, RPoll ''g'')] (emptyStore tape))"
    using router_at_most_once [of "emptyStore tape" "[(0, REnqueue ''g'' DETECT None None), (1, RPoll ''g''), (2, RPoll ''g'')]"]
    by (simp add: emptyStore_def inj_def tape_def)
  show "router_trace [(0, REnqueue ''g'' DETECT None None), (1, RPoll ''g''), (2, RPoll ''g'')] (emptyStore tape) = [[]]"
    by (simp add: emptyStore_def tape_def enqueueCommand_Router_def getPendingCommands_def newId_def drawId_def
        Let_def orderByAsc_def)
qed

text \<open>A poll drains the queue. It returns every pending command of the gateway, and the next poll
  at any time returns nothing unless something was enqueued in between.\<close>
theorem getPendingCommands_drains:
  "set (map rcm_id (fst (getPendingCommands t g s))) =
     rcm_id ` {r \<in> set (routerCommands s). rcm_gatewayId r = g \<and> rcm_status r = CMD_PENDING} \<and>
   fst (getPendingCommands t' g (snd (getPendingCommands t g s))) = []"
  using router_queue.poll_ids router_queue.second_poll_empty by blast

text \<open>A router block is always a real, per-device strategy. \<open>syncBlockToRouter\<close> queues one pending
  \<open>BLOCK_DEVICE\<close> command exactly when the detected router supports a strategy; then the router has an
  official API and the strategies are among pause, firewall rule and MAC filter, never the
  router-wide DNS change or a transient disconnect. Otherwise nothing is queued and a reason is
  returned; either way one audit entry is written.\<close>
theorem syncBlock_strategies:
  fixes s :: "'z store_scheme"
  shows "set (so_strategies (fst (syncBlockToRouter now g d s))) \<subseteq> {PAUSE_DEVICE, APPLY_FIREWALL_RULE, BLOCK_MAC} \<and>
   (if so_enqueued (fst (syncBlockToRouter now g d s))
    then (\<exists>r c. findRouter s g = Some r \<and> getCapabilities (rtr_pluginId r) = Some c \<and> integrationStatus c = OFFICIAL_API) \<and>
         (\<exists>q. routerCommands (snd (syncBlockToRouter now g d s)) = routerCommands s @ [q] \<and> rcm_gatewayId q = g \<and>
              rcm_deviceId q = Some d \<and> rcm_type q = BLOCK_DEVICE \<and> rcm_status q = CMD_PENDING)
    else routerCommands (snd (syncBlockToRouter now g d s)) = routerCommands s \<and>
         so_reason (fst (syncBlockToRouter now g d s)) \<noteq> None) \<and>
   length (auditLogs (snd (syncBlockToRouter now g d s))) = Suc (length (auditLogs s))"
proof -
  note o = enqueueStrategy_outcome [of now g d BLOCK_DEVICE BLOCK_STRATEGY_PRIORITY s]
  let ?plugin = "Option.bind (findRouter s g) rtr_pluginId"
  have sub: "set (buildStrategies ?plugin BLOCK_STRATEGY_PRIORITY) \<subseteq> {PAUSE_DEVICE, APPLY_FIREWALL_RULE, BLOCK_MAC}"
    by (auto simp: buildStrategies_def BLOCK_STRATEGY_PRIORITY_def)
  have "\<exists>r c. findRouter s g = Some r \<and> getCapabilities (rtr_pluginId r) = Some c \<and> integrationStatus c = OFFICIAL_API"
    if "buildStrategies ?plugin BLOCK_STRATEGY_PRIORITY \<noteq> []"
  proof -
    from that obtain flag where fl: "isSupported ?plugin flag"
      "flag \<in> {supportsDNSChange, supportsFirewallRules, supportsPauseDevice, supportsClientDisconnect, supportsMACFiltering}"
      by (auto simp: buildStrategies_def BLOCK_STRATEGY_PRIORITY_def split: if_splits)
    from isSupported_official [OF this] show ?thesis
      by (cases "findRouter s g") (auto simp: getCapabilities_def)
  qed
  with o sub show ?thesis by (auto simp: syncBlockToRouter_def)
qed

end
