(* ===== verification/Rules.thy ===== *)
theory Rules
  imports Schema
begin

text \<open>
  Screen-time rules of a child (\<^verbatim>\<open>rules.service.ts\<close>): creation and changes by the owning parent, and
  the daily limit that sessions are checked against.
\<close>

record CreateRuleDto =
  crd_childId :: ident
  crd_type :: RuleType
  crd_value :: string
  crd_startTime :: "string option"
  crd_endTime :: "string option"
  crd_daysOfWeek :: "string option"
  crd_blockedApps :: "string list option"
  crd_blockedCategories :: "string list option"
  crd_extraMinutes :: "int option"

record UpdateRuleDto =
  urd_value :: "string option"
  urd_startTime :: "string option"
  urd_endTime :: "string option"
  urd_daysOfWeek :: "string option"
  urd_blockedApps :: "string list option"
  urd_blockedCategories :: "string list option"
  urd_extraMinutes :: "int option"
  urd_active :: "bool option"

definition assertChildOwnership_Rules :: "ident \<Rightarrow> ident \<Rightarrow> 'z store_scheme \<Rightarrow> Child result" where
  "assertChildOwnership_Rules parentId childId s =
     owned chd_parentId ''Child not found'' ''Not your child'' parentId (findChild s childId)"

definition create_Rule ::
  "ident \<Rightarrow> CreateRuleDto \<Rightarrow> 'z store_scheme \<Rightarrow> Rule result \<times> 'z store_scheme" where
  "create_Rule parentId dto s =
     (case assertChildOwnership_Rules parentId (crd_childId dto) s of
        Inl e \<Rightarrow> (Inl e, s)
      | Inr _ \<Rightarrow>
          let r = \<lparr>rul_id = newId s, rul_childId = crd_childId dto, rul_type = crd_type dto,
                   rul_value = crd_value dto, rul_startTime = crd_startTime dto,
                   rul_endTime = crd_endTime dto, rul_daysOfWeek = crd_daysOfWeek dto,
                   rul_blockedApps = patch (crd_blockedApps dto) [],
                   rul_blockedCategories = patch (crd_blockedCategories dto) [],
                   rul_extraMinutes = crd_extraMinutes dto, rul_active = True\<rparr>
          in (Inr r, drawId (s\<lparr>rules := rules s @ [r]\<rparr>)))"

definition findByChild_Rules :: "ident \<Rightarrow> 'z store_scheme \<Rightarrow> Rule list" where
  "findByChild_Rules childId s = findMany (\<lambda>r. rul_childId r = childId \<and> rul_active r) (rules s)"

text \<open>The parent of a rule is the parent of its child.\<close>

definition ruleParent :: "'z store_scheme \<Rightarrow> Rule \<Rightarrow> ident option" where
  "ruleParent s r = map_option chd_parentId (findChild s (rul_childId r))"

definition findAll_Rules :: "ident \<Rightarrow> 'z store_scheme \<Rightarrow> Rule list" where
  "findAll_Rules parentId s = findMany (\<lambda>r. ruleParent s r = Some parentId) (rules s)"

definition findOne_Rule :: "ident \<Rightarrow> 'z store_scheme \<Rightarrow> Rule result" where
  "findOne_Rule i s =
     (case findUnique rul_id i (rules s) of
        None \<Rightarrow> Inl (NotFoundException ''Rule not found'') | Some r \<Rightarrow> Inr r)"

definition findOwnedOrThrow_Rule :: "ident \<Rightarrow> ident \<Rightarrow> 'z store_scheme \<Rightarrow> Rule result" where
  "findOwnedOrThrow_Rule parentId i s =
     (case findOne_Rule i s of
        Inl e \<Rightarrow> Inl e
      | Inr r \<Rightarrow> if ruleParent s r \<noteq> Some parentId then Inl (ForbiddenException ''Not your rule'') else Inr r)"

definition applyUpdateRule :: "UpdateRuleDto \<Rightarrow> Rule \<Rightarrow> Rule" where
  "applyUpdateRule dto r =
     r\<lparr>rul_value := patch (urd_value dto) (rul_value r),
       rul_startTime := patchOpt (urd_startTime dto) (rul_startTime r),
       rul_endTime := patchOpt (urd_endTime dto) (rul_endTime r),
       rul_daysOfWeek := patchOpt (urd_daysOfWeek dto) (rul_daysOfWeek r),
       rul_blockedApps := patch (urd_blockedApps dto) (rul_blockedApps r),
       rul_blockedCategories := patch (urd_blockedCategories dto) (rul_blockedCategories r),
       rul_extraMinutes := patchOpt (urd_extraMinutes dto) (rul_extraMinutes r),
       rul_active := patch (urd_active dto) (rul_active r)\<rparr>"

definition update_Rule ::
  "ident \<Rightarrow> ident \<Rightarrow> UpdateRuleDto \<Rightarrow> 'z store_scheme \<Rightarrow> Rule result \<times> 'z store_scheme" where
  "update_Rule parentId i dto s =
     (case findOwnedOrThrow_Rule parentId i s of
        Inl e \<Rightarrow> (Inl e, s)
      | Inr r \<Rightarrow> (Inr (applyUpdateRule dto r),
                 s\<lparr>rules := updateMany (\<lambda>x. rul_id x = i) (applyUpdateRule dto) (rules s)\<rparr>))"

definition remove_Rule :: "ident \<Rightarrow> ident \<Rightarrow> 'z store_scheme \<Rightarrow> unit result \<times> 'z store_scheme" where
  "remove_Rule parentId i s =
     (case findOwnedOrThrow_Rule parentId i s of
        Inl e \<Rightarrow> (Inl e, s)
      | Inr r \<Rightarrow> (Inr (), s\<lparr>rules := deleteMany (\<lambda>x. rul_id x = i) (rules s)\<rparr>))"

text \<open>The daily limit of a child: \<open>None\<close> without an active \<^verbatim>\<open>DAILY_LIMIT\<close> rule (\<^verbatim>\<open>null\<close>), \<open>Some None\<close>
  when the first one does not parse (\<^verbatim>\<open>NaN\<close>).\<close>

definition getDailyLimit :: "ident \<Rightarrow> 'z store_scheme \<Rightarrow> int option option" where
  "getDailyLimit childId s =
     (case findFirst (\<lambda>r. rul_childId r = childId \<and> rul_type r = DAILY_LIMIT \<and> rul_active r) (rules s) of
        None \<Rightarrow> None
      | Some r \<Rightarrow> Some (parseInt10 (rul_value r)))"

definition getActiveRulesForChild :: "ident \<Rightarrow> 'z store_scheme \<Rightarrow> Rule list" where
  "getActiveRulesForChild childId s = findMany (\<lambda>r. rul_childId r = childId \<and> rul_active r) (rules s)"

lemma rul_id_applyUpdateRule [simp]: "rul_id (applyUpdateRule dto r) = rul_id r"
  by (simp add: applyUpdateRule_def)

text \<open>A limit that a parent creates is the limit that later sessions see, when it is the first.\<close>

lemma getDailyLimit_create:
  assumes "findChild s c = Some ch" "chd_parentId ch = p" "getDailyLimit c s = None"
    and "crd_childId dto = c" "crd_type dto = DAILY_LIMIT" "crd_value dto = showInt n"
  shows "getDailyLimit c (snd (create_Rule p dto s)) = Some (Some n)"
proof -
  have none: "findFirst (\<lambda>r. rul_childId r = c \<and> rul_type r = DAILY_LIMIT \<and> rul_active r) (rules s) = None"
    using assms(3) by (auto simp: getDailyLimit_def split: option.splits)
  show ?thesis
    using assms none
    by (auto simp: getDailyLimit_def create_Rule_def assertChildOwnership_Rules_def owned_def
        Let_def findFirst_append parseInt10_showInt)
qed

lemma rules_frame [frame_simps, simp]:
  "sessions (snd (create_Rule p dto s)) = sessions s"
  "devices (snd (create_Rule p dto s)) = devices s"
  "sessions (snd (update_Rule p i u s)) = sessions s"
  "devices (snd (update_Rule p i u s)) = devices s"
  by (simp_all add: create_Rule_def update_Rule_def Let_def split: sum.splits)

end
