(* ===== verification/Sessions.thy ===== *)
theory Sessions
  imports Rules
begin

text \<open>
  Timed screen sessions (\<^verbatim>\<open>sessions.service.ts\<close>): start, pause, resume, extend, stop, expire, violate,
  the remaining-time calculation and the minutes used today. Every operation is a function of the
  clock \<open>now\<close> and the store. The section on runs gives the operations as a step relation and the
  invariants of the sessions table.
\<close>

record StartSessionDto =
  ssd_deviceId :: ident
  ssd_durationMinutes :: int

record ExtendSessionDto =
  esd_extraMinutes :: int

section \<open>Operations\<close>

definition calculateElapsedMinutes :: "time \<Rightarrow> time \<Rightarrow> time option \<Rightarrow> int" where
  "calculateElapsedMinutes now startedAt resumedAt =
     (let referencePoint = patch resumedAt startedAt in (now - referencePoint) div 60000)"

definition calculateRemainingMinutes :: "time \<Rightarrow> Session \<Rightarrow> int" where
  "calculateRemainingMinutes now x =
     (if ses_status x = PAUSED
      then ses_durationMinutes x + ses_extendedMinutes x
             - calculateElapsedMinutes now (ses_startedAt x) (ses_resumedAt x)
      else if ses_status x \<noteq> ACTIVE then 0
      else max 0 (ses_durationMinutes x + ses_extendedMinutes x
             - calculateElapsedMinutes now (ses_startedAt x) (ses_resumedAt x)))"

definition getUsedMinutesToday :: "int \<Rightarrow> time \<Rightarrow> ident \<Rightarrow> 'z store_scheme \<Rightarrow> int" where
  "getUsedMinutesToday tz now childId s =
     sum_list (map (\<lambda>x. ses_durationMinutes x + ses_extendedMinutes x - ses_remainingMinutes x)
       (findMany (\<lambda>x. ses_childId x = childId \<and> startOfDay tz now \<le> ses_startedAt x \<and>
                      ses_status x \<in> {ACTIVE, PAUSED, STOPPED, EXPIRED}) (sessions s)))"

definition getAndValidate :: "ident \<Rightarrow> ident \<Rightarrow> 'z store_scheme \<Rightarrow> Session result" where
  "getAndValidate sessionId parentId s =
     owned ses_parentId ''Session not found'' ''Not your session'' parentId (findSession s sessionId)"

text \<open>The row that \<open>start\<close> inserts.\<close>

definition newSession :: "time \<Rightarrow> ident \<Rightarrow> ident \<Rightarrow> ident \<Rightarrow> ident \<Rightarrow> int \<Rightarrow> Session" where
  "newSession now i deviceId childId parentId mins =
     \<lparr>ses_id = i, ses_deviceId = deviceId, ses_childId = childId, ses_parentId = parentId,
      ses_status = ACTIVE, ses_startedAt = now, ses_pausedAt = None, ses_resumedAt = None,
      ses_stoppedAt = None, ses_expiredAt = None, ses_durationMinutes = mins,
      ses_remainingMinutes = mins, ses_extendedMinutes = 0, ses_violated = False,
      ses_activeApp = None\<rparr>"

definition start ::
  "int \<Rightarrow> time \<Rightarrow> ident \<Rightarrow> StartSessionDto \<Rightarrow> 'z store_scheme \<Rightarrow> Session result \<times> 'z store_scheme" where
  "start tz now parentId dto s =
     (case owned dev_parentId ''Device not found'' ''Not your device'' parentId (findDevice s (ssd_deviceId dto)) of
        Inl e \<Rightarrow> (Inl e, s)
      | Inr device \<Rightarrow>
          (case dev_childId device of
             None \<Rightarrow> (Inl (BadRequestException ''Device not assigned to a child''), s)
           | Some childId \<Rightarrow>
               if findFirst (\<lambda>x. ses_deviceId x = ssd_deviceId dto \<and> ses_status x = ACTIVE) (sessions s) \<noteq> None
               then (Inl (BadRequestException ''Device already has an active session''), s)
               else
                 (let usedToday = getUsedMinutesToday tz now childId s;
                      exceeded = (case getDailyLimit childId s of
                                    None \<Rightarrow> None
                                  | Some None \<Rightarrow> None
                                  | Some (Some dailyLimit) \<Rightarrow>
                                      if usedToday + ssd_durationMinutes dto > dailyLimit
                                      then Some dailyLimit else None)
                  in case exceeded of
                       Some dailyLimit \<Rightarrow>
                         (Inl (BadRequestException (''Daily limit exceeded. Used '' @ showInt usedToday
                                 @ ''/'' @ showInt dailyLimit @ '' minutes today.'')), s)
                     | None \<Rightarrow>
                         (let x = newSession now (newId s) (ssd_deviceId dto) childId parentId
                                    (ssd_durationMinutes dto)
                          in (Inr x, drawId (s\<lparr>sessions := sessions s @ [x]\<rparr>))))))"

text \<open>\<^verbatim>\<open>prisma.session.update\<close> on a session that was just read.\<close>

definition writeSession ::
  "ident \<Rightarrow> (Session \<Rightarrow> Session) \<Rightarrow> Session \<Rightarrow> 'z store_scheme \<Rightarrow> Session result \<times> 'z store_scheme" where
  "writeSession i f x s = (Inr (f x), updateSession i f s)"

definition pause :: "time \<Rightarrow> ident \<Rightarrow> ident \<Rightarrow> 'z store_scheme \<Rightarrow> Session result \<times> 'z store_scheme" where
  "pause now sessionId parentId s =
     (case getAndValidate sessionId parentId s of
        Inl e \<Rightarrow> (Inl e, s)
      | Inr x \<Rightarrow>
          if ses_status x \<noteq> ACTIVE then (Inl (BadRequestException ''Session is not active''), s)
          else
            (let elapsed = calculateElapsedMinutes now (ses_startedAt x) (ses_resumedAt x);
                 remaining = max 0 (ses_durationMinutes x + ses_extendedMinutes x - elapsed)
             in writeSession sessionId
                  (\<lambda>x. x\<lparr>ses_status := PAUSED, ses_pausedAt := Some now, ses_remainingMinutes := remaining\<rparr>) x s))"

definition resume :: "time \<Rightarrow> ident \<Rightarrow> ident \<Rightarrow> 'z store_scheme \<Rightarrow> Session result \<times> 'z store_scheme" where
  "resume now sessionId parentId s =
     (case getAndValidate sessionId parentId s of
        Inl e \<Rightarrow> (Inl e, s)
      | Inr x \<Rightarrow>
          if ses_status x \<noteq> PAUSED then (Inl (BadRequestException ''Session is not paused''), s)
          else writeSession sessionId (\<lambda>x. x\<lparr>ses_status := ACTIVE, ses_resumedAt := Some now\<rparr>) x s)"

definition extend_Session ::
  "ident \<Rightarrow> ident \<Rightarrow> ExtendSessionDto \<Rightarrow> 'z store_scheme \<Rightarrow> Session result \<times> 'z store_scheme" where
  "extend_Session sessionId parentId dto s =
     (case getAndValidate sessionId parentId s of
        Inl e \<Rightarrow> (Inl e, s)
      | Inr x \<Rightarrow>
          if ses_status x \<noteq> ACTIVE \<and> ses_status x \<noteq> PAUSED
          then (Inl (BadRequestException ''Session is not active or paused''), s)
          else writeSession sessionId
                 (\<lambda>y. y\<lparr>ses_extendedMinutes := ses_extendedMinutes x + esd_extraMinutes dto,
                        ses_remainingMinutes := ses_remainingMinutes x + esd_extraMinutes dto\<rparr>) x s)"

definition stop :: "time \<Rightarrow> ident \<Rightarrow> ident \<Rightarrow> 'z store_scheme \<Rightarrow> Session result \<times> 'z store_scheme" where
  "stop now sessionId parentId s =
     (case getAndValidate sessionId parentId s of
        Inl e \<Rightarrow> (Inl e, s)
      | Inr x \<Rightarrow>
          if ses_status x = STOPPED then (Inl (BadRequestException ''Session already stopped''), s)
          else writeSession sessionId
                 (\<lambda>x. x\<lparr>ses_status := STOPPED, ses_stoppedAt := Some now, ses_remainingMinutes := 0\<rparr>) x s)"

definition expire :: "time \<Rightarrow> ident \<Rightarrow> 'z store_scheme \<Rightarrow> Session result \<times> 'z store_scheme" where
  "expire now sessionId s =
     (case findSession s sessionId of
        None \<Rightarrow> (Inl (NotFoundException ''Session not found''), s)
      | Some x \<Rightarrow> writeSession sessionId
                   (\<lambda>x. x\<lparr>ses_status := EXPIRED, ses_expiredAt := Some now, ses_remainingMinutes := 0\<rparr>) x s)"

definition markViolated :: "ident \<Rightarrow> 'z store_scheme \<Rightarrow> Session result \<times> 'z store_scheme" where
  "markViolated sessionId s =
     (case findSession s sessionId of
        None \<Rightarrow> (Inl PrismaRecordNotFound, s)
      | Some x \<Rightarrow> writeSession sessionId (\<lambda>x. x\<lparr>ses_violated := True, ses_status := VIOLATED\<rparr>) x s)"

definition getActiveSessions :: "ident \<Rightarrow> 'z store_scheme \<Rightarrow> Session list" where
  "getActiveSessions parentId s =
     findMany (\<lambda>x. ses_parentId x = parentId \<and> ses_status x = ACTIVE) (sessions s)"

definition getHistory :: "ident \<Rightarrow> 'z store_scheme \<Rightarrow> Session list" where
  "getHistory parentId s =
     take 50 (orderByDesc ses_startedAt
       (findMany (\<lambda>x. ses_parentId x = parentId \<and> ses_status x \<in> {STOPPED, EXPIRED, VIOLATED}) (sessions s)))"

section \<open>Ownership\<close>

interpretation pause_guard: owner_guarded findSession ses_parentId
  "''Session not found''" "''Not your session''" "\<lambda>i p. pause now i p" for now
  by unfold_locales (simp add: pause_def getAndValidate_def)

interpretation resume_guard: owner_guarded findSession ses_parentId
  "''Session not found''" "''Not your session''" "\<lambda>i p. resume now i p" for now
  by unfold_locales (simp add: resume_def getAndValidate_def)

interpretation extend_guard: owner_guarded findSession ses_parentId
  "''Session not found''" "''Not your session''" "\<lambda>i p. extend_Session i p dto" for dto
  by unfold_locales (simp add: extend_Session_def getAndValidate_def)

interpretation stop_guard: owner_guarded findSession ses_parentId
  "''Session not found''" "''Not your session''" "\<lambda>i p. stop now i p" for now
  by unfold_locales (simp add: stop_def getAndValidate_def)

interpretation start_guard: owner_guarded findDevice dev_parentId
  "''Device not found''" "''Not your device''"
  "\<lambda>i p. start tz now p \<lparr>ssd_deviceId = i, ssd_durationMinutes = m\<rparr>" for tz now m
  by unfold_locales (simp add: start_def)

section \<open>Invariants of a session\<close>

text \<open>The clock never runs behind the stamps of a session, the remaining minutes stay between 0 and
  the minutes granted, and a stopped or expired session has none left.\<close>

definition session_ok :: "time \<Rightarrow> Session \<Rightarrow> bool" where
  "session_ok now x \<longleftrightarrow>
     1 \<le> ses_durationMinutes x \<and> 0 \<le> ses_extendedMinutes x \<and>
     0 \<le> ses_remainingMinutes x \<and>
     ses_remainingMinutes x \<le> ses_durationMinutes x + ses_extendedMinutes x \<and>
     ses_startedAt x \<le> now \<and> (\<forall>r. ses_resumedAt x = Some r \<longrightarrow> r \<le> now) \<and>
     (ses_status x \<in> {STOPPED, EXPIRED} \<longrightarrow> ses_remainingMinutes x = 0)"

definition sessions_ok :: "time \<Rightarrow> 'z store_scheme \<Rightarrow> bool" where
  "sessions_ok now s \<longleftrightarrow> (\<forall>x \<in> set (sessions s). session_ok now x)"

lemma elapsed_nonneg:
  "startedAt \<le> now \<Longrightarrow> (\<forall>r. resumedAt = Some r \<longrightarrow> r \<le> now) \<Longrightarrow>
   0 \<le> calculateElapsedMinutes now startedAt resumedAt"
  by (cases resumedAt) (simp_all add: calculateElapsedMinutes_def pos_imp_zdiv_nonneg_iff)

lemma session_ok_later: "session_ok now x \<Longrightarrow> now \<le> later \<Longrightarrow> session_ok later x"
  by (auto simp: session_ok_def)

lemma sessions_ok_later: "sessions_ok now s \<Longrightarrow> now \<le> later \<Longrightarrow> sessions_ok later s"
  by (auto simp: sessions_ok_def intro: session_ok_later)

lemma sessions_ok_update:
  assumes "sessions_ok now s" and "\<And>x. x \<in> set (sessions s) \<Longrightarrow> ses_id x = i \<Longrightarrow> session_ok now (f x)"
  shows "sessions_ok now (updateSession i f s)"
  using assms by (auto simp: sessions_ok_def updateSession_def in_updateMany_iff)

lemma sessions_ok_writeSession:
  assumes "sessions_ok now s" and "\<And>x. x \<in> set (sessions s) \<Longrightarrow> ses_id x = i \<Longrightarrow> session_ok now (f x)"
  shows "sessions_ok now (snd (writeSession i f x s))"
  using sessions_ok_update [OF assms] by (simp add: writeSession_def)

lemma sessions_ok_writeSession_any:
  assumes "sessions_ok now s" and "\<And>x. session_ok now x \<Longrightarrow> session_ok now (f x)"
  shows "sessions_ok now (snd (writeSession i f x s))"
  by (rule sessions_ok_writeSession [OF assms(1)]) (use assms in \<open>auto simp: sessions_ok_def\<close>)

text \<open>Each session operation, with its validated arguments (\<^verbatim>\<open>@Min(1)\<close> on the minutes).\<close>

datatype session_op =
    Start ident StartSessionDto
  | Pause ident ident
  | Resume ident ident
  | Extend ident ident ExtendSessionDto
  | Stop ident ident
  | Expire ident
  | Violate ident

fun op_valid :: "session_op \<Rightarrow> bool" where
  "op_valid (Start p dto) = (1 \<le> ssd_durationMinutes dto)"
| "op_valid (Extend i p dto) = (1 \<le> esd_extraMinutes dto)"
| "op_valid _ = True"

fun session_exec :: "int \<Rightarrow> time \<Rightarrow> session_op \<Rightarrow> 'z store_scheme \<Rightarrow> Session result \<times> 'z store_scheme" where
  "session_exec tz now (Start p dto) s = start tz now p dto s"
| "session_exec tz now (Pause i p) s = pause now i p s"
| "session_exec tz now (Resume i p) s = resume now i p s"
| "session_exec tz now (Extend i p dto) s = extend_Session i p dto s"
| "session_exec tz now (Stop i p) s = stop now i p s"
| "session_exec tz now (Expire i) s = expire now i s"
| "session_exec tz now (Violate i) s = markViolated i s"

lemma unique_session:
  "distinct (map ses_id (sessions s)) \<Longrightarrow> findSession s i = Some x \<Longrightarrow> y \<in> set (sessions s) \<Longrightarrow>
   ses_id y = i \<Longrightarrow> y = x"
  using findUnique_distinct by fastforce

lemma map_id_writeSession [simp]:
  "(\<And>y. ses_id (f y) = ses_id y) \<Longrightarrow>
   map ses_id (sessions (snd (writeSession i f x s))) = map ses_id (sessions s)"
  by (simp add: writeSession_def updateSession_def)

lemma getAndValidate_Inr:
  "getAndValidate i p s = Inr x \<longleftrightarrow> findSession s i = Some x \<and> ses_parentId x = p"
  by (simp add: getAndValidate_def tbl_simps)

lemma pause_ok:
  assumes inv: "sessions_ok now s" and dist: "distinct (map ses_id (sessions s))"
  shows "sessions_ok now (snd (session_exec tz now (Pause i p) s))"
proof -
  have "session_ok now (y\<lparr>ses_status := PAUSED, ses_pausedAt := Some now,
          ses_remainingMinutes := max 0 (ses_durationMinutes x + ses_extendedMinutes x
            - calculateElapsedMinutes now (ses_startedAt x) (ses_resumedAt x))\<rparr>)"
    if "findSession s i = Some x" "y \<in> set (sessions s)" "ses_id y = i" for x y
  proof -
    have "y = x" using unique_session [OF dist] that by blast
    moreover have "session_ok now y" using inv that by (simp add: sessions_ok_def)
    ultimately show ?thesis using elapsed_nonneg [of "ses_startedAt x" now "ses_resumedAt x"]
      by (auto simp: session_ok_def)
  qed
  with inv show ?thesis
    by (auto simp: pause_def Let_def getAndValidate_Inr intro!: sessions_ok_writeSession split: sum.splits)
qed

lemma extend_ok:
  assumes inv: "sessions_ok now s" and dist: "distinct (map ses_id (sessions s))"
    and valid: "op_valid (Extend i p dto)"
  shows "sessions_ok now (snd (session_exec tz now (Extend i p dto) s))"
proof -
  have "session_ok now (y\<lparr>ses_extendedMinutes := ses_extendedMinutes x + esd_extraMinutes dto,
          ses_remainingMinutes := ses_remainingMinutes x + esd_extraMinutes dto\<rparr>)"
    if "findSession s i = Some x" "y \<in> set (sessions s)" "ses_id y = i" "ses_status x = ACTIVE \<or> ses_status x = PAUSED" for x y
  proof -
    have "y = x" using unique_session [OF dist] that by blast
    moreover have "session_ok now y" using inv that by (simp add: sessions_ok_def)
    ultimately show ?thesis using valid that(4) by (auto simp: session_ok_def)
  qed
  with inv show ?thesis
    by (auto simp: extend_Session_def getAndValidate_Inr intro!: sessions_ok_writeSession split: sum.splits)
qed

lemma session_exec_ok:
  assumes inv: "sessions_ok now s" and dist: "distinct (map ses_id (sessions s))"
    and valid: "op_valid opn"
  shows "sessions_ok now (snd (session_exec tz now opn s))"
proof (cases opn)
  case (Start p dto)
  with inv valid show ?thesis
    by (auto simp: start_def Let_def sessions_ok_def newSession_def session_ok_def
        split: sum.splits option.splits)
next
  case (Pause i p)
  with inv dist show ?thesis by (simp only: pause_ok)
next
  case (Resume i p)
  with inv show ?thesis
    by (auto simp: resume_def session_ok_def intro!: sessions_ok_writeSession_any split: sum.splits)
next
  case (Extend i p dto)
  with inv dist valid show ?thesis by (simp only: extend_ok)
next
  case (Stop i p)
  with inv show ?thesis
    by (auto simp: stop_def session_ok_def intro!: sessions_ok_writeSession_any split: sum.splits)
next
  case (Expire i)
  with inv show ?thesis
    by (auto simp: expire_def session_ok_def intro!: sessions_ok_writeSession_any split: option.splits)
next
  case (Violate i)
  with inv show ?thesis
    by (auto simp: markViolated_def session_ok_def intro!: sessions_ok_writeSession_any split: option.splits)
qed

section \<open>Runs\<close>

text \<open>The states that the session operations reach, with the clock, from a store without sessions
  whose identifier tape never repeats.\<close>

inductive session_run :: "int \<Rightarrow> time \<Rightarrow> store \<Rightarrow> bool" for tz where
  init: "sessions s = [] \<Longrightarrow> inj (db_uuid s) \<Longrightarrow> session_run tz now s"
| step: "session_run tz now s \<Longrightarrow> now \<le> later \<Longrightarrow> op_valid opn \<Longrightarrow>
     session_run tz later (snd (session_exec tz later opn s))"

definition ids_drawn :: "'z store_scheme \<Rightarrow> bool" where
  "ids_drawn s \<longleftrightarrow> inj (db_uuid s) \<and> distinct (map ses_id (sessions s)) \<and>
     ses_id ` set (sessions s) \<subseteq> db_uuid s ` {..<db_next s}"

lemma newId_fresh: "ids_drawn s \<Longrightarrow> newId s \<notin> ses_id ` set (sessions s)"
  by (auto simp: ids_drawn_def newId_def inj_eq)

lemma ids_drawn_writeSession:
  "ids_drawn s \<Longrightarrow> (\<And>y. ses_id (f y) = ses_id y) \<Longrightarrow> ids_drawn (snd (writeSession i f x s))"
  by (simp add: ids_drawn_def writeSession_def updateSession_def)

lemma ids_drawn_start: "ids_drawn s \<Longrightarrow> ids_drawn (snd (start tz now p dto s))"
proof -
  assume d: "ids_drawn s"
  have "ids_drawn (drawId (s\<lparr>sessions := sessions s @ [newSession now (newId s) a b c m]\<rparr>))" for a b c m
    using d newId_fresh [OF d]
    by (auto simp: ids_drawn_def newSession_def newId_def less_Suc_eq)
  with d show ?thesis
    by (auto simp: start_def Let_def split: sum.splits option.splits)
qed

lemma ids_drawn_exec: "ids_drawn s \<Longrightarrow> ids_drawn (snd (session_exec tz now opn s))"
  by (cases opn)
    (auto simp: ids_drawn_start pause_def resume_def extend_Session_def stop_def expire_def markViolated_def
      Let_def intro!: ids_drawn_writeSession split: sum.splits option.splits)

lemma session_run_inv: "session_run tz now s \<Longrightarrow> sessions_ok now s \<and> ids_drawn s"
proof (induction rule: session_run.induct)
  case (init s now)
  then show ?case by (simp add: sessions_ok_def ids_drawn_def)
next
  case (step now s later opn)
  then have "sessions_ok later s" and d: "ids_drawn s"
    by (auto intro: sessions_ok_later)
  moreover from d have "distinct (map ses_id (sessions s))" by (simp add: ids_drawn_def)
  ultimately show ?case
    using step.hyps(3) by (simp add: session_exec_ok ids_drawn_exec)
qed

section \<open>Terminated sessions\<close>

definition terminated :: "SessionStatus \<Rightarrow> bool" where
  "terminated st \<longleftrightarrow> st \<in> {STOPPED, EXPIRED, VIOLATED}"

lemma findSession_writeSession:
  "(\<And>y. ses_id (f y) = ses_id y) \<Longrightarrow>
   findSession (snd (writeSession i f x s)) j = (if j = i then map_option f (findSession s j) else findSession s j)"
  by (simp add: writeSession_def)

lemma findSession_start:
  "findSession s j = Some x \<Longrightarrow> findSession (snd (start tz now p dto s)) j = Some x"
  by (auto simp: start_def Let_def split: sum.splits option.splits)

text \<open>How one operation can change the status of an existing session.\<close>

lemma session_exec_status:
  assumes "findSession s j = Some x"
  shows "\<exists>y. findSession (snd (session_exec tz now opn s)) j = Some y \<and>
           (ses_status y = ses_status x \<or> terminated (ses_status y) \<or>
            ses_status x = ACTIVE \<and> ses_status y = PAUSED \<or>
            ses_status x = PAUSED \<and> ses_status y = ACTIVE)"
proof (cases opn)
  case (Start p dto)
  with assms show ?thesis by (simp add: findSession_start)
qed (use assms in \<open>auto simp: pause_def resume_def extend_Session_def stop_def expire_def markViolated_def Let_def
      getAndValidate_Inr findSession_writeSession terminated_def split: sum.splits option.splits\<close>)

fun session_exec_all :: "int \<Rightarrow> (time \<times> session_op) list \<Rightarrow> 'z store_scheme \<Rightarrow> 'z store_scheme" where
  "session_exec_all tz [] s = s"
| "session_exec_all tz ((now, opn) # ops) s = session_exec_all tz ops (snd (session_exec tz now opn s))"

section \<open>At most one active session per device\<close>

definition activeOn :: "ident \<Rightarrow> 'z store_scheme \<Rightarrow> Session list" where
  "activeOn d s = findMany (\<lambda>x. ses_deviceId x = d \<and> ses_status x = ACTIVE) (sessions s)"

definition one_active :: "'z store_scheme \<Rightarrow> bool" where
  "one_active s \<longleftrightarrow> (\<forall>d. length (activeOn d s) \<le> 1)"

lemma length_findMany_updateMany_le:
  assumes "\<And>r. P (f r) \<Longrightarrow> P r"
  shows "length (findMany P (updateMany Q f rows)) \<le> length (findMany P rows)"
  using assms by (induction rows) (auto simp: le_SucI)

lemma one_active_writeSession:
  assumes "one_active s" and "\<And>y. ses_status (f y) = ACTIVE \<Longrightarrow> ses_status y = ACTIVE"
    and "\<And>y. ses_deviceId (f y) = ses_deviceId y"
  shows "one_active (snd (writeSession i f x s))"
  unfolding one_active_def
proof
  fix d
  have "length (activeOn d (snd (writeSession i f x s))) \<le> length (activeOn d s)"
    unfolding activeOn_def writeSession_def updateSession_def
    using assms(2,3) by (auto intro!: length_findMany_updateMany_le)
  with assms(1) show "length (activeOn d (snd (writeSession i f x s))) \<le> 1"
    by (auto simp: one_active_def intro: le_trans)
qed

lemma one_active_start:
  assumes "one_active s"
  shows "one_active (snd (start tz now p dto s))"
proof -
  have "length (activeOn d (drawId (s\<lparr>sessions := sessions s @ [newSession now i (ssd_deviceId dto) b c m]\<rparr>))) \<le> 1"
    if "findFirst (\<lambda>x. ses_deviceId x = ssd_deviceId dto \<and> ses_status x = ACTIVE) (sessions s) = None" for d i b c m
    using that assms by (auto simp: activeOn_def newSession_def one_active_def tbl_simps findMany_def filter_empty_conv)
  with assms show ?thesis
    by (auto simp: start_def one_active_def Let_def split: sum.splits option.splits)
qed

lemma one_active_resume:
  assumes "one_active s" and dist: "distinct (map ses_id (sessions s))"
    and f: "findSession s i = Some x" and none: "activeOn (ses_deviceId x) s = []"
  shows "one_active (snd (writeSession i (\<lambda>x. x\<lparr>ses_status := ACTIVE, ses_resumedAt := Some now\<rparr>) x s))"
  unfolding one_active_def
proof
  fix d
  let ?f = "\<lambda>x. x\<lparr>ses_status := ACTIVE, ses_resumedAt := Some now\<rparr>"
  let ?P = "\<lambda>y. ses_deviceId y = d \<and> ses_status y = ACTIVE"
  have uniq: "y \<in> set (sessions s) \<Longrightarrow> ses_id y = i \<Longrightarrow> y = x" for y
    using unique_session [OF dist f] by blast
  show "length (activeOn d (snd (writeSession i ?f x s))) \<le> 1"
  proof (cases "d = ses_deviceId x")
    case False
    then have "findMany ?P (updateMany (\<lambda>y. ses_id y = i) ?f (sessions s)) = findMany ?P (sessions s)"
      using uniq by (intro findMany_updateMany_irrelevant) auto
    with assms(1) show ?thesis
      by (simp add: one_active_def activeOn_def writeSession_def updateSession_def)
  next
    case True
    have "length (findMany ?P (updateMany (\<lambda>y. ses_id y = i) ?f xs)) \<le> 1"
      if "distinct (map ses_id xs)" "findMany ?P xs = []" for xs
      using that
    proof (induction xs)
      case (Cons a xs)
      have "ses_id a = i \<Longrightarrow> findMany ?P (updateMany (\<lambda>y. ses_id y = i) ?f xs) = findMany ?P xs"
        using Cons.prems(1) by (intro findMany_updateMany_irrelevant) (auto simp: image_iff)
      with Cons show ?case by (auto split: if_splits)
    qed simp
    with none True dist show ?thesis by (simp add: activeOn_def writeSession_def updateSession_def)
  qed
qed

section \<open>Properties\<close>

text \<open>C11: Along every run of the session operations (validated arguments, a clock that does not go
  back), each session's remaining minutes stay between 0 and the minutes granted, a stopped or
  expired session has none left, identifiers stay unique, and so the minutes that count against the
  daily limit are never negative.\<close>
theorem session_run_safe:
  assumes "session_run tz now s"
  shows "(\<forall>x \<in> set (sessions s). 0 \<le> ses_remainingMinutes x \<and>
            ses_remainingMinutes x \<le> ses_durationMinutes x + ses_extendedMinutes x \<and>
            (ses_status x \<in> {STOPPED, EXPIRED} \<longrightarrow> ses_remainingMinutes x = 0)) \<and>
         distinct (map ses_id (sessions s)) \<and>
         0 \<le> getUsedMinutesToday tz now c s"
proof -
  have inv: "sessions_ok now s" "ids_drawn s" using session_run_inv [OF assms] by auto
  have "0 \<le> getUsedMinutesToday tz now c s"
    unfolding getUsedMinutesToday_def
    using inv(1) by (intro sum_list_nonneg) (auto simp: sessions_ok_def session_ok_def)
  with inv show ?thesis by (auto simp: sessions_ok_def session_ok_def ids_drawn_def)
qed

definition bareDevice :: "ident \<Rightarrow> ident \<Rightarrow> ident \<Rightarrow> Device" where
  "bareDevice i p c =
     \<lparr>dev_id = i, dev_childId = Some c, dev_parentId = p, dev_name = ''Console'', dev_type = PLAYSTATION,
      dev_platform = None, dev_macAddress = None, dev_ipAddress = Some ''192.168.1.45'',
      dev_ipv6Address = None, dev_status = DEV_ONLINE, dev_controlMethod = MOCK, dev_lastSeen = None,
      dev_dnsSourceIp = None, dev_dnsConfigured = False, dev_lastDnsSeenAt = None,
      dev_blockingMode = GAMING_ONLY, dev_internetLocked = False, dev_internetLockedReason = None,
      dev_internetLockedAt = None, dev_protectionStatus = NORMAL, dev_protectionScore = 100,
      dev_lastBypassDetectedAt = None, dev_bypassAttempts = 0, dev_dailyLimitMinutes = None,
      dev_bedtimeStart = None, dev_bedtimeEnd = None, dev_autoBlockEnabled = False,
      dev_offlineControlEnabled = False, dev_offlineControlMethod = None,
      dev_offlineSetupCompletedAt = None, dev_offlineSetupVerified = False,
      dev_offlineControlNotes = None, dev_gatewayId = None, dev_hostname = None,
      dev_dhcpClientId = None, dev_vendorOui = None, dev_osHint = None, dev_fingerprintHash = None,
      dev_fingerprintUpdatedAt = None, dev_vpnBlockEnabled = True, dev_quicBlockEnabled = False,
      dev_paired = False, dev_pairStatus = PAIR_WAITING, dev_pairedAt = None,
      dev_resolverRegion = None, dev_publicIp = None, dev_dnsBeaconToken = None\<rparr>"

definition demoStore :: store where
  "demoStore = (emptyStore (\<lambda>n. replicate (n + 1) (CHR ''x'')))\<lparr>devices := [bareDevice ''d'' ''p'' ''c'']\<rparr>"

lemma inj_demo: "inj (db_uuid demoStore)"
  by (auto simp: demoStore_def emptyStore_def inj_def)

theorem session_run_safe_witness:
  "0 \<le> getUsedMinutesToday 0 60000 ''c''
        (snd (session_exec 0 60000 (Start ''p'' \<lparr>ssd_deviceId = ''d'', ssd_durationMinutes = 30\<rparr>) demoStore))"
proof -
  have "session_run 0 0 demoStore"
    by (rule session_run.init [OF _ inj_demo]) (simp add: demoStore_def emptyStore_def)
  then have "session_run 0 60000
     (snd (session_exec 0 60000 (Start ''p'' \<lparr>ssd_deviceId = ''d'', ssd_durationMinutes = 30\<rparr>) demoStore))"
    by (rule session_run.step) simp_all
  from session_run_safe [OF this] show ?thesis by blast
qed

text \<open>A terminated session never comes back. Once a session is stopped, expired or violated, no
  sequence of session operations makes it active or paused again.\<close>
theorem terminated_absorbing:
  assumes "findSession s j = Some x" and "terminated (ses_status x)"
  shows "\<exists>y. findSession (session_exec_all tz ops s) j = Some y \<and> terminated (ses_status y)"
  using assms
proof (induction ops arbitrary: s x)
  case Nil
  then show ?case by auto
next
  case (Cons top ops)
  obtain now opn where t: "top = (now, opn)" by (cases top)
  from session_exec_status [OF Cons.prems(1), of tz now opn] obtain y
    where "findSession (snd (session_exec tz now opn s)) j = Some y" and "terminated (ses_status y)"
    using Cons.prems(2) by (auto simp: terminated_def)
  from Cons.IH [OF this] show ?case by (simp add: t)
qed

theorem terminated_absorbing_witness:
  "\<exists>y. findSession (session_exec_all 0 [(5, Resume ''s'' ''p''), (6, Pause ''s'' ''p'')]
          (demoStore\<lparr>sessions := [(newSession 0 ''s'' ''d'' ''c'' ''p'' 30)\<lparr>ses_status := STOPPED\<rparr>]\<rparr>)) ''s'' = Some y
        \<and> terminated (ses_status y)"
  by (rule terminated_absorbing [where x = "(newSession 0 ''s'' ''d'' ''c'' ''p'' 30)\<lparr>ses_status := STOPPED\<rparr>"])
    (simp_all add: newSession_def terminated_def)

text \<open>A device never gets a second active session except through \<open>resume\<close>: every other operation
  keeps "at most one active session per device", and \<open>resume\<close> keeps it when the device has no other
  active session.\<close>
theorem one_active_preserved:
  assumes "one_active s"
    and "\<And>i p x. opn = Resume i p \<Longrightarrow> findSession s i = Some x \<Longrightarrow> activeOn (ses_deviceId x) s = []"
    and "distinct (map ses_id (sessions s))"
  shows "one_active (snd (session_exec tz now opn s))"
proof (cases opn)
  case (Start p dto)
  with assms(1) show ?thesis by (simp add: one_active_start)
next
  case (Resume i p)
  have "one_active (snd (writeSession i (\<lambda>x. x\<lparr>ses_status := ACTIVE, ses_resumedAt := Some now\<rparr>) x s))"
    if "findSession s i = Some x" for x
    using one_active_resume [OF assms(1,3) that] assms(2) [OF Resume that] .
  with assms(1) Resume show ?thesis by (auto simp: resume_def getAndValidate_Inr split: sum.splits)
qed (use assms(1) in \<open>auto simp: pause_def extend_Session_def stop_def expire_def markViolated_def Let_def
      intro!: one_active_writeSession split: sum.splits option.splits\<close>)

theorem one_active_preserved_witness:
  "one_active (snd (session_exec 0 9 (Resume ''s'' ''p'')
     (demoStore\<lparr>sessions := [(newSession 0 ''s'' ''d'' ''c'' ''p'' 30)\<lparr>ses_status := PAUSED\<rparr>]\<rparr>)))"
  by (rule one_active_preserved) (auto simp: one_active_def activeOn_def newSession_def)

text \<open>\<open>resume\<close> does break it: start, pause, start again and resume the first session, all by the
  owner and all accepted, leaves the device with two active sessions (\<open>start\<close> looks for active
  sessions only, \<open>resume\<close> for none).\<close>
theorem resume_two_active:
  "let s1 = snd (start 0 0 ''p'' \<lparr>ssd_deviceId = ''d'', ssd_durationMinutes = 30\<rparr> demoStore);
       s2 = snd (pause 60000 ''x'' ''p'' s1);
       s3 = snd (start 0 120000 ''p'' \<lparr>ssd_deviceId = ''d'', ssd_durationMinutes = 30\<rparr> s2)
   in is_ok (fst (resume 180000 ''x'' ''p'' s3)) \<and>
      map ses_id (activeOn ''d'' (snd (resume 180000 ''x'' ''p'' s3))) = [''x'', ''xx'']"
  by (simp add: start_def pause_def resume_def demoStore_def emptyStore_def bareDevice_def owned_def
      getDailyLimit_def newSession_def getAndValidate_def writeSession_def updateSession_def
      activeOn_def newId_def drawId_def Let_def)

text \<open>The daily limit holds at the start of a session. When \<open>start\<close> succeeds for a child whose
  limit is \<open>n\<close> minutes, the minutes used today plus the new session's are at most \<open>n\<close>; the session is
  active, belongs to the caller, and is the only one added.\<close>
theorem start_within_daily_limit:
  assumes "start tz now p dto s = (Inr x, s')"
    and "getDailyLimit (ses_childId x) s = Some (Some n)"
  shows "getUsedMinutesToday tz now (ses_childId x) s + ssd_durationMinutes dto \<le> n \<and>
         ses_status x = ACTIVE \<and> ses_parentId x = p \<and> ses_deviceId x = ssd_deviceId dto \<and>
         sessions s' = sessions s @ [x]"
  using assms
  by (auto simp: start_def Let_def newSession_def split: sum.splits option.splits if_splits)

definition limitedStore :: store where
  "limitedStore = demoStore\<lparr>rules :=
     [\<lparr>rul_id = ''r'', rul_childId = ''c'', rul_type = DAILY_LIMIT, rul_value = ''45'', rul_startTime = None,
       rul_endTime = None, rul_daysOfWeek = None, rul_blockedApps = [], rul_blockedCategories = [],
       rul_extraMinutes = None, rul_active = True\<rparr>]\<rparr>"

lemma limited_start:
  "start 0 0 ''p'' \<lparr>ssd_deviceId = ''d'', ssd_durationMinutes = 30\<rparr> limitedStore =
     (Inr (newSession 0 ''x'' ''d'' ''c'' ''p'' 30),
      drawId (limitedStore\<lparr>sessions := [newSession 0 ''x'' ''d'' ''c'' ''p'' 30]\<rparr>))"
  by (simp add: start_def limitedStore_def demoStore_def emptyStore_def bareDevice_def owned_def
      getDailyLimit_def getUsedMinutesToday_def parseInt10_def isBlank_def isDigit_def digitsVal_def
      digitVal_def newId_def Let_def)

theorem start_within_daily_limit_witness:
  "getUsedMinutesToday 0 0 ''c'' limitedStore + 30 \<le> 45"
proof -
  have "getDailyLimit (ses_childId (newSession 0 ''x'' ''d'' ''c'' ''p'' 30)) limitedStore = Some (Some 45)"
    by (simp add: limitedStore_def getDailyLimit_def parseInt10_def isBlank_def isDigit_def
        digitsVal_def digitVal_def newSession_def Let_def)
  from start_within_daily_limit [OF limited_start this] show ?thesis by (simp add: newSession_def)
qed

text \<open>C35: Pausing and resuming gives the time back. After a successful \<open>resume\<close> at \<open>now\<close>, the remaining
  minutes at any later time are counted from the resume alone: whatever was used before the pause
  (and recorded in \<^verbatim>\<open>remainingMinutes\<close>) is forgotten, so right after the resume the whole duration is
  available again.\<close>
theorem resume_restores_full_time:
  assumes "resume now i p s = (Inr x, s')" and "now \<le> t"
  shows "calculateRemainingMinutes t x =
           max 0 (ses_durationMinutes x + ses_extendedMinutes x - (t - now) div 60000) \<and>
         calculateRemainingMinutes now x = max 0 (ses_durationMinutes x + ses_extendedMinutes x) \<and>
         findSession s' i = Some x"
proof -
  obtain y where y: "findSession s i = Some y"
    and x: "x = y\<lparr>ses_status := ACTIVE, ses_resumedAt := Some now\<rparr>"
    and s': "s' = snd (writeSession i (\<lambda>x. x\<lparr>ses_status := ACTIVE, ses_resumedAt := Some now\<rparr>) y s)"
    using assms(1)
    by (auto simp: resume_def getAndValidate_Inr writeSession_def split: sum.splits if_splits)
  then show ?thesis
    by (simp add: calculateRemainingMinutes_def calculateElapsedMinutes_def findSession_writeSession)
qed

definition pausedStore :: store where
  "pausedStore = demoStore\<lparr>sessions :=
     [(newSession 0 ''s'' ''d'' ''c'' ''p'' 30)\<lparr>ses_status := PAUSED, ses_pausedAt := Some 1740000,
        ses_remainingMinutes := 1\<rparr>]\<rparr>"

lemma paused_resume:
  "resume 1800000 ''s'' ''p'' pausedStore =
     (Inr ((newSession 0 ''s'' ''d'' ''c'' ''p'' 30)\<lparr>ses_status := ACTIVE, ses_pausedAt := Some 1740000,
             ses_remainingMinutes := 1, ses_resumedAt := Some 1800000\<rparr>),
      pausedStore\<lparr>sessions := [(newSession 0 ''s'' ''d'' ''c'' ''p'' 30)\<lparr>ses_status := ACTIVE,
             ses_pausedAt := Some 1740000, ses_remainingMinutes := 1, ses_resumedAt := Some 1800000\<rparr>]\<rparr>)"
  by (simp add: resume_def pausedStore_def getAndValidate_def owned_def newSession_def
      writeSession_def updateSession_def)

theorem resume_restores_full_time_witness:
  "calculateRemainingMinutes 1800000
     ((newSession 0 ''s'' ''d'' ''c'' ''p'' 30)\<lparr>ses_status := ACTIVE, ses_pausedAt := Some 1740000,
        ses_remainingMinutes := 1, ses_resumedAt := Some 1800000\<rparr>) = 30"
  using resume_restores_full_time [OF paused_resume, of 1800000] by (simp add: newSession_def)

end
