(* ===== verification/Dns_Policy.thy ===== *)
theory Dns_Policy
  imports Sessions
begin

text \<open>
  The DNS policy engine (\<^verbatim>\<open>dns-policy.service.ts\<close>): the ALLOW/BLOCK decision for a source address and a
  domain, its 30 s cache keyed by a per-address version, the version bump that invalidates it, the
  rate-limited heartbeat and the query and unknown-domain logs.

  The cache (\<^verbatim>\<open>cache-manager\<close> over Redis) is the parameter \<open>C\<close>: its read and write operations, of which
  the locale \<open>ttl_cache\<close> states the documented behaviour. \<open>mapCache\<close> is a keyed store with expiry
  times that has it. The writes that the code fires without awaiting (query log, heartbeat, unknown
  domain) are done in order at the end of the call. Times are compared in milliseconds: the code's
  fractional minutes are these numbers divided by 60000.
\<close>

section \<open>The cache\<close>

datatype DnsAction = ALLOW | BLOCK

datatype DnsReason =
    R_FULL_INTERNET_LOCK | R_STRICT_MODE_DOH | R_TIME_LIMIT_EXCEEDED | R_DOMAIN_BLOCKED
  | R_CATEGORY_BLOCKED | R_MANUAL_BLOCK

record DnsPolicyResponse =
  dpr_action :: DnsAction
  dpr_blockIp :: string
  dpr_reason :: "DnsReason option"
  dpr_category :: "BlockCategory option"

datatype CacheVal =
    CVersion int
  | CDecision DnsPolicyResponse
  | CDeviceId ident
  | CThrottled

record 'c cacheOps =
  c_get :: "time \<Rightarrow> 'c \<Rightarrow> string \<Rightarrow> CacheVal option"
  c_set :: "time \<Rightarrow> string \<Rightarrow> CacheVal \<Rightarrow> int \<Rightarrow> 'c \<Rightarrow> 'c"

record 'c gstore = store +
  dnsCache :: 'c

type_synonym mapStore = "string \<Rightarrow> (CacheVal \<times> time) option"

definition mapCache :: "mapStore cacheOps" where
  "mapCache =
     \<lparr>c_get = (\<lambda>t c k. case c k of None \<Rightarrow> None | Some (v, e) \<Rightarrow> if t < e then Some v else None),
      c_set = (\<lambda>t k v ttl c. c(k \<mapsto> (v, t + ttl)))\<rparr>"

definition cget :: "'c cacheOps \<Rightarrow> time \<Rightarrow> string \<Rightarrow> ('c, 'z) gstore_scheme \<Rightarrow> CacheVal option" where
  "cget C now k s = c_get C now (dnsCache s) k"

definition cset ::
  "'c cacheOps \<Rightarrow> time \<Rightarrow> string \<Rightarrow> CacheVal \<Rightarrow> int \<Rightarrow> ('c, 'z) gstore_scheme \<Rightarrow> ('c, 'z) gstore_scheme" where
  "cset C now k v ttl s = s\<lparr>dnsCache := c_set C now k v ttl (dnsCache s)\<rparr>"

section \<open>Keys\<close>

definition versionKey :: "string \<Rightarrow> string" where "versionKey ip = ''dnsver:'' @ ip"
definition deviceIdKey :: "string \<Rightarrow> string" where "deviceIdKey ip = ''dnsdev:'' @ ip"
definition heartbeatKey :: "ident \<Rightarrow> string" where "heartbeatKey deviceId = ''dnshb:'' @ deviceId"

definition decisionKey :: "string \<Rightarrow> int \<Rightarrow> string \<Rightarrow> string" where
  "decisionKey ip version domain = ''dns:'' @ ip @ '':'' @ showInt version @ '':'' @ domain"

section \<open>Invalidation\<close>

definition getVersion :: "'c cacheOps \<Rightarrow> time \<Rightarrow> string \<Rightarrow> ('c, 'z) gstore_scheme \<Rightarrow> int" where
  "getVersion C now ip s = (case cget C now (versionKey ip) s of Some (CVersion v) \<Rightarrow> v | _ \<Rightarrow> 0)"

definition bumpVersion :: "'c cacheOps \<Rightarrow> time \<Rightarrow> string \<Rightarrow> ('c, 'z) gstore_scheme \<Rightarrow> ('c, 'z) gstore_scheme" where
  "bumpVersion C now ip s =
     cset C now (versionKey ip) (CVersion (getVersion C now ip s + 1)) (24 * 60 * 60 * 1000) s"

fun invalidateSourceIps ::
  "'c cacheOps \<Rightarrow> time \<Rightarrow> string option list \<Rightarrow> ('c, 'z) gstore_scheme \<Rightarrow> ('c, 'z) gstore_scheme" where
  "invalidateSourceIps C now [] s = s"
| "invalidateSourceIps C now (ip # ips) s =
     (case ip of
        None \<Rightarrow> invalidateSourceIps C now ips s
      | Some a \<Rightarrow> if a = [] then invalidateSourceIps C now ips s
                 else invalidateSourceIps C now ips (bumpVersion C now a s))"

section \<open>Domains\<close>

definition STRICT_MODE_DOH_DOMAINS :: "string list" where
  "STRICT_MODE_DOH_DOMAINS =
     [''dns.google'', ''dns.google.com'', ''cloudflare-dns.com'', ''one.one.one.one'', ''doh.opendns.com'',
      ''dns.quad9.net'', ''doh.cleanbrowsing.org'', ''nextdns.io'', ''dns.nextdns.io'', ''doh.dns.sb'',
      ''dns.adguard.com'', ''dns.adguard-dns.com'', ''mozilla.cloudflare-dns.com'',
      ''chrome.cloudflare-dns.com'']"

definition normDomain :: "string \<Rightarrow> string" where
  "normDomain domain = stripTrailingDot (toLowerCase domain)"

definition isStrictDohDomain :: "string \<Rightarrow> bool" where
  "isStrictDohDomain domain =
     list_ex (\<lambda>d. normDomain domain = d \<or> endsWith (normDomain domain) (''.'' @ d)) STRICT_MODE_DOH_DOMAINS"

text \<open>The domain itself and its parents, down to two labels.\<close>

fun dropLabels :: "string list \<Rightarrow> string list list" where
  "dropLabels (w # v # ws) = (w # v # ws) # dropLabels (v # ws)"
| "dropLabels _ = []"

definition candidates :: "string \<Rightarrow> string list" where
  "candidates domain = map (joinWith ''.'') (dropLabels (splitOn (CHR ''.'') (normDomain domain)))"

definition findBlockedDomain :: "string \<Rightarrow> 'z store_scheme \<Rightarrow> BlockedDomain option" where
  "findBlockedDomain domain s =
     findFirst (\<lambda>b. bdm_domain b \<in> set (candidates domain)) (blockedDomains s)"

section \<open>Side writes\<close>

definition logQuery :: "time \<Rightarrow> string \<Rightarrow> string \<Rightarrow> string \<Rightarrow> ('c, 'z) gstore_scheme \<Rightarrow> ('c, 'z) gstore_scheme" where
  "logQuery now domain sourceIp act s =
     s\<lparr>dnsQueryLogs := dnsQueryLogs s @
        [\<lparr>dql_domain = domain, dql_sourceIp = sourceIp, dql_action = act, dql_createdAt = now\<rparr>]\<rparr>"

definition updateDnsSeen :: "time \<Rightarrow> ident \<Rightarrow> 'z store_scheme \<Rightarrow> 'z store_scheme" where
  "updateDnsSeen now deviceId s = updateDevice deviceId (\<lambda>d. d\<lparr>dev_lastDnsSeenAt := Some now\<rparr>) s"

definition touchHeartbeat ::
  "'c cacheOps \<Rightarrow> time \<Rightarrow> ident \<Rightarrow> ('c, 'z) gstore_scheme \<Rightarrow> ('c, 'z) gstore_scheme" where
  "touchHeartbeat C now deviceId s =
     (case cget C now (heartbeatKey deviceId) s of
        Some _ \<Rightarrow> s
      | None \<Rightarrow> cset C now (heartbeatKey deviceId) CThrottled 10000 (updateDnsSeen now deviceId s))"

definition recordUnknownDomain ::
  "time \<Rightarrow> string \<Rightarrow> string \<Rightarrow> ident \<Rightarrow> 'z store_scheme \<Rightarrow> 'z store_scheme" where
  "recordUnknownDomain now domain sourceIp deviceId s =
     (let lower = normDomain domain in
      if lower = [] \<or> length lower > 253 then s
      else if list_ex (\<lambda>u. udl_domain u = lower \<and> udl_deviceId u = deviceId) (unknownDomains s)
      then s\<lparr>unknownDomains := updateMany (\<lambda>u. udl_domain u = lower \<and> udl_deviceId u = deviceId)
               (\<lambda>u. u\<lparr>udl_count := udl_count u + 1, udl_lastSeenAt := now, udl_sourceIp := sourceIp\<rparr>)
               (unknownDomains s)\<rparr>
      else s\<lparr>unknownDomains := unknownDomains s @
               [\<lparr>udl_domain = lower, udl_sourceIp = sourceIp, udl_deviceId = deviceId, udl_count = 1,
                 udl_lastSeenAt = now, udl_suggestedCategory = None, udl_classified = False\<rparr>]\<rparr>)"

section \<open>The decision\<close>

definition allowResponse :: DnsPolicyResponse where
  "allowResponse = \<lparr>dpr_action = ALLOW, dpr_blockIp = ''0.0.0.0'', dpr_reason = None, dpr_category = None\<rparr>"

definition blockResponse :: "DnsReason \<Rightarrow> BlockCategory option \<Rightarrow> DnsPolicyResponse" where
  "blockResponse reason cat =
     \<lparr>dpr_action = BLOCK, dpr_blockIp = ''0.0.0.0'', dpr_reason = Some reason, dpr_category = cat\<rparr>"

definition findDeviceByIp :: "string \<Rightarrow> 'z store_scheme \<Rightarrow> Device option" where
  "findDeviceByIp ip s =
     findFirst (\<lambda>d. dev_ipAddress d = Some ip \<or> dev_dnsSourceIp d = Some ip \<or> dev_ipv6Address d = Some ip)
       (devices s)"

definition findLiveSession :: "ident \<Rightarrow> 'z store_scheme \<Rightarrow> Session option" where
  "findLiveSession deviceId s =
     (case orderByDesc ses_startedAt
             (findMany (\<lambda>x. ses_deviceId x = deviceId \<and> ses_status x \<in> {ACTIVE, PAUSED}) (sessions s)) of
        [] \<Rightarrow> None | x # _ \<Rightarrow> Some x)"

text \<open>\<^verbatim>\<open>remaining\<close> of the code, times 60000.\<close>

definition dnsRemainingMs :: "time \<Rightarrow> Session \<Rightarrow> int" where
  "dnsRemainingMs now x =
     (let elapsedMs = now - patch (ses_resumedAt x) (ses_startedAt x) in
      ses_remainingMinutes x * 60000
        - (elapsedMs - (ses_durationMinutes x - ses_remainingMinutes x) * 60000))"

text \<open>The tail of the blocking branches: cache the result for 30 s, log the query, touch the
  heartbeat.\<close>

definition blockWith ::
  "'c cacheOps \<Rightarrow> time \<Rightarrow> string \<Rightarrow> string \<Rightarrow> string \<Rightarrow> ident \<Rightarrow> DnsPolicyResponse \<Rightarrow>
   ('c, 'z) gstore_scheme \<Rightarrow> DnsPolicyResponse \<times> ('c, 'z) gstore_scheme" where
  "blockWith C now cacheKey domain sourceIp deviceId result s =
     (result,
      touchHeartbeat C now deviceId
        (logQuery now domain sourceIp ''BLOCK'' (cset C now cacheKey (CDecision result) 30000 s)))"

text \<open>\<open>checkPolicy\<close> after a cache miss: the rules in their order, each with its side writes.\<close>

definition evaluatePolicy ::
  "'c cacheOps \<Rightarrow> bool \<Rightarrow> time \<Rightarrow> string \<Rightarrow> string \<Rightarrow> string \<Rightarrow> ('c, 'z) gstore_scheme \<Rightarrow>
   DnsPolicyResponse \<times> ('c, 'z) gstore_scheme" where
  "evaluatePolicy C strictMode now sourceIp domain cacheKey s =
     (case findDeviceByIp sourceIp s of
        None \<Rightarrow>
          (allowResponse,
           logQuery now domain sourceIp ''ALLOW'' (cset C now cacheKey (CDecision allowResponse) 30000 s))
      | Some device \<Rightarrow>
          let s1 = cset C now (deviceIdKey sourceIp) (CDeviceId (dev_id device)) 30000 s;
              block = (\<lambda>r. blockWith C now cacheKey domain sourceIp (dev_id device) r s1)
          in
          if strictMode \<and> isStrictDohDomain domain then block (blockResponse R_STRICT_MODE_DOH None)
          else if dev_internetLocked device then block (blockResponse R_FULL_INTERNET_LOCK None)
          else if dev_status device = DEV_BLOCKED then block (blockResponse R_MANUAL_BLOCK None)
          else if (case findLiveSession (dev_id device) s1 of
                     None \<Rightarrow> False | Some x \<Rightarrow> dnsRemainingMs now x \<le> 0)
          then block (blockResponse R_TIME_LIMIT_EXCEEDED None)
          else
            (case findBlockedDomain domain s1 of
               Some b \<Rightarrow>
                 (case (bdm_category b, dev_childId device) of
                    (Some cat, Some childId) \<Rightarrow>
                      if categoryActive s1 childId cat
                      then block (blockResponse R_CATEGORY_BLOCKED (Some cat))
                      else block (blockResponse R_DOMAIN_BLOCKED None)
                  | _ \<Rightarrow> block (blockResponse R_DOMAIN_BLOCKED None))
             | None \<Rightarrow>
                 (allowResponse,
                  recordUnknownDomain now domain sourceIp (dev_id device)
                    (touchHeartbeat C now (dev_id device)
                      (logQuery now domain sourceIp ''ALLOW''
                        (cset C now cacheKey (CDecision allowResponse) 30000 s1))))))"

definition checkPolicy ::
  "'c cacheOps \<Rightarrow> bool \<Rightarrow> time \<Rightarrow> string \<Rightarrow> string \<Rightarrow> ('c, 'z) gstore_scheme \<Rightarrow>
   DnsPolicyResponse \<times> ('c, 'z) gstore_scheme" where
  "checkPolicy C strictMode now sourceIp domain s =
     (let version = getVersion C now sourceIp s;
          cacheKey = decisionKey sourceIp version domain
      in case cget C now cacheKey s of
           Some (CDecision cached) \<Rightarrow>
             (cached,
              case cget C now (deviceIdKey sourceIp) s of
                Some (CDeviceId knownDeviceId) \<Rightarrow>
                  if knownDeviceId \<noteq> [] then touchHeartbeat C now knownDeviceId s else s
              | _ \<Rightarrow> s)
         | _ \<Rightarrow> evaluatePolicy C strictMode now sourceIp domain cacheKey s)"

section \<open>The contract of the cache\<close>

text \<open>What the code relies on: a value is there until its time to live ends and not after, a write
  touches one key, and nothing appears without a write.\<close>

locale ttl_cache =
  fixes C :: "'c cacheOps"
  assumes get_set_same: "t \<le> t' \<Longrightarrow>
      c_get C t' (c_set C t k v ttl c) k = (if t' < t + ttl then Some v else None)"
    and get_set_other: "k' \<noteq> k \<Longrightarrow> c_get C t' (c_set C t k v ttl c) k' = c_get C t' c k'"
    and get_earlier: "t \<le> t' \<Longrightarrow> c_get C t' c k = Some v \<Longrightarrow> c_get C t c k = Some v"
begin

lemma cget_cset_same:
  "t \<le> t' \<Longrightarrow> cget C t' k (cset C t k v ttl s) = (if t' < t + ttl then Some v else None)"
  by (simp add: cget_def cset_def get_set_same)

lemma cget_cset_other: "k' \<noteq> k \<Longrightarrow> cget C t' k' (cset C t k v ttl s) = cget C t' k' s"
  by (simp add: cget_def cset_def get_set_other)

lemma cget_gone: "t \<le> t' \<Longrightarrow> cget C t k s = None \<Longrightarrow> cget C t' k s = None"
  using get_earlier [of t t' "dnsCache s" k] by (cases "c_get C t' (dnsCache s) k") (auto simp: cget_def)

end

interpretation map_cache: ttl_cache mapCache
  by unfold_locales (auto simp: mapCache_def split: option.splits if_splits)

section \<open>Frames\<close>

lemma cset_frame [frame_simps, simp]:
  "devices (cset C t k v ttl s) = devices s" "sessions (cset C t k v ttl s) = sessions s"
  "blockedDomains (cset C t k v ttl s) = blockedDomains s"
  "categoryBlocks (cset C t k v ttl s) = categoryBlocks s"
  "unknownDomains (cset C t k v ttl s) = unknownDomains s"
  "gateways (cset C t k v ttl s) = gateways s"
  "detectedRouters (cset C t k v ttl s) = detectedRouters s"
  "routerCommands (cset C t k v ttl s) = routerCommands s"
  "commands (cset C t k v ttl s) = commands s"
  "auditLogs (cset C t k v ttl s) = auditLogs s"
  "notifications (cset C t k v ttl s) = notifications s"
  "rules (cset C t k v ttl s) = rules s" "children (cset C t k v ttl s) = children s"
  "db_uuid (cset C t k v ttl s) = db_uuid s" "db_next (cset C t k v ttl s) = db_next s"
  by (simp_all add: cset_def)

lemma dnsCache_frame [frame_simps, simp]:
  "dnsCache (logQuery now d ip a s) = dnsCache s"
  "dnsCache (updateDnsSeen now i s) = dnsCache s"
  "dnsCache (recordUnknownDomain now d ip i s) = dnsCache s"
  "dnsCache (updateDevice i f s) = dnsCache s"
  by (simp_all add: logQuery_def updateDnsSeen_def updateDevice_def recordUnknownDomain_def Let_def)

lemma cget_frame [simp]:
  "cget C t k (logQuery now d ip a s) = cget C t k s"
  "cget C t k (updateDnsSeen now i s) = cget C t k s"
  "cget C t k (recordUnknownDomain now d ip i s) = cget C t k s"
  by (simp_all add: cget_def)

lemma bumpVersion_frame [frame_simps, simp]:
  "devices (bumpVersion C now ip s) = devices s" "sessions (bumpVersion C now ip s) = sessions s"
  "blockedDomains (bumpVersion C now ip s) = blockedDomains s"
  "categoryBlocks (bumpVersion C now ip s) = categoryBlocks s"
  by (simp_all add: bumpVersion_def)

lemma invalidate_frame [frame_simps, simp]:
  "devices (invalidateSourceIps C now ips s) = devices s"
  "sessions (invalidateSourceIps C now ips s) = sessions s"
  "blockedDomains (invalidateSourceIps C now ips s) = blockedDomains s"
  "categoryBlocks (invalidateSourceIps C now ips s) = categoryBlocks s"
  "gateways (invalidateSourceIps C now ips s) = gateways s"
  "detectedRouters (invalidateSourceIps C now ips s) = detectedRouters s"
  "routerCommands (invalidateSourceIps C now ips s) = routerCommands s"
  "commands (invalidateSourceIps C now ips s) = commands s"
  "auditLogs (invalidateSourceIps C now ips s) = auditLogs s"
  "notifications (invalidateSourceIps C now ips s) = notifications s"
  "rules (invalidateSourceIps C now ips s) = rules s"
  "children (invalidateSourceIps C now ips s) = children s"
  by (induction C now ips s rule: invalidateSourceIps.induct)
    (auto simp: bumpVersion_def split: option.splits)

section \<open>Keys do not collide\<close>

lemma last_delim_unique:
  "x \<notin> set d \<Longrightarrow> x \<notin> set d' \<Longrightarrow> a @ x # d = a' @ x # d' \<Longrightarrow> a = a' \<and> d = d'"
proof (induction a arbitrary: a')
  case Nil
  then show ?case by (cases a') auto
next
  case (Cons c a)
  then show ?case by (cases a') auto
qed

lemma showInt_inj: "showInt i = showInt j \<Longrightarrow> i = j"
  by (metis option.inject parseInt10_showInt)

lemma colon_not_in_showInt: "CHR '':'' \<notin> set (showInt i)"
proof -
  have "CHR '':'' \<notin> set (showNat n)" for n
    using showNat_digits [of n] by (auto simp: list_all_iff isDigit_def)
  then show ?thesis by (simp add: showInt_def)
qed

text \<open>A name that the resolver asks about has no colon.\<close>

definition dnsName :: "string \<Rightarrow> bool" where "dnsName d \<longleftrightarrow> CHR '':'' \<notin> set d"

lemma decisionKey_inj:
  assumes "dnsName d" "dnsName d'" and "decisionKey ip v d = decisionKey ip' v' d'"
  shows "ip = ip' \<and> v = v' \<and> d = d'"
proof -
  from assms(3) have "(ip @ CHR '':'' # showInt v) @ CHR '':'' # d = (ip' @ CHR '':'' # showInt v') @ CHR '':'' # d'"
    by (simp add: decisionKey_def)
  then have e: "ip @ CHR '':'' # showInt v = ip' @ CHR '':'' # showInt v'" and "d = d'"
    using last_delim_unique [of "CHR '':''" d d' "ip @ CHR '':'' # showInt v" "ip' @ CHR '':'' # showInt v'"]
      assms(1,2) by (simp_all add: dnsName_def)
  from last_delim_unique [OF colon_not_in_showInt colon_not_in_showInt e] showInt_inj [of v v'] \<open>d = d'\<close>
  show ?thesis by simp
qed

lemma key_kinds [simp]:
  "versionKey a \<noteq> deviceIdKey b" "versionKey a \<noteq> heartbeatKey c" "versionKey a \<noteq> decisionKey b v d"
  "deviceIdKey a \<noteq> versionKey b" "deviceIdKey a \<noteq> heartbeatKey c" "deviceIdKey a \<noteq> decisionKey b v d"
  "heartbeatKey c \<noteq> versionKey a" "heartbeatKey c \<noteq> deviceIdKey a" "heartbeatKey c \<noteq> decisionKey b v d"
  "decisionKey b v d \<noteq> versionKey a" "decisionKey b v d \<noteq> deviceIdKey a" "decisionKey b v d \<noteq> heartbeatKey c"
  by (simp_all add: versionKey_def deviceIdKey_def heartbeatKey_def decisionKey_def)

lemma versionKey_inj [simp]: "versionKey a = versionKey b \<longleftrightarrow> a = b"
  by (simp add: versionKey_def)

section \<open>The policy as a list of rules\<close>

text \<open>The first rule whose condition holds decides.\<close>

fun firstRule :: "(bool \<times> DnsPolicyResponse) list \<Rightarrow> DnsPolicyResponse" where
  "firstRule [] = allowResponse"
| "firstRule ((b, r) # rs) = (if b then r else firstRule rs)"

definition timeIsUp :: "time \<Rightarrow> ident \<Rightarrow> 'z store_scheme \<Rightarrow> bool" where
  "timeIsUp now deviceId s =
     (case findLiveSession deviceId s of
        None \<Rightarrow> False
      | Some x \<Rightarrow> patch (ses_resumedAt x) (ses_startedAt x) + ses_durationMinutes x * 60000 \<le> now)"

definition blockedCategory :: "string \<Rightarrow> Device \<Rightarrow> 'z store_scheme \<Rightarrow> BlockCategory option" where
  "blockedCategory domain d s =
     (case findBlockedDomain domain s of
        None \<Rightarrow> None
      | Some b \<Rightarrow>
          (case (bdm_category b, dev_childId d) of
             (Some cat, Some c) \<Rightarrow> if categoryActive s c cat then Some cat else None
           | _ \<Rightarrow> None))"

definition policyDecision :: "bool \<Rightarrow> time \<Rightarrow> string \<Rightarrow> string \<Rightarrow> 'z store_scheme \<Rightarrow> DnsPolicyResponse" where
  "policyDecision strictMode now ip domain s =
     (case findDeviceByIp ip s of
        None \<Rightarrow> allowResponse
      | Some d \<Rightarrow>
          firstRule
            [(strictMode \<and> isStrictDohDomain domain, blockResponse R_STRICT_MODE_DOH None),
             (dev_internetLocked d, blockResponse R_FULL_INTERNET_LOCK None),
             (dev_status d = DEV_BLOCKED, blockResponse R_MANUAL_BLOCK None),
             (timeIsUp now (dev_id d) s, blockResponse R_TIME_LIMIT_EXCEEDED None),
             (blockedCategory domain d s \<noteq> None, blockResponse R_CATEGORY_BLOCKED (blockedCategory domain d s)),
             (findBlockedDomain domain s \<noteq> None, blockResponse R_DOMAIN_BLOCKED None)])"

text \<open>The remaining time that the DNS engine computes does not depend on \<^verbatim>\<open>remainingMinutes\<close> nor on the
  extension: it is the original duration minus the time since the last start or resume.\<close>

lemma dnsRemainingMs_eq:
  "dnsRemainingMs now x = ses_durationMinutes x * 60000 - (now - patch (ses_resumedAt x) (ses_startedAt x))"
  by (simp add: dnsRemainingMs_def algebra_simps)

lemma timeIsUp_eq:
  "timeIsUp now i s = (case findLiveSession i s of None \<Rightarrow> False | Some x \<Rightarrow> dnsRemainingMs now x \<le> 0)"
  by (auto simp: timeIsUp_def dnsRemainingMs_eq split: option.splits)

lemma store_queries_cset [simp]:
  "findDeviceByIp ip (cset C t k v ttl s) = findDeviceByIp ip s"
  "findLiveSession i (cset C t k v ttl s) = findLiveSession i s"
  "findBlockedDomain d (cset C t k v ttl s) = findBlockedDomain d s"
  "categoryActive (cset C t k v ttl s) c cat = categoryActive s c cat"
  by (simp_all add: findDeviceByIp_def findLiveSession_def findBlockedDomain_def categoryActive_def)

lemma fst_blockWith [simp]: "fst (blockWith C now k d ip i r s) = r"
  by (simp add: blockWith_def)

lemma evaluatePolicy_decision:
  "fst (evaluatePolicy C strictMode now ip domain k s) = policyDecision strictMode now ip domain s"
proof (cases "findDeviceByIp ip s")
  case None
  then show ?thesis by (simp add: evaluatePolicy_def policyDecision_def)
next
  case (Some d)
  show ?thesis
  proof (cases "findBlockedDomain domain s")
    case None
    with Some show ?thesis
      by (simp add: evaluatePolicy_def policyDecision_def timeIsUp_eq blockedCategory_def Let_def)
  next
    case (Some b)
    with \<open>findDeviceByIp ip s = Some d\<close> show ?thesis
      by (cases "bdm_category b"; cases "dev_childId d")
        (simp_all add: evaluatePolicy_def policyDecision_def timeIsUp_eq blockedCategory_def Let_def)
  qed
qed

lemma evaluatePolicy_cases:
  assumes "findDeviceByIp ip s = Some dev"
    and "\<And>r. P (blockWith C now k domain ip (dev_id dev) r
                (cset C now (deviceIdKey ip) (CDeviceId (dev_id dev)) 30000 s))"
    and "P (allowResponse, recordUnknownDomain now domain ip (dev_id dev) (touchHeartbeat C now (dev_id dev)
             (logQuery now domain ip ''ALLOW'' (cset C now k (CDecision allowResponse) 30000
               (cset C now (deviceIdKey ip) (CDeviceId (dev_id dev)) 30000 s)))))"
  shows "P (evaluatePolicy C strictMode now ip domain k s)"
  using assms(1) by (simp add: evaluatePolicy_def Let_def assms(2,3) split: option.split)

lemma checkPolicy_miss:
  assumes "cget C now (decisionKey ip (getVersion C now ip s) domain) s = None"
  shows "checkPolicy C strictMode now ip domain s =
           evaluatePolicy C strictMode now ip domain (decisionKey ip (getVersion C now ip s) domain) s"
  using assms by (simp add: checkPolicy_def)

lemma checkPolicy_hit:
  assumes "cget C now (decisionKey ip (getVersion C now ip s) domain) s = Some (CDecision r)"
  shows "fst (checkPolicy C strictMode now ip domain s) = r"
  using assms by (simp add: checkPolicy_def Let_def)

section \<open>Runs of the engine\<close>

text \<open>A deployment whose cache is empty at \<open>t0\<close>: queries, invalidations and arbitrary writes to the
  database by the other services, at times that do not go back.\<close>

inductive dns_run :: "'c cacheOps \<Rightarrow> bool \<Rightarrow> time \<Rightarrow> time \<Rightarrow> ('c, 'z) gstore_scheme \<Rightarrow> bool"
  for C :: "'c cacheOps" and strictMode :: bool and t0 :: time where
  init: "(\<And>t k. c_get C t (dnsCache s) k = None) \<Longrightarrow> dns_run C strictMode t0 t0 s"
| query: "dns_run C strictMode t0 t s \<Longrightarrow> t \<le> t' \<Longrightarrow> dnsName d \<Longrightarrow>
     dns_run C strictMode t0 t' (snd (checkPolicy C strictMode t' ip d s))"
| invalidate: "dns_run C strictMode t0 t s \<Longrightarrow> t \<le> t' \<Longrightarrow>
     dns_run C strictMode t0 t' (invalidateSourceIps C t' ips s)"
| elsewhere: "dns_run C strictMode t0 t s \<Longrightarrow> t \<le> t' \<Longrightarrow> dnsCache s' = dnsCache s \<Longrightarrow>
     dns_run C strictMode t0 t' s'"

text \<open>Until a day after \<open>t0\<close> the version of an address only moves by a bump, and no cached decision is
  of a later version than the current one.\<close>

definition cache_inv :: "'c cacheOps \<Rightarrow> time \<Rightarrow> time \<Rightarrow> ('c, 'z) gstore_scheme \<Rightarrow> bool" where
  "cache_inv C t0 t s \<longleftrightarrow> t0 \<le> t \<and>
     (\<forall>t' ip. t \<le> t' \<longrightarrow> t' < t0 + msPerDay \<longrightarrow> getVersion C t' ip s = getVersion C t ip s) \<and>
     (\<forall>t' ip v d r. t \<le> t' \<longrightarrow> t' < t0 + msPerDay \<longrightarrow> dnsName d \<longrightarrow>
        cget C t' (decisionKey ip v d) s = Some r \<longrightarrow> v \<le> getVersion C t ip s)"

lemma cache_invI:
  assumes "t0 \<le> t"
    and "\<And>t' ip. t \<le> t' \<Longrightarrow> t' < t0 + msPerDay \<Longrightarrow> getVersion C t' ip s = getVersion C t ip s"
    and "\<And>t' ip v d r. t \<le> t' \<Longrightarrow> t' < t0 + msPerDay \<Longrightarrow> dnsName d \<Longrightarrow>
          cget C t' (decisionKey ip v d) s = Some r \<Longrightarrow> v \<le> getVersion C t ip s"
  shows "cache_inv C t0 t s"
  using assms unfolding cache_inv_def by blast

lemma cache_inv_start: "cache_inv C t0 t s \<Longrightarrow> t0 \<le> t"
  unfolding cache_inv_def by blast

lemma cache_inv_version:
  "cache_inv C t0 t s \<Longrightarrow> t \<le> t' \<Longrightarrow> t' < t0 + msPerDay \<Longrightarrow> getVersion C t' ip s = getVersion C t ip s"
  unfolding cache_inv_def by blast

lemma cache_inv_cached:
  "cache_inv C t0 t s \<Longrightarrow> t \<le> t' \<Longrightarrow> t' < t0 + msPerDay \<Longrightarrow> dnsName d \<Longrightarrow>
   cget C t' (decisionKey ip v d) s = Some r \<Longrightarrow> v \<le> getVersion C t ip s"
  unfolding cache_inv_def by blast

lemma cache_inv_later:
  assumes "cache_inv C t0 t s" "t \<le> t'" shows "cache_inv C t0 t' s"
proof (rule cache_invI)
  show "t0 \<le> t'" using cache_inv_start [OF assms(1)] assms(2) by linarith
next
  fix u ip assume "t' \<le> u" "u < t0 + msPerDay"
  with assms show "getVersion C u ip s = getVersion C t' ip s"
    using cache_inv_version [OF assms(1), of u ip] cache_inv_version [OF assms(1), of t' ip] by linarith
next
  fix u ip v d r assume "t' \<le> u" "u < t0 + msPerDay" "dnsName d" "cget C u (decisionKey ip v d) s = Some r"
  with assms show "v \<le> getVersion C t' ip s"
    using cache_inv_cached [OF assms(1), of u d ip v r] cache_inv_version [OF assms(1), of t' ip] by linarith
qed

lemma cache_inv_same_cache: "dnsCache s' = dnsCache s \<Longrightarrow> cache_inv C t0 t s' = cache_inv C t0 t s"
  by (simp add: cache_inv_def getVersion_def cget_def)

lemmas cache_inv_frame [simp] = dnsCache_frame [THEN cache_inv_same_cache]

context ttl_cache
begin

lemma getVersion_cset_other:
  "k \<noteq> versionKey ip \<Longrightarrow> getVersion C t' ip (cset C t k v ttl s) = getVersion C t' ip s"
  by (simp add: getVersion_def cget_cset_other)

lemma getVersion_bump:
  "t \<le> t' \<Longrightarrow> t' < t + msPerDay \<Longrightarrow>
   getVersion C t' ip' (bumpVersion C t ip s) =
     (if ip' = ip then getVersion C t ip s + 1 else getVersion C t' ip' s)"
  by (simp add: getVersion_def bumpVersion_def cget_cset_same cget_cset_other msPerDay_def)

lemma cache_inv_aux:
  assumes "cache_inv C t0 t s" "\<And>a. k \<noteq> versionKey a" "\<And>a v d. k \<noteq> decisionKey a v d"
  shows "cache_inv C t0 t (cset C t' k w ttl s)"
proof -
  have v: "getVersion C u a (cset C t' k w ttl s) = getVersion C u a s" for u a
    by (rule getVersion_cset_other [OF assms(2)])
  have d: "cget C u (decisionKey a v d) (cset C t' k w ttl s) = cget C u (decisionKey a v d) s" for u a v d
    by (rule cget_cset_other [OF assms(3) [symmetric]])
  show ?thesis using assms(1) unfolding cache_inv_def v d .
qed

lemma cache_inv_decision:
  assumes "cache_inv C t0 t s" "dnsName d"
  shows "cache_inv C t0 t (cset C t (decisionKey ip (getVersion C t ip s) d) w ttl s)"
proof (rule cache_invI)
  show "t0 \<le> t" by (rule cache_inv_start [OF assms(1)])
next
  fix u a assume "t \<le> u" "u < t0 + msPerDay"
  then show "getVersion C u a (cset C t (decisionKey ip (getVersion C t ip s) d) w ttl s) =
             getVersion C t a (cset C t (decisionKey ip (getVersion C t ip s) d) w ttl s)"
    using cache_inv_version [OF assms(1), of u a] by (simp add: getVersion_cset_other)
next
  fix u a v d' r assume h: "t \<le> u" "u < t0 + msPerDay" "dnsName d'"
    "cget C u (decisionKey a v d') (cset C t (decisionKey ip (getVersion C t ip s) d) w ttl s) = Some r"
  have "v \<le> getVersion C t a s"
  proof (cases "decisionKey a v d' = decisionKey ip (getVersion C t ip s) d")
    case True
    from decisionKey_inj [OF h(3) assms(2) True] show ?thesis by simp
  next
    case False
    with h cache_inv_cached [OF assms(1) h(1-3)] show ?thesis by (simp add: cget_cset_other)
  qed
  then show "v \<le> getVersion C t a (cset C t (decisionKey ip (getVersion C t ip s) d) w ttl s)"
    by (simp add: getVersion_cset_other)
qed

lemma cache_inv_bump:
  assumes "cache_inv C t0 t s"
  shows "cache_inv C t0 t (bumpVersion C t ip s)"
proof (rule cache_invI)
  show "t0 \<le> t" by (rule cache_inv_start [OF assms])
next
  fix u a assume "t \<le> u" "u < t0 + msPerDay"
  then show "getVersion C u a (bumpVersion C t ip s) = getVersion C t a (bumpVersion C t ip s)"
    using cache_inv_version [OF assms, of u a] cache_inv_start [OF assms]
    by (simp add: getVersion_bump)
next
  fix u a v d r assume h: "t \<le> u" "u < t0 + msPerDay" "dnsName d"
    "cget C u (decisionKey a v d) (bumpVersion C t ip s) = Some r"
  then have "cget C u (decisionKey a v d) s = Some r" by (simp add: bumpVersion_def cget_cset_other)
  from cache_inv_cached [OF assms h(1-3) this] show "v \<le> getVersion C t a (bumpVersion C t ip s)"
    by (cases "a = ip") (simp_all add: getVersion_bump msPerDay_def)
qed

lemma cache_inv_heartbeat: "cache_inv C t0 t s \<Longrightarrow> cache_inv C t0 t (touchHeartbeat C t i s)"
  by (auto simp: touchHeartbeat_def intro!: cache_inv_aux split: option.splits)

lemma getVersion_cset_dev [simp]: "getVersion C t ip (cset C t' (deviceIdKey a) w ttl s) = getVersion C t ip s"
  by (simp add: getVersion_cset_other)

lemma cache_inv_blockWith:
  assumes "cache_inv C t0 t s" "dnsName d"
  shows "cache_inv C t0 t (snd (blockWith C t (decisionKey ip (getVersion C t ip s) d) dd src i r s))"
  using cache_inv_decision [OF assms]
  by (auto simp: blockWith_def intro!: cache_inv_heartbeat)

lemma cache_inv_evaluate:
  assumes "cache_inv C t0 t s" "dnsName d"
  shows "cache_inv C t0 t (snd (evaluatePolicy C strictMode t ip d (decisionKey ip (getVersion C t ip s) d) s))"
proof (cases "findDeviceByIp ip s")
  case None
  then show ?thesis
    using cache_inv_decision [OF assms] by (simp add: evaluatePolicy_def)
next
  case (Some dev)
  define s1 where "s1 = cset C t (deviceIdKey ip) (CDeviceId (dev_id dev)) 30000 s"
  have i1: "cache_inv C t0 t s1" unfolding s1_def by (rule cache_inv_aux [OF assms(1)]) simp_all
  note b = cache_inv_blockWith [OF i1 assms(2)] and a = cache_inv_decision [OF i1 assms(2)]
  show ?thesis
    by (rule evaluatePolicy_cases [OF Some, where P = "\<lambda>x. cache_inv C t0 t (snd x)"])
      (use a b in \<open>simp_all add: s1_def cache_inv_heartbeat\<close>)
qed

lemma cache_inv_check:
  assumes "cache_inv C t0 t s" "dnsName d"
  shows "cache_inv C t0 t (snd (checkPolicy C strictMode t ip d s))"
  using cache_inv_evaluate [OF assms] assms(1)
  by (auto simp: checkPolicy_def Let_def intro!: cache_inv_heartbeat split: option.splits CacheVal.splits)

lemma cache_inv_invalidate: "cache_inv C t0 t s \<Longrightarrow> cache_inv C t0 t (invalidateSourceIps C t ips s)"
  by (induction ips arbitrary: s) (auto simp: cache_inv_bump split: option.splits)

lemma dns_run_inv: "dns_run C strictMode t0 t s \<Longrightarrow> cache_inv C t0 t s"
proof (induction rule: dns_run.induct)
  case (init s)
  then show ?case by (intro cache_invI) (simp_all add: getVersion_def cget_def)
next
  case (query t s t' d ip)
  then show ?case by (blast intro: cache_inv_later cache_inv_check)
next
  case (invalidate t s t' ips)
  then show ?case by (blast intro: cache_inv_later cache_inv_invalidate)
next
  case (elsewhere t s t' s')
  then show ?case using cache_inv_same_cache [OF elsewhere(3)] by (blast intro: cache_inv_later)
qed

lemma cget_heartbeat [simp]:
  "cget C u (versionKey a) (touchHeartbeat C t i s) = cget C u (versionKey a) s"
  "cget C u (decisionKey ip v d) (touchHeartbeat C t i s) = cget C u (decisionKey ip v d) s"
  by (simp_all add: touchHeartbeat_def cget_cset_other split: option.split)

text \<open>A computed decision stays in the cache for 30 s, and a query never touches a version.\<close>

lemma cached_after_evaluate:
  assumes "t \<le> u" "u < t + 30000"
  shows "cget C u (decisionKey ip v d) (snd (evaluatePolicy C strictMode t ip d (decisionKey ip v d) s)) =
           Some (CDecision (policyDecision strictMode t ip d s))"
proof -
  let ?P = "\<lambda>x. cget C u (decisionKey ip v d) (snd x) = Some (CDecision (fst x))"
  have "?P (evaluatePolicy C strictMode t ip d (decisionKey ip v d) s)"
  proof (cases "findDeviceByIp ip s")
    case None
    with assms show ?thesis by (simp add: evaluatePolicy_def cget_cset_same)
  next
    case (Some dev)
    show ?thesis
      by (rule evaluatePolicy_cases [OF Some, where P = ?P])
        (use assms in \<open>simp_all add: blockWith_def cget_cset_same\<close>)
  qed
  then show ?thesis by (simp add: evaluatePolicy_decision)
qed

lemma cget_version_evaluate:
  "cget C u (versionKey a) (snd (evaluatePolicy C strictMode t ip d (decisionKey ip v d') s)) =
     cget C u (versionKey a) s"
proof (cases "findDeviceByIp ip s")
  case None
  then show ?thesis by (simp add: evaluatePolicy_def cget_cset_other)
next
  case (Some dev)
  show ?thesis
    by (rule evaluatePolicy_cases [OF Some, where P = "\<lambda>x. cget C u (versionKey a) (snd x) = cget C u (versionKey a) s"])
      (simp_all add: blockWith_def cget_cset_other)
qed

lemma invalidate_version:
  "getVersion C t ip (invalidateSourceIps C t ips s) =
     getVersion C t ip s + (if ip = [] then 0 else int (count_list ips (Some ip)))"
  by (induction ips arbitrary: s) (auto simp: getVersion_bump msPerDay_def split: option.splits)

lemma invalidate_decisions:
  "cget C t' (decisionKey ip v d) (invalidateSourceIps C t ips s) = cget C t' (decisionKey ip v d) s"
  by (induction ips arbitrary: s) (auto simp: bumpVersion_def cget_cset_other split: option.splits)

end

section \<open>Domain matching\<close>

lemma dropLabels_iff: "zs \<in> set (dropLabels ws) \<longleftrightarrow> (\<exists>as. ws = as @ zs) \<and> 2 \<le> length zs"
proof (induction ws rule: dropLabels.induct)
  case (1 w v ws)
  have "(\<exists>as. w # v # ws = as @ zs) \<longleftrightarrow> zs = w # v # ws \<or> (\<exists>as. v # ws = as @ zs)"
    by (metis append_Cons append_Nil list.inject neq_Nil_conv)
  with 1 show ?case by auto
qed (auto simp: append_eq_Cons_conv Cons_eq_append_conv)

lemma splitOn_append_delim: "splitOn d (t @ d # s) = splitOn d t @ splitOn d s"
proof (induction t)
  case (Cons c t)
  then show ?case by (cases "splitOn d t") auto
qed simp

lemma two_labels: "2 \<le> length (splitOn d b) \<longleftrightarrow> d \<in> set b"
proof
  assume "d \<in> set b"
  then obtain x y where b: "b = x @ d # y" by (auto simp: in_set_conv_decomp)
  have "length (splitOn d x) \<ge> 1" "length (splitOn d y) \<ge> 1"
    by (simp_all add: Suc_le_eq)
  then show "2 \<le> length (splitOn d b)" by (simp only: b splitOn_append_delim length_append)
next
  assume "2 \<le> length (splitOn d b)"
  then show "d \<in> set b" using splitOn_plain [of d b] by fastforce
qed

lemma joinWith_append:
  "as \<noteq> [] \<Longrightarrow> zs \<noteq> [] \<Longrightarrow> joinWith sep (as @ zs) = joinWith sep as @ sep @ joinWith sep zs"
proof (induction as rule: induct_list012)
  case (2 x)
  then show ?case by (cases zs) auto
qed auto

lemma candidates_iff:
  "b \<in> set (candidates domain) \<longleftrightarrow>
     CHR ''.'' \<in> set b \<and> (normDomain domain = b \<or> endsWith (normDomain domain) (''.'' @ b))"
proof
  assume "b \<in> set (candidates domain)"
  then obtain as zs where sp: "splitOn (CHR ''.'') (normDomain domain) = as @ zs" and z: "2 \<le> length zs"
    and b: "b = joinWith ''.'' zs"
    by (auto simp: candidates_def dropLabels_iff)
  have "splitOn (CHR ''.'') b = zs"
    unfolding b using z sp splitOn_no_delim [of _ "CHR ''.''" "normDomain domain"]
    by (intro split_joinWith) auto
  then have dot: "CHR ''.'' \<in> set b" using z two_labels by metis
  have "normDomain domain = joinWith ''.'' (as @ zs)" using join_splitOn sp by metis
  then have "normDomain domain = b \<or> endsWith (normDomain domain) (''.'' @ b)"
  proof (cases "as = []")
    case False
    moreover have "zs \<noteq> []" using z by auto
    ultimately show ?thesis
      using b joinWith_append [of as zs "''.''"] \<open>normDomain domain = joinWith ''.'' (as @ zs)\<close>
      by (auto simp: endsWith_iff)
  qed (simp add: b)
  with dot show "CHR ''.'' \<in> set b \<and> (normDomain domain = b \<or> endsWith (normDomain domain) (''.'' @ b))" by simp
next
  assume h: "CHR ''.'' \<in> set b \<and> (normDomain domain = b \<or> endsWith (normDomain domain) (''.'' @ b))"
  then obtain as where "splitOn (CHR ''.'') (normDomain domain) = as @ splitOn (CHR ''.'') b"
    by (metis append_Cons append_Nil endsWith_iff splitOn_append_delim)
  with h have "splitOn (CHR ''.'') b \<in> set (dropLabels (splitOn (CHR ''.'') (normDomain domain)))"
    by (auto simp: dropLabels_iff two_labels)
  then show "b \<in> set (candidates domain)"
    unfolding candidates_def by (force simp: join_splitOn intro: rev_image_eqI)
qed

section \<open>Queries under changes that keep their columns\<close>

lemma insort_key_map: "(\<And>x. k (g x) = k x) \<Longrightarrow> insort_key k (g x) (map g xs) = map g (insort_key k x xs)"
  by (induction xs) auto

lemma sort_key_map: "(\<And>x. k (g x) = k x) \<Longrightarrow> sort_key k (map g xs) = map g (sort_key k xs)"
  by (induction xs) (simp_all add: insort_key_map)

lemma findMany_map: "(\<And>x. P (g x) = P x) \<Longrightarrow> findMany P (map g xs) = map g (findMany P xs)"
  by (induction xs) auto

text \<open>A write to a session that keeps the columns the engine reads keeps the deadline.\<close>

lemma timeIsUp_updateSession:
  assumes "\<And>x. ses_deviceId (f x) = ses_deviceId x" "\<And>x. ses_status (f x) = ses_status x"
    "\<And>x. ses_startedAt (f x) = ses_startedAt x" "\<And>x. ses_resumedAt (f x) = ses_resumedAt x"
    "\<And>x. ses_durationMinutes (f x) = ses_durationMinutes x"
  shows "timeIsUp now d (updateSession i f s) = timeIsUp now d s"
proof -
  let ?g = "\<lambda>r. if ses_id r = i then f r else r"
  have "findLiveSession d (updateSession i f s) = map_option ?g (findLiveSession d s)"
    by (simp add: findLiveSession_def updateSession_def updateMany_def orderByDesc_def
        findMany_map sort_key_map assms split: list.split)
  then show ?thesis by (cases "findLiveSession d s") (simp_all add: timeIsUp_def assms)
qed

lemma policyDecision_cong:
  assumes "devices s' = devices s" "blockedDomains s' = blockedDomains s" "categoryBlocks s' = categoryBlocks s"
    and "\<And>d. timeIsUp now d s' = timeIsUp now d s"
  shows "policyDecision strictMode now ip domain s' = policyDecision strictMode now ip domain s"
proof -
  have "findDeviceByIp ip s' = findDeviceByIp ip s" "findBlockedDomain domain s' = findBlockedDomain domain s"
    "categoryActive s' c cat = categoryActive s c cat" for c cat
    by (simp_all add: findDeviceByIp_def findBlockedDomain_def categoryActive_def assms)
  then show ?thesis by (auto simp: policyDecision_def blockedCategory_def assms split: option.split)
qed

text \<open>After the invalidation of an address nothing cached for it is used, whatever else was written.\<close>

lemma fresh_after_invalidation:
  assumes "ttl_cache C" and "cache_inv C t0 t1 s" and "t1 \<le> t2" "t2 < t0 + msPerDay"
    and "Some ip \<in> set ips" "ip \<noteq> []" "dnsName domain"
    and "dnsCache s' = dnsCache (invalidateSourceIps C t1 ips s)"
  shows "fst (checkPolicy C strictMode t2 ip domain s') = policyDecision strictMode t2 ip domain s'"
proof -
  let ?s = "invalidateSourceIps C t1 ips s"
  have newer: "getVersion C t1 ip s < getVersion C t1 ip ?s"
    using assms(5,6) ttl_cache.invalidate_version [OF assms(1), of t1 ip ips s]
    by (simp add: count_list_0_iff zero_less_iff_neq_zero)
  have v: "getVersion C t2 ip s' = getVersion C t1 ip ?s"
    using cache_inv_version [OF ttl_cache.cache_inv_invalidate [OF assms(1,2)] assms(3,4)]
    by (simp add: getVersion_def cget_def assms(8))
  have "cget C t2 (decisionKey ip (getVersion C t2 ip s') domain) s' = None"
  proof (rule ccontr)
    assume "cget C t2 (decisionKey ip (getVersion C t2 ip s') domain) s' \<noteq> None"
    then obtain r where "cget C t2 (decisionKey ip (getVersion C t1 ip ?s) domain) ?s = Some r"
      by (auto simp: v cget_def assms(8))
    then have "cget C t2 (decisionKey ip (getVersion C t1 ip ?s) domain) s = Some r"
      by (simp add: ttl_cache.invalidate_decisions [OF assms(1)])
    from cache_inv_cached [OF assms(2-4,7) this] newer show False by simp
  qed
  then show ?thesis by (simp add: checkPolicy_miss evaluatePolicy_decision)
qed

section \<open>Properties\<close>

text \<open>\<open>checkPolicy\<close> implements the policy. Its answer is the cached decision of the current version
  when there is one, and otherwise the first applicable rule of the list: DoH bootstrap domain in
  strict mode, internet lock, manual block, time up, blocked category, blocked domain, else ALLOW.\<close>
theorem checkPolicy_refines:
  "fst (checkPolicy C strictMode now ip domain s) =
     (case cget C now (decisionKey ip (getVersion C now ip s) domain) s of
        Some (CDecision cached) \<Rightarrow> cached
      | _ \<Rightarrow> policyDecision strictMode now ip domain s)"
  by (simp add: checkPolicy_def Let_def evaluatePolicy_decision split: option.split CacheVal.split)


definition dnsStore :: "mapStore gstore" where
  "dnsStore = store.extend demoStore \<lparr>dnsCache = Map.empty\<rparr>"

definition lockDemo :: "'z store_scheme \<Rightarrow> 'z store_scheme" where
  "lockDemo s = s\<lparr>devices := [(bareDevice ''d'' ''p'' ''c'')\<lparr>dev_internetLocked := True\<rparr>]\<rparr>"

lemma dnsStore_tables:
  "devices dnsStore = [bareDevice ''d'' ''p'' ''c'']" "sessions dnsStore = []" "blockedDomains dnsStore = []"
  by (simp_all add: dnsStore_def store.defs demoStore_def emptyStore_def)


text \<open>C40: A version reset does resurrect a stale decision. The per-address version counter is itself a
  cache entry that lives 24 hours: bump it at time 0, cache an ALLOW under version 1 one second before
  it expires, then lock the device and invalidate two seconds later. The counter restarts at 1, the old
  key is live again, and the query after the lock is still answered ALLOW, against the policy.\<close>
theorem version_reset_resurrects:
  "let s0 = invalidateSourceIps mapCache 0 [Some ''192.168.1.45''] dnsStore;
       s1 = snd (checkPolicy mapCache False 86399000 ''192.168.1.45'' ''a.b'' s0);
       s2 = invalidateSourceIps mapCache 86401000 [Some ''192.168.1.45''] (lockDemo s1)
   in dpr_action (fst (checkPolicy mapCache False 86402000 ''192.168.1.45'' ''a.b'' s2)) = ALLOW \<and>
      dpr_action (policyDecision False 86402000 ''192.168.1.45'' ''a.b'' s2) = BLOCK"
proof -
  let ?ip = "''192.168.1.45''" and ?k = "\<lambda>v. decisionKey ''192.168.1.45'' v ''a.b''"
  define s0 where "s0 = invalidateSourceIps mapCache 0 [Some ?ip] dnsStore"
  define s1 where "s1 = snd (checkPolicy mapCache False 86399000 ?ip ''a.b'' s0)"
  define s2 where "s2 = invalidateSourceIps mapCache 86401000 [Some ?ip] (lockDemo s1)"
  have bump: "s0 = bumpVersion mapCache 0 ?ip dnsStore" by (simp add: s0_def)
  have empty: "cget mapCache t k dnsStore = None" for t k
    by (simp add: cget_def mapCache_def dnsStore_def store.defs)
  have v0: "getVersion mapCache 86399000 ?ip s0 = 1"
    using map_cache.getVersion_bump [of 0 86399000 ?ip ?ip dnsStore]
    by (simp add: bump msPerDay_def getVersion_def empty)
  have "cget mapCache 86399000 (?k 1) s0 = None"
    by (simp add: bump bumpVersion_def map_cache.cget_cset_other empty)
  then have s1: "s1 = snd (evaluatePolicy mapCache False 86399000 ?ip ''a.b'' (?k 1) s0)"
    by (simp add: s1_def checkPolicy_miss v0)
  have "findDeviceByIp ?ip s0 = Some (bareDevice ''d'' ''p'' ''c'')" "findLiveSession x s0 = None"
    "findBlockedDomain y s0 = None" for x y
    unfolding s0_def findDeviceByIp_def findLiveSession_def findBlockedDomain_def invalidate_frame dnsStore_tables
    by (simp_all add: bareDevice_def)
  then have allow: "policyDecision False 86399000 ?ip ''a.b'' s0 = allowResponse"
    by (simp add: policyDecision_def bareDevice_def timeIsUp_def blockedCategory_def)
  have cached: "cget mapCache 86402000 (?k 1) s1 = Some (CDecision allowResponse)"
    unfolding s1 by (subst map_cache.cached_after_evaluate) (simp_all add: allow)
  have "cget mapCache 86401000 (versionKey ?ip) s1 = None"
    unfolding s1 map_cache.cget_version_evaluate by (simp add: bump bumpVersion_def map_cache.cget_cset_same)
  then have "getVersion mapCache 86401000 ?ip (lockDemo s1) = 0"
    by (simp add: getVersion_def cget_def lockDemo_def)
  then have v2: "getVersion mapCache 86402000 ?ip s2 = 1"
    using map_cache.getVersion_bump [of 86401000 86402000 ?ip ?ip "lockDemo s1"]
    by (simp add: s2_def msPerDay_def)
  have "cget mapCache 86402000 (?k 1) s2 = Some (CDecision allowResponse)"
    using cached unfolding s2_def map_cache.invalidate_decisions by (simp add: cget_def lockDemo_def)
  then have "fst (checkPolicy mapCache False 86402000 ?ip ''a.b'' s2) = allowResponse"
    by (simp add: checkPolicy_hit v2)
  moreover have "dpr_action (policyDecision False 86402000 ?ip ''a.b'' s2) = BLOCK"
    by (simp add: s2_def policyDecision_def lockDemo_def findDeviceByIp_def bareDevice_def blockResponse_def)
  ultimately show ?thesis by (simp add: Let_def s0_def s1_def s2_def allowResponse_def)
qed


text \<open>Domain blocking is suffix matching on labels. The engine finds a blocked domain for a name
  exactly when some row's domain has at least two labels and equals the name (case and a trailing dot
  aside) or is a parent domain of it; the \<^verbatim>\<open>wildcard\<close> flag of the row plays no part.\<close>
theorem findBlockedDomain_suffix:
  "findBlockedDomain domain s \<noteq> None \<longleftrightarrow>
     (\<exists>b \<in> set (blockedDomains s). CHR ''.'' \<in> set (bdm_domain b) \<and>
        (normDomain domain = bdm_domain b \<or> endsWith (normDomain domain) (''.'' @ bdm_domain b)))"
  by (auto simp: findBlockedDomain_def tbl_simps candidates_iff)

end
