(* ===== verification/Adapters.thy ===== *)
theory Adapters
  imports Schema
begin

text \<open>
  The control adapters (\<^verbatim>\<open>enforcement/adapters/*.ts\<close>): Android agent, iOS Screen Time, Xbox, network
  gateway and mock, the record \<open>adapter\<close> of the interface's methods, the command-delivery queue
  (\<^verbatim>\<open>command-queue.service.ts\<close>, \<^verbatim>\<open>command-queue.processor.ts\<close>) and the choice of an adapter by device type.
  The locale \<open>control_adapter\<close> is the contract of the interface \<^verbatim>\<open>ControlAdapter\<close> that the enforcement
  service relies on.
\<close>

section \<open>The interface\<close>

record ControlResult =
  cr_success :: bool
  cr_message :: string
  cr_data :: "(string \<times> json) list option"

record AdapterDeviceStatus =
  st_online :: bool
  st_blocked :: bool
  st_lastSeen :: "time option"

record 's adapter =
  ca_startSession :: "time \<Rightarrow> Device \<Rightarrow> json option \<Rightarrow> 's \<Rightarrow> ControlResult \<times> 's"
  ca_stopSession :: "time \<Rightarrow> Device \<Rightarrow> 's \<Rightarrow> ControlResult \<times> 's"
  ca_blockDevice :: "time \<Rightarrow> Device \<Rightarrow> string \<Rightarrow> 's \<Rightarrow> ControlResult \<times> 's"
  ca_unblockDevice :: "time \<Rightarrow> Device \<Rightarrow> 's \<Rightarrow> ControlResult \<times> 's"
  ca_extendSession :: "time \<Rightarrow> Device \<Rightarrow> int \<Rightarrow> 's \<Rightarrow> ControlResult \<times> 's"
  ca_getStatus :: "time \<Rightarrow> Device \<Rightarrow> 's \<Rightarrow> AdapterDeviceStatus"

definition ok_result :: "string \<Rightarrow> ControlResult" where
  "ok_result m = \<lparr>cr_success = True, cr_message = m, cr_data = None\<rparr>"

definition fail_result :: "string \<Rightarrow> ControlResult" where
  "fail_result m = \<lparr>cr_success = False, cr_message = m, cr_data = None\<rparr>"

fun getAdapterForDevice :: "DeviceType \<Rightarrow> ControlMethod" where
  "getAdapterForDevice ANDROID_PHONE = ANDROID_AGENT"
| "getAdapterForDevice ANDROID_TABLET = ANDROID_AGENT"
| "getAdapterForDevice IPHONE = IOS_SCREEN_TIME"
| "getAdapterForDevice IPAD = IOS_SCREEN_TIME"
| "getAdapterForDevice XBOX = XBOX_ADAPTER"
| "getAdapterForDevice PLAYSTATION = NETWORK_GATEWAY"
| "getAdapterForDevice SMART_TV = NETWORK_GATEWAY"
| "getAdapterForDevice STREAMING_BOX = NETWORK_GATEWAY"
| "getAdapterForDevice OTHER = NETWORK_GATEWAY"
| "getAdapterForDevice _ = MOCK"

definition isOfflineGameUnsupported :: "Device \<Rightarrow> bool" where
  "isOfflineGameUnsupported device = (dev_type device \<in> {PLAYSTATION, SMART_TV, STREAMING_BOX, OTHER})"

text \<open>The status that the agent adapters share: seen in the last five minutes, and the status column.\<close>

definition seenStatus :: "time \<Rightarrow> Device \<Rightarrow> AdapterDeviceStatus" where
  "seenStatus now device =
     \<lparr>st_online = (case dev_lastSeen device of None \<Rightarrow> False | Some t \<Rightarrow> now - t < 300000),
      st_blocked = (dev_status device = DEV_BLOCKED), st_lastSeen = dev_lastSeen device\<rparr>"

section \<open>Command delivery\<close>

definition newCommand :: "time \<Rightarrow> ident \<Rightarrow> ident \<Rightarrow> CommandType \<Rightarrow> string \<Rightarrow> Command" where
  "newCommand now i deviceId ty payload =
     \<lparr>cmd_id = i, cmd_deviceId = deviceId, cmd_type = ty, cmd_payload = Some payload,
      cmd_status = CMD_PENDING, cmd_deliveredAt = None, cmd_ackedAt = None, cmd_createdAt = now\<rparr>"

text \<open>\<^verbatim>\<open>enqueueCommand\<close> adds a job to the queue; BullMQ runs it up to three times.\<close>

definition enqueueCommand :: "CommandJobData \<Rightarrow> 'z store_scheme \<Rightarrow> 'z store_scheme" where
  "enqueueCommand data s = s\<lparr>jobs := jobs s @ [data]\<rparr>"

definition processJob :: "time \<Rightarrow> CommandJobData \<Rightarrow> 'z store_scheme \<Rightarrow> unit result \<times> 'z store_scheme" where
  "processJob now job s =
     (case findDevice s (job_deviceId job) of
        None \<Rightarrow> (Inr (), s)
      | Some device \<Rightarrow>
          if dev_status device = DEV_OFFLINE
          then (Inl (JsError (''Device '' @ job_deviceId job @ '' is offline'')), s)
          else
            (case findUnique cmd_id (job_commandId job) (commands s) of
               None \<Rightarrow> (Inl PrismaRecordNotFound, s)
             | Some _ \<Rightarrow>
                 (Inr (), s\<lparr>commands := updateMany (\<lambda>c. cmd_id c = job_commandId job)
                              (\<lambda>c. c\<lparr>cmd_status := CMD_DELIVERED, cmd_deliveredAt := Some now\<rparr>) (commands s)\<rparr>)))"

section \<open>Android agent\<close>

definition createCommand_Android ::
  "time \<Rightarrow> Device \<Rightarrow> CommandType \<Rightarrow> string \<Rightarrow> 'z store_scheme \<Rightarrow> 'z store_scheme" where
  "createCommand_Android now device ty payload s =
     (let c = newCommand now (newId s) (dev_id device) ty payload
      in enqueueCommand
           \<lparr>job_commandId = cmd_id c, job_deviceId = dev_id device, job_type = ty, job_payload = payload,
            job_controlMethod = dev_controlMethod device\<rparr>
           (drawId (s\<lparr>commands := commands s @ [c]\<rparr>)))"

definition androidAdapter :: "'z store_scheme adapter" where
  "androidAdapter =
     \<lparr>ca_startSession = (\<lambda>now device rule s.
        (ok_result ''Session started: commands queued for Android agent'',
         createCommand_Android now device BLOCK_APPS (stringify (JObj [(''action'', JStr ''start_session'')]))
           (createCommand_Android now device SYNC_RULES (stringify (patch rule (JObj []))) s))),
      ca_stopSession = (\<lambda>now device s.
        (ok_result ''Session stopped: commands queued for Android agent'',
         createCommand_Android now device UNBLOCK_APPS (stringify (JObj [(''action'', JStr ''stop_session'')])) s)),
      ca_blockDevice = (\<lambda>now device reason s.
        (ok_result ''Block command queued for Android agent'',
         createCommand_Android now device LOCK_DEVICE (stringify (JObj [(''reason'', JStr reason)])) s)),
      ca_unblockDevice = (\<lambda>now device s.
        (ok_result ''Unblock command queued for Android agent'',
         createCommand_Android now device UNBLOCK_APPS (stringify (JObj [(''action'', JStr ''unblock'')])) s)),
      ca_extendSession = (\<lambda>now device minutes s.
        (ok_result (''Extend '' @ showInt minutes @ ''min command queued for Android agent''),
         createCommand_Android now device SYNC_RULES (stringify (JObj [(''extendMinutes'', JNum minutes)])) s)),
      ca_getStatus = (\<lambda>now device s. seenStatus now device)\<rparr>"

section \<open>iOS Screen Time\<close>

definition UNSUPPORTED_MESSAGE :: string where
  "UNSUPPORTED_MESSAGE =
     ''iOS enforcement is not available yet '' @ emdash @ '' it requires an Apple Family Controls entitlement ''
     @ ''and a native iOS agent that do not exist in this deployment. The action was not applied to the device.''"

definition createCommand_Ios ::
  "time \<Rightarrow> ident \<Rightarrow> CommandType \<Rightarrow> string \<Rightarrow> 'z store_scheme \<Rightarrow> 'z store_scheme" where
  "createCommand_Ios now deviceId ty payload s =
     drawId (s\<lparr>commands := commands s @ [newCommand now (newId s) deviceId ty payload]\<rparr>)"

definition iosAdapter :: "'z store_scheme adapter" where
  "iosAdapter =
     \<lparr>ca_startSession = (\<lambda>now device rule s.
        (fail_result UNSUPPORTED_MESSAGE,
         createCommand_Ios now (dev_id device) SYNC_RULES (stringify (patch rule (JObj []))) s)),
      ca_stopSession = (\<lambda>now device s.
        (fail_result UNSUPPORTED_MESSAGE,
         createCommand_Ios now (dev_id device) SYNC_RULES (stringify (JObj [(''action'', JStr ''stop_session'')])) s)),
      ca_blockDevice = (\<lambda>now device reason s.
        (fail_result UNSUPPORTED_MESSAGE,
         createCommand_Ios now (dev_id device) BLOCK_APPS (stringify (JObj [(''reason'', JStr reason)])) s)),
      ca_unblockDevice = (\<lambda>now device s.
        (fail_result UNSUPPORTED_MESSAGE,
         createCommand_Ios now (dev_id device) UNBLOCK_APPS (stringify (JObj [(''action'', JStr ''unblock'')])) s)),
      ca_extendSession = (\<lambda>now device minutes s.
        (fail_result UNSUPPORTED_MESSAGE,
         createCommand_Ios now (dev_id device) SYNC_RULES (stringify (JObj [(''extendMinutes'', JNum minutes)])) s)),
      ca_getStatus = (\<lambda>now device s. seenStatus now device)\<rparr>"

section \<open>Xbox\<close>

definition getOAuthAccount :: "ident \<Rightarrow> 'z store_scheme \<Rightarrow> OAuthAccount option" where
  "getOAuthAccount parentId s =
     findFirst (\<lambda>a. oac_userId a = parentId \<and> oac_provider a = ''microsoft'') (oauthAccounts s)"

definition fallbackToGateway :: "Device \<Rightarrow> string \<Rightarrow> ControlResult" where
  "fallbackToGateway device act =
     (if truthy (dev_gatewayId device)
      then \<lparr>cr_success = True,
            cr_message = ''No Microsoft OAuth linked. Falling back to network gateway for '' @ act @ ''.'',
            cr_data = Some [(''fallback'', JBool True), (''method'', JStr ''NETWORK_GATEWAY''),
                            (''gatewayId'', nullable JStr (dev_gatewayId device))]\<rparr>
      else \<lparr>cr_success = False,
            cr_message = ''No Microsoft OAuth linked and no gateway configured. Cannot enforce '' @ act @ '' on Xbox.'',
            cr_data = Some [(''fallback'', JBool True), (''method'', JNull)]\<rparr>)"

definition xboxOr :: "string \<Rightarrow> ControlResult \<Rightarrow> Device \<Rightarrow> 'z store_scheme \<Rightarrow> ControlResult \<times> 'z store_scheme" where
  "xboxOr act r device s =
     (case getOAuthAccount (dev_parentId device) s of
        None \<Rightarrow> (fallbackToGateway device act, s) | Some _ \<Rightarrow> (r, s))"

definition xboxAdapter :: "'z store_scheme adapter" where
  "xboxAdapter =
     \<lparr>ca_startSession = (\<lambda>now device rule. xboxOr ''startSession''
        \<lparr>cr_success = True,
         cr_message = ''Xbox session rules stored. Microsoft Family Safety integration required for direct enforcement.'',
         cr_data = Some [(''hasOAuth'', JBool True), (''fallback'', JBool False)]\<rparr> device),
      ca_stopSession = (\<lambda>now device. xboxOr ''stopSession''
        (ok_result ''Xbox stop session stored. Direct control depends on Microsoft API availability.'') device),
      ca_blockDevice = (\<lambda>now device reason. xboxOr ''blockDevice''
        (ok_result ''Xbox block stored. Direct enforcement depends on Microsoft Family Safety API.'') device),
      ca_unblockDevice = (\<lambda>now device. xboxOr ''unblockDevice''
        (ok_result ''Xbox unblock stored. Direct enforcement depends on Microsoft Family Safety API.'') device),
      ca_extendSession = (\<lambda>now device minutes. xboxOr ''extendSession''
        (ok_result (''Xbox extend '' @ showInt minutes @ ''min stored.'')) device),
      ca_getStatus = (\<lambda>now device s. seenStatus now device)\<rparr>"

section \<open>Network gateway\<close>

definition gatewayOr :: "ControlResult \<Rightarrow> Device \<Rightarrow> 'z store_scheme \<Rightarrow> ControlResult \<times> 'z store_scheme" where
  "gatewayOr r device s =
     (if \<not> truthy (dev_gatewayId device) then (fail_result ''No gateway assigned to device'', s) else (r, s))"

definition startSession_Gateway :: "Device \<Rightarrow> 'z store_scheme \<Rightarrow> ControlResult" where
  "startSession_Gateway device s =
     (if \<not> truthy (dev_gatewayId device) then fail_result ''No gateway assigned to device''
      else (case findGateway s (patch (dev_gatewayId device) []) of
              None \<Rightarrow> fail_result ''Gateway not found or not paired''
            | Some gateway \<Rightarrow>
                if \<not> gwy_paired gateway then fail_result ''Gateway not found or not paired''
                else \<lparr>cr_success = True,
                      cr_message = ''Session started via network gateway. Online access allowed.'',
                      cr_data = Some [(''gatewayId'', JStr (gwy_id gateway)), (''method'', JStr ''NETWORK_GATEWAY'')]\<rparr>))"

definition networkGatewayAdapter :: "'z store_scheme adapter" where
  "networkGatewayAdapter =
     \<lparr>ca_startSession = (\<lambda>now device rule s. (startSession_Gateway device s, s)),
      ca_stopSession = (\<lambda>now device. gatewayOr
        \<lparr>cr_success = True,
         cr_message = ''Session stopped via network gateway. Internet blocked. NOTE: Cannot kill offline games directly.'',
         cr_data = Some [(''offlineLimitation'', JBool True)]\<rparr> device),
      ca_blockDevice = (\<lambda>now device reason. gatewayOr
        \<lparr>cr_success = True,
         cr_message = ''Device blocked via network gateway. Online access blocked. Offline games cannot be killed directly.'',
         cr_data = Some [(''offlineLimitation'', JBool True), (''reason'', JStr reason)]\<rparr> device),
      ca_unblockDevice = (\<lambda>now device. gatewayOr
        (ok_result ''Device unblocked via network gateway. Online access restored.'') device),
      ca_extendSession = (\<lambda>now device minutes. gatewayOr
        (ok_result (''Session extended '' @ showInt minutes @ ''min via network gateway. Online access continues.'')) device),
      ca_getStatus = (\<lambda>now device s.
        if \<not> truthy (dev_gatewayId device)
        then \<lparr>st_online = False, st_blocked = True, st_lastSeen = None\<rparr>
        else seenStatus now device)\<rparr>"

section \<open>Mock\<close>

definition mockAdapter :: "'z store_scheme adapter" where
  "mockAdapter =
     \<lparr>ca_startSession = (\<lambda>now device rule s. (ok_result (''[MOCK] Session started for device '' @ dev_id device), s)),
      ca_stopSession = (\<lambda>now device s. (ok_result (''[MOCK] Session stopped for device '' @ dev_id device), s)),
      ca_blockDevice = (\<lambda>now device reason s.
        (ok_result (''[MOCK] Device '' @ dev_id device @ '' blocked: '' @ reason), s)),
      ca_unblockDevice = (\<lambda>now device s. (ok_result (''[MOCK] Device '' @ dev_id device @ '' unblocked''), s)),
      ca_extendSession = (\<lambda>now device minutes s.
        (ok_result (''[MOCK] Device '' @ dev_id device @ '' session extended '' @ showInt minutes @ ''min''), s)),
      ca_getStatus = (\<lambda>now device s. \<lparr>st_online = True, st_blocked = False, st_lastSeen = None\<rparr>)\<rparr>"

section \<open>The contract of an adapter\<close>

text \<open>An adapter only queues commands for its device: every table but the command table and the job
  queue is as before, commands are only added, the added ones are pending commands of the device, and
  identifiers are only drawn.\<close>

definition queues_for :: "Device \<Rightarrow> 'z store_scheme \<Rightarrow> 'z store_scheme \<Rightarrow> bool" where
  "queues_for d s s' \<longleftrightarrow>
     (\<exists>cs js n. s' = s\<lparr>commands := commands s @ cs, jobs := jobs s @ js, db_next := n\<rparr> \<and> db_next s \<le> n \<and>
        (\<forall>c \<in> set cs. cmd_deviceId c = dev_id d \<and> cmd_status c = CMD_PENDING))"

lemma queues_for_refl [simp]: "queues_for d s s"
  unfolding queues_for_def
  by (rule exI [of _ "[]"], rule exI [of _ "[]"], rule exI [of _ "db_next s"]) simp

lemma queues_for_android: "queues_for d s s' \<Longrightarrow> queues_for d s (createCommand_Android now d ty payload s')"
proof -
  assume "queues_for d s s'"
  then obtain cs js n where s': "s' = s\<lparr>commands := commands s @ cs, jobs := jobs s @ js, db_next := n\<rparr>"
    and n: "db_next s \<le> n" and cs: "\<forall>c \<in> set cs. cmd_deviceId c = dev_id d \<and> cmd_status c = CMD_PENDING"
    by (auto simp: queues_for_def)
  let ?c = "newCommand now (newId s') (dev_id d) ty payload"
  let ?j = "\<lparr>job_commandId = cmd_id ?c, job_deviceId = dev_id d, job_type = ty, job_payload = payload,
            job_controlMethod = dev_controlMethod d\<rparr>"
  have "createCommand_Android now d ty payload s' =
          s\<lparr>commands := commands s @ (cs @ [?c]), jobs := jobs s @ (js @ [?j]), db_next := n + 1\<rparr>"
    by (simp add: createCommand_Android_def enqueueCommand_def drawId_def Let_def s')
  moreover have "\<forall>c \<in> set (cs @ [?c]). cmd_deviceId c = dev_id d \<and> cmd_status c = CMD_PENDING"
    using cs by (simp add: newCommand_def)
  moreover have "db_next s \<le> n + 1" using n by simp
  ultimately show ?thesis unfolding queues_for_def by blast
qed

lemma queues_for_ios: "queues_for d s (createCommand_Ios now (dev_id d) ty payload s)"
  unfolding queues_for_def
  by (rule exI [of _ "[newCommand now (newId s) (dev_id d) ty payload]"], rule exI [of _ "[]"],
      rule exI [of _ "db_next s + 1"])
    (simp add: createCommand_Ios_def drawId_def newCommand_def)

lemma queues_for_frame:
  assumes "queues_for d s s'"
  shows "devices s' = devices s" "sessions s' = sessions s" "gateways s' = gateways s"
    "routerCommands s' = routerCommands s" "detectedRouters s' = detectedRouters s"
    "blockedDomains s' = blockedDomains s" "categoryBlocks s' = categoryBlocks s"
    "auditLogs s' = auditLogs s" "rules s' = rules s" "children s' = children s"
    "notifications s' = notifications s" "oauthAccounts s' = oauthAccounts s"
    "store.more s' = store.more s" "db_uuid s' = db_uuid s"
  using assms by (auto simp: queues_for_def)

locale control_adapter =
  fixes A :: "'z store_scheme adapter"
  assumes start_queues: "queues_for d s (snd (ca_startSession A now d rule s))"
    and stop_queues: "queues_for d s (snd (ca_stopSession A now d s))"
    and block_queues: "queues_for d s (snd (ca_blockDevice A now d reason s))"
    and unblock_queues: "queues_for d s (snd (ca_unblockDevice A now d s))"
    and extend_queues: "queues_for d s (snd (ca_extendSession A now d m s))"
begin

lemmas queues = start_queues stop_queues block_queues unblock_queues extend_queues

lemma keeps_devices:
  "devices (snd (ca_startSession A now d rule s)) = devices s"
  "devices (snd (ca_stopSession A now d s)) = devices s"
  "devices (snd (ca_blockDevice A now d reason s)) = devices s"
  "devices (snd (ca_unblockDevice A now d s)) = devices s"
  by (rule queues_for_frame(1), rule queues)+

end

interpretation android: control_adapter androidAdapter
  by unfold_locales (auto simp: androidAdapter_def intro!: queues_for_android)

interpretation ios: control_adapter iosAdapter
  by unfold_locales (auto simp: iosAdapter_def intro: queues_for_ios)

interpretation xbox: control_adapter xboxAdapter
  by unfold_locales (auto simp: xboxAdapter_def xboxOr_def split: option.split)

interpretation network_gateway: control_adapter networkGatewayAdapter
  by unfold_locales (auto simp: networkGatewayAdapter_def gatewayOr_def)

interpretation mock: control_adapter mockAdapter
  by unfold_locales (auto simp: mockAdapter_def)

end
