(* ===== verification/Enforcement.thy ===== *)
theory Enforcement
  imports Dns_Policy Router_Commands Adapters
begin

text \<open>
  The enforcement service (\<^verbatim>\<open>enforcement.service.ts\<close>): the choice of a control adapter, block and unblock
  with the status write, the DNS cache invalidation, the audit entry and the router command, rule
  synchronisation and the reaction to an offline violation.

  \<open>rowJson\<close> is the JSON text of a rule as the database client returns the row (it has columns that no
  code reads).
\<close>

section \<open>Operations\<close>

fun getAdapterByMethod :: "ControlMethod \<Rightarrow> 'z store_scheme adapter" where
  "getAdapterByMethod ANDROID_AGENT = androidAdapter"
| "getAdapterByMethod IOS_SCREEN_TIME = iosAdapter"
| "getAdapterByMethod XBOX_ADAPTER = xboxAdapter"
| "getAdapterByMethod NETWORK_GATEWAY = networkGatewayAdapter"
| "getAdapterByMethod _ = mockAdapter"

definition getAdapter :: "Device \<Rightarrow> 'z store_scheme adapter" where
  "getAdapter device = getAdapterByMethod (dev_controlMethod device)"

text \<open>The guard of the enforcement calls: system calls have no parent.\<close>

definition authorise :: "ident \<Rightarrow> ident option \<Rightarrow> 'z store_scheme \<Rightarrow> Device result" where
  "authorise deviceId parentId s =
     (case findDevice s deviceId of
        None \<Rightarrow> Inl (NotFoundException ''Device not found'')
      | Some device \<Rightarrow>
          if truthy parentId \<and> Some (dev_parentId device) \<noteq> parentId
          then Inl (ForbiddenException ''Not your device'') else Inr device)"

definition invalidateDnsCache ::
  "'c cacheOps \<Rightarrow> time \<Rightarrow> Device \<Rightarrow> ('c, 'z) gstore_scheme \<Rightarrow> ('c, 'z) gstore_scheme" where
  "invalidateDnsCache C now device s =
     invalidateSourceIps C now [dev_ipAddress device, dev_dnsSourceIp device, dev_ipv6Address device] s"

definition routerSyncJson :: "bool \<Rightarrow> StrategyOutcome \<Rightarrow> json" where
  "routerSyncJson attempted o' =
     JObj [(''attempted'', JBool attempted), (''enqueued'', JBool (so_enqueued o')),
           (''commandId'', nullable JStr (so_commandId o')),
           (''strategies'', JArr (map (\<lambda>t. JStr (showRouterCommandType t)) (so_strategies o'))),
           (''reason'', nullable JStr (so_reason o'))]"

definition syncToRouter :: "time \<Rightarrow> Device \<Rightarrow> bool \<Rightarrow> 'z store_scheme \<Rightarrow> json \<times> 'z store_scheme" where
  "syncToRouter now device block s =
     (if \<not> truthy (dev_gatewayId device)
      then (routerSyncJson False \<lparr>so_enqueued = False, so_commandId = None, so_strategies = [],
                                  so_reason = Some ''device has no gateway''\<rparr>, s)
      else
        (let g = patch (dev_gatewayId device) [];
             r = (if block then syncBlockToRouter now g (dev_id device) s
                  else syncUnblockToRouter now g (dev_id device) s)
         in (routerSyncJson True (fst r), snd r)))"

definition withRouterSync :: "json \<Rightarrow> ControlResult \<Rightarrow> ControlResult" where
  "withRouterSync routerSync r = r\<lparr>cr_data := Some (patch (cr_data r) [] @ [(''routerSync'', routerSync)])\<rparr>"

text \<open>What follows an adapter's success: status, DNS cache, audit, router.\<close>

definition applyStatus ::
  "'c cacheOps \<Rightarrow> time \<Rightarrow> bool \<Rightarrow> Device \<Rightarrow> ident option \<Rightarrow> string option \<Rightarrow> ControlResult \<Rightarrow>
   ('c, 'z) gstore_scheme \<Rightarrow> ControlResult \<times> ('c, 'z) gstore_scheme" where
  "applyStatus C now block device parentId details r s =
     (let s1 = updateDevice (dev_id device) (\<lambda>d. d\<lparr>dev_status := (if block then DEV_BLOCKED else DEV_ONLINE)\<rparr>) s;
          s2 = invalidateDnsCache C now device s1;
          s3 = auditLog now \<lparr>ad_userId = parentId, ad_action = (if block then ''device.block'' else ''device.unblock''),
                 ad_entity = ''device'', ad_entityId = Some (dev_id device), ad_details = details, ad_ipAddress = None\<rparr> s2
      in case syncToRouter now device block s3 of (sync, s4) \<Rightarrow> (withRouterSync sync r, s4))"

definition blockDevice ::
  "'c cacheOps \<Rightarrow> time \<Rightarrow> ident \<Rightarrow> string \<Rightarrow> ident option \<Rightarrow> ('c, 'z) gstore_scheme \<Rightarrow>
   ControlResult result \<times> ('c, 'z) gstore_scheme" where
  "blockDevice C now deviceId reason parentId s =
     (case authorise deviceId parentId s of
        Inl e \<Rightarrow> (Inl e, s)
      | Inr device \<Rightarrow>
          (case ca_blockDevice (getAdapter device) now device reason s of
             (r, s1) \<Rightarrow>
               if cr_success r
               then (case applyStatus C now True device parentId (Some reason) r s1 of (r', s2) \<Rightarrow> (Inr r', s2))
               else (Inr r, s1)))"

definition unblockDevice ::
  "'c cacheOps \<Rightarrow> time \<Rightarrow> ident \<Rightarrow> ident option \<Rightarrow> ('c, 'z) gstore_scheme \<Rightarrow>
   ControlResult result \<times> ('c, 'z) gstore_scheme" where
  "unblockDevice C now deviceId parentId s =
     (case authorise deviceId parentId s of
        Inl e \<Rightarrow> (Inl e, s)
      | Inr device \<Rightarrow>
          (case ca_unblockDevice (getAdapter device) now device s of
             (r, s1) \<Rightarrow>
               if cr_success r
               then (case applyStatus C now False device parentId None r s1 of (r', s2) \<Rightarrow> (Inr r', s2))
               else (Inr r, s1)))"

definition syncRules ::
  "(Rule \<Rightarrow> json) \<Rightarrow> time \<Rightarrow> ident \<Rightarrow> ident option \<Rightarrow> 'z store_scheme \<Rightarrow> ControlResult result \<times> 'z store_scheme" where
  "syncRules rowJson now deviceId parentId s =
     (case authorise deviceId parentId s of
        Inl e \<Rightarrow> (Inl e, s)
      | Inr device \<Rightarrow>
          if \<not> truthy (dev_childId device) then (Inr (fail_result ''Device not assigned to child''), s)
          else
            (let rs = findMany (\<lambda>r. Some (rul_childId r) = dev_childId device \<and> rul_active r) (rules s)
             in case ca_startSession (getAdapter device) now device (Some (JArr (map rowJson rs))) s of
                  (r, s1) \<Rightarrow> (Inr r, s1)))"

definition offlineViolationResult :: ControlResult where
  "offlineViolationResult =
     \<lparr>cr_success = True,
      cr_message = ''Session expired, internet blocked via gateway. Cannot kill offline game directly. Parent notified.'',
      cr_data = Some [(''offlineLimitation'', JBool True),
        (''actions'', JArr (map JStr [''expire_session'', ''block_internet_via_gateway'', ''prevent_future_online_access'',
           ''apply_cooldown'', ''notify_parent'', ''mark_session_violated'']))]\<rparr>"

definition handleOfflineViolation ::
  "'c cacheOps \<Rightarrow> time \<Rightarrow> Device \<Rightarrow> ident \<Rightarrow> ('c, 'z) gstore_scheme \<Rightarrow>
   ControlResult result \<times> ('c, 'z) gstore_scheme" where
  "handleOfflineViolation C now device sessionId s =
     (let s1 = snd (ca_stopSession (getAdapter device) now device s) in
      if isOfflineGameUnsupported device
      then
        if truthy (dev_gatewayId device)
        then (case blockDevice C now (dev_id device) ''Session expired - offline game violation'' None s1 of
                (Inl e, s2) \<Rightarrow> (Inl e, s2)
              | (Inr _, s2) \<Rightarrow> (Inr offlineViolationResult, s2))
        else (Inr offlineViolationResult, s1)
      else blockDevice C now (dev_id device) ''Session expired'' None s1)"

section \<open>The adapters keep their contract here\<close>

lemma getAdapter_contract: "control_adapter (getAdapter d :: 'z store_scheme adapter)"
  by (cases "dev_controlMethod d")
    (simp_all add: getAdapter_def android.control_adapter_axioms ios.control_adapter_axioms
      xbox.control_adapter_axioms network_gateway.control_adapter_axioms mock.control_adapter_axioms)

lemmas adapter_queues = control_adapter.queues [OF getAdapter_contract]

lemma queues_for_dnsCache: "queues_for d s s' \<Longrightarrow> dnsCache s' = dnsCache s"
  by (auto simp: queues_for_def)

lemma sync_frame [frame_simps, simp]:
  "devices (snd (syncToRouter now d b s)) = devices s"
  "sessions (snd (syncToRouter now d b s)) = sessions s"
  "blockedDomains (snd (syncToRouter now d b s)) = blockedDomains s"
  "categoryBlocks (snd (syncToRouter now d b s)) = categoryBlocks s"
  "gateways (snd (syncToRouter now d b s)) = gateways s"
  "commands (snd (syncToRouter now d b s)) = commands s"
  by (simp_all add: syncToRouter_def Let_def syncBlockToRouter_def syncUnblockToRouter_def)

lemma dnsCache_auditLog [simp]: "dnsCache (auditLog now a s) = dnsCache s"
  by (simp add: auditLog_def)

lemma dnsCache_sync [simp]: "dnsCache (snd (syncToRouter now d b s)) = dnsCache s"
  by (simp add: syncToRouter_def Let_def syncBlockToRouter_def syncUnblockToRouter_def enqueueStrategyCommand_def
      logFallbackAudit_def enqueueCommand_Router_def drawId_def)

lemma applyStatus_devices:
  "devices (snd (applyStatus C now b d p x r s)) =
     updateMany (\<lambda>e. dev_id e = dev_id d) (\<lambda>e. e\<lparr>dev_status := (if b then DEV_BLOCKED else DEV_ONLINE)\<rparr>) (devices s)"
  by (simp add: applyStatus_def Let_def invalidateDnsCache_def updateDevice_def case_prod_beta
      del: invalidateSourceIps.simps)

lemma applyStatus_cache:
  "dnsCache (snd (applyStatus C now b d p x r s)) =
     dnsCache (invalidateSourceIps C now [dev_ipAddress d, dev_dnsSourceIp d, dev_ipv6Address d]
       (updateDevice (dev_id d) (\<lambda>e. e\<lparr>dev_status := (if b then DEV_BLOCKED else DEV_ONLINE)\<rparr>) s))"
  by (simp add: applyStatus_def Let_def invalidateDnsCache_def case_prod_beta del: invalidateSourceIps.simps)

lemma withRouterSync_success [simp]: "cr_success (withRouterSync j r) = cr_success r"
  by (simp add: withRouterSync_def)

lemma applyStatus_success [simp]: "cr_success (fst (applyStatus C now b d p x r s)) = cr_success r"
  by (simp add: applyStatus_def Let_def case_prod_beta)

lemma blockDevice_eq:
  assumes "authorise i p s = Inr d" "ca_blockDevice (getAdapter d) now d reason s = (r1, s1)" "cr_success r1"
  shows "blockDevice C now i reason p s =
           (Inr (fst (applyStatus C now True d p (Some reason) r1 s1)), snd (applyStatus C now True d p (Some reason) r1 s1))"
  using assms by (simp add: blockDevice_def case_prod_beta)

text \<open>A block that reports success has gone through \<open>applyStatus\<close> on the state after the adapter.\<close>

lemma blockDevice_success:
  assumes "blockDevice C now i reason p s = (Inr r, s')" and "cr_success r"
  obtains d s1 r1 where "findDevice s i = Some d" "truthy p \<Longrightarrow> p = Some (dev_parentId d)" "dev_id d = i"
    "queues_for d s s1" "(r, s') = applyStatus C now True d p (Some reason) r1 s1"
proof -
  obtain d where d: "authorise i p s = Inr d"
    using assms(1) by (auto simp: blockDevice_def split: sum.splits)
  obtain r1 s1 where a: "ca_blockDevice (getAdapter d) now d reason s = (r1, s1)" by fastforce
  have q: "queues_for d s s1" using adapter_queues(3) [of d s d now reason] a by simp
  have f: "findDevice s i = Some d" "truthy p \<Longrightarrow> p = Some (dev_parentId d)"
    using d by (auto simp: authorise_def split: option.splits if_splits)
  from f(1) have "dev_id d = i" using findUnique_Some_iff by fastforce
  moreover have "(r, s') = applyStatus C now True d p (Some reason) r1 s1"
    using assms d a by (auto simp: blockDevice_def split: prod.splits if_splits)
  ultimately show ?thesis using that f q by blast
qed

lemma findDeviceByIp_updateDevice:
  assumes "\<And>d. dev_ipAddress (f d) = dev_ipAddress d" "\<And>d. dev_dnsSourceIp (f d) = dev_dnsSourceIp d"
    "\<And>d. dev_ipv6Address (f d) = dev_ipv6Address d"
    and "devices s' = updateMany (\<lambda>e. dev_id e = i) f (devices s)"
  shows "findDeviceByIp ip s' = map_option (\<lambda>d. if dev_id d = i then f d else d) (findDeviceByIp ip s)"
proof -
  have "findFirst P (updateMany Q f xs) = map_option (\<lambda>d. if Q d then f d else d) (findFirst P xs)"
    if "\<And>d. P (f d) = P d" for P :: "Device \<Rightarrow> bool" and Q xs
    using that by (induction xs) auto
  from this [of "\<lambda>d. dev_ipAddress d = Some ip \<or> dev_dnsSourceIp d = Some ip \<or> dev_ipv6Address d = Some ip"] assms
  show ?thesis by (simp add: findDeviceByIp_def)
qed

lemma findDeviceByIp_address:
  "findDeviceByIp ip s = Some d \<Longrightarrow> Some ip \<in> set [dev_ipAddress d, dev_dnsSourceIp d, dev_ipv6Address d]"
  by (auto simp: findDeviceByIp_def dest: findFirst_SomeD)

lemma policyDecision_blocked:
  "findDeviceByIp ip s = Some d \<Longrightarrow> dev_internetLocked d \<or> dev_status d = DEV_BLOCKED \<Longrightarrow>
   dpr_action (policyDecision strictMode now ip domain s) = BLOCK"
  by (auto simp: policyDecision_def blockResponse_def)

lemma blockDevice_dns:
  assumes "ttl_cache C" and "cache_inv C t0 t1 s"
    and "findDeviceByIp ip s = Some d" "dev_id d = i" "findDevice s i = Some d" "ip \<noteq> []"
    and "blockDevice C t1 i reason p s = (Inr r, s')" "cr_success r"
    and "t1 \<le> t2" "t2 < t0 + msPerDay" "dnsName domain"
  shows "dpr_action (fst (checkPolicy C strictMode t2 ip domain s')) = BLOCK"
proof -
  obtain s1 r1 where q: "queues_for d s s1" and a: "(r, s') = applyStatus C t1 True d p (Some reason) r1 s1"
    using blockDevice_success [OF assms(7,8)] assms(5) by (metis option.inject)
  let ?upd = "\<lambda>e. e\<lparr>dev_status := (if True then DEV_BLOCKED else DEV_ONLINE)\<rparr>"
  from a have s': "s' = snd (applyStatus C t1 True d p (Some reason) r1 s1)" by (metis snd_conv)
  have inv: "cache_inv C t0 t1 (updateDevice (dev_id d) ?upd s1)"
    using assms(2) cache_inv_same_cache [OF queues_for_dnsCache [OF q]] by simp
  have "fst (checkPolicy C strictMode t2 ip domain s') = policyDecision strictMode t2 ip domain s'"
    by (rule fresh_after_invalidation [OF assms(1) inv assms(9,10) findDeviceByIp_address [OF assms(3)] assms(6,11)])
      (simp only: s' applyStatus_cache)
  moreover have "devices s' = updateMany (\<lambda>e. dev_id e = i) ?upd (devices s)"
    using applyStatus_devices [of C t1 True d p "Some reason" r1 s1] queues_for_frame(1) [OF q] assms(4) by (simp add: s')
  then have "findDeviceByIp ip s' = Some (?upd d)"
    using findDeviceByIp_updateDevice [of ?upd s' i s ip] assms(3,4) by simp
  ultimately show ?thesis using policyDecision_blocked [of ip s' "?upd d"] by simp
qed

section \<open>Properties\<close>

lemma demo_device:
  "findDeviceByIp ''192.168.1.45'' dnsStore = Some (bareDevice ''d'' ''p'' ''c'')"
  "findDevice dnsStore ''d'' = Some (bareDevice ''d'' ''p'' ''c'')"
  by (simp_all add: dnsStore_tables findDeviceByIp_def bareDevice_def)

lemma demo_block:
  defines "res \<equiv> applyStatus mapCache 4000 True (bareDevice ''d'' ''p'' ''c'') (Some ''p'') (Some ''homework'')
    (ok_result ''[MOCK] Device d blocked: homework'') dnsStore"
  shows "blockDevice mapCache 4000 ''d'' ''homework'' (Some ''p'') dnsStore = (Inr (fst res), snd res)"
  unfolding res_def
proof (rule blockDevice_eq)
  show "authorise ''d'' (Some ''p'') dnsStore = Inr (bareDevice ''d'' ''p'' ''c'')"
    by (simp add: authorise_def demo_device) (simp add: bareDevice_def)
qed (simp_all add: getAdapter_def mockAdapter_def ok_result_def bareDevice_def)

text \<open>A block takes effect at once on DNS. After any run of the DNS engine, when \<open>blockDevice\<close> reports
  success for the device behind an address, every later query from that address is answered BLOCK,
  for every name (within 24 hours of the empty cache): the status write and the cache invalidation of
  the block leave no cached ALLOW.\<close>
theorem block_takes_effect:
  assumes "ttl_cache C" and "dns_run C strictMode t0 t s"
    and "findDeviceByIp ip s = Some d" "findDevice s (dev_id d) = Some d" "ip \<noteq> []"
    and "blockDevice C t1 (dev_id d) reason p s = (Inr r, s')" "cr_success r"
    and "t \<le> t1" "t1 \<le> t2" "t2 < t0 + msPerDay" "dnsName domain"
  shows "dpr_action (fst (checkPolicy C strictMode t2 ip domain s')) = BLOCK"
proof -
  have "cache_inv C t0 t1 s"
    using ttl_cache.dns_run_inv [OF assms(1,2)] assms(8) by (rule cache_inv_later)
  from blockDevice_dns [OF assms(1) this assms(3) refl assms(4-7,9-11)] show ?thesis .
qed

theorem block_takes_effect_witness:
  "dpr_action (fst (checkPolicy mapCache False 5000 ''192.168.1.45'' ''example.org''
      (snd (blockDevice mapCache 4000 ''d'' ''homework'' (Some ''p'') dnsStore)))) = BLOCK"
proof -
  let ?d = "bareDevice ''d'' ''p'' ''c''"
  let ?res = "applyStatus mapCache 4000 True ?d (Some ''p'') (Some ''homework'')
    (ok_result ''[MOCK] Device d blocked: homework'') dnsStore"
  have run: "dns_run mapCache False 0 0 dnsStore"
    by (rule dns_run.init) (simp add: dnsStore_def store.defs mapCache_def)
  have i: "dev_id ?d = ''d''" by (simp add: bareDevice_def)
  have b: "blockDevice mapCache 4000 (dev_id ?d) ''homework'' (Some ''p'') dnsStore = (Inr (fst ?res), snd ?res)"
    unfolding i by (rule demo_block)
  have "dpr_action (fst (checkPolicy mapCache False 5000 ''192.168.1.45'' ''example.org''
      (snd (blockDevice mapCache 4000 (dev_id ?d) ''homework'' (Some ''p'') dnsStore)))) = BLOCK"
    unfolding b snd_conv
    by (rule block_takes_effect [OF map_cache.ttl_cache_axioms run demo_device(1) _ _ b])
      (simp_all only: applyStatus_success, simp_all add: ok_result_def msPerDay_def dnsName_def demo_device i)
  then show ?thesis by (simp only: i)
qed

text \<open>The report of a block is honest. When \<open>blockDevice\<close> returns success, the device is stored as
  BLOCKED and an audit entry \<^verbatim>\<open>device.block\<close> with the reason is in the log; when it throws or the adapter
  reports failure, no device row changes and no audit entry is written. A parent's call succeeds on
  the parent's own device only.\<close>
theorem blockDevice_honest:
  "(case blockDevice C now i reason p s of
      (Inr r, s') \<Rightarrow>
        if cr_success r
        then (\<exists>d. findDevice s i = Some d \<and> (truthy p \<longrightarrow> p = Some (dev_parentId d)) \<and>
                  findDevice s' i = Some (d\<lparr>dev_status := DEV_BLOCKED\<rparr>) \<and>
                  (\<exists>a \<in> set (auditLogs s'). aud_action a = ''device.block'' \<and> aud_entityId a = Some i \<and>
                     aud_userId a = p \<and> aud_details a = Some reason \<and> aud_createdAt a = now))
        else devices s' = devices s \<and> auditLogs s' = auditLogs s
    | (Inl e, s') \<Rightarrow> s' = s)"
proof (cases "authorise i p s")
  case (Inl e)
  then show ?thesis by (simp add: blockDevice_def)
next
  case (Inr d)
  obtain r1 s1 where a: "ca_blockDevice (getAdapter d) now d reason s = (r1, s1)" by fastforce
  have q: "queues_for d s s1" using adapter_queues(3) [of d s d now reason] a by simp
  show ?thesis
  proof (cases "cr_success r1")
    case False
    with Inr a q show ?thesis by (simp add: blockDevice_def queues_for_frame)
  next
    case True
    have f: "findDevice s i = Some d" "truthy p \<longrightarrow> p = Some (dev_parentId d)"
      using Inr by (auto simp: authorise_def split: option.splits if_splits)
    then have i: "dev_id d = i" using findUnique_Some_iff by fastforce
    let ?s' = "snd (applyStatus C now True d p (Some reason) r1 s1)"
    have "findDevice ?s' i = Some (d\<lparr>dev_status := DEV_BLOCKED\<rparr>)"
      using f(1) by (simp add: applyStatus_devices queues_for_frame(1) [OF q] i)
    moreover have "\<exists>x \<in> set (auditLogs ?s'). aud_action x = ''device.block'' \<and> aud_entityId x = Some i \<and>
        aud_userId x = p \<and> aud_details x = Some reason \<and> aud_createdAt x = now"
      using i by (auto simp: applyStatus_def Let_def case_prod_beta syncToRouter_def syncBlockToRouter_def
          enqueueStrategyCommand_def logFallbackAudit_def auditLog_def enqueueCommand_Router_def)
    ultimately show ?thesis using f True by (simp add: blockDevice_eq [OF Inr a True])
  qed
qed

theorem blockDevice_honest_witness:
  "\<exists>d. findDevice dnsStore ''d'' = Some d \<and> dev_parentId d = ''p'' \<and>
     findDevice (snd (blockDevice mapCache 4000 ''d'' ''homework'' (Some ''p'') dnsStore)) ''d'' =
       Some (d\<lparr>dev_status := DEV_BLOCKED\<rparr>)"
proof -
  obtain r s' where b: "blockDevice mapCache 4000 ''d'' ''homework'' (Some ''p'') dnsStore = (Inr r, s')"
    and ok: "cr_success r"
    using demo_block by (simp only: applyStatus_success ok_result_def ControlResult.select_convs)
  have "truthy (Some ''p'')" by simp
  with blockDevice_honest [where C = mapCache and now = 4000 and i = "''d''" and reason = "''homework''" and
      p = "Some ''p''" and s = dnsStore] ok
  show ?thesis unfolding b by auto
qed

text \<open>An offline violation on a console without a gateway is reported as handled although nothing is
  blocked: the result is success with "internet blocked via gateway", while no device row and no
  router command changes.\<close>
theorem offline_violation_unenforced:
  assumes "isOfflineGameUnsupported d" and "\<not> truthy (dev_gatewayId d)"
  shows "fst (handleOfflineViolation C now d i s) = Inr offlineViolationResult \<and>
         cr_success offlineViolationResult \<and>
         devices (snd (handleOfflineViolation C now d i s)) = devices s \<and>
         routerCommands (snd (handleOfflineViolation C now d i s)) = routerCommands s \<and>
         dnsCache (snd (handleOfflineViolation C now d i s)) = dnsCache s"
  using assms queues_for_frame(1,4) [OF adapter_queues(2) [of d s d now]]
    queues_for_dnsCache [OF adapter_queues(2) [of d s d now]]
  by (simp add: handleOfflineViolation_def offlineViolationResult_def Let_def)

theorem offline_violation_unenforced_witness:
  "fst (handleOfflineViolation mapCache 0 (bareDevice ''d'' ''p'' ''c'') ''s'' dnsStore) = Inr offlineViolationResult"
  using offline_violation_unenforced [of "bareDevice ''d'' ''p'' ''c''" mapCache 0 "''s''" dnsStore]
  by (simp add: isOfflineGameUnsupported_def bareDevice_def)

end
