(* ===== verification/Devices.thy ===== *)
theory Devices
  imports Enforcement
begin

text \<open>
  The device registry (\<^verbatim>\<open>devices.service.ts\<close>) with the platform-support matrix
  (\<^verbatim>\<open>platform-support.matrix.ts\<close>): creation, change and removal by the owning parent, the internet lock
  with its DNS invalidation, and the deletions that the foreign keys cascade.
\<close>

section \<open>Platform support\<close>

record PlatformSupport =
  ps_deviceType :: DeviceType
  ps_onlineControl :: bool
  ps_offlineControlSupported :: bool
  ps_offlineControlMethod :: string
  ps_recommendedControlMethod :: string
  ps_notes :: string

fun PLATFORM_SUPPORT_MATRIX :: "DeviceType \<Rightarrow> PlatformSupport" where
  "PLATFORM_SUPPORT_MATRIX ANDROID_PHONE =
     \<lparr>ps_deviceType = ANDROID_PHONE, ps_onlineControl = True, ps_offlineControlSupported = True,
      ps_offlineControlMethod = ''ANDROID_AGENT'', ps_recommendedControlMethod = ''ANDROID_AGENT'',
      ps_notes = ''Child agent (Device Admin) is the reliable control '' @ emdash @
        '' blocks apps, locks device, enforces bedtime, and works on cellular. Device DNS '' @
        ''is weak: Android Private DNS is device-wide and child-changeable, and some apps '' @
        ''use their own DoH.''\<rparr>"
| "PLATFORM_SUPPORT_MATRIX ANDROID_TABLET =
     \<lparr>ps_deviceType = ANDROID_TABLET, ps_onlineControl = True, ps_offlineControlSupported = True,
      ps_offlineControlMethod = ''ANDROID_AGENT'', ps_recommendedControlMethod = ''ANDROID_AGENT'',
      ps_notes = ''Same as Android Phone '' @ emdash @
        '' agent is primary; Private DNS / app DoH can bypass device-level DNS.''\<rparr>"
| "PLATFORM_SUPPORT_MATRIX IPHONE =
     \<lparr>ps_deviceType = IPHONE, ps_onlineControl = True, ps_offlineControlSupported = True,
      ps_offlineControlMethod = ''IOS_SCREEN_TIME'', ps_recommendedControlMethod = ''IOS_SCREEN_TIME'',
      ps_notes = ''Screen Time (Family Sharing) is the real control. DNS filtering only applies if '' @
        ''a DNS profile is installed AND iCloud Private Relay is off; per-Wi-Fi DNS never '' @
        ''covers cellular. App-level DoH can still bypass DNS.''\<rparr>"
| "PLATFORM_SUPPORT_MATRIX IPAD =
     \<lparr>ps_deviceType = IPAD, ps_onlineControl = True, ps_offlineControlSupported = True,
      ps_offlineControlMethod = ''IOS_SCREEN_TIME'', ps_recommendedControlMethod = ''IOS_SCREEN_TIME'',
      ps_notes = ''Same as iPhone '' @ emdash @
        '' Screen Time is primary; iCloud Private Relay and app DoH bypass device DNS.''\<rparr>"
| "PLATFORM_SUPPORT_MATRIX XBOX =
     \<lparr>ps_deviceType = XBOX, ps_onlineControl = True, ps_offlineControlSupported = True,
      ps_offlineControlMethod = ''XBOX_ACCOUNT'', ps_recommendedControlMethod = ''XBOX_ACCOUNT'',
      ps_notes = ''Use Microsoft Family / Xbox Family Settings via OAuth. Online + offline limits '' @
        ''enforced by Microsoft. Falls back to DNS_FILTERING for online block.''\<rparr>"
| "PLATFORM_SUPPORT_MATRIX PLAYSTATION =
     \<lparr>ps_deviceType = PLAYSTATION, ps_onlineControl = True, ps_offlineControlSupported = False,
      ps_offlineControlMethod = ''NOT_SUPPORTED'', ps_recommendedControlMethod = ''DNS_FILTERING + OFFICIAL_PARENTAL_GUIDE'',
      ps_notes = ''Blocks online PSN traffic via DNS (PS5/PS5 Slim/PS4; Portal streams from a '' @
        ''PS5). Set console IPv6 to Off so it does not bypass IPv4 DNS. Offline '' @
        ''single-player games cannot be stopped '' @ emdash @ '' use Sony Family / PS5 Family Manager.''\<rparr>"
| "PLATFORM_SUPPORT_MATRIX NINTENDO =
     \<lparr>ps_deviceType = NINTENDO, ps_onlineControl = True, ps_offlineControlSupported = False,
      ps_offlineControlMethod = ''NOT_SUPPORTED'', ps_recommendedControlMethod = ''DNS_FILTERING + OFFICIAL_PARENTAL_GUIDE'',
      ps_notes = ''Online play / eShop / cloud saves blocked via DNS (Switch 2, Switch, OLED, Lite '' @ emdash @
        '' same flow). Offline games and Switch 2 GameChat need the Nintendo Switch '' @
        ''Parental Controls app '' @ emdash @ '' backend cannot stop them.''\<rparr>"
| "PLATFORM_SUPPORT_MATRIX STEAM_DECK =
     \<lparr>ps_deviceType = STEAM_DECK, ps_onlineControl = True, ps_offlineControlSupported = False,
      ps_offlineControlMethod = ''NOT_SUPPORTED'', ps_recommendedControlMethod = ''DNS_FILTERING + OFFICIAL_PARENTAL_GUIDE'',
      ps_notes = ''Steam online + downloads blocked via DNS. Offline Steam games cannot be killed '' @
        ''by backend '' @ emdash @ '' use Steam Family View on the device.''\<rparr>"
| "PLATFORM_SUPPORT_MATRIX PC =
     \<lparr>ps_deviceType = PC, ps_onlineControl = True, ps_offlineControlSupported = False,
      ps_offlineControlMethod = ''NOT_SUPPORTED'', ps_recommendedControlMethod = ''DNS_FILTERING + OFFICIAL_PARENTAL_GUIDE'',
      ps_notes = ''Windows: DNS filtering works only if the child uses a Standard (non-admin) '' @
        ''account and browser DoH is disabled. Pair with Microsoft Family Safety for '' @
        ''app/time limits. IPv6 and browser DoH+ECH can bypass DNS.''\<rparr>"
| "PLATFORM_SUPPORT_MATRIX MAC =
     \<lparr>ps_deviceType = MAC, ps_onlineControl = True, ps_offlineControlSupported = False,
      ps_offlineControlMethod = ''NOT_SUPPORTED'', ps_recommendedControlMethod = ''DNS_FILTERING + OFFICIAL_PARENTAL_GUIDE'',
      ps_notes = ''macOS: Screen Time (Family Sharing) is the stronger control. Device DNS filters '' @
        ''only with iCloud Private Relay off and the child on a Standard account; browser '' @
        ''DoH still bypasses it.''\<rparr>"
| "PLATFORM_SUPPORT_MATRIX SMART_TV =
     \<lparr>ps_deviceType = SMART_TV, ps_onlineControl = True, ps_offlineControlSupported = False,
      ps_offlineControlMethod = ''NOT_SUPPORTED'', ps_recommendedControlMethod = ''DNS_FILTERING + ROUTER_GATEWAY'',
      ps_notes = ''Streaming + smart-TV apps blocked via DNS. No agent available '' @ emdash @
        '' for hard control use the router/gateway to disable internet.''\<rparr>"
| "PLATFORM_SUPPORT_MATRIX STREAMING_BOX =
     \<lparr>ps_deviceType = STREAMING_BOX, ps_onlineControl = True, ps_offlineControlSupported = False,
      ps_offlineControlMethod = ''NOT_SUPPORTED'', ps_recommendedControlMethod = ''DNS_FILTERING + ROUTER_GATEWAY'',
      ps_notes = ''Same as Smart TV '' @ emdash @
        '' DNS blocking for streaming services + router gateway as fallback.''\<rparr>"
| "PLATFORM_SUPPORT_MATRIX OTHER =
     \<lparr>ps_deviceType = OTHER, ps_onlineControl = True, ps_offlineControlSupported = False,
      ps_offlineControlMethod = ''NOT_SUPPORTED'', ps_recommendedControlMethod = ''DNS_FILTERING'',
      ps_notes = ''Generic device '' @ emdash @ '' DNS-only filtering is supported. No offline guarantees.''\<rparr>"

definition getPlatformSupport :: "DeviceType \<Rightarrow> PlatformSupport" where
  "getPlatformSupport deviceType = PLATFORM_SUPPORT_MATRIX deviceType"

section \<open>Cascading deletions\<close>

text \<open>\<^verbatim>\<open>onDelete: Cascade\<close> from the device: its pairing sessions, address history, connection events,
  checklist, sessions, usage logs, and commands with their acknowledgements.\<close>

definition deleteCommands :: "(Command \<Rightarrow> bool) \<Rightarrow> 'z store_scheme \<Rightarrow> 'z store_scheme" where
  "deleteCommands P s =
     s\<lparr>commandAcks := deleteMany (\<lambda>a. list_ex (\<lambda>c. P c \<and> cmd_id c = ack_commandId a) (commands s)) (commandAcks s),
       commands := deleteMany P (commands s)\<rparr>"

definition deleteDevices :: "(Device \<Rightarrow> bool) \<Rightarrow> 'z store_scheme \<Rightarrow> 'z store_scheme" where
  "deleteDevices P s =
     (let gone = (\<lambda>i. list_ex (\<lambda>d. P d \<and> dev_id d = i) (devices s)) in
      deleteCommands (\<lambda>c. gone (cmd_deviceId c))
        (s\<lparr>pairingSessions := deleteMany (\<lambda>x. gone (pse_deviceId x)) (pairingSessions s),
           ipHistory := deleteMany (\<lambda>x. gone (iph_deviceId x)) (ipHistory s),
           connectionEvents := deleteMany (\<lambda>x. gone (cev_deviceId x)) (connectionEvents s),
           checklists := deleteMany (\<lambda>x. gone (ocl_deviceId x)) (checklists s),
           sessions := deleteMany (\<lambda>x. gone (ses_deviceId x)) (sessions s),
           usageLogs := deleteMany (\<lambda>x. gone (ulg_deviceId x)) (usageLogs s),
           devices := deleteMany P (devices s)\<rparr>))"

section \<open>Operations\<close>

record CreateDeviceDto =
  cdd_childId :: ident
  cdd_name :: string
  cdd_type :: DeviceType
  cdd_platform :: "string option"
  cdd_macAddress :: "string option"
  cdd_ipAddress :: "string option"
  cdd_controlMethod :: "ControlMethod option"
  cdd_gatewayId :: "ident option"

record UpdateDeviceDto =
  udd_name :: "string option"
  udd_childId :: "ident option"
  udd_macAddress :: "string option"
  udd_ipAddress :: "string option"
  udd_controlMethod :: "ControlMethod option"
  udd_gatewayId :: "ident option"
  udd_vpnBlockEnabled :: "bool option"
  udd_quicBlockEnabled :: "bool option"

text \<open>A row with the column defaults of the schema.\<close>

definition defaultDevice :: "ident \<Rightarrow> ident \<Rightarrow> string \<Rightarrow> DeviceType \<Rightarrow> Device" where
  "defaultDevice i parentId name ty =
     \<lparr>dev_id = i, dev_childId = None, dev_parentId = parentId, dev_name = name, dev_type = ty,
      dev_platform = None, dev_macAddress = None, dev_ipAddress = None,
      dev_ipv6Address = None, dev_status = DEV_ONLINE, dev_controlMethod = MOCK, dev_lastSeen = None,
      dev_dnsSourceIp = None, dev_dnsConfigured = False, dev_lastDnsSeenAt = None,
      dev_blockingMode = GAMING_ONLY, dev_internetLocked = False, dev_internetLockedReason = None,
      dev_internetLockedAt = None, dev_protectionStatus = NORMAL, dev_protectionScore = 100,
      dev_lastBypassDetectedAt = None, dev_bypassAttempts = 0, dev_dailyLimitMinutes = None,
      dev_bedtimeStart = None, dev_bedtimeEnd = None, dev_autoBlockEnabled = False,
      dev_offlineControlEnabled = False, dev_offlineControlMethod = None,
      dev_offlineSetupCompletedAt = None, dev_offlineSetupVerified = False,
      dev_offlineControlNotes = None, dev_gatewayId = None, dev_hostname = None,
      dev_dhcpClientId = None, dev_vendorOui = None, dev_osHint = None, dev_fingerprintHash = None,
      dev_fingerprintUpdatedAt = None, dev_vpnBlockEnabled = True, dev_quicBlockEnabled = False,
      dev_paired = False, dev_pairStatus = PAIR_WAITING, dev_pairedAt = None,
      dev_resolverRegion = None, dev_publicIp = None, dev_dnsBeaconToken = None\<rparr>"

text \<open>The foreign keys of a device row: the child and the gateway it names exist.\<close>

definition deviceKeysOk :: "Device \<Rightarrow> 'z store_scheme \<Rightarrow> bool" where
  "deviceKeysOk d s \<longleftrightarrow>
     (case dev_childId d of None \<Rightarrow> True | Some c \<Rightarrow> findChild s c \<noteq> None) \<and>
     (case dev_gatewayId d of None \<Rightarrow> True | Some g \<Rightarrow> findGateway s g \<noteq> None)"

definition redact :: "Device \<Rightarrow> Device" where
  "redact device = device\<lparr>dev_dnsBeaconToken := None\<rparr>"

record DeviceView =
  dv_device :: Device
  dv_offlineControlSupported :: bool
  dv_offlineControlMethod :: string
  dv_recommendedControlMethod :: string
  dv_supportNotes :: string

definition withSupport :: "Device \<Rightarrow> DeviceView" where
  "withSupport device =
     (let support = getPlatformSupport (dev_type device) in
      \<lparr>dv_device = redact device, dv_offlineControlSupported = ps_offlineControlSupported support,
       dv_offlineControlMethod = ps_offlineControlMethod support,
       dv_recommendedControlMethod = ps_recommendedControlMethod support, dv_supportNotes = ps_notes support\<rparr>)"

definition create_Device :: "ident \<Rightarrow> CreateDeviceDto \<Rightarrow> 'z store_scheme \<Rightarrow> Device result \<times> 'z store_scheme" where
  "create_Device parentId dto s =
     (let d = (defaultDevice (newId s) parentId (cdd_name dto) (cdd_type dto))
                \<lparr>dev_childId := Some (cdd_childId dto), dev_platform := cdd_platform dto,
                 dev_macAddress := cdd_macAddress dto, dev_ipAddress := cdd_ipAddress dto,
                 dev_controlMethod := patch (cdd_controlMethod dto) MOCK, dev_gatewayId := cdd_gatewayId dto\<rparr>
      in if \<not> deviceKeysOk d s then (Inl PrismaForeignKeyViolation, s)
         else (Inr (redact d), drawId (s\<lparr>devices := devices s @ [d]\<rparr>)))"

definition findAll_Devices :: "ident \<Rightarrow> 'z store_scheme \<Rightarrow> DeviceView list" where
  "findAll_Devices parentId s = map withSupport (findMany (\<lambda>d. dev_parentId d = parentId) (devices s))"

definition ownDevice :: "ident \<Rightarrow> ident \<Rightarrow> 'z store_scheme \<Rightarrow> Device result" where
  "ownDevice parentId i s =
     owned dev_parentId ''Device not found'' ''Not your device'' parentId (findDevice s i)"

definition findOne_Device :: "ident \<Rightarrow> ident \<Rightarrow> 'z store_scheme \<Rightarrow> DeviceView result" where
  "findOne_Device parentId i s = map_sum id withSupport (ownDevice parentId i s)"

definition findById_Device :: "ident \<Rightarrow> 'z store_scheme \<Rightarrow> Device result" where
  "findById_Device i s =
     (case findDevice s i of None \<Rightarrow> Inl (NotFoundException ''Device not found'') | Some d \<Rightarrow> Inr d)"

definition applyUpdateDevice :: "UpdateDeviceDto \<Rightarrow> Device \<Rightarrow> Device" where
  "applyUpdateDevice dto d =
     d\<lparr>dev_name := patch (udd_name dto) (dev_name d), dev_childId := patchOpt (udd_childId dto) (dev_childId d),
       dev_macAddress := patchOpt (udd_macAddress dto) (dev_macAddress d),
       dev_ipAddress := patchOpt (udd_ipAddress dto) (dev_ipAddress d),
       dev_controlMethod := patch (udd_controlMethod dto) (dev_controlMethod d),
       dev_gatewayId := patchOpt (udd_gatewayId dto) (dev_gatewayId d),
       dev_vpnBlockEnabled := patch (udd_vpnBlockEnabled dto) (dev_vpnBlockEnabled d),
       dev_quicBlockEnabled := patch (udd_quicBlockEnabled dto) (dev_quicBlockEnabled d)\<rparr>"

definition update_Device ::
  "ident \<Rightarrow> ident \<Rightarrow> UpdateDeviceDto \<Rightarrow> 'z store_scheme \<Rightarrow> Device result \<times> 'z store_scheme" where
  "update_Device parentId i dto s =
     (case ownDevice parentId i s of
        Inl e \<Rightarrow> (Inl e, s)
      | Inr d \<Rightarrow>
          if \<not> deviceKeysOk (applyUpdateDevice dto d) s then (Inl PrismaForeignKeyViolation, s)
          else (Inr (redact (applyUpdateDevice dto d)), updateDevice i (applyUpdateDevice dto) s))"

definition remove_Device :: "ident \<Rightarrow> ident \<Rightarrow> 'z store_scheme \<Rightarrow> unit result \<times> 'z store_scheme" where
  "remove_Device parentId i s =
     (case ownDevice parentId i s of
        Inl e \<Rightarrow> (Inl e, s) | Inr d \<Rightarrow> (Inr (), deleteDevices (\<lambda>d. dev_id d = i) s))"

definition updateStatus :: "time \<Rightarrow> ident \<Rightarrow> DeviceStatus \<Rightarrow> 'z store_scheme \<Rightarrow> Device result \<times> 'z store_scheme" where
  "updateStatus now i status s =
     (case findDevice s i of
        None \<Rightarrow> (Inl PrismaRecordNotFound, s)
      | Some d \<Rightarrow> (Inr (d\<lparr>dev_status := status, dev_lastSeen := Some now\<rparr>),
                  updateDevice i (\<lambda>d. d\<lparr>dev_status := status, dev_lastSeen := Some now\<rparr>) s))"

definition invalidateDnsCacheForDevice ::
  "'c cacheOps \<Rightarrow> time \<Rightarrow> Device \<Rightarrow> ('c, 'z) gstore_scheme \<Rightarrow> ('c, 'z) gstore_scheme" where
  "invalidateDnsCacheForDevice C now device s =
     invalidateSourceIps C now [dev_ipAddress device, dev_dnsSourceIp device, dev_ipv6Address device] s"

definition lockInternet ::
  "'c cacheOps \<Rightarrow> time \<Rightarrow> ident \<Rightarrow> ident \<Rightarrow> string option \<Rightarrow> ('c, 'z) gstore_scheme \<Rightarrow>
   DeviceView result \<times> ('c, 'z) gstore_scheme" where
  "lockInternet C now parentId i reason s =
     (case ownDevice parentId i s of
        Inl e \<Rightarrow> (Inl e, s)
      | Inr d \<Rightarrow>
          (let f = (\<lambda>d. d\<lparr>dev_blockingMode := FULL_INTERNET_LOCK, dev_internetLocked := True,
                          dev_internetLockedReason := Some (patch reason ''Locked by parent''),
                          dev_internetLockedAt := Some now\<rparr>)
           in (Inr (withSupport (f d)), invalidateDnsCacheForDevice C now (f d) (updateDevice i f s))))"

definition unlockInternet ::
  "'c cacheOps \<Rightarrow> time \<Rightarrow> ident \<Rightarrow> ident \<Rightarrow> ('c, 'z) gstore_scheme \<Rightarrow> DeviceView result \<times> ('c, 'z) gstore_scheme" where
  "unlockInternet C now parentId i s =
     (case ownDevice parentId i s of
        Inl e \<Rightarrow> (Inl e, s)
      | Inr d \<Rightarrow>
          (let f = (\<lambda>d. d\<lparr>dev_blockingMode := GAMING_ONLY, dev_internetLocked := False,
                          dev_internetLockedReason := None, dev_internetLockedAt := None\<rparr>)
           in (Inr (withSupport (f d)), invalidateDnsCacheForDevice C now (f d) (updateDevice i f s))))"

record NetworkStatus =
  ns_deviceId :: ident
  ns_name :: string
  ns_type :: DeviceType
  ns_blockingMode :: BlockingMode
  ns_internetLocked :: bool
  ns_internetLockedReason :: "string option"
  ns_internetLockedAt :: "time option"
  ns_ipAddress :: "string option"
  ns_dnsSourceIp :: "string option"
  ns_lastDnsSeenAt :: "time option"
  ns_offlineControlSupported :: bool
  ns_offlineControlMethod :: string
  ns_note :: string

definition getNetworkStatus :: "ident \<Rightarrow> ident \<Rightarrow> 'z store_scheme \<Rightarrow> NetworkStatus result" where
  "getNetworkStatus parentId i s =
     (case ownDevice parentId i s of
        Inl e \<Rightarrow> Inl e
      | Inr d \<Rightarrow>
          Inr \<lparr>ns_deviceId = dev_id d, ns_name = dev_name d, ns_type = dev_type d, ns_blockingMode = dev_blockingMode d,
               ns_internetLocked = dev_internetLocked d, ns_internetLockedReason = dev_internetLockedReason d,
               ns_internetLockedAt = dev_internetLockedAt d, ns_ipAddress = dev_ipAddress d,
               ns_dnsSourceIp = dev_dnsSourceIp d, ns_lastDnsSeenAt = dev_lastDnsSeenAt d,
               ns_offlineControlSupported = ps_offlineControlSupported (getPlatformSupport (dev_type d)),
               ns_offlineControlMethod = ps_offlineControlMethod (getPlatformSupport (dev_type d)),
               ns_note = (if dev_internetLocked d
                 then ''All ONLINE traffic is blocked for this device. Offline single-player games cannot be killed by us.''
                 else ''Standard policy in effect (gaming/category rules apply).'')\<rparr>)"

section \<open>Ownership\<close>

interpretation update_device_guard: owner_guarded findDevice dev_parentId
  "''Device not found''" "''Not your device''" "\<lambda>i p. update_Device p i dto" for dto
  by unfold_locales (simp add: update_Device_def ownDevice_def)

interpretation remove_device_guard: owner_guarded findDevice dev_parentId
  "''Device not found''" "''Not your device''" "\<lambda>i p. remove_Device p i"
  by unfold_locales (simp add: remove_Device_def ownDevice_def)

interpretation lock_guard: owner_guarded findDevice dev_parentId
  "''Device not found''" "''Not your device''" "\<lambda>i p. lockInternet C now p i reason" for C now reason
  by unfold_locales (simp add: lockInternet_def ownDevice_def)

interpretation unlock_guard: owner_guarded findDevice dev_parentId
  "''Device not found''" "''Not your device''" "\<lambda>i p. unlockInternet C now p i" for C now
  by unfold_locales (simp add: unlockInternet_def ownDevice_def)

section \<open>The lock and DNS\<close>

lemma ownDevice_Inr: "ownDevice p i s = Inr d \<longleftrightarrow> findDevice s i = Some d \<and> dev_parentId d = p"
  by (simp add: ownDevice_def tbl_simps)

text \<open>A device write that keeps the addresses, followed by the invalidation of the device.\<close>

lemma write_and_invalidate:
  assumes "ttl_cache C" "cache_inv C t0 t1 s" "t1 \<le> t2" "t2 < t0 + msPerDay"
    and "findDeviceByIp ip s = Some d" "ip \<noteq> []" "dnsName domain"
    and f: "\<And>d. dev_ipAddress (f d) = dev_ipAddress d" "\<And>d. dev_dnsSourceIp (f d) = dev_dnsSourceIp d"
      "\<And>d. dev_ipv6Address (f d) = dev_ipv6Address d"
    and s': "s' = invalidateDnsCacheForDevice C t1 (f d) (updateDevice (dev_id d) f s)"
  shows "fst (checkPolicy C strictMode t2 ip domain s') = policyDecision strictMode t2 ip domain s' \<and>
         findDeviceByIp ip s' = Some (f d)"
proof
  have inv: "cache_inv C t0 t1 (updateDevice (dev_id d) f s)" using assms(2) by simp
  show "fst (checkPolicy C strictMode t2 ip domain s') = policyDecision strictMode t2 ip domain s'"
    by (rule fresh_after_invalidation [OF assms(1) inv assms(3,4) findDeviceByIp_address [OF assms(5)] assms(6,7)])
      (simp only: s' invalidateDnsCacheForDevice_def f)
  have "devices s' = updateMany (\<lambda>e. dev_id e = dev_id d) f (devices s)"
    by (simp add: s' invalidateDnsCacheForDevice_def updateDevice_def del: invalidateSourceIps.simps)
  from findDeviceByIp_updateDevice [OF f this] assms(5) show "findDeviceByIp ip s' = Some (f d)" by simp
qed

lemma lockInternet_dns:
  assumes "ttl_cache C" "cache_inv C t0 t1 s" "t1 \<le> t2" "t2 < t0 + msPerDay"
    and "findDeviceByIp ip s = Some d" "findDevice s (dev_id d) = Some d" "ip \<noteq> []" "dnsName domain"
    and "lockInternet C t1 p (dev_id d) reason s = (Inr v, s')"
  shows "dpr_action (fst (checkPolicy C strictMode t2 ip domain s')) = BLOCK"
proof -
  let ?f = "\<lambda>d. d\<lparr>dev_blockingMode := FULL_INTERNET_LOCK, dev_internetLocked := True,
                   dev_internetLockedReason := Some (patch reason ''Locked by parent''), dev_internetLockedAt := Some t1\<rparr>"
  have s': "s' = invalidateDnsCacheForDevice C t1 (?f d) (updateDevice (dev_id d) ?f s)"
    using assms(6,9) by (auto simp: lockInternet_def ownDevice_Inr Let_def split: sum.splits)
  have "fst (checkPolicy C strictMode t2 ip domain s') = policyDecision strictMode t2 ip domain s' \<and>
         findDeviceByIp ip s' = Some (?f d)"
    by (rule write_and_invalidate [OF assms(1-5,7,8) _ _ _ s']) simp_all
  then show ?thesis using policyDecision_blocked [of ip s' "?f d"] by simp
qed

section \<open>Properties\<close>

text \<open>Locking the internet of a device takes effect at once on DNS: after any run of the DNS engine,
  once \<open>lockInternet\<close> succeeds for the device behind an address, every query from the address is
  answered BLOCK for every name (within 24 hours of the empty cache).\<close>
theorem lock_takes_effect:
  assumes "ttl_cache C" and "dns_run C strictMode t0 t s"
    and "findDeviceByIp ip s = Some d" "findDevice s (dev_id d) = Some d" "ip \<noteq> []"
    and "lockInternet C t1 p (dev_id d) reason s = (Inr v, s')"
    and "t \<le> t1" "t1 \<le> t2" "t2 < t0 + msPerDay" "dnsName domain"
  shows "dpr_action (fst (checkPolicy C strictMode t2 ip domain s')) = BLOCK"
proof -
  have "cache_inv C t0 t1 s"
    using ttl_cache.dns_run_inv [OF assms(1,2)] assms(7) by (rule cache_inv_later)
  from lockInternet_dns [OF assms(1) this assms(8,9,3-5,10,6)] show ?thesis .
qed

theorem lock_takes_effect_witness:
  "dpr_action (fst (checkPolicy mapCache False 5000 ''192.168.1.45'' ''example.org''
      (snd (lockInternet mapCache 4000 ''p'' ''d'' None dnsStore)))) = BLOCK"
proof -
  let ?d = "bareDevice ''d'' ''p'' ''c''"
  have run: "dns_run mapCache False 0 0 dnsStore"
    by (rule dns_run.init) (simp add: dnsStore_def store.defs mapCache_def)
  have d: "findDeviceByIp ''192.168.1.45'' dnsStore = Some ?d" "findDevice dnsStore (dev_id ?d) = Some ?d"
    "dev_id ?d = ''d''" "dev_parentId ?d = ''p''"
    by (simp_all add: dnsStore_tables findDeviceByIp_def bareDevice_def)
  have "ownDevice ''p'' (dev_id ?d) dnsStore = Inr ?d" using d by (simp add: ownDevice_Inr)
  then obtain v s' where l: "lockInternet mapCache 4000 ''p'' (dev_id ?d) None dnsStore = (Inr v, s')"
    by (simp add: lockInternet_def Let_def)
  have "dpr_action (fst (checkPolicy mapCache False 5000 ''192.168.1.45'' ''example.org'' s')) = BLOCK"
    by (rule lock_takes_effect [OF map_cache.ttl_cache_axioms run d(1,2) _ l])
      (simp_all add: msPerDay_def dnsName_def)
  with l show ?thesis by (simp only: d(3) snd_conv)
qed

text \<open>The pairing credential never leaves through the device registry: no device that creation,
  change, listing, reading, locking or unlocking returns carries a DNS beacon token.\<close>
theorem beacon_token_redacted:
  "(\<forall>d. fst (create_Device p dto s) = Inr d \<longrightarrow> dev_dnsBeaconToken d = None) \<and>
   (\<forall>d. fst (update_Device p i udto s) = Inr d \<longrightarrow> dev_dnsBeaconToken d = None) \<and>
   (\<forall>v \<in> set (findAll_Devices p s). dev_dnsBeaconToken (dv_device v) = None) \<and>
   (\<forall>v. findOne_Device p i s = Inr v \<longrightarrow> dev_dnsBeaconToken (dv_device v) = None) \<and>
   (\<forall>v. fst (lockInternet C now p i reason s) = Inr v \<longrightarrow> dev_dnsBeaconToken (dv_device v) = None) \<and>
   (\<forall>v. fst (unlockInternet C now p i s) = Inr v \<longrightarrow> dev_dnsBeaconToken (dv_device v) = None)"
proof -
  have r: "dev_dnsBeaconToken (redact d) = None" for d by (simp add: redact_def)
  have w: "dev_dnsBeaconToken (dv_device (withSupport d)) = None" for d by (simp add: withSupport_def r Let_def)
  show ?thesis
    by (auto simp: create_Device_def update_Device_def findAll_Devices_def findOne_Device_def lockInternet_def
        unlockInternet_def r w Let_def split: sum.splits)
qed

theorem beacon_token_redacted_witness:
  "dev_dnsBeaconToken (dv_device (hd (findAll_Devices ''p'' (dnsStore\<lparr>devices :=
     [(bareDevice ''d'' ''p'' ''c'')\<lparr>dev_dnsBeaconToken := Some ''secret''\<rparr>]\<rparr>)))) = None"
proof -
  let ?s = "dnsStore\<lparr>devices := [(bareDevice ''d'' ''p'' ''c'')\<lparr>dev_dnsBeaconToken := Some ''secret''\<rparr>]\<rparr>"
  have "findAll_Devices ''p'' ?s \<noteq> []" by (simp add: findAll_Devices_def findMany_def bareDevice_def)
  then have "hd (findAll_Devices ''p'' ?s) \<in> set (findAll_Devices ''p'' ?s)" by (rule hd_in_set)
  then show ?thesis using beacon_token_redacted [where s = ?s and p = "''p''"] by blast
qed

end
