(* ===== verification/Usage.thy ===== *)
theory Usage
  imports Router_Commands Devices
begin

text \<open>
  Usage logs (\<^verbatim>\<open>usage-logs.service.ts\<close>) and the child agent (\<^verbatim>\<open>child-agent.service.ts\<close>): registration,
  command polling and acknowledgement, usage and status reports, requests for more time. The agent's
  command queue is the second instance of the contract \<open>command_queue\<close>. An object used as a table of
  totals is the list of its keys, each once, with their values.
\<close>

section \<open>Usage logs\<close>

record CreateUsageLogDto =
  cul_deviceId :: ident
  cul_childId :: ident
  cul_appName :: "string option"
  cul_category :: "string option"
  cul_durationSeconds :: int

text \<open>\<^verbatim>\<open>table[key] = (table[key] || 0) + n\<close>\<close>

fun addTotal :: "string \<Rightarrow> int \<Rightarrow> (string \<times> int) list \<Rightarrow> (string \<times> int) list" where
  "addTotal k n [] = [(k, n)]"
| "addTotal k n ((k', m) # ts) = (if k = k' then (k', m + n) # ts else (k', m) # addTotal k n ts)"

definition totalsBy :: "(UsageLog \<Rightarrow> string) \<Rightarrow> UsageLog list \<Rightarrow> (string \<times> int) list" where
  "totalsBy key logs = foldl (\<lambda>ts log. addTotal (key log) (ulg_durationSec log) ts) [] logs"

definition assertChildOwnership_Usage :: "ident \<Rightarrow> ident \<Rightarrow> 'z store_scheme \<Rightarrow> Child result" where
  "assertChildOwnership_Usage parentId childId s =
     (if childId = [] then Inl (BadRequestException ''childId query parameter is required'')
      else owned chd_parentId ''Child not found'' ''Not your child'' parentId (findChild s childId))"

definition assertDeviceOwnership_Usage :: "ident \<Rightarrow> ident \<Rightarrow> 'z store_scheme \<Rightarrow> Device result" where
  "assertDeviceOwnership_Usage parentId deviceId s =
     (if deviceId = [] then Inl (BadRequestException ''deviceId is required'')
      else owned dev_parentId ''Device not found'' ''Not your device'' parentId (findDevice s deviceId))"

definition createLog :: "time \<Rightarrow> CreateUsageLogDto \<Rightarrow> 'z store_scheme \<Rightarrow> UsageLog result \<times> 'z store_scheme" where
  "createLog now dto s =
     (let u = \<lparr>ulg_deviceId = cul_deviceId dto, ulg_childId = cul_childId dto, ulg_appName = cul_appName dto,
               ulg_category = cul_category dto, ulg_durationSec = cul_durationSeconds dto, ulg_loggedAt = now\<rparr>
      in if findDevice s (cul_deviceId dto) = None \<or> findChild s (cul_childId dto) = None
         then (Inl PrismaForeignKeyViolation, s)
         else (Inr u, s\<lparr>usageLogs := usageLogs s @ [u]\<rparr>))"

record DailyUsage =
  du_childId :: ident
  du_date :: string
  du_totalMinutes :: int
  du_totalSeconds :: int
  du_byApp :: "(string \<times> int) list"
  du_logCount :: nat

definition appKey :: "UsageLog \<Rightarrow> string" where
  "appKey log = (if truthy (ulg_appName log) then patch (ulg_appName log) [] else ''unknown'')"

definition getDailyUsage ::
  "int \<Rightarrow> time \<Rightarrow> ident \<Rightarrow> ident \<Rightarrow> time option \<Rightarrow> 'z store_scheme \<Rightarrow> DailyUsage result" where
  "getDailyUsage tz now parentId childId date s =
     (case assertChildOwnership_Usage parentId childId s of
        Inl e \<Rightarrow> Inl e
      | Inr _ \<Rightarrow>
          (let targetDate = patch date now;
               start = startOfDay tz targetDate;
               endOfDay = startOfDay tz targetDate + 86399999;
               logs = findMany (\<lambda>u. ulg_childId u = childId \<and> start \<le> ulg_loggedAt u \<and> ulg_loggedAt u \<le> endOfDay) (usageLogs s);
               totalSeconds = sum_list (map ulg_durationSec logs)
           in Inr \<lparr>du_childId = childId, du_date = isoDay start, du_totalMinutes = totalSeconds div 60,
                   du_totalSeconds = totalSeconds, du_byApp = totalsBy appKey logs, du_logCount = length logs\<rparr>))"

record WeeklyUsage =
  wu_childId :: ident
  wu_weekStart :: string
  wu_totalMinutes :: int
  wu_totalSeconds :: int
  wu_byDay :: "(string \<times> int) list"
  wu_logCount :: nat

definition startOfWeek :: "int \<Rightarrow> time \<Rightarrow> time" where
  "startOfWeek tz now = startOfDay tz now - getDay tz now * msPerDay"

definition getWeeklyUsage :: "int \<Rightarrow> time \<Rightarrow> ident \<Rightarrow> ident \<Rightarrow> 'z store_scheme \<Rightarrow> WeeklyUsage result" where
  "getWeeklyUsage tz now parentId childId s =
     (case assertChildOwnership_Usage parentId childId s of
        Inl e \<Rightarrow> Inl e
      | Inr _ \<Rightarrow>
          (let start = startOfWeek tz now;
               logs = orderByAsc ulg_loggedAt
                 (findMany (\<lambda>u. ulg_childId u = childId \<and> start \<le> ulg_loggedAt u) (usageLogs s));
               totalSeconds = sum_list (map ulg_durationSec logs)
           in Inr \<lparr>wu_childId = childId, wu_weekStart = isoDay start, wu_totalMinutes = totalSeconds div 60,
                   wu_totalSeconds = totalSeconds, wu_byDay = totalsBy (\<lambda>u. isoDay (ulg_loggedAt u)) logs,
                   wu_logCount = length logs\<rparr>))"

definition getDeviceUsage :: "ident \<Rightarrow> ident \<Rightarrow> 'z store_scheme \<Rightarrow> (int \<times> UsageLog list) result" where
  "getDeviceUsage parentId deviceId s =
     (case assertDeviceOwnership_Usage parentId deviceId s of
        Inl e \<Rightarrow> Inl e
      | Inr _ \<Rightarrow>
          (let logs = take 100 (orderByDesc ulg_loggedAt (findMany (\<lambda>u. ulg_deviceId u = deviceId) (usageLogs s)))
           in Inr (sum_list (map ulg_durationSec logs), logs)))"

definition getActiveApp :: "ident \<Rightarrow> 'z store_scheme \<Rightarrow> string option" where
  "getActiveApp childId s =
     (case orderByDesc ulg_loggedAt (findMany (\<lambda>u. ulg_childId u = childId) (usageLogs s)) of
        [] \<Rightarrow> None | u # _ \<Rightarrow> if truthy (ulg_appName u) then ulg_appName u else None)"

section \<open>Child agent\<close>

record RegisterDeviceDto =
  rdd_childId :: ident
  rdd_deviceName :: string
  rdd_deviceType :: DeviceType
  rdd_platform :: "string option"
  rdd_macAddress :: "string option"

record CommandAckDto =
  cad_commandId :: ident
  cad_success :: bool
  cad_resultData :: "string option"

record RequestMoreTimeDto =
  rmt_sessionId :: ident
  rmt_requestedMinutes :: int

record ChildStatusDto =
  csd_deviceId :: ident
  csd_activeApp :: "string option"

fun inferControlMethod :: "DeviceType \<Rightarrow> ControlMethod" where
  "inferControlMethod ANDROID_PHONE = ANDROID_AGENT"
| "inferControlMethod ANDROID_TABLET = ANDROID_AGENT"
| "inferControlMethod IPHONE = IOS_SCREEN_TIME"
| "inferControlMethod IPAD = IOS_SCREEN_TIME"
| "inferControlMethod XBOX = XBOX_ADAPTER"
| "inferControlMethod PLAYSTATION = NETWORK_GATEWAY"
| "inferControlMethod SMART_TV = NETWORK_GATEWAY"
| "inferControlMethod STREAMING_BOX = NETWORK_GATEWAY"
| "inferControlMethod _ = MOCK"

definition registerDevice ::
  "time \<Rightarrow> ident \<Rightarrow> RegisterDeviceDto \<Rightarrow> 'z store_scheme \<Rightarrow> Device result \<times> 'z store_scheme" where
  "registerDevice now parentId dto s =
     (let d = (defaultDevice (newId s) parentId (rdd_deviceName dto) (rdd_deviceType dto))
                \<lparr>dev_childId := Some (rdd_childId dto), dev_platform := rdd_platform dto,
                 dev_macAddress := rdd_macAddress dto, dev_controlMethod := inferControlMethod (rdd_deviceType dto),
                 dev_status := DEV_ONLINE, dev_lastSeen := Some now\<rparr>
      in if \<not> deviceKeysOk d s then (Inl PrismaForeignKeyViolation, s)
         else (Inr d, drawId (s\<lparr>devices := devices s @ [d]\<rparr>)))"

definition getRules_Agent :: "ident \<Rightarrow> 'z store_scheme \<Rightarrow> Rule list" where
  "getRules_Agent childId s = getActiveRulesForChild childId s"

definition getCommands :: "time \<Rightarrow> ident \<Rightarrow> 'z store_scheme \<Rightarrow> Command list \<times> 'z store_scheme" where
  "getCommands now deviceId s =
     (let pending = orderByAsc cmd_createdAt
            (findMany (\<lambda>c. cmd_deviceId c = deviceId \<and> cmd_status c = CMD_PENDING) (commands s))
      in (pending,
          if length pending > 0
          then s\<lparr>commands := updateMany (\<lambda>c. cmd_id c \<in> set (map cmd_id pending))
                   (\<lambda>c. c\<lparr>cmd_status := CMD_DELIVERED, cmd_deliveredAt := Some now\<rparr>) (commands s)\<rparr>
          else s))"

definition acknowledgeCommand_Agent ::
  "time \<Rightarrow> CommandAckDto \<Rightarrow> 'z store_scheme \<Rightarrow> CommandAck result \<times> 'z store_scheme" where
  "acknowledgeCommand_Agent now dto s =
     (case findUnique cmd_id (cad_commandId dto) (commands s) of
        None \<Rightarrow> (Inl (NotFoundException ''Command not found''), s)
      | Some _ \<Rightarrow>
          (let a = \<lparr>ack_commandId = cad_commandId dto, ack_success = cad_success dto, ack_resultData = cad_resultData dto\<rparr>
           in (Inr a,
               s\<lparr>commands := updateMany (\<lambda>c. cmd_id c = cad_commandId dto)
                   (\<lambda>c. c\<lparr>cmd_status := (if cad_success dto then CMD_ACKNOWLEDGED else CMD_FAILED), cmd_ackedAt := Some now\<rparr>)
                   (commands s),
                 commandAcks := commandAcks s @ [a]\<rparr>)))"

definition reportUsage :: "time \<Rightarrow> CreateUsageLogDto \<Rightarrow> 'z store_scheme \<Rightarrow> UsageLog result \<times> 'z store_scheme" where
  "reportUsage now dto s =
     (case findDevice s (cul_deviceId dto) of
        None \<Rightarrow> (Inl PrismaRecordNotFound, s)
      | Some _ \<Rightarrow> createLog now dto (updateDevice (cul_deviceId dto) (\<lambda>d. d\<lparr>dev_lastSeen := Some now\<rparr>) s))"

definition requestMoreTime ::
  "fcm \<Rightarrow> time \<Rightarrow> RequestMoreTimeDto \<Rightarrow> 'z store_scheme \<Rightarrow> unit result \<times> 'z store_scheme" where
  "requestMoreTime F now dto s =
     (case findSession s (rmt_sessionId dto) of
        None \<Rightarrow> (Inl (NotFoundException ''Session not found''), s)
      | Some x \<Rightarrow>
          (Inr (), notify F now
             \<lparr>nd_userId = ses_parentId x, nd_type = CHILD_REQUEST_MORE_TIME, nd_title = ''Time Extension Request'',
              nd_message = ''Child requests '' @ showInt (rmt_requestedMinutes dto) @ '' more minutes'',
              nd_deviceId = Some (ses_deviceId x), nd_childId = Some (ses_childId x), nd_sessionId = Some (ses_id x)\<rparr> s))"

definition reportStatus :: "time \<Rightarrow> ChildStatusDto \<Rightarrow> 'z store_scheme \<Rightarrow> unit result \<times> 'z store_scheme" where
  "reportStatus now dto s =
     (case findDevice s (csd_deviceId dto) of
        None \<Rightarrow> (Inl PrismaRecordNotFound, s)
      | Some device \<Rightarrow>
          (let s1 = updateDevice (csd_deviceId dto) (\<lambda>d. d\<lparr>dev_lastSeen := Some now\<rparr>) s in
           (Inr (),
            if truthy (csd_activeApp dto) \<and> truthy (dev_childId device)
            then (case findFirst (\<lambda>x. ses_deviceId x = csd_deviceId dto \<and> ses_status x = ACTIVE) (sessions s1) of
                    None \<Rightarrow> s1
                  | Some x \<Rightarrow> updateSession (ses_id x) (\<lambda>x. x\<lparr>ses_activeApp := csd_activeApp dto\<rparr>) s1)
            else s1)))"

section \<open>The agent's command queue\<close>

interpretation agent_queue: command_queue "commands :: 'z store_scheme \<Rightarrow> _" cmd_id cmd_deviceId cmd_status getCommands
proof
  fix t g and s :: "'z store_scheme"
  let ?P = "\<lambda>r. cmd_deviceId r = g \<and> cmd_status r = CMD_PENDING"
  show "set (map cmd_id (fst (getCommands t g s))) = cmd_id ` {r \<in> set (commands s). ?P r}"
    by (simp add: getCommands_def Let_def)
  show "length (fst (getCommands t g s)) = length (filter ?P (commands s))"
    by (simp add: getCommands_def Let_def findMany_def)
  show "length (commands (snd (getCommands t g s))) = length (commands s)"
    by (simp add: getCommands_def Let_def)
  fix n assume "n < length (commands s)"
  then show "cmd_id (commands (snd (getCommands t g s)) ! n) = cmd_id (commands s ! n) \<and>
      cmd_deviceId (commands (snd (getCommands t g s)) ! n) = cmd_deviceId (commands s ! n) \<and>
      cmd_status (commands (snd (getCommands t g s)) ! n) =
        (if cmd_id (commands s ! n) \<in> set (map cmd_id (fst (getCommands t g s)))
         then CMD_DELIVERED else cmd_status (commands s ! n))"
    by (auto simp: getCommands_def Let_def nth_updateMany findMany_empty_iff)
qed

section \<open>Totals\<close>

lemma sum_addTotal: "sum_list (map snd (addTotal k n ts)) = sum_list (map snd ts) + n"
  by (induction k n ts rule: addTotal.induct) auto

lemma keys_addTotal: "distinct (map fst ts) \<Longrightarrow> distinct (map fst (addTotal k n ts)) \<and>
   set (map fst (addTotal k n ts)) = insert k (set (map fst ts))"
  by (induction k n ts rule: addTotal.induct) auto

lemma totalsBy_sum: "sum_list (map snd (totalsBy key logs)) = sum_list (map ulg_durationSec logs)"
  by (induction logs rule: rev_induct) (simp_all add: totalsBy_def sum_addTotal)

lemma totalsBy_keys: "distinct (map fst (totalsBy key logs)) \<and> set (map fst (totalsBy key logs)) = key ` set logs"
proof (induction logs rule: rev_induct)
  case (snoc x xs)
  then show ?case using keys_addTotal [of "totalsBy key xs" "key x" "ulg_durationSec x"] by (auto simp: totalsBy_def)
qed (simp add: totalsBy_def)

section \<open>Properties\<close>

text \<open>An agent's poll drains its queue: it returns every pending command of the device in one answer,
  marks exactly those as delivered, and a second poll returns nothing (the service queries before it
  marks, contrary to what the router queue's comment says of it).\<close>
theorem getCommands_drains:
  "set (map cmd_id (fst (getCommands t g s))) =
     cmd_id ` {c \<in> set (commands s). cmd_deviceId c = g \<and> cmd_status c = CMD_PENDING} \<and>
   (\<forall>c \<in> set (commands (snd (getCommands t g s))). cmd_deviceId c = g \<longrightarrow> cmd_status c \<noteq> CMD_PENDING) \<and>
   fst (getCommands t' g (snd (getCommands t g s))) = []"
  using agent_queue.poll_ids agent_queue.second_poll_empty agent_queue.poll_drains by blast

definition agentStore :: store where
  "agentStore = demoStore\<lparr>commands := [newCommand 1 ''k'' ''d'' LOCK_DEVICE ''{}'']\<rparr>"

theorem getCommands_drains_witness:
  "map cmd_id (fst (getCommands 5 ''d'' agentStore)) = [''k''] \<and>
   filter (\<lambda>c. cmd_deviceId c = ''d'' \<and> cmd_status c = CMD_PENDING) (commands (snd (getCommands 5 ''d'' agentStore))) = []"
proof
  show "map cmd_id (fst (getCommands 5 ''d'' agentStore)) = [''k'']"
    by (simp add: getCommands_def agentStore_def newCommand_def orderByAsc_def Let_def)
  show "filter (\<lambda>c. cmd_deviceId c = ''d'' \<and> cmd_status c = CMD_PENDING) (commands (snd (getCommands 5 ''d'' agentStore))) = []"
    using getCommands_drains [of 5 "''d''" agentStore] by (simp add: filter_empty_conv)
qed

text \<open>The daily report adds up: its seconds per application list each application once and sum to its
  total, which is the sum over the child's logs of that local day and of nothing else.\<close>
theorem getDailyUsage_adds_up:
  assumes "getDailyUsage tz now p c date s = Inr u"
  shows "sum_list (map snd (du_byApp u)) = du_totalSeconds u \<and> distinct (map fst (du_byApp u)) \<and>
         du_totalSeconds u = sum_list (map ulg_durationSec
           (filter (\<lambda>l. ulg_childId l = c \<and> startOfDay tz (ulg_loggedAt l) = startOfDay tz (patch date now)) (usageLogs s))) \<and>
         (\<exists>ch. findChild s c = Some ch \<and> chd_parentId ch = p)"
proof -
  have same_day: "startOfDay tz t \<le> l \<and> l \<le> startOfDay tz t + 86399999 \<longleftrightarrow> startOfDay tz l = startOfDay tz t" for t l
  proof
    assume h: "startOfDay tz t \<le> l \<and> l \<le> startOfDay tz t + 86399999"
    let ?q = "(t + tz) div msPerDay"
    from h have "?q * msPerDay \<le> l + tz" "l + tz < (?q + 1) * msPerDay"
      by (simp_all add: startOfDay_def msPerDay_def algebra_simps)
    then have "(l + tz) div msPerDay = ?q"
      by (intro int_div_pos_eq [of _ _ _ "l + tz - ?q * msPerDay"]) (simp_all add: algebra_simps)
    then show "startOfDay tz l = startOfDay tz t" by (simp add: startOfDay_def)
  next
    assume "startOfDay tz l = startOfDay tz t"
    then show "startOfDay tz t \<le> l \<and> l \<le> startOfDay tz t + 86399999"
      using startOfDay_le [of tz l] startOfDay_lt [of l tz] by (simp add: msPerDay_def)
  qed
  show ?thesis
    using assms
    by (auto simp: getDailyUsage_def Let_def totalsBy_sum totalsBy_keys findMany_def same_day
        assertChildOwnership_Usage_def tbl_simps split: sum.splits if_splits)
qed

definition usageStore :: store where
  "usageStore = demoStore\<lparr>
     children := [\<lparr>chd_id = ''c'', chd_parentId = ''p'', chd_name = ''Kim'', chd_avatar = None, chd_age = None, chd_defaultLimit = None\<rparr>],
     usageLogs := map (\<lambda>(a, n, t). \<lparr>ulg_deviceId = ''d'', ulg_childId = ''c'', ulg_appName = a, ulg_category = None,
                                    ulg_durationSec = n, ulg_loggedAt = t\<rparr>)
       [(Some ''chess'', 60, 10), (None, 30, 20), (Some ''chess'', 15, 30), (Some ''chess'', 99, 90000000)]\<rparr>"

theorem getDailyUsage_adds_up_witness:
  "\<exists>u. getDailyUsage 0 50 ''p'' ''c'' None usageStore = Inr u \<and> sum_list (map snd (du_byApp u)) = du_totalSeconds u \<and>
       du_totalSeconds u = 105"
proof -
  obtain u where u: "getDailyUsage 0 50 ''p'' ''c'' None usageStore = Inr u" and "du_totalSeconds u = 105"
    by (simp add: getDailyUsage_def assertChildOwnership_Usage_def owned_def usageStore_def Let_def startOfDay_def msPerDay_def)
  with getDailyUsage_adds_up [OF u] show ?thesis by blast
qed

text \<open>East of Greenwich the daily report is dated one day too early: it prints the UTC date of the local
  midnight, so for a host whose UTC offset is positive the date is that of the day before the local
  day it reports on.\<close>
theorem getDailyUsage_date_east:
  assumes "getDailyUsage tz now p c date s = Inr u" and "0 < tz" "tz < msPerDay"
  shows "du_date u = isoDay (patch date now + tz - msPerDay)"
proof -
  let ?q = "(patch date now + tz) div msPerDay"
  have "(?q * msPerDay - tz) div msPerDay = ?q - 1"
    using assms(2,3) by (intro int_div_pos_eq [of _ _ _ "msPerDay - tz"]) (simp_all add: algebra_simps)
  moreover have "(patch date now + tz - msPerDay) div msPerDay = ?q - 1"
    using div_add_self2 [of msPerDay "patch date now + tz - msPerDay"] by (simp add: msPerDay_def)
  ultimately have "isoDay (startOfDay tz (patch date now)) = isoDay (patch date now + tz - msPerDay)"
    by (simp only: isoDay_def startOfDay_def)
  with assms(1) show ?thesis
    by (auto simp: getDailyUsage_def Let_def split: sum.splits)
qed

theorem getDailyUsage_date_east_witness:
  "\<exists>u. getDailyUsage 3600000 86400050 ''p'' ''c'' None usageStore = Inr u \<and> du_date u = isoDay 3600050"
proof -
  obtain u where u: "getDailyUsage 3600000 86400050 ''p'' ''c'' None usageStore = Inr u"
    by (simp add: getDailyUsage_def assertChildOwnership_Usage_def owned_def usageStore_def Let_def)
  with getDailyUsage_date_east [OF u] show ?thesis by (simp add: msPerDay_def)
qed

end
