(* ===== verification/Catalog.thy ===== *)
theory Catalog
  imports Dns_Policy
begin

text \<open>
  The domain catalogue and category blocks (\<^verbatim>\<open>categories.service.ts\<close>, \<^verbatim>\<open>seed-domains.ts\<close>): seeding, adding,
  importing and classifying domains, and the parent's category blocks. The section on effects shows
  that what is stored here is what the DNS engine finds.
\<close>

section \<open>Operations\<close>

type_synonym SeedDomain = "string \<times> BlockCategory \<times> bool"

definition SEED_DOMAINS :: "SeedDomain list" where
  "SEED_DOMAINS =
     [(''xboxlive.com'', GAMING, True), (''xbox.com'', GAMING, True), (''xboxservices.com'', GAMING, True),
      (''playstation.net'', GAMING, True), (''playstation.com'', GAMING, True),
      (''sonyentertainmentnetwork.com'', GAMING, True), (''nintendo.net'', GAMING, True),
      (''nintendo.com'', GAMING, True), (''nintendoswitch.com'', GAMING, True),
      (''steampowered.com'', GAMING, True), (''steamcommunity.com'', GAMING, True),
      (''steamcontent.com'', GAMING, True), (''steamstatic.com'', GAMING, True),
      (''epicgames.com'', GAMING, True), (''unrealengine.com'', GAMING, True),
      (''fortnite.com'', GAMING, True), (''roblox.com'', GAMING, True), (''rbxcdn.com'', GAMING, True),
      (''ea.com'', GAMING, True), (''easports.com'', GAMING, True), (''battle.net'', GAMING, True),
      (''blizzard.com'', GAMING, True), (''ubisoft.com'', GAMING, True), (''ubi.com'', GAMING, True),
      (''riotgames.com'', GAMING, True), (''leagueoflegends.com'', GAMING, True),
      (''minecraft.net'', GAMING, True), (''mojang.com'', GAMING, True),
      (''rockstargames.com'', GAMING, True), (''take2games.com'', GAMING, True),
      (''activision.com'', GAMING, True), (''callofduty.com'', GAMING, True),
      (''discord.com'', GAMING, True), (''discord.gg'', GAMING, True), (''twitch.tv'', GAMING, True),
      (''youtube.com'', STREAMING, True), (''youtu.be'', STREAMING, True),
      (''googlevideo.com'', STREAMING, True), (''netflix.com'', STREAMING, True),
      (''nflxvideo.net'', STREAMING, True), (''primevideo.com'', STREAMING, True),
      (''disneyplus.com'', STREAMING, True), (''hulu.com'', STREAMING, True),
      (''hbomax.com'', STREAMING, True), (''spotify.com'', STREAMING, True),
      (''tiktok.com'', STREAMING, True), (''tiktokcdn.com'', STREAMING, True),
      (''facebook.com'', SOCIAL, True), (''fbcdn.net'', SOCIAL, True), (''instagram.com'', SOCIAL, True),
      (''cdninstagram.com'', SOCIAL, True), (''twitter.com'', SOCIAL, True), (''x.com'', SOCIAL, True),
      (''snapchat.com'', SOCIAL, True), (''reddit.com'', SOCIAL, True), (''pinterest.com'', SOCIAL, True),
      (''whatsapp.com'', SOCIAL, True), (''telegram.org'', SOCIAL, True), (''pornhub.com'', ADULT, True),
      (''xvideos.com'', ADULT, True), (''xnxx.com'', ADULT, True), (''xhamster.com'', ADULT, True),
      (''redtube.com'', ADULT, True), (''youporn.com'', ADULT, True)]"

text \<open>\<^verbatim>\<open>createMany({ skipDuplicates: true })\<close> on the unique column \<^verbatim>\<open>domain\<close>, with the number of rows added.\<close>

fun createManyDomains :: "SeedDomain list \<Rightarrow> 'z store_scheme \<Rightarrow> nat \<times> 'z store_scheme" where
  "createManyDomains [] s = (0, s)"
| "createManyDomains ((d, c, w) # items) s =
     (if list_ex (\<lambda>b. bdm_domain b = d) (blockedDomains s) then createManyDomains items s
      else (case createManyDomains items
                   (drawId (s\<lparr>blockedDomains := blockedDomains s @
                      [\<lparr>bdm_id = newId s, bdm_domain = d, bdm_category = Some c, bdm_wildcard = w\<rparr>]\<rparr>)) of
              (n, s1) \<Rightarrow> (n + 1, s1)))"

definition seedDefaultDomainsIfEmpty :: "'z store_scheme \<Rightarrow> 'z store_scheme" where
  "seedDefaultDomainsIfEmpty s =
     (if length (blockedDomains s) > 0 then s else snd (createManyDomains SEED_DOMAINS s))"

text \<open>The lists are ordered by name; \<open>byDomain\<close> is the database's collation order.\<close>

definition listAll :: "(BlockedDomain list \<Rightarrow> BlockedDomain list) \<Rightarrow> 'z store_scheme \<Rightarrow> BlockedDomain list" where
  "listAll byDomain s = byDomain (blockedDomains s)"

definition listByCategory ::
  "(BlockedDomain list \<Rightarrow> BlockedDomain list) \<Rightarrow> BlockCategory \<Rightarrow> 'z store_scheme \<Rightarrow> BlockedDomain list" where
  "listByCategory byDomain category s = byDomain (findMany (\<lambda>b. bdm_category b = Some category) (blockedDomains s))"

definition addDomain ::
  "string \<Rightarrow> BlockCategory \<Rightarrow> bool \<Rightarrow> 'z store_scheme \<Rightarrow> BlockedDomain \<times> 'z store_scheme" where
  "addDomain domain category wildcard s =
     (let d = toLowerCase domain;
          upd = (\<lambda>b. b\<lparr>bdm_category := Some category, bdm_wildcard := wildcard\<rparr>)
      in case findUnique bdm_domain d (blockedDomains s) of
           Some b \<Rightarrow> (upd b, s\<lparr>blockedDomains := updateMany (\<lambda>b. bdm_domain b = d) upd (blockedDomains s)\<rparr>)
         | None \<Rightarrow>
             (let b = \<lparr>bdm_id = newId s, bdm_domain = d, bdm_category = Some category, bdm_wildcard = wildcard\<rparr>
              in (b, drawId (s\<lparr>blockedDomains := blockedDomains s @ [b]\<rparr>))))"

definition bulkImport ::
  "(string \<times> BlockCategory \<times> bool option) list \<Rightarrow> 'z store_scheme \<Rightarrow> (nat \<times> nat) \<times> 'z store_scheme" where
  "bulkImport items s =
     (case createManyDomains (map (\<lambda>(d, c, w). (toLowerCase d, c, patch w True)) items) s of
        (n, s1) \<Rightarrow> ((n, length items), s1))"

definition deleteDomain :: "ident \<Rightarrow> 'z store_scheme \<Rightarrow> BlockedDomain result \<times> 'z store_scheme" where
  "deleteDomain i s =
     (case findUnique bdm_id i (blockedDomains s) of
        None \<Rightarrow> (Inl PrismaRecordNotFound, s)
      | Some b \<Rightarrow> (Inr b, s\<lparr>blockedDomains := deleteMany (\<lambda>b. bdm_id b = i) (blockedDomains s)\<rparr>))"

definition assertChildOwnership_Categories :: "ident \<Rightarrow> ident \<Rightarrow> 'z store_scheme \<Rightarrow> Child result" where
  "assertChildOwnership_Categories parentId childId s =
     owned chd_parentId ''Child not found'' ''Not your child'' parentId (findChild s childId)"

definition setCategoryBlock ::
  "ident \<Rightarrow> ident \<Rightarrow> BlockCategory \<Rightarrow> bool \<Rightarrow> string option \<Rightarrow> 'z store_scheme \<Rightarrow> unit result \<times> 'z store_scheme" where
  "setCategoryBlock parentId childId category active reason s =
     (case assertChildOwnership_Categories parentId childId s of
        Inl e \<Rightarrow> (Inl e, s) | Inr _ \<Rightarrow> (Inr (), upsertCategoryBlock childId category active reason s))"

definition getCategoryBlocksForChild :: "ident \<Rightarrow> 'z store_scheme \<Rightarrow> CategoryBlock list" where
  "getCategoryBlocksForChild childId s = findMany (\<lambda>b. cbl_childId b = childId \<and> cbl_active b) (categoryBlocks s)"

definition listCategoryBlocks :: "ident \<Rightarrow> ident \<Rightarrow> 'z store_scheme \<Rightarrow> CategoryBlock list result" where
  "listCategoryBlocks parentId childId s =
     (case assertChildOwnership_Categories parentId childId s of
        Inl e \<Rightarrow> Inl e | Inr _ \<Rightarrow> Inr (findMany (\<lambda>b. cbl_childId b = childId) (categoryBlocks s)))"

text \<open>Ordered by count and then by time, both descending.\<close>

definition listUnknownDomains :: "int option \<Rightarrow> bool option \<Rightarrow> 'z store_scheme \<Rightarrow> UnknownDomainLog list" where
  "listUnknownDomains lim classified s =
     (let n = min (max (patch lim 100) 1) 500 in
      take (nat n) (orderByDesc udl_count (orderByDesc udl_lastSeenAt
        (findMany (\<lambda>u. case classified of None \<Rightarrow> True | Some b \<Rightarrow> udl_classified u = b) (unknownDomains s)))))"

definition classifyUnknownDomain ::
  "string \<Rightarrow> BlockCategory \<Rightarrow> bool \<Rightarrow> 'z store_scheme \<Rightarrow> BlockedDomain \<times> 'z store_scheme" where
  "classifyUnknownDomain domain category wildcard s =
     (let lower = toLowerCase domain in
      case addDomain lower category wildcard s of
        (blocked, s1) \<Rightarrow>
          (blocked,
           s1\<lparr>unknownDomains := updateMany (\<lambda>u. udl_domain u = lower)
                (\<lambda>u. u\<lparr>udl_classified := True, udl_suggestedCategory := Some category\<rparr>) (unknownDomains s1)\<rparr>))"

interpretation category_guard: owner_guarded findChild chd_parentId
  "''Child not found''" "''Not your child''" "\<lambda>i p. setCategoryBlock p i cat act reason" for cat act reason
  by unfold_locales (simp add: setCategoryBlock_def assertChildOwnership_Categories_def)

section \<open>What the DNS engine finds\<close>

definition domains :: "'z store_scheme \<Rightarrow> string set" where
  "domains s = bdm_domain ` set (blockedDomains s)"

lemma createMany_domains: "domains (snd (createManyDomains items s)) = domains s \<union> fst ` set items"
proof (induction items s rule: createManyDomains.induct)
  case (2 d c w items s)
  show ?case
  proof (cases "list_ex (\<lambda>b. bdm_domain b = d) (blockedDomains s)")
    case True
    then have "d \<in> domains s" by (auto simp: domains_def list_ex_iff)
    with True 2(1) show ?thesis by auto
  next
    case False
    with 2(2) show ?thesis by (simp add: case_prod_beta) (simp add: domains_def)
  qed
qed (simp add: domains_def)

lemma createMany_unique:
  "distinct (map bdm_domain (blockedDomains s)) \<Longrightarrow>
   distinct (map bdm_domain (blockedDomains (snd (createManyDomains items s))))"
  by (induction items s rule: createManyDomains.induct)
    (auto simp: case_prod_beta list_ex_iff image_iff)

lemma createMany_count:
  "length (blockedDomains (snd (createManyDomains items s))) =
     length (blockedDomains s) + fst (createManyDomains items s)"
  by (induction items s rule: createManyDomains.induct) (simp_all add: case_prod_beta)

lemma domains_addDomain: "domains (snd (addDomain d c w s)) = insert (toLowerCase d) (domains s)"
proof (cases "findUnique bdm_domain (toLowerCase d) (blockedDomains s)")
  case None
  then show ?thesis by (auto simp: addDomain_def Let_def domains_def)
next
  case (Some b)
  then have "toLowerCase d \<in> domains s" using findUnique_Some_iff [OF Some] by (force simp: domains_def)
  with Some show ?thesis by (auto simp: addDomain_def Let_def domains_def)
qed

text \<open>A stored domain with a dot is found for itself and for its subdomains.\<close>

lemma found_if_stored:
  assumes "d \<in> domains s" "CHR ''.'' \<in> set d"
    and "normDomain q = d \<or> endsWith (normDomain q) (''.'' @ d)"
  shows "findBlockedDomain q s \<noteq> None"
  using assms by (auto simp: findBlockedDomain_def domains_def tbl_simps candidates_iff)

lemma seed_dots: "list_all (\<lambda>(d, c, w). CHR ''.'' \<in> set d) SEED_DOMAINS"
  by (simp add: SEED_DOMAINS_def)

section \<open>Properties\<close>

text \<open>What an administrator adds is blocked. After \<open>addDomain\<close> of a domain with at least two labels
  and no trailing dot, the DNS engine finds a blocked domain for the domain and for each of its
  subdomains, in any letter case and with or without a trailing dot.\<close>
theorem addDomain_effective:
  assumes "CHR ''.'' \<in> set d"
    and "normDomain q = toLowerCase d \<or> endsWith (normDomain q) (''.'' @ toLowerCase d)"
  shows "findBlockedDomain q (snd (addDomain d c w s)) \<noteq> None"
proof -
  have "CHR ''.'' \<in> set (toLowerCase d)"
    using assms(1) by (force simp: toLowerCase_def lowerChar_def)
  then show ?thesis using assms(2) by (intro found_if_stored [of "toLowerCase d"]) (auto simp: domains_addDomain)
qed

theorem addDomain_effective_witness:
  "findBlockedDomain ''CDN.Roblox.com.'' (snd (addDomain ''Roblox.com'' GAMING True demoStore)) \<noteq> None"
  by (rule addDomain_effective) (code_simp, code_simp)

text \<open>The seed is effective and idempotent. Seeding an empty catalogue makes every seed domain and
  each of its subdomains known to the DNS engine; seeding again changes nothing; an import keeps the
  domains unique and reports exactly the number of rows it added.\<close>
theorem seed_effective:
  assumes "blockedDomains s = []"
  shows "(\<forall>(d, c, w) \<in> set SEED_DOMAINS. \<forall>q. normDomain q = d \<or> endsWith (normDomain q) (''.'' @ d) \<longrightarrow>
            findBlockedDomain q (seedDefaultDomainsIfEmpty s) \<noteq> None) \<and>
         seedDefaultDomainsIfEmpty (seedDefaultDomainsIfEmpty s) = seedDefaultDomainsIfEmpty s \<and>
         distinct (map bdm_domain (blockedDomains (seedDefaultDomainsIfEmpty s))) \<and>
         length (blockedDomains (snd (bulkImport items s))) = fst (fst (bulkImport items s))"
proof -
  have d: "domains (seedDefaultDomainsIfEmpty s) = fst ` set SEED_DOMAINS"
    using assms createMany_domains [of SEED_DOMAINS s] by (simp add: seedDefaultDomainsIfEmpty_def domains_def)
  have "findBlockedDomain q (seedDefaultDomainsIfEmpty s) \<noteq> None"
    if "(d, c, w) \<in> set SEED_DOMAINS" "normDomain q = d \<or> endsWith (normDomain q) (''.'' @ d)" for d c w q
    using that seed_dots by (intro found_if_stored [of d]) (force simp: d list_all_iff)+
  moreover have "(''xboxlive.com'', GAMING, True) \<in> set SEED_DOMAINS" by (simp add: SEED_DOMAINS_def)
  then have "blockedDomains (seedDefaultDomainsIfEmpty s) \<noteq> []"
    using d by (force simp: domains_def)
  then have "seedDefaultDomainsIfEmpty (seedDefaultDomainsIfEmpty s) = seedDefaultDomainsIfEmpty s"
    by (simp add: seedDefaultDomainsIfEmpty_def [of "seedDefaultDomainsIfEmpty s"])
  moreover have "distinct (map bdm_domain (blockedDomains (seedDefaultDomainsIfEmpty s)))"
    using assms createMany_unique [of s SEED_DOMAINS] by (simp add: seedDefaultDomainsIfEmpty_def)
  moreover have "length (blockedDomains (snd (bulkImport items s))) = fst (fst (bulkImport items s))"
    using assms by (simp add: bulkImport_def case_prod_beta createMany_count)
  ultimately show ?thesis by blast
qed

theorem seed_effective_witness:
  "findBlockedDomain ''assets.xboxlive.com'' (seedDefaultDomainsIfEmpty demoStore) \<noteq> None"
proof -
  have s: "(''xboxlive.com'', GAMING, True) \<in> set SEED_DOMAINS" by (simp add: SEED_DOMAINS_def)
  have "endsWith (normDomain ''assets.xboxlive.com'') (''.'' @ ''xboxlive.com'')" by code_simp
  moreover have "blockedDomains demoStore = []" by (simp add: demoStore_def emptyStore_def)
  ultimately show ?thesis using seed_effective [of demoStore "[]"] s by blast
qed

text \<open>A category block reaches the policy. When a parent blocks a category for a child and a device of
  the child, behind the source address, has no stronger reason to be blocked, the policy for a name
  whose catalogue entry is in that category is BLOCK with reason CATEGORY_BLOCKED; a parent can do this
  for own children only.\<close>
theorem category_block_effective:
  assumes "setCategoryBlock p c cat True reason s = (Inr (), s')"
    and "findDeviceByIp ip s = Some d" "dev_childId d = Some c"
    and "findBlockedDomain q s = Some b" "bdm_category b = Some cat"
    and "\<not> (strictMode \<and> isStrictDohDomain q)" "\<not> dev_internetLocked d" "dev_status d \<noteq> DEV_BLOCKED"
      "\<not> timeIsUp now (dev_id d) s"
  shows "policyDecision strictMode now ip q s' = blockResponse R_CATEGORY_BLOCKED (Some cat) \<and>
         (\<exists>ch. findChild s c = Some ch \<and> chd_parentId ch = p)"
proof -
  obtain ch where ch: "findChild s c = Some ch" "chd_parentId ch = p"
    using assms(1) by (auto simp: setCategoryBlock_def assertChildOwnership_Categories_def tbl_simps split: sum.splits)
  have s': "s' = upsertCategoryBlock c cat True reason s"
    using assms(1) by (auto simp: setCategoryBlock_def split: sum.splits)
  have "findDeviceByIp ip s' = Some d" "findBlockedDomain q s' = Some b" "timeIsUp now (dev_id d) s' = timeIsUp now (dev_id d) s"
    using assms(2,4) by (simp_all add: s' findDeviceByIp_def findBlockedDomain_def timeIsUp_def findLiveSession_def)
  then show ?thesis
    using assms(3,5-9) ch categoryActive_upsert_same [of c cat True reason s]
    by (auto simp: policyDecision_def blockedCategory_def s')
qed

definition catalogStore :: store where
  "catalogStore = demoStore\<lparr>children := [\<lparr>chd_id = ''c'', chd_parentId = ''p'', chd_name = ''Kim'', chd_avatar = None,
       chd_age = None, chd_defaultLimit = None\<rparr>],
     blockedDomains := [\<lparr>bdm_id = ''b'', bdm_domain = ''twitch.tv'', bdm_category = Some STREAMING, bdm_wildcard = True\<rparr>]\<rparr>"

theorem category_block_effective_witness:
  "dpr_reason (policyDecision False 0 ''192.168.1.45'' ''twitch.tv''
     (snd (setCategoryBlock ''p'' ''c'' STREAMING True None catalogStore))) = Some R_CATEGORY_BLOCKED"
proof -
  have l: "setCategoryBlock ''p'' ''c'' STREAMING True None catalogStore =
      (Inr (), upsertCategoryBlock ''c'' STREAMING True None catalogStore)"
    by (simp add: setCategoryBlock_def assertChildOwnership_Categories_def owned_def catalogStore_def)
  have ip: "findDeviceByIp ''192.168.1.45'' catalogStore = Some (bareDevice ''d'' ''p'' ''c'')"
    by (simp add: findDeviceByIp_def catalogStore_def demoStore_def bareDevice_def)
  have dom: "findBlockedDomain ''twitch.tv'' catalogStore =
      Some \<lparr>bdm_id = ''b'', bdm_domain = ''twitch.tv'', bdm_category = Some STREAMING, bdm_wildcard = True\<rparr>"
  proof -
    have "''twitch.tv'' \<in> set (candidates ''twitch.tv'')" by code_simp
    then show ?thesis by (simp add: findBlockedDomain_def catalogStore_def)
  qed
  have "policyDecision False 0 ''192.168.1.45'' ''twitch.tv'' (upsertCategoryBlock ''c'' STREAMING True None catalogStore) =
          blockResponse R_CATEGORY_BLOCKED (Some STREAMING)"
    using category_block_effective [OF l ip _ dom, of False 0]
    by (simp add: bareDevice_def timeIsUp_def findLiveSession_def catalogStore_def demoStore_def emptyStore_def)
  then show ?thesis by (simp add: l blockResponse_def)
qed

end
