(* ===== verification/Guides.thy ===== *)
theory Guides
  imports Devices
begin

text \<open>
  The guides that the server hands out: how to point a platform at the resolver
  (\<^verbatim>\<open>setup-guides.data.ts\<close>), the vendors' own controls for offline play (\<^verbatim>\<open>offline-guides.data.ts\<close>), and the lookups of
  \<^verbatim>\<open>platform-support.controller.ts\<close>. The parameters of these routes are any strings; a lookup by property name also finds the
  properties that a JavaScript object inherits.
\<close>

definition arrowRight :: string where "arrowRight = [CHR 0xE2, CHR 0x86, CHR 0x92]"
definition endash :: string where "endash = [CHR 0xE2, CHR 0x80, CHR 0x93]"

section \<open>Setup guides\<close>

record GuideStep =
  gs_step :: nat
  gs_title :: string
  gs_description :: string

record SetupGuideData =
  sg_platform :: string
  sg_title :: string
  sg_summary :: "string option"
  sg_steps :: "GuideStep list"
  sg_caveats :: "string list option"
  sg_videoUrl :: "string option"

definition setup_ROUTER :: SetupGuideData where
  "setup_ROUTER =
     \<lparr>sg_platform = ''ROUTER'',
      sg_title = ''Home router DNS (recommended '' @ emdash @ '' covers every device)'',
      sg_summary = Some (''Strongest DNS option: filters all devices on the home Wi-Fi/Ethernet and cannot '' @
      ''be reset from a child'' @ [CHR 0x27] @ ''s device.''),
      sg_steps =
       [\<lparr>gs_step = 1, gs_title = ''Open your router admin page'',
        gs_description = ''In a browser go to 192.168.1.1 or 192.168.0.1 (check the sticker on the router).''\<rparr>,
        \<lparr>gs_step = 2, gs_title = ''Sign in'',
        gs_description = ''Use the admin password on the router sticker. Change it if it is still the '' @ ''default.''\<rparr>,
        \<lparr>gs_step = 3, gs_title = ''Find DHCP / LAN DNS settings'',
        gs_description = ''Look under Internet, WAN, or LAN / DHCP. Set the DNS the router hands to '' @
        ''devices, not just the router'' @ [CHR 0x27] @ ''s own upstream DNS.''\<rparr>,
        \<lparr>gs_step = 4, gs_title = ''Set our resolver'',
        gs_description = ''Primary DNS: <YOUR_DNS_SERVER_IP>. Leave the secondary blank or also point it '' @ ''at us '' @ emdash @
        '' a public secondary (e.g. 1.1.1.1) becomes a bypass.''\<rparr>,
        \<lparr>gs_step = 5, gs_title = ''Disable or filter IPv6'',
        gs_description = ''If the router hands out IPv6, devices can resolve over IPv6 and skip our IPv4 '' @
        ''DNS. Turn IPv6 off, or set an IPv6 DNS you control.''\<rparr>,
        \<lparr>gs_step = 6, gs_title = ''Save and reboot'',
        gs_description = ''Restart the router, then reconnect a device and confirm traffic is being '' @ ''filtered.''\<rparr>],
      sg_caveats = Some [''Only covers the home network. Mobile data and other Wi-Fi networks are not '' @ ''filtered.'',
             ''A browser or app using DNS-over-HTTPS (DoH) bypasses router DNS. Use '' @
         ''device-level controls to disable DoH where it matters.''],
      sg_videoUrl = None\<rparr>"

definition setup_XBOX :: SetupGuideData where
  "setup_XBOX =
     \<lparr>sg_platform = ''XBOX'',
      sg_title = ''Xbox (Series X | Series S | One) '' @ emdash @ '' DNS setup'',
      sg_summary = Some (''Filters Xbox online traffic. Pair with Microsoft Family Safety for time and '' @ ''content limits.''),
      sg_steps =
       [\<lparr>gs_step = 1, gs_title = ''Open Network settings'',
        gs_description = ''Press the Xbox button '' @ arrowRight @ '' Profile & system '' @ arrowRight @ '' Settings '' @ arrowRight @
        '' General '' @ arrowRight @ '' Network settings.''\<rparr>,
        \<lparr>gs_step = 2, gs_title = ''Advanced settings'',
        gs_description = ''Select Advanced settings '' @ arrowRight @ '' DNS settings.''\<rparr>,
        \<lparr>gs_step = 3, gs_title = ''Switch to Manual'',
        gs_description = ''Choose Manual (not Automatic).''\<rparr>,
        \<lparr>gs_step = 4, gs_title = ''Enter our DNS'',
        gs_description = ''Primary IPv4 DNS: <YOUR_DNS_SERVER_IP>. Secondary: leave blank or point at us. '' @ ''Press B to save.''\<rparr>,
        \<lparr>gs_step = 5, gs_title = ''Test the connection'',
        gs_description = ''Settings '' @ arrowRight @ '' General '' @ arrowRight @ '' Network settings '' @ arrowRight @
        '' Test network connection to confirm the console is online.''\<rparr>],
      sg_caveats = Some [''DNS steps are identical on Series X, Series S and Xbox One '' @ emdash @ '' the dashboard is shared.'',
             ''DNS is set per connection type. Set it on both Wi-Fi and Ethernet if the '' @ ''console uses both.'',
             ''Offline/single-player games keep running with no internet '' @ emdash @
         '' DNS cannot stop them. Use Microsoft Family Safety for screen-time limits.''],
      sg_videoUrl = Some (''https://support.xbox.com/en-US/help/hardware-network/connect-network/advanced-ne'' @ ''twork-settings'')\<rparr>"

definition setup_PLAYSTATION :: SetupGuideData where
  "setup_PLAYSTATION =
     \<lparr>sg_platform = ''PLAYSTATION'',
      sg_title = ''PlayStation (PS5 | PS5 Slim | PS4) '' @ emdash @ '' DNS setup'',
      sg_summary = Some (''Filters PSN online traffic. Pair with PS Family / Family Manager for play-time '' @ ''limits.''),
      sg_steps =
       [\<lparr>gs_step = 1, gs_title = ''Open Network settings'',
        gs_description = ''PS5: Settings '' @ arrowRight @ '' Network '' @ arrowRight @ '' Settings '' @ arrowRight @
        '' Set Up Internet Connection. PS4: Settings '' @ arrowRight @ '' Network '' @ arrowRight @
        '' Set Up Internet Connection.''\<rparr>,
        \<lparr>gs_step = 2, gs_title = ''Choose your connection'',
        gs_description = ''Pick the Wi-Fi network (or LAN cable) the console uses, then choose Custom / '' @ ''Advanced Settings.''\<rparr>,
        \<lparr>gs_step = 3, gs_title = ''Set DNS to Manual'',
        gs_description = ''For IP/DHCP keep Automatic; for DNS Settings choose Manual.''\<rparr>,
        \<lparr>gs_step = 4, gs_title = ''Enter our DNS'',
        gs_description = ''Primary DNS: <YOUR_DNS_SERVER_IP>. Secondary: leave blank or point at us. Save '' @ ''and continue.''\<rparr>,
        \<lparr>gs_step = 5, gs_title = ''Test Internet Connection'',
        gs_description = ''Settings '' @ arrowRight @ '' Network '' @ arrowRight @ '' Connection Status '' @ arrowRight @
        '' Test Internet Connection.''\<rparr>],
      sg_caveats = Some [''PS5 and PS5 Slim are identical for this flow. PlayStation Portal streams from a '' @
         ''PS5 and follows the PS5'' @ [CHR 0x27] @ ''s network '' @ emdash @ '' configure the PS5, not the Portal.'',
             ''Set IPv6 to Off (or Automatic without an IPv6 DNS) so the console does not '' @ ''bypass IPv4 DNS.'',
             ''Offline single-player games cannot be stopped by DNS '' @ emdash @
         '' use Sony Family / PS5 Family Manager for play-time enforcement.''],
      sg_videoUrl = Some (''https://www.playstation.com/en-us/support/account/ps5-parental-controls/'')\<rparr>"

definition setup_NINTENDO :: SetupGuideData where
  "setup_NINTENDO =
     \<lparr>sg_platform = ''NINTENDO'',
      sg_title = ''Nintendo Switch (Switch 2 | Switch | OLED | Lite) '' @ emdash @ '' DNS setup'',
      sg_summary = Some (''Filters eShop / online play. Pair with the Nintendo Switch Parental Controls '' @ ''app for limits.''),
      sg_steps =
       [\<lparr>gs_step = 1, gs_title = ''Open Internet Settings'',
        gs_description = ''From the HOME Menu: System Settings '' @ arrowRight @ '' Internet '' @ arrowRight @ '' Internet Settings.''\<rparr>,
        \<lparr>gs_step = 2, gs_title = ''Select your network'',
        gs_description = ''Under Saved Networks pick the Wi-Fi the console uses, then Change Settings.''\<rparr>,
        \<lparr>gs_step = 3, gs_title = ''Set DNS to Manual'',
        gs_description = ''Scroll to DNS Settings '' @ arrowRight @ '' Manual.''\<rparr>,
        \<lparr>gs_step = 4, gs_title = ''Enter our DNS'',
        gs_description = ''Detailed DNS '' @ arrowRight @
        '' Primary DNS: <YOUR_DNS_SERVER_IP>. Secondary: leave 0.0.0.0 or point at us. '' @ ''Save.''\<rparr>,
        \<lparr>gs_step = 5, gs_title = ''Reconnect'',
        gs_description = ''Choose Connect to This Network to apply the new DNS.''\<rparr>],
      sg_caveats = Some [''Flow is identical on Switch 2, Switch, OLED and Lite.'',
             ''DNS is stored per saved Wi-Fi network. A new network or a network reset drops '' @ ''it.'',
             ''On Switch 2, use the Nintendo Switch Parental Controls app for GameChat and '' @ ''play-time limits '' @
         emdash @ '' DNS does not manage those.''],
      sg_videoUrl = Some (''https://en-americas-support.nintendo.com/app/answers/detail/a_id/22411'')\<rparr>"

definition setup_WINDOWS :: SetupGuideData where
  "setup_WINDOWS =
     \<lparr>sg_platform = ''WINDOWS'',
      sg_title = ''Windows 11 PC '' @ emdash @ '' DNS setup'',
      sg_summary = Some (''Filters standard DNS. A child with an admin account (or a browser using DoH) '' @ ''can bypass it '' @
      emdash @ '' use a Standard account.''),
      sg_steps =
       [\<lparr>gs_step = 1, gs_title = ''Open network settings'',
        gs_description = ''Press Windows + I '' @ arrowRight @ '' Network & internet '' @ arrowRight @ '' select Wi-Fi (or Ethernet).''\<rparr>,
        \<lparr>gs_step = 2, gs_title = ''Open Hardware properties'',
        gs_description = ''Click the connected network '' @ arrowRight @ '' Hardware properties (or the adapter '' @ arrowRight @
        '' Hardware properties).''\<rparr>,
        \<lparr>gs_step = 3, gs_title = ''Edit DNS assignment'',
        gs_description = ''Next to '' @ [CHR 0x22] @ ''DNS server assignment'' @ [CHR 0x22] @ '' click Edit '' @ arrowRight @
        '' switch the drop-down to Manual.''\<rparr>,
        \<lparr>gs_step = 4, gs_title = ''Enter our DNS'',
        gs_description = ''Turn IPv4 On '' @ arrowRight @
        '' Preferred DNS: <YOUR_DNS_SERVER_IP>. Leave Alternate blank. Turn IPv6 Off '' @
        ''unless you also control an IPv6 DNS.''\<rparr>,
        \<lparr>gs_step = 5, gs_title = ''Optional: lock encryption'',
        gs_description = ''If offered, set DNS-over-HTTPS to '' @ [CHR 0x22] @ ''Off'' @ [CHR 0x22] @
        '' so the child cannot rely on the OS DoH; save.''\<rparr>],
      sg_caveats = Some [''Make the child a Standard (non-admin) Windows account, or they can change DNS '' @ ''back.'',
             ''Chrome/Edge/Firefox can enable their own DoH (with ECH) and bypass this '' @
         ''entirely. Enforce browser policy or use Microsoft Family Safety for app/site '' @ ''limits.'',
             ''Router-level DNS is more reliable for a PC that a child can administer.''],
      sg_videoUrl = Some (''https://support.microsoft.com/en-us/account-billing/microsoft-family-safety'')\<rparr>"

definition setup_MACOS :: SetupGuideData where
  "setup_MACOS =
     \<lparr>sg_platform = ''MACOS'',
      sg_title = ''macOS '' @ emdash @ '' DNS setup'',
      sg_summary = Some (''Filters standard DNS. Screen Time is the stronger control; Private Relay must '' @
      ''be off for DNS to apply to Safari.''),
      sg_steps =
       [\<lparr>gs_step = 1, gs_title = ''Open Network settings'',
        gs_description = ''Apple menu '' @ arrowRight @ '' System Settings '' @ arrowRight @ '' Network '' @ arrowRight @
        '' select Wi-Fi (or Ethernet) '' @ arrowRight @ '' Details.''\<rparr>,
        \<lparr>gs_step = 2, gs_title = ''Open the DNS tab'',
        gs_description = ''In the Details sheet choose DNS.''\<rparr>,
        \<lparr>gs_step = 3, gs_title = ''Add our DNS'',
        gs_description = ''Under DNS Servers click + and add <YOUR_DNS_SERVER_IP>. Remove other entries so '' @
        ''they are not used as fallbacks. Click OK.''\<rparr>,
        \<lparr>gs_step = 4, gs_title = ''Turn off iCloud Private Relay'',
        gs_description = ''System Settings '' @ arrowRight @ '' Apple Account '' @ arrowRight @ '' iCloud '' @ arrowRight @
        '' Private Relay '' @ arrowRight @ '' Off. While on, Safari bypasses your DNS via encrypted relay.''\<rparr>,
        \<lparr>gs_step = 5, gs_title = ''Use a Standard account'',
        gs_description = ''Manage the child as a Standard (non-admin) user and set limits in Screen Time.''\<rparr>],
      sg_caveats = Some [''An admin user can change DNS back '' @ emdash @ '' keep the child on a Standard account.'',
             ''iCloud Private Relay and browser DoH both bypass device DNS. Disable them or '' @ ''rely on Screen Time.'',
             ''Router DNS is the most tamper-resistant option for a shared Mac.''],
      sg_videoUrl = Some (''https://support.apple.com/guide/mac-help/mchlp1717/mac'')\<rparr>"

definition setup_ANDROID :: SetupGuideData where
  "setup_ANDROID =
     \<lparr>sg_platform = ''ANDROID'',
      sg_title = ''Android phone / tablet '' @ emdash @ '' DNS & filtering'',
      sg_summary = Some (''On-device DNS on Android is weak and easily changed. The GuardTime child agent '' @
      ''is the real control; use router DNS at home.''),
      sg_steps =
       [\<lparr>gs_step = 1, gs_title = ''Install the GuardTime child agent'',
        gs_description = ''The agent (Device Admin) is the reliable way to enforce app blocks, bedtime and '' @
        ''filtering on Android '' @ emdash @ '' not manual DNS.''\<rparr>,
        \<lparr>gs_step = 2, gs_title = ''Check Private DNS'',
        gs_description = ''Settings '' @ arrowRight @ '' Network & internet '' @ arrowRight @
        '' Private DNS. If a child set a provider hostname here, it overrides everything '' @ emdash @
        '' set it to Off or Automatic, then lock it via the agent.''\<rparr>,
        \<lparr>gs_step = 3, gs_title = ''Filter at the router'',
        gs_description = ''Point your home router DNS at <YOUR_DNS_SERVER_IP> so all home Wi-Fi traffic is '' @
        ''filtered regardless of device settings.''\<rparr>,
        \<lparr>gs_step = 4, gs_title = ''Optional per-Wi-Fi DNS'',
        gs_description = ''To force DNS without the agent: Settings '' @ arrowRight @ '' Wi-Fi '' @ arrowRight @ '' (network) '' @
        arrowRight @ '' IP settings '' @ arrowRight @
        '' Static, then set DNS 1 to <YOUR_DNS_SERVER_IP>. This is per-network and does '' @
        ''not cover mobile data.''\<rparr>],
      sg_caveats = Some [''Manual/router DNS only covers Wi-Fi. Mobile data is only filtered by the agent.'',
             ''Android '' @ [CHR 0x22] @ ''Private DNS'' @ [CHR 0x22] @ '' is device-wide DoT '' @ emdash @
         '' a child can point it at another resolver unless the agent locks it.'',
             ''Some apps use their own DoH and ignore system DNS entirely.''],
      sg_videoUrl = Some (''https://support.google.com/families/answer/7101025'')\<rparr>"

definition setup_IOS :: SetupGuideData where
  "setup_IOS =
     \<lparr>sg_platform = ''IOS'',
      sg_title = ''iPhone / iPad '' @ emdash @ '' Screen Time & DNS'',
      sg_summary = Some (''Screen Time is the real control on iOS. Device DNS only filters if a DNS '' @
      ''profile is installed AND iCloud Private Relay is off.''),
      sg_steps =
       [\<lparr>gs_step = 1, gs_title = ''Set up Screen Time'',
        gs_description = ''Settings '' @ arrowRight @ '' Screen Time '' @ arrowRight @
        '' set it up for a child (via Family Sharing). This is the enforced control for '' @
        ''apps, content and downtime.''\<rparr>,
        \<lparr>gs_step = 2, gs_title = ''Turn off iCloud Private Relay'',
        gs_description = ''Settings '' @ arrowRight @ '' Apple Account '' @ arrowRight @ '' iCloud '' @ arrowRight @
        '' Private Relay '' @ arrowRight @ '' Off. While on, Safari/DNS filtering is bypassed via Apple'' @ [CHR 0x27] @
        ''s encrypted relay.''\<rparr>,
        \<lparr>gs_step = 3, gs_title = ''Filter at the router'',
        gs_description = ''Set your home router DNS to <YOUR_DNS_SERVER_IP> for whole-home Wi-Fi filtering.''\<rparr>,
        \<lparr>gs_step = 4, gs_title = ''Optional per-Wi-Fi DNS'',
        gs_description = ''Settings '' @ arrowRight @ '' Wi-Fi '' @ arrowRight @ '' (i) next to the network '' @ arrowRight @
        '' Configure DNS '' @ arrowRight @ '' Manual '' @ arrowRight @
        '' add <YOUR_DNS_SERVER_IP>. Per-network only; does not cover cellular.''\<rparr>],
      sg_caveats = Some [''Per-Wi-Fi manual DNS does NOT filter Safari when iCloud Private Relay is on.'',
             ''Cellular data is not covered by manual/router DNS '' @ emdash @
         '' rely on Screen Time / Content & Privacy Restrictions.'',
             ''For strong DNS enforcement Apple requires a DNS configuration profile '' @
         ''(MDM/Family) rather than the per-Wi-Fi field.''],
      sg_videoUrl = Some (''https://support.apple.com/en-us/HT201304'')\<rparr>"

definition setup_STEAM_DECK :: SetupGuideData where
  "setup_STEAM_DECK =
     \<lparr>sg_platform = ''STEAM_DECK'',
      sg_title = ''Steam Deck '' @ emdash @ '' DNS & Family View'',
      sg_summary = Some (''Filters Steam network traffic. Steam Family View gates the library; offline '' @ ''games still run.''),
      sg_steps =
       [\<lparr>gs_step = 1, gs_title = ''Open Internet settings'',
        gs_description = ''Steam button '' @ arrowRight @ '' Settings '' @ arrowRight @ '' Internet '' @ arrowRight @
        '' select your Wi-Fi '' @ arrowRight @ '' Configure / IP settings.''\<rparr>,
        \<lparr>gs_step = 2, gs_title = ''Set DNS manually'',
        gs_description = ''Switch IPv4 DNS to Manual and set <YOUR_DNS_SERVER_IP>.''\<rparr>,
        \<lparr>gs_step = 3, gs_title = ''Enable Steam Family View'',
        gs_description = ''Settings '' @ arrowRight @ '' Family '' @ arrowRight @ '' Family View '' @ arrowRight @
        '' set a PIN and choose which store/library/community features are allowed.''\<rparr>,
        \<lparr>gs_step = 4, gs_title = ''Prefer router DNS'',
        gs_description = ''In Desktop mode the child can reach network settings '' @ emdash @
        '' router-level DNS is harder to bypass.''\<rparr>],
      sg_caveats = Some [''Desktop mode exposes full Linux settings '' @ emdash @
         '' a determined child can change device DNS. Use router DNS.'',
             ''Offline Steam games cannot be stopped by DNS once installed.''],
      sg_videoUrl = Some (''https://store.steampowered.com/parental/'')\<rparr>"

definition setup_SMART_TV :: SetupGuideData where
  "setup_SMART_TV =
     \<lparr>sg_platform = ''SMART_TV'',
      sg_title = ''Smart TV / streaming box '' @ emdash @ '' DNS setup'',
      sg_summary = Some (''Filters streaming apps. No agent runs on a TV, so DNS (ideally at the router) '' @ ''is the only control.''),
      sg_steps =
       [\<lparr>gs_step = 1, gs_title = ''Open network settings'',
        gs_description = ''Samsung: Settings '' @ arrowRight @ '' General/Connection '' @ arrowRight @ '' Network '' @ arrowRight @
        '' Network Status '' @ arrowRight @ '' IP Settings. LG: Settings '' @ arrowRight @ '' Network '' @ arrowRight @
        '' Wi-Fi Connection '' @ arrowRight @ '' Advanced. Similar on Sony/Hisense/Fire TV/Apple TV/Google TV.''\<rparr>,
        \<lparr>gs_step = 2, gs_title = ''Switch DNS to Manual'',
        gs_description = ''Change DNS from Auto/Obtain automatically to Manual/Enter manually.''\<rparr>,
        \<lparr>gs_step = 3, gs_title = ''Enter our DNS'',
        gs_description = ''Primary DNS: <YOUR_DNS_SERVER_IP>. Save.''\<rparr>,
        \<lparr>gs_step = 4, gs_title = ''Restart the TV'',
        gs_description = ''Power-cycle so the new DNS takes effect.''\<rparr>,
        \<lparr>gs_step = 5, gs_title = ''Best result: router DNS'',
        gs_description = ''Many TVs ignore or reset manual DNS '' @ emdash @ '' setting it at the router guarantees coverage.''\<rparr>],
      sg_caveats = Some [''Some TV platforms hardcode their own DNS for app stores/telemetry and ignore '' @ ''the manual field '' @
         emdash @ '' router DNS is the reliable path.'',
             ''DNS cannot stop content already playing from USB or an HDMI input.''],
      sg_videoUrl = Some (''https://www.samsung.com/us/support/answer/ANS00076727/'')\<rparr>"

definition SETUP_GUIDES :: "SetupGuideData list" where
  "SETUP_GUIDES =
     [setup_ROUTER, setup_XBOX, setup_PLAYSTATION, setup_NINTENDO, setup_WINDOWS, setup_MACOS,
      setup_ANDROID, setup_IOS, setup_STEAM_DECK, setup_SMART_TV]"

section \<open>Offline guides\<close>

record OfflineGuide =
  og_deviceType :: DeviceType
  og_method :: string
  og_title :: string
  og_steps :: "string list"
  og_limitations :: "string list"
  og_officialUrl :: string

definition offline_XBOX :: OfflineGuide where
  "offline_XBOX =
     \<lparr>og_deviceType = XBOX, og_method = ''MICROSOFT_FAMILY_SAFETY'',
      og_title = ''Microsoft Family Safety / Xbox Family Settings'',
      og_steps =
       [''Install '' @ [CHR 0x22] @ ''Microsoft Family Safety'' @ [CHR 0x22] @ '' (or '' @ [CHR 0x22] @
        ''Xbox Family Settings'' @ [CHR 0x22] @ '') on your phone.'',
        ''Sign in with the parent Microsoft account and add the child at '' @ ''family.microsoft.com.'',
        ''Have the child sign in on the Xbox at least once so it appears in the family.'',
        ''In the app set screen-time per device, content/age limits and '' @ [CHR 0x22] @ ''Ask to buy'' @ [CHR 0x22] @
        ''.'',
        ''Optionally link the Microsoft account to GuardTime (OAuth) to sync limits.''],
      og_limitations =
       [''GuardTime cannot directly stop a running offline game on the Xbox.'',
        ''Offline screen-time and content limits are enforced by Microsoft, not by us.''],
      og_officialUrl = ''https://support.xbox.com/en-US/help/family-online-safety/online-safety/xbox-fami'' @ ''ly-settings-app''\<rparr>"

definition offline_PLAYSTATION :: OfflineGuide where
  "offline_PLAYSTATION =
     \<lparr>og_deviceType = PLAYSTATION, og_method = ''SONY_FAMILY_MANAGEMENT'',
      og_title = ''PlayStation Family / PS5 Family Manager'',
      og_steps =
       [''On the PS5/PS4 sign in as the Family Manager (or manage from the PlayStation '' @ ''App).'',
        ''Settings '' @ arrowRight @ '' Family and Parental Controls '' @ arrowRight @ '' Family Management '' @
        arrowRight @ '' pick the child.'',
        ''Set Play Time Settings: daily limit, bedtime, and allowed days.'',
        ''Set age-level restrictions for games, Blu-ray and the web browser.'',
        ''Restrict PSN communication and user-generated content if needed.''],
      og_limitations =
       [''The backend cannot stop an offline single-player PlayStation game while it runs.'',
        ''Offline play-time limits are enforced by Sony, not by us.''],
      og_officialUrl = ''https://www.playstation.com/en-us/support/account/ps5-parental-controls/''\<rparr>"

definition offline_NINTENDO :: OfflineGuide where
  "offline_NINTENDO =
     \<lparr>og_deviceType = NINTENDO, og_method = ''NINTENDO_PARENTAL_CONTROLS'',
      og_title = ''Nintendo Switch Parental Controls (mobile app)'',
      og_steps =
       [''Install '' @ [CHR 0x22] @ ''Nintendo Switch Parental Controls'' @ [CHR 0x22] @
        '' on iOS/Android and sign in.'',
        ''On the console: System Settings '' @ arrowRight @ '' Parental Controls '' @ arrowRight @
        '' Parental Controls Settings '' @ arrowRight @ '' link via the app (register the code / scan).'',
        ''Set a 4'' @ endash @ ''8 digit PIN, daily play-time limit, bedtime and allowed play window.'',
        ''Restrict by age rating; block or limit eShop, free communication and social '' @ ''posting.'',
        ''On Switch 2, manage GameChat: choose which friends the child can chat with and '' @ ''review history.''],
      og_limitations =
       [''The backend cannot stop an offline Switch cartridge/downloaded game.'',
        ''Parental controls are system-wide (per console), not per user '' @ emdash @
        '' Nintendo enforces them, not us.''],
      og_officialUrl = ''https://en-americas-support.nintendo.com/app/answers/detail/a_id/22447''\<rparr>"

definition offline_STEAM_DECK :: OfflineGuide where
  "offline_STEAM_DECK =
     \<lparr>og_deviceType = STEAM_DECK, og_method = ''STEAM_FAMILY_VIEW'',
      og_title = ''Steam Family View + SteamOS account'',
      og_steps =
       [''Steam '' @ arrowRight @ '' Settings '' @ arrowRight @ '' Family '' @ arrowRight @ '' Family View '' @
        arrowRight @ '' set a PIN.'',
        ''Choose which library, store and community features the child may access.'',
        ''In Desktop mode, keep the child on a non-admin user account.'',
        ''Set DNS at the router so Steam network traffic is filtered.''],
      og_limitations =
       [''The backend cannot stop an offline Steam game once installed.'',
        ''A child can still launch any game not gated in Family View.''],
      og_officialUrl = ''https://store.steampowered.com/parental/''\<rparr>"

definition offline_PC :: OfflineGuide where
  "offline_PC =
     \<lparr>og_deviceType = PC, og_method = ''MICROSOFT_FAMILY_SAFETY'',
      og_title = ''Windows '' @ emdash @ '' Microsoft Family Safety'',
      og_steps =
       [''Create a Microsoft child account and sign the PC in with it (child = Standard '' @ ''user).'',
        ''Manage at family.microsoft.com or in the Microsoft Family Safety app.'',
        ''Set screen-time, app/game age limits and web filtering (Microsoft Edge).'',
        ''Set the home router DNS to GuardTime so PC network traffic is filtered.''],
      og_limitations =
       [''Without a PC agent the backend cannot stop a running offline game.'',
        ''A child with a local admin account, or using a browser with its own DoH, can '' @ ''bypass limits.''],
      og_officialUrl = ''https://support.microsoft.com/en-us/account-billing/microsoft-family-safety''\<rparr>"

definition offline_MAC :: OfflineGuide where
  "offline_MAC =
     \<lparr>og_deviceType = MAC, og_method = ''APPLE_SCREEN_TIME'',
      og_title = ''macOS '' @ emdash @ '' Screen Time (Family Sharing)'',
      og_steps =
       [''Add the child to Family Sharing (System Settings '' @ arrowRight @ '' Family).'',
        ''System Settings '' @ arrowRight @ '' Screen Time '' @ arrowRight @ '' select the child '' @ arrowRight @
        '' set Downtime, App Limits and Content & Privacy Restrictions.'',
        ''Turn off iCloud Private Relay so device DNS filtering can apply to Safari.'',
        ''Keep the child on a Standard (non-admin) macOS account.''],
      og_limitations =
       [''The backend cannot stop a running offline app; Screen Time enforces limits.'',
        ''An admin account can undo Screen Time and DNS changes.''],
      og_officialUrl = ''https://support.apple.com/en-us/HT208982''\<rparr>"

definition offline_IPHONE :: OfflineGuide where
  "offline_IPHONE =
     \<lparr>og_deviceType = IPHONE, og_method = ''APPLE_SCREEN_TIME'',
      og_title = ''iPhone '' @ emdash @ '' Screen Time (Family Sharing)'',
      og_steps =
       [''Add the child to Family Sharing (Settings '' @ arrowRight @ '' your name '' @ arrowRight @ '' Family).'',
        ''Settings '' @ arrowRight @ '' Screen Time '' @ arrowRight @ '' set up for the child '' @ arrowRight @
        '' Downtime, App Limits, Communication Limits.'',
        ''Content & Privacy Restrictions '' @ arrowRight @
        '' limit apps, purchases, web content and network changes.'',
        ''Turn off iCloud Private Relay (Settings '' @ arrowRight @ '' Apple Account '' @ arrowRight @ '' iCloud '' @
        arrowRight @ '' Private Relay) for DNS filtering to apply.''],
      og_limitations =
       [''The backend cannot force-close a running app; Screen Time enforces limits.'',
        ''Cellular traffic is only governed by Screen Time, not by home/router DNS.''],
      og_officialUrl = ''https://support.apple.com/en-us/HT201304''\<rparr>"

definition offline_IPAD :: OfflineGuide where
  "offline_IPAD =
     \<lparr>og_deviceType = IPAD, og_method = ''APPLE_SCREEN_TIME'',
      og_title = ''iPad '' @ emdash @ '' Screen Time (Family Sharing)'',
      og_steps =
       [''Add the child to Family Sharing (Settings '' @ arrowRight @ '' your name '' @ arrowRight @ '' Family).'',
        ''Settings '' @ arrowRight @ '' Screen Time '' @ arrowRight @ '' set up for the child '' @ arrowRight @
        '' Downtime, App Limits, Communication Limits.'',
        ''Content & Privacy Restrictions '' @ arrowRight @
        '' limit apps, purchases, web content and network changes.'',
        ''Turn off iCloud Private Relay for DNS filtering to apply to Safari.''],
      og_limitations =
       [''The backend cannot force-close a running app; Screen Time enforces limits.'',
        ''Cellular iPads bypass home/router DNS '' @ emdash @ '' rely on Screen Time.''],
      og_officialUrl = ''https://support.apple.com/en-us/HT201304''\<rparr>"

definition offline_ANDROID_PHONE :: OfflineGuide where
  "offline_ANDROID_PHONE =
     \<lparr>og_deviceType = ANDROID_PHONE, og_method = ''GOOGLE_FAMILY_LINK'',
      og_title = ''Android '' @ emdash @ '' Google Family Link + GuardTime agent'',
      og_steps =
       [''Install Google Family Link (parent) and add the child account.'',
        ''On the child phone, sign in with the supervised account and grant Family Link.'',
        ''Set screen-time, app limits, bedtime and content/age restrictions in Family '' @ ''Link.'',
        ''Install the GuardTime child agent (Device Admin) for app-block and '' @ ''cross-network filtering.'',
        ''Check Settings '' @ arrowRight @ '' Network & internet '' @ arrowRight @
        '' Private DNS is Off/Automatic so it does not override filtering.''],
      og_limitations =
       [''Without the agent, DNS-only filtering does not cover mobile data.'',
        ''A child can change Private DNS or use an app with its own DoH unless the agent '' @ ''locks it down.''],
      og_officialUrl = ''https://families.google/familylink/''\<rparr>"

definition offline_ANDROID_TABLET :: OfflineGuide where
  "offline_ANDROID_TABLET =
     \<lparr>og_deviceType = ANDROID_TABLET, og_method = ''GOOGLE_FAMILY_LINK'',
      og_title = ''Android tablet '' @ emdash @ '' Google Family Link + GuardTime agent'',
      og_steps =
       [''Install Google Family Link (parent) and add the supervised child account.'',
        ''Sign the tablet in with the supervised account and grant Family Link.'',
        ''Set screen-time, app limits, bedtime and content restrictions in Family Link.'',
        ''Install the GuardTime child agent for app-block and reliable filtering.'',
        ''Ensure Private DNS is Off/Automatic (Settings '' @ arrowRight @ '' Network & internet '' @ arrowRight @
        '' Private DNS).''],
      og_limitations =
       [''DNS-only filtering does not cover mobile data '' @ emdash @ '' the agent does.'',
        ''Private DNS / app DoH can bypass device DNS unless locked by the agent.''],
      og_officialUrl = ''https://families.google/familylink/''\<rparr>"

definition offline_SMART_TV :: OfflineGuide where
  "offline_SMART_TV =
     \<lparr>og_deviceType = SMART_TV, og_method = ''TV_PIN_PROFILE'',
      og_title = ''Smart-TV PIN / kids-profile + DNS'',
      og_steps =
       [''In TV settings enable a PIN for changing apps, inputs and installing apps.'',
        ''Create a child profile if supported (Samsung Kids, LG Kids, Google Kids Space, '' @
        ''Apple TV restrictions).'',
        ''Set the TV DNS to GuardTime (Settings '' @ arrowRight @ '' Network '' @ arrowRight @ '' IP Settings '' @
        arrowRight @ '' DNS '' @ arrowRight @ '' Manual).'',
        ''Best result: set DNS at the router so the TV cannot bypass it.''],
      og_limitations =
       [''The backend cannot stop content already playing from USB or an HDMI input.'',
        ''No agent runs inside a Smart TV '' @ emdash @ '' DNS (ideally at the router) is the only enforcement.''],
      og_officialUrl = ''https://www.samsung.com/us/support/answer/ANS00076727/''\<rparr>"

fun OFFLINE_GUIDES :: "DeviceType \<Rightarrow> OfflineGuide option" where
  "OFFLINE_GUIDES XBOX = Some offline_XBOX"
| "OFFLINE_GUIDES PLAYSTATION = Some offline_PLAYSTATION"
| "OFFLINE_GUIDES NINTENDO = Some offline_NINTENDO"
| "OFFLINE_GUIDES STEAM_DECK = Some offline_STEAM_DECK"
| "OFFLINE_GUIDES PC = Some offline_PC"
| "OFFLINE_GUIDES MAC = Some offline_MAC"
| "OFFLINE_GUIDES IPHONE = Some offline_IPHONE"
| "OFFLINE_GUIDES IPAD = Some offline_IPAD"
| "OFFLINE_GUIDES ANDROID_PHONE = Some offline_ANDROID_PHONE"
| "OFFLINE_GUIDES ANDROID_TABLET = Some offline_ANDROID_TABLET"
| "OFFLINE_GUIDES SMART_TV = Some offline_SMART_TV"
| "OFFLINE_GUIDES _ = None"

definition getOfflineGuide :: "DeviceType \<Rightarrow> OfflineGuide option" where
  "getOfflineGuide deviceType = OFFLINE_GUIDES deviceType"

section \<open>Lookups by name\<close>

fun showDeviceType :: "DeviceType \<Rightarrow> string" where
  "showDeviceType ANDROID_PHONE = ''ANDROID_PHONE''"
| "showDeviceType ANDROID_TABLET = ''ANDROID_TABLET''"
| "showDeviceType IPHONE = ''IPHONE''"
| "showDeviceType IPAD = ''IPAD''"
| "showDeviceType XBOX = ''XBOX''"
| "showDeviceType PLAYSTATION = ''PLAYSTATION''"
| "showDeviceType NINTENDO = ''NINTENDO''"
| "showDeviceType STEAM_DECK = ''STEAM_DECK''"
| "showDeviceType PC = ''PC''"
| "showDeviceType MAC = ''MAC''"
| "showDeviceType SMART_TV = ''SMART_TV''"
| "showDeviceType STREAMING_BOX = ''STREAMING_BOX''"
| "showDeviceType OTHER = ''OTHER''"

definition deviceTypes :: "DeviceType list" where
  "deviceTypes = [ANDROID_PHONE, ANDROID_TABLET, IPHONE, IPAD, XBOX, PLAYSTATION, NINTENDO, STEAM_DECK, PC, MAC, SMART_TV,
     STREAMING_BOX, OTHER]"

definition deviceTypeNamed :: "string \<Rightarrow> DeviceType option" where
  "deviceTypeNamed k = find (\<lambda>t. showDeviceType t = k) deviceTypes"

text \<open>Reading the property \<open>k\<close> of an object literal: its own value, a member of \<^verbatim>\<open>Object.prototype\<close>, or \<^verbatim>\<open>undefined\<close>.\<close>

datatype 'a property = Own 'a | Inherited | Missing

definition OBJECT_PROTOTYPE :: "string list" where
  "OBJECT_PROTOTYPE = [''constructor'', ''hasOwnProperty'', ''isPrototypeOf'', ''propertyIsEnumerable'', ''toLocaleString'', ''toString'',
     ''valueOf'', ''__proto__'', ''__defineGetter__'', ''__defineSetter__'', ''__lookupGetter__'', ''__lookupSetter__'']"

definition readProperty :: "(DeviceType \<Rightarrow> 'a option) \<Rightarrow> string \<Rightarrow> 'a property" where
  "readProperty obj k =
     (case Option.bind (deviceTypeNamed k) obj of
        Some v \<Rightarrow> Own v | None \<Rightarrow> if k \<in> set OBJECT_PROTOTYPE then Inherited else Missing)"

definition matrix_Platform :: "PlatformSupport list" where
  "matrix_Platform = map PLATFORM_SUPPORT_MATRIX deviceTypes"

text \<open>\<^verbatim>\<open>getPlatformSupport\<close> of any string: the row of \<open>OTHER\<close> where there is none.\<close>

definition one_Platform :: "string \<Rightarrow> PlatformSupport property result" where
  "one_Platform deviceType =
     (let info = (case readProperty (\<lambda>t. Some (getPlatformSupport t)) deviceType of
                    Missing \<Rightarrow> Own (PLATFORM_SUPPORT_MATRIX OTHER) | v \<Rightarrow> v) in
      if info = Missing then Inl (NotFoundException (''Unknown deviceType: '' @ deviceType)) else Inr info)"

definition guide_Platform :: "string \<Rightarrow> SetupGuideData result" where
  "guide_Platform platform =
     (case find (\<lambda>g. toLowerCase (sg_platform g) = toLowerCase platform) SETUP_GUIDES of
        None \<Rightarrow> Inl (NotFoundException (''No setup guide for '' @ platform)) | Some g \<Rightarrow> Inr g)"

definition getGuide :: "string \<Rightarrow> OfflineGuide property result" where
  "getGuide deviceType =
     (let guide = readProperty getOfflineGuide deviceType in
      if guide = Missing
      then Inl (NotFoundException (''No offline-control guide for '' @ deviceType @
             ''. Supported: XBOX, PLAYSTATION, NINTENDO, STEAM_DECK, SMART_TV, PC.''))
      else Inr guide)"

section \<open>Facts\<close>

lemma platform_names:
  "map sg_platform SETUP_GUIDES =
     [''ROUTER'', ''XBOX'', ''PLAYSTATION'', ''NINTENDO'', ''WINDOWS'', ''MACOS'', ''ANDROID'', ''IOS'', ''STEAM_DECK'', ''SMART_TV'']"
  by (simp add: SETUP_GUIDES_def setup_ROUTER_def setup_XBOX_def setup_PLAYSTATION_def setup_NINTENDO_def setup_WINDOWS_def
      setup_MACOS_def setup_ANDROID_def setup_IOS_def setup_STEAM_DECK_def setup_SMART_TV_def)

lemma find_unique_iff:
  "distinct (map f xs) \<Longrightarrow> find (\<lambda>x. f x = k) xs = Some x \<longleftrightarrow> x \<in> set xs \<and> f x = k"
  by (induction xs) auto

text \<open>A setup guide is found under its platform name in any case, and under no other.\<close>

lemma guide_found_iff:
  "guide_Platform p = Inr g \<longleftrightarrow> g \<in> set SETUP_GUIDES \<and> toLowerCase (sg_platform g) = toLowerCase p"
proof -
  have "map (toLowerCase \<circ> sg_platform) SETUP_GUIDES = map toLowerCase (map sg_platform SETUP_GUIDES)" by simp
  also have "distinct \<dots>" unfolding platform_names by code_simp
  finally have "distinct (map (\<lambda>g. toLowerCase (sg_platform g)) SETUP_GUIDES)" by (simp add: comp_def)
  from find_unique_iff [OF this, of "toLowerCase p" g] show ?thesis
    by (auto simp: guide_Platform_def split: option.split)
qed

lemma deviceTypeNamed_show [simp]: "deviceTypeNamed (showDeviceType t) = Some t"
  by (cases t) (simp_all add: deviceTypeNamed_def deviceTypes_def)

text \<open>Every device type but streaming boxes and unknown devices has an offline guide, its own.\<close>

lemma offline_guide_iff: "getOfflineGuide t = None \<longleftrightarrow> t \<in> {STREAMING_BOX, OTHER}"
  by (cases t) (simp_all add: getOfflineGuide_def)

lemma offline_guide_type: "getOfflineGuide t = Some g \<Longrightarrow> og_deviceType g = t \<and> og_limitations g \<noteq> []"
  by (cases t) (auto simp: getOfflineGuide_def offline_XBOX_def offline_PLAYSTATION_def offline_NINTENDO_def offline_STEAM_DECK_def
      offline_PC_def offline_MAC_def offline_IPHONE_def offline_IPAD_def offline_ANDROID_PHONE_def offline_ANDROID_TABLET_def
      offline_SMART_TV_def)

text \<open>The name of a property that every object has is answered with success, although it names no device type;
  and the platform lookup refuses no name at all.\<close>

lemma prototype_names: "\<forall>k \<in> set OBJECT_PROTOTYPE. deviceTypeNamed k = None"
  by code_simp

lemma prototype_not_refused:
  "k \<in> set OBJECT_PROTOTYPE \<Longrightarrow> one_Platform k = Inr Inherited \<and> getGuide k = Inr Inherited"
  using prototype_names by (simp add: one_Platform_def getGuide_def readProperty_def)

lemma one_Platform_total:
  "one_Platform k = Inr (if k \<in> set OBJECT_PROTOTYPE then Inherited
     else Own (getPlatformSupport (case deviceTypeNamed k of None \<Rightarrow> OTHER | Some t \<Rightarrow> t)))"
  using prototype_names
  by (auto simp: one_Platform_def readProperty_def getPlatformSupport_def simp del: PLATFORM_SUPPORT_MATRIX.simps split: option.split)

end
