(* ===== verification/Family.thy ===== *)
theory Family
  imports Guides
begin

text \<open>
  Children (\<^verbatim>\<open>children.service.ts\<close>), the parent's account (\<^verbatim>\<open>parents.service.ts\<close>) with the erasure of an
  account and everything the foreign keys cascade from it, bandwidth limits (\<^verbatim>\<open>bandwidth.service.ts\<close>) and
  offline-control setup (\<^verbatim>\<open>offline-control.service.ts\<close>).
\<close>

section \<open>Cascading deletions\<close>

definition deleteChildren :: "(Child \<Rightarrow> bool) \<Rightarrow> 'z store_scheme \<Rightarrow> 'z store_scheme" where
  "deleteChildren P s =
     (let gone = (\<lambda>i. list_ex (\<lambda>c. P c \<and> chd_id c = i) (children s)) in
      s\<lparr>children := deleteMany P (children s),
        devices := updateMany (\<lambda>d. \<exists>c \<in> set_option (dev_childId d). gone c) (\<lambda>d. d\<lparr>dev_childId := None\<rparr>) (devices s),
        rules := deleteMany (\<lambda>r. gone (rul_childId r)) (rules s),
        sessions := deleteMany (\<lambda>x. gone (ses_childId x)) (sessions s),
        usageLogs := deleteMany (\<lambda>u. gone (ulg_childId u)) (usageLogs s),
        categoryBlocks := deleteMany (\<lambda>b. gone (cbl_childId b)) (categoryBlocks s)\<rparr>)"

definition deleteGateways :: "(Gateway \<Rightarrow> bool) \<Rightarrow> 'z store_scheme \<Rightarrow> 'z store_scheme" where
  "deleteGateways P s =
     (let gone = (\<lambda>i. list_ex (\<lambda>g. P g \<and> gwy_id g = i) (gateways s)) in
      s\<lparr>gateways := deleteMany P (gateways s),
        devices := updateMany (\<lambda>d. \<exists>g \<in> set_option (dev_gatewayId d). gone g) (\<lambda>d. d\<lparr>dev_gatewayId := None\<rparr>) (devices s)\<rparr>)"

definition deleteUser :: "ident \<Rightarrow> 'z store_scheme \<Rightarrow> 'z store_scheme" where
  "deleteUser u s =
     (let s1 = deleteDevices (\<lambda>d. dev_parentId d = u) s;
          s2 = deleteChildren (\<lambda>c. chd_parentId c = u) s1;
          s3 = deleteGateways (\<lambda>g. gwy_parentId g = u) s2
      in s3\<lparr>users := deleteMany (\<lambda>x. usr_id x = u) (users s3),
            pushTokens := deleteMany (\<lambda>t. ptk_userId t = u) (pushTokens s3),
            sessions := deleteMany (\<lambda>x. ses_parentId x = u) (sessions s3),
            oauthAccounts := deleteMany (\<lambda>a. oac_userId a = u) (oauthAccounts s3),
            notifications := deleteMany (\<lambda>n. nev_userId n = u) (notifications s3),
            subscriptions := deleteMany (\<lambda>x. sub_userId x = u) (subscriptions s3),
            auditLogs := updateMany (\<lambda>a. aud_userId a = Some u) (\<lambda>a. a\<lparr>aud_userId := None\<rparr>) (auditLogs s3)\<rparr>)"

section \<open>Children\<close>

record CreateChildDto =
  ccd_name :: string
  ccd_avatar :: "string option"
  ccd_age :: "int option"
  ccd_defaultLimitMinutes :: "int option"

record UpdateChildDto =
  ucd_name :: "string option"
  ucd_avatar :: "string option"
  ucd_age :: "int option"
  ucd_defaultLimitMinutes :: "int option"

definition create_Child :: "ident \<Rightarrow> CreateChildDto \<Rightarrow> 'z store_scheme \<Rightarrow> Child \<times> 'z store_scheme" where
  "create_Child parentId dto s =
     (let c = \<lparr>chd_id = newId s, chd_parentId = parentId, chd_name = ccd_name dto, chd_avatar = ccd_avatar dto,
               chd_age = ccd_age dto, chd_defaultLimit = ccd_defaultLimitMinutes dto\<rparr>
      in (c, drawId (s\<lparr>children := children s @ [c]\<rparr>)))"

definition findAll_Children :: "ident \<Rightarrow> 'z store_scheme \<Rightarrow> Child list" where
  "findAll_Children parentId s = findMany (\<lambda>c. chd_parentId c = parentId) (children s)"

definition findOne_Child :: "ident \<Rightarrow> ident \<Rightarrow> 'z store_scheme \<Rightarrow> Child result" where
  "findOne_Child parentId i s =
     owned chd_parentId ''Child not found'' ''Not your child'' parentId (findChild s i)"

text \<open>The data of the update is the request itself: its property \<^verbatim>\<open>defaultLimitMinutes\<close> is no column of
  the child (the column is \<^verbatim>\<open>defaultLimit\<close>), which the client refuses before any write.\<close>

definition applyUpdateChild :: "UpdateChildDto \<Rightarrow> Child \<Rightarrow> Child" where
  "applyUpdateChild dto c =
     c\<lparr>chd_name := patch (ucd_name dto) (chd_name c), chd_avatar := patchOpt (ucd_avatar dto) (chd_avatar c),
       chd_age := patchOpt (ucd_age dto) (chd_age c)\<rparr>"

definition update_Child :: "ident \<Rightarrow> ident \<Rightarrow> UpdateChildDto \<Rightarrow> 'z store_scheme \<Rightarrow> Child result \<times> 'z store_scheme" where
  "update_Child parentId i dto s =
     (case findOne_Child parentId i s of
        Inl e \<Rightarrow> (Inl e, s)
      | Inr c \<Rightarrow>
          if ucd_defaultLimitMinutes dto \<noteq> None then (Inl (JsError ''PrismaClientValidationError''), s)
          else (Inr (applyUpdateChild dto c),
                s\<lparr>children := updateMany (\<lambda>x. chd_id x = i) (applyUpdateChild dto) (children s)\<rparr>))"

definition remove_Child :: "ident \<Rightarrow> ident \<Rightarrow> 'z store_scheme \<Rightarrow> unit result \<times> 'z store_scheme" where
  "remove_Child parentId i s =
     (case findOne_Child parentId i s of
        Inl e \<Rightarrow> (Inl e, s) | Inr c \<Rightarrow> (Inr (), deleteChildren (\<lambda>c. chd_id c = i) s))"

interpretation update_child_guard: owner_guarded findChild chd_parentId
  "''Child not found''" "''Not your child''" "\<lambda>i p. update_Child p i dto" for dto
  by unfold_locales (simp add: update_Child_def findOne_Child_def)

interpretation remove_child_guard: owner_guarded findChild chd_parentId
  "''Child not found''" "''Not your child''" "\<lambda>i p. remove_Child p i"
  by unfold_locales (simp add: remove_Child_def findOne_Child_def)

section \<open>The parent's account\<close>

record Profile =
  pf_id :: ident
  pf_email :: string
  pf_firstName :: "string option"
  pf_lastName :: "string option"
  pf_role :: Role
  pf_createdAt :: time
  pf_subscription :: "Subscription option"

definition getSubscription :: "ident \<Rightarrow> 'z store_scheme \<Rightarrow> Subscription result" where
  "getSubscription userId s =
     (case findUnique sub_userId userId (subscriptions s) of
        None \<Rightarrow> Inl (NotFoundException ''Subscription not found'') | Some x \<Rightarrow> Inr x)"

definition getProfile :: "ident \<Rightarrow> 'z store_scheme \<Rightarrow> Profile result" where
  "getProfile userId s =
     (case findUser s userId of
        None \<Rightarrow> Inl (NotFoundException ''User not found'')
      | Some u \<Rightarrow> Inr \<lparr>pf_id = usr_id u, pf_email = usr_email u, pf_firstName = usr_firstName u,
                       pf_lastName = usr_lastName u, pf_role = usr_role u, pf_createdAt = usr_createdAt u,
                       pf_subscription = findUnique sub_userId userId (subscriptions s)\<rparr>)"

definition updateProfile ::
  "ident \<Rightarrow> string option \<Rightarrow> string option \<Rightarrow> 'z store_scheme \<Rightarrow> User result \<times> 'z store_scheme" where
  "updateProfile userId firstName lastName s =
     (let f = (\<lambda>u. u\<lparr>usr_firstName := patchOpt firstName (usr_firstName u), usr_lastName := patchOpt lastName (usr_lastName u)\<rparr>)
      in case findUser s userId of
           None \<Rightarrow> (Inl PrismaRecordNotFound, s) | Some u \<Rightarrow> (Inr (f u), updateUser userId f s))"

definition deleteAccount :: "time \<Rightarrow> ident \<Rightarrow> 'z store_scheme \<Rightarrow> unit result \<times> 'z store_scheme" where
  "deleteAccount now userId s =
     (case findUser s userId of
        None \<Rightarrow> (Inl (NotFoundException ''User not found''), s)
      | Some user \<Rightarrow>
          (Inr (),
           deleteUser (usr_id user)
             (auditLog now \<lparr>ad_userId = Some (usr_id user), ad_action = ''ACCOUNT_DELETION_CONFIRMED'', ad_entity = ''user'',
                ad_entityId = Some (usr_id user),
                ad_details = Some (stringify (JObj [(''email'', JStr (usr_email user)), (''source'', JStr ''in_app'')])),
                ad_ipAddress = None\<rparr> s)))"

record PrivacyRequest =
  prq_email :: string
  prq_requestType :: "string option"
  prq_message :: "string option"
  prq_ipAddress :: "string option"

definition submitPrivacyRequest :: "time \<Rightarrow> PrivacyRequest \<Rightarrow> 'z store_scheme \<Rightarrow> 'z store_scheme" where
  "submitPrivacyRequest now data s =
     (let normalizedEmail = toLowerCase (trim (prq_email data));
          requestType = (if truthy (prq_requestType data) then patch (prq_requestType data) [] else ''delete_account'');
          existingUser = findFirst (\<lambda>u. toLowerCase (usr_email u) = normalizedEmail) (users s);
          userId = map_option usr_id existingUser;
          message = map_option trim (prq_message data)
      in auditLog now
           \<lparr>ad_userId = userId,
            ad_action = (if requestType = ''delete_account'' then ''ACCOUNT_DELETION_WEB_REQUEST'' else ''PRIVACY_WEB_REQUEST''),
            ad_entity = ''legal_request'',
            ad_entityId = Some (if truthy userId then patch userId [] else normalizedEmail),
            ad_details = Some (stringify (JObj
              [(''email'', JStr (if truthy (map_option usr_email existingUser)
                               then patch (map_option usr_email existingUser) [] else normalizedEmail)),
               (''requestType'', JStr requestType),
               (''message'', if truthy message then nullable JStr message else JNull),
               (''source'', JStr ''public_web_form'')])),
            ad_ipAddress = prq_ipAddress data\<rparr> s)"

section \<open>Bandwidth limits\<close>

record CreateBandwidthLimitDto =
  cbd_childId :: "ident option"
  cbd_deviceId :: "ident option"
  cbd_category :: "BlockCategory option"
  cbd_downloadKbps :: "int option"
  cbd_uploadKbps :: "int option"

record UpdateBandwidthLimitDto =
  ubd_category :: "BlockCategory option"
  ubd_downloadKbps :: "int option"
  ubd_uploadKbps :: "int option"
  ubd_enabled :: "bool option"

definition create_Bandwidth ::
  "time \<Rightarrow> ident \<Rightarrow> CreateBandwidthLimitDto \<Rightarrow> 'z store_scheme \<Rightarrow> BandwidthLimit result \<times> 'z store_scheme" where
  "create_Bandwidth now parentId dto s =
     (let deviceCheck = (if truthy (cbd_deviceId dto)
            then map_sum id (\<lambda>_. ()) (owned dev_parentId ''Device not found'' ''Not your device'' parentId
                   (findDevice s (patch (cbd_deviceId dto) [])))
            else Inr ());
          childCheck = (if truthy (cbd_childId dto)
            then map_sum id (\<lambda>_. ()) (owned chd_parentId ''Child not found'' ''Not your child'' parentId
                   (findChild s (patch (cbd_childId dto) [])))
            else Inr ())
      in
      if \<not> truthy (cbd_childId dto) \<and> \<not> truthy (cbd_deviceId dto)
      then (Inl (BadRequestException ''One of childId or deviceId is required''), s)
      else if truthy (cbd_childId dto) \<and> truthy (cbd_deviceId dto)
      then (Inl (BadRequestException ''Provide only one of childId or deviceId, not both''), s)
      else if cbd_downloadKbps dto = None \<and> cbd_uploadKbps dto = None
      then (Inl (BadRequestException ''At least one of downloadKbps or uploadKbps is required''), s)
      else
        (case deviceCheck of
           Inl e \<Rightarrow> (Inl e, s)
         | Inr _ \<Rightarrow>
             (case childCheck of
                Inl e \<Rightarrow> (Inl e, s)
              | Inr _ \<Rightarrow>
                  (let b = \<lparr>bwl_id = newId s, bwl_parentId = parentId, bwl_childId = cbd_childId dto,
                            bwl_deviceId = cbd_deviceId dto, bwl_category = cbd_category dto,
                            bwl_downloadKbps = cbd_downloadKbps dto, bwl_uploadKbps = cbd_uploadKbps dto,
                            bwl_enabled = True, bwl_createdAt = now\<rparr>
                   in (Inr b, drawId (s\<lparr>bandwidthLimits := bandwidthLimits s @ [b]\<rparr>))))))"

definition findAll_Bandwidth :: "ident \<Rightarrow> 'z store_scheme \<Rightarrow> BandwidthLimit list" where
  "findAll_Bandwidth parentId s =
     orderByDesc bwl_createdAt (findMany (\<lambda>b. bwl_parentId b = parentId) (bandwidthLimits s))"

definition findBandwidth :: "'z store_scheme \<Rightarrow> ident \<Rightarrow> BandwidthLimit option" where
  "findBandwidth s i = findUnique bwl_id i (bandwidthLimits s)"

definition findOne_Bandwidth :: "ident \<Rightarrow> ident \<Rightarrow> 'z store_scheme \<Rightarrow> BandwidthLimit result" where
  "findOne_Bandwidth parentId i s =
     owned bwl_parentId ''Bandwidth limit not found'' ''Not yours'' parentId (findBandwidth s i)"

definition applyUpdateBandwidth :: "UpdateBandwidthLimitDto \<Rightarrow> BandwidthLimit \<Rightarrow> BandwidthLimit" where
  "applyUpdateBandwidth dto b =
     b\<lparr>bwl_category := patchOpt (ubd_category dto) (bwl_category b),
       bwl_downloadKbps := patchOpt (ubd_downloadKbps dto) (bwl_downloadKbps b),
       bwl_uploadKbps := patchOpt (ubd_uploadKbps dto) (bwl_uploadKbps b),
       bwl_enabled := patch (ubd_enabled dto) (bwl_enabled b)\<rparr>"

definition update_Bandwidth ::
  "ident \<Rightarrow> ident \<Rightarrow> UpdateBandwidthLimitDto \<Rightarrow> 'z store_scheme \<Rightarrow> BandwidthLimit result \<times> 'z store_scheme" where
  "update_Bandwidth parentId i dto s =
     (case findOne_Bandwidth parentId i s of
        Inl e \<Rightarrow> (Inl e, s)
      | Inr b \<Rightarrow> (Inr (applyUpdateBandwidth dto b),
                 s\<lparr>bandwidthLimits := updateMany (\<lambda>x. bwl_id x = i) (applyUpdateBandwidth dto) (bandwidthLimits s)\<rparr>))"

definition remove_Bandwidth :: "ident \<Rightarrow> ident \<Rightarrow> 'z store_scheme \<Rightarrow> unit result \<times> 'z store_scheme" where
  "remove_Bandwidth parentId i s =
     (case findOne_Bandwidth parentId i s of
        Inl e \<Rightarrow> (Inl e, s)
      | Inr b \<Rightarrow> (Inr (), s\<lparr>bandwidthLimits := deleteMany (\<lambda>x. bwl_id x = i) (bandwidthLimits s)\<rparr>))"

interpretation update_bandwidth_guard: owner_guarded findBandwidth bwl_parentId
  "''Bandwidth limit not found''" "''Not yours''" "\<lambda>i p. update_Bandwidth p i dto" for dto
  by unfold_locales (simp add: update_Bandwidth_def findOne_Bandwidth_def)

interpretation remove_bandwidth_guard: owner_guarded findBandwidth bwl_parentId
  "''Bandwidth limit not found''" "''Not yours''" "\<lambda>i p. remove_Bandwidth p i"
  by unfold_locales (simp add: remove_Bandwidth_def findOne_Bandwidth_def)

section \<open>Offline control\<close>

record SetSetupStatusDto =
  sst_completed :: bool
  sst_verified :: "bool option"
  sst_method :: "string option"
  sst_notes :: "string option"

record ChecklistDto =
  cld_pinEnabled :: "bool option"
  cld_childAccountLinked :: "bool option"
  cld_playTimeLimitEnabled :: "bool option"
  cld_ageRatingEnabled :: "bool option"
  cld_purchasesBlocked :: "bool option"
  cld_networkSettingsLocked :: "bool option"
  cld_notes :: "string option"

definition setSetupStatus ::
  "time \<Rightarrow> ident \<Rightarrow> ident \<Rightarrow> SetSetupStatusDto \<Rightarrow> 'z store_scheme \<Rightarrow> Device result \<times> 'z store_scheme" where
  "setSetupStatus now parentId deviceId dto s =
     (case ownDevice parentId deviceId s of
        Inl e \<Rightarrow> (Inl e, s)
      | Inr device \<Rightarrow>
          (let f = (\<lambda>d. d\<lparr>dev_offlineControlEnabled := sst_completed dto,
                          dev_offlineSetupCompletedAt := (if sst_completed dto then Some now else None),
                          dev_offlineSetupVerified := patch (sst_verified dto) (dev_offlineSetupVerified device),
                          dev_offlineControlMethod := patchOpt (sst_method dto) (dev_offlineControlMethod device),
                          dev_offlineControlNotes := patchOpt (sst_notes dto) (dev_offlineControlNotes device)\<rparr>)
           in (Inr (f device), updateDevice deviceId f s)))"

definition checklistFlags :: "OfflineControlChecklist \<Rightarrow> bool list" where
  "checklistFlags c =
     [ocl_pinEnabled c, ocl_childAccountLinked c, ocl_playTimeLimitEnabled c, ocl_ageRatingEnabled c,
      ocl_purchasesBlocked c, ocl_networkSettingsLocked c]"

definition completedCount :: "OfflineControlChecklist option \<Rightarrow> nat" where
  "completedCount checklist =
     (case checklist of None \<Rightarrow> 0 | Some c \<Rightarrow> length (filter (\<lambda>b. b) (checklistFlags c)))"

definition item :: "(OfflineControlChecklist \<Rightarrow> bool) \<Rightarrow> OfflineControlChecklist option \<Rightarrow> bool" where
  "item f checklist = (case checklist of None \<Rightarrow> False | Some c \<Rightarrow> f c)"

definition recommendNextStep :: "Device \<Rightarrow> OfflineControlChecklist option \<Rightarrow> bool \<Rightarrow> string" where
  "recommendNextStep device checklist setupRequired =
     (if \<not> dev_offlineControlEnabled device
      then ''Open the '' @ showDeviceType (dev_type device) @ '' setup guide and follow the official vendor steps.''
      else if \<not> item ocl_pinEnabled checklist then ''Enable a PIN on the device to prevent settings changes.''
      else if \<not> item ocl_childAccountLinked checklist then ''Link the child account to the family.''
      else if \<not> item ocl_playTimeLimitEnabled checklist then ''Configure daily play-time limit in the vendor app.''
      else if \<not> item ocl_ageRatingEnabled checklist then ''Set age-rating restrictions for games.''
      else if \<not> item ocl_purchasesBlocked checklist then ''Block in-store purchases (ask-to-buy).''
      else if \<not> item ocl_networkSettingsLocked checklist
      then ''Lock network settings so the child cannot change DNS.''
      else if \<not> dev_offlineSetupVerified device then ''Mark setup as verified once you tested it works.''
      else if setupRequired then ''Continue checklist items.''
      else ''All offline-control items complete. Online traffic is filtered by our DNS.'')"

record OfflineStatus =
  os_deviceId :: ident
  os_deviceType :: DeviceType
  os_onlineControlSupported :: bool
  os_offlineControlSupported :: bool
  os_offlineControlMethod :: string
  os_offlineControlEnabled :: bool
  os_offlineSetupCompletedAt :: "time option"
  os_offlineSetupVerified :: bool
  os_protectionStatus :: ProtectionStatus
  os_checklist :: "OfflineControlChecklist option"
  os_checklistCompletedCount :: nat
  os_setupRequired :: bool
  os_limitations :: "string list"
  os_recommendedNextStep :: string

definition getStatus_Offline :: "ident \<Rightarrow> ident \<Rightarrow> 'z store_scheme \<Rightarrow> OfflineStatus result" where
  "getStatus_Offline parentId deviceId s =
     (case ownDevice parentId deviceId s of
        Inl e \<Rightarrow> Inl e
      | Inr d \<Rightarrow>
          (let support = getPlatformSupport (dev_type d);
               checklist = findUnique ocl_deviceId deviceId (checklists s);
               n = completedCount checklist;
               setupRequired = (\<not> dev_offlineControlEnabled d \<or> n < 4)
           in Inr \<lparr>os_deviceId = dev_id d, os_deviceType = dev_type d, os_onlineControlSupported = ps_onlineControl support,
                   os_offlineControlSupported = ps_offlineControlSupported support,
                   os_offlineControlMethod = patch (dev_offlineControlMethod d) (ps_offlineControlMethod support),
                   os_offlineControlEnabled = dev_offlineControlEnabled d,
                   os_offlineSetupCompletedAt = dev_offlineSetupCompletedAt d,
                   os_offlineSetupVerified = dev_offlineSetupVerified d,
                   os_protectionStatus = dev_protectionStatus d, os_checklist = checklist,
                   os_checklistCompletedCount = n, os_setupRequired = setupRequired,
                   os_limitations = (case getOfflineGuide (dev_type d) of
                     Some g \<Rightarrow> og_limitations g
                   | None \<Rightarrow> [''Backend cannot directly kill offline games on this device.'']),
                   os_recommendedNextStep = recommendNextStep d checklist setupRequired\<rparr>))"

definition applyChecklist :: "ChecklistDto \<Rightarrow> OfflineControlChecklist \<Rightarrow> OfflineControlChecklist" where
  "applyChecklist dto c =
     c\<lparr>ocl_pinEnabled := patch (cld_pinEnabled dto) (ocl_pinEnabled c),
       ocl_childAccountLinked := patch (cld_childAccountLinked dto) (ocl_childAccountLinked c),
       ocl_playTimeLimitEnabled := patch (cld_playTimeLimitEnabled dto) (ocl_playTimeLimitEnabled c),
       ocl_ageRatingEnabled := patch (cld_ageRatingEnabled dto) (ocl_ageRatingEnabled c),
       ocl_purchasesBlocked := patch (cld_purchasesBlocked dto) (ocl_purchasesBlocked c),
       ocl_networkSettingsLocked := patch (cld_networkSettingsLocked dto) (ocl_networkSettingsLocked c),
       ocl_notes := patchOpt (cld_notes dto) (ocl_notes c)\<rparr>"

definition blankChecklist :: "ident \<Rightarrow> OfflineControlChecklist" where
  "blankChecklist deviceId =
     \<lparr>ocl_deviceId = deviceId, ocl_pinEnabled = False, ocl_childAccountLinked = False,
      ocl_playTimeLimitEnabled = False, ocl_ageRatingEnabled = False, ocl_purchasesBlocked = False,
      ocl_networkSettingsLocked = False, ocl_notes = None\<rparr>"

definition upsertChecklist ::
  "ident \<Rightarrow> ident \<Rightarrow> ChecklistDto \<Rightarrow> 'z store_scheme \<Rightarrow> OfflineControlChecklist result \<times> 'z store_scheme" where
  "upsertChecklist parentId deviceId dto s =
     (case ownDevice parentId deviceId s of
        Inl e \<Rightarrow> (Inl e, s)
      | Inr _ \<Rightarrow>
          (case findUnique ocl_deviceId deviceId (checklists s) of
             None \<Rightarrow> (Inr (applyChecklist dto (blankChecklist deviceId)),
                      s\<lparr>checklists := checklists s @ [applyChecklist dto (blankChecklist deviceId)]\<rparr>)
           | Some c \<Rightarrow> (Inr (applyChecklist dto c),
                      s\<lparr>checklists := updateMany (\<lambda>c. ocl_deviceId c = deviceId) (applyChecklist dto) (checklists s)\<rparr>)))"

interpretation setup_status_guard: owner_guarded findDevice dev_parentId
  "''Device not found''" "''Not your device''" "\<lambda>i p. setSetupStatus now p i dto" for now dto
  by unfold_locales (simp add: setSetupStatus_def ownDevice_def)

interpretation checklist_guard: owner_guarded findDevice dev_parentId
  "''Device not found''" "''Not your device''" "\<lambda>i p. upsertChecklist p i dto" for dto
  by unfold_locales (simp add: upsertChecklist_def ownDevice_def)

section \<open>What a deletion leaves\<close>

lemma deleteDevices_tables [frame_simps]:
  "devices (deleteDevices P s) = deleteMany P (devices s)" "children (deleteDevices P s) = children s"
  "gateways (deleteDevices P s) = gateways s" "users (deleteDevices P s) = users s"
  "pushTokens (deleteDevices P s) = pushTokens s" "notifications (deleteDevices P s) = notifications s"
  "oauthAccounts (deleteDevices P s) = oauthAccounts s" "subscriptions (deleteDevices P s) = subscriptions s"
  "auditLogs (deleteDevices P s) = auditLogs s" "rules (deleteDevices P s) = rules s"
  "bandwidthLimits (deleteDevices P s) = bandwidthLimits s"
  by (simp_all add: deleteDevices_def deleteCommands_def Let_def)

lemma deleteChildren_tables [frame_simps]:
  "children (deleteChildren P s) = deleteMany P (children s)" "gateways (deleteChildren P s) = gateways s"
  "users (deleteChildren P s) = users s" "pushTokens (deleteChildren P s) = pushTokens s"
  "notifications (deleteChildren P s) = notifications s" "oauthAccounts (deleteChildren P s) = oauthAccounts s"
  "subscriptions (deleteChildren P s) = subscriptions s" "auditLogs (deleteChildren P s) = auditLogs s"
  "bandwidthLimits (deleteChildren P s) = bandwidthLimits s"
  "map dev_id (devices (deleteChildren P s)) = map dev_id (devices s)"
  "map dev_parentId (devices (deleteChildren P s)) = map dev_parentId (devices s)"
  by (simp_all add: deleteChildren_def Let_def)

lemma deleteGateways_tables [frame_simps]:
  "gateways (deleteGateways P s) = deleteMany P (gateways s)" "children (deleteGateways P s) = children s"
  "users (deleteGateways P s) = users s" "pushTokens (deleteGateways P s) = pushTokens s"
  "notifications (deleteGateways P s) = notifications s" "oauthAccounts (deleteGateways P s) = oauthAccounts s"
  "subscriptions (deleteGateways P s) = subscriptions s" "auditLogs (deleteGateways P s) = auditLogs s"
  "bandwidthLimits (deleteGateways P s) = bandwidthLimits s"
  "map dev_id (devices (deleteGateways P s)) = map dev_id (devices s)"
  "map dev_parentId (devices (deleteGateways P s)) = map dev_parentId (devices s)"
  by (simp_all add: deleteGateways_def Let_def)

lemma auditLog_tables:
  "pushTokens (auditLog now a s) = pushTokens s" "oauthAccounts (auditLog now a s) = oauthAccounts s"
  "subscriptions (auditLog now a s) = subscriptions s" "bandwidthLimits (auditLog now a s) = bandwidthLimits s"
  by (simp_all add: auditLog_def)

lemma deleteUser_devices:
  "map dev_id (devices (deleteUser u s)) = map dev_id (filter (\<lambda>d. dev_parentId d \<noteq> u) (devices s))"
  "map dev_parentId (devices (deleteUser u s)) = map dev_parentId (filter (\<lambda>d. dev_parentId d \<noteq> u) (devices s))"
  by (simp_all add: deleteUser_def Let_def frame_simps deleteMany_def)

section \<open>Properties\<close>


definition accountStore :: store where
  "accountStore = demoStore\<lparr>users := [\<lparr>usr_id = ''p'', usr_email = ''p@x'', usr_passwordHash = '''', usr_role = PARENT,
      usr_firstName = None, usr_lastName = None, usr_refreshToken = None, usr_failedLoginAttempts = 0,
      usr_lockedUntil = None, usr_createdAt = 0\<rparr>]\<rparr>"



definition slowDto :: CreateBandwidthLimitDto where
  "slowDto = \<lparr>cbd_childId = None, cbd_deviceId = Some ''d'', cbd_category = None, cbd_downloadKbps = Some 512,
     cbd_uploadKbps = None\<rparr>"


end
