(* ===== verification/Scheduler.thy ===== *)
theory Scheduler
  imports Enforcement Notify
begin

text \<open>
  The periodic jobs (\<^verbatim>\<open>scheduler.service.ts\<close>): expiry of running sessions and the ten-minute notice,
  bedtime rules, detection of DNS bypass, DNS silence during a live session, per-device bedtime and
  daily limit, and the low-protection notice.

  A job reads its rows once and then handles them one by one; an exception while handling a row is
  caught and logged, and the writes made before it stay (\<open>forEachCatch\<close>). All clock readings of one
  run are \<open>now\<close>. Deadlines are stored by \<^verbatim>\<open>UpsertScheduleDto\<close>, which admits the form HH:MM only, so
  \<^verbatim>\<open>Number\<close> is applied to decimal digits; other text is \<open>None\<close> (\<^verbatim>\<open>NaN\<close>), with which every comparison fails.
\<close>

section \<open>Operations\<close>

fun forEachCatch :: "('a \<Rightarrow> 's \<Rightarrow> unit result \<times> 's) \<Rightarrow> 'a list \<Rightarrow> 's \<Rightarrow> 's" where
  "forEachCatch body [] s = s"
| "forEachCatch body (x # xs) s = forEachCatch body xs (snd (body x s))"

subsection \<open>Sessions\<close>

text \<open>\<^verbatim>\<open>result.data?.offlineLimitation\<close> as a condition.\<close>

definition offlineLimitation :: "ControlResult \<Rightarrow> bool" where
  "offlineLimitation r = (case map_of (patch (cr_data r) []) ''offlineLimitation'' of
     Some (JBool b) \<Rightarrow> b | _ \<Rightarrow> False)"

definition expireSession ::
  "'c cacheOps \<Rightarrow> fcm \<Rightarrow> time \<Rightarrow> Session \<times> Device \<Rightarrow> ('c, 'z) gstore_scheme \<Rightarrow> unit result \<times> ('c, 'z) gstore_scheme" where
  "expireSession C F now xd s =
     (case xd of (x, device) \<Rightarrow>
     (case expire now (ses_id x) s of
        (Inl e, s1) \<Rightarrow> (Inl e, s1)
      | (Inr _, s1) \<Rightarrow>
          (case handleOfflineViolation C now device (ses_id x) s1 of
             (Inl e, s2) \<Rightarrow> (Inl e, s2)
           | (Inr r, s2) \<Rightarrow>
               (let s3 = upsertCategoryBlock (ses_childId x) GAMING True (Some (''Session '' @ ses_id x @ '' expired'')) s2;
                    s4 = notify F now
                      \<lparr>nd_userId = ses_parentId x, nd_type = TIME_ENDED, nd_title = ''Screen Time Ended'',
                       nd_message = ''Session expired on device. Online gaming has been auto-blocked. '' @
                         (if offlineLimitation r
                          then ''Note: offline games cannot be killed directly '' @ emdash @ '' see device-specific guides.'' else []),
                       nd_deviceId = Some (ses_deviceId x), nd_childId = Some (ses_childId x),
                       nd_sessionId = Some (ses_id x)\<rparr> s3
                in (Inr (), auditLog now
                      \<lparr>ad_userId = Some (ses_parentId x), ad_action = ''SESSION_EXPIRED'', ad_entity = ''session'',
                       ad_entityId = Some (ses_id x),
                       ad_details = Some (''Device: '' @ ses_deviceId x @ '', offlineLimitation: '' @
                         (if offlineLimitation r then ''true'' else ''false'') @ '', gamingCategoryBlocked: true''),
                       ad_ipAddress = None\<rparr> s4)))))"

definition notifyTenMinutesLeft :: "fcm \<Rightarrow> time \<Rightarrow> Session \<Rightarrow> int \<Rightarrow> 'z store_scheme \<Rightarrow> 'z store_scheme" where
  "notifyTenMinutesLeft F now x remaining s =
     (case findFirst (\<lambda>n. nev_sessionId n = Some (ses_id x) \<and> nev_type n = TIME_10_MIN_LEFT \<and>
                          now - 600000 \<le> nev_createdAt n) (notifications s) of
        Some _ \<Rightarrow> s
      | None \<Rightarrow> notify F now
          \<lparr>nd_userId = ses_parentId x, nd_type = TIME_10_MIN_LEFT, nd_title = ''10 Minutes Left'',
           nd_message = ''Screen time has '' @ showInt remaining @ '' minutes remaining'',
           nd_deviceId = Some (ses_deviceId x), nd_childId = Some (ses_childId x),
           nd_sessionId = Some (ses_id x)\<rparr> s)"

definition checkSession ::
  "'c cacheOps \<Rightarrow> fcm \<Rightarrow> time \<Rightarrow> Session \<times> Device \<Rightarrow> ('c, 'z) gstore_scheme \<Rightarrow> unit result \<times> ('c, 'z) gstore_scheme" where
  "checkSession C F now xd s =
     (let remaining = calculateRemainingMinutes now (fst xd) in
      if remaining \<le> 0 then expireSession C F now xd s
      else if remaining \<le> 10 then (Inr (), notifyTenMinutesLeft F now (fst xd) remaining s)
      else (Inr (), s))"

text \<open>The active sessions, each with the device its foreign key points to.\<close>

definition activeWithDevice :: "'z store_scheme \<Rightarrow> (Session \<times> Device) list" where
  "activeWithDevice s =
     List.map_filter (\<lambda>x. map_option (Pair x) (findDevice s (ses_deviceId x)))
       (findMany (\<lambda>x. ses_status x = ACTIVE) (sessions s))"

definition checkActiveSessions ::
  "'c cacheOps \<Rightarrow> fcm \<Rightarrow> time \<Rightarrow> ('c, 'z) gstore_scheme \<Rightarrow> ('c, 'z) gstore_scheme" where
  "checkActiveSessions C F now s = forEachCatch (checkSession C F now) (activeWithDevice s) s"

subsection \<open>Bedtime rules\<close>

definition showOpt :: "string option \<Rightarrow> string" where
  "showOpt v = patch v ''null''"

definition ruleToday :: "int \<Rightarrow> time \<Rightarrow> Rule \<Rightarrow> bool" where
  "ruleToday tz now r \<longleftrightarrow>
     \<not> truthy (rul_daysOfWeek r) \<or>
     showInt (getDay tz now) \<in> set (splitOn (CHR '','') (patch (rul_daysOfWeek r) []))"

definition enforceBedtimeRule ::
  "'c cacheOps \<Rightarrow> time \<Rightarrow> Rule \<times> Device \<Rightarrow> ('c, 'z) gstore_scheme \<Rightarrow> unit result \<times> ('c, 'z) gstore_scheme" where
  "enforceBedtimeRule C now rd s =
     (case rd of (rule, device) \<Rightarrow>
     (case blockDevice C now (dev_id device)
             (''Bedtime rule: '' @ showOpt (rul_startTime rule) @ ''-'' @ showOpt (rul_endTime rule)) None s of
        (Inl e, s1) \<Rightarrow> (Inl e, s1)
      | (Inr r, s1) \<Rightarrow>
          (Inr (),
           if cr_success r
           then auditLog now
                  \<lparr>ad_userId = None, ad_action = ''BEDTIME_ENFORCED'', ad_entity = ''device'',
                   ad_entityId = Some (dev_id device),
                   ad_details = Some (''Rule '' @ rul_id rule @ '': bedtime '' @ showOpt (rul_startTime rule) @ ''-'' @
                     showOpt (rul_endTime rule)),
                   ad_ipAddress = None\<rparr> s1
           else s1)))"

definition checkRulesAndSchedules ::
  "'c cacheOps \<Rightarrow> int \<Rightarrow> time \<Rightarrow> ('c, 'z) gstore_scheme \<Rightarrow> ('c, 'z) gstore_scheme" where
  "checkRulesAndSchedules C tz now s =
     (let bedtimeRules = findMany (\<lambda>r. rul_type r = BEDTIME \<and> rul_active r \<and> rul_startTime r = Some (hhmm tz now)) (rules s);
          work = concat (map (\<lambda>r. map (Pair r) (findMany (\<lambda>d. dev_childId d = Some (rul_childId r)) (devices s)))
                   (filter (ruleToday tz now) bedtimeRules))
      in forEachCatch (enforceBedtimeRule C now) work s)"

subsection \<open>DNS bypass\<close>

definition STALE_THRESHOLD_MIN :: int where "STALE_THRESHOLD_MIN = 10"
definition COMPROMISED_THRESHOLD :: int where "COMPROMISED_THRESHOLD = 3"

definition bypassSuspect :: "time \<Rightarrow> Device \<Rightarrow> bool" where
  "bypassSuspect now d \<longleftrightarrow>
     (let cutoff = now - STALE_THRESHOLD_MIN * 60000 in
      dev_internetLocked d \<and> dev_protectionStatus d \<noteq> COMPROMISED \<and>
      (case dev_lastDnsSeenAt d of None \<Rightarrow> True | Some t \<Rightarrow> t < cutoff) \<and>
      (case dev_internetLockedAt d of None \<Rightarrow> False | Some t \<Rightarrow> t < cutoff))"

definition reportBypass :: "fcm \<Rightarrow> time \<Rightarrow> Device \<Rightarrow> 'z store_scheme \<Rightarrow> unit result \<times> 'z store_scheme" where
  "reportBypass F now device s =
     (let newAttempts = dev_bypassAttempts device + 1;
          escalate = (COMPROMISED_THRESHOLD \<le> newAttempts);
          s1 = updateDevice (dev_id device)
                 (\<lambda>d. d\<lparr>dev_protectionStatus := (if escalate then COMPROMISED else POSSIBLE_DNS_BYPASS),
                        dev_bypassAttempts := newAttempts, dev_lastBypassDetectedAt := Some now\<rparr>) s;
          s2 = notify F now
                 \<lparr>nd_userId = dev_parentId device,
                  nd_type = (if escalate then REPEATED_BYPASS else NT_POSSIBLE_DNS_BYPASS),
                  nd_title = (if escalate then ''Repeated DNS bypass '' @ emdash @ '' device COMPROMISED'' else ''Possible DNS bypass detected''),
                  nd_message =
                    (if escalate
                     then ''Device '' @ [CHR 0x22] @ dev_name device @ [CHR 0x22] @ '' has bypassed DNS '' @ showInt newAttempts @
                       '' times. Marked COMPROMISED '' @ emdash @ '' re-check router DNS, lock device network settings, or consider a hotspot block.''
                     else ''Device '' @ [CHR 0x22] @ dev_name device @
                       [CHR 0x22] @ '' is locked but our DNS server hasn'' @ [CHR 0x27] @ ''t seen any traffic from it. The child may have changed DNS, started a VPN, or '' @ ''switched to a hotspot.''),
                  nd_deviceId = Some (dev_id device), nd_childId = dev_childId device, nd_sessionId = None\<rparr> s1
      in (Inr (), auditLog now
            \<lparr>ad_userId = Some (dev_parentId device),
             ad_action = (if escalate then ''DEVICE_COMPROMISED'' else ''DNS_BYPASS_DETECTED''), ad_entity = ''device'',
             ad_entityId = Some (dev_id device),
             ad_details = Some (''attempts='' @ showInt newAttempts @ '', lastDnsSeenAt='' @
               showOpt (map_option toISOString (dev_lastDnsSeenAt device))),
             ad_ipAddress = None\<rparr> s2))"

definition detectDnsBypass :: "fcm \<Rightarrow> time \<Rightarrow> 'z store_scheme \<Rightarrow> 'z store_scheme" where
  "detectDnsBypass F now s = forEachCatch (reportBypass F now) (findMany (bypassSuspect now) (devices s)) s"

subsection \<open>DNS silence during a live session\<close>

definition recentNotice :: "ident \<Rightarrow> NotificationType \<Rightarrow> time \<Rightarrow> 'z store_scheme \<Rightarrow> bool" where
  "recentNotice deviceId nt since s \<longleftrightarrow>
     findFirst (\<lambda>n. nev_deviceId n = Some deviceId \<and> nev_type n = nt \<and> since \<le> nev_createdAt n) (notifications s) \<noteq> None"

definition reportSilence :: "fcm \<Rightarrow> time \<Rightarrow> Device \<Rightarrow> 'z store_scheme \<Rightarrow> 'z store_scheme" where
  "reportSilence F now device s =
     (if recentNotice (dev_id device) DEVICE_DISCONNECTED (now - 6 * 60 * 60000) s then s
      else auditLog now
             \<lparr>ad_userId = Some (dev_parentId device), ad_action = ''DNS_HEALTH_ALERT'', ad_entity = ''device'',
              ad_entityId = Some (dev_id device),
              ad_details = Some (''active session, lastDnsSeenAt='' @
                showOpt (map_option toISOString (dev_lastDnsSeenAt device))),
              ad_ipAddress = None\<rparr>
             (notify F now
               \<lparr>nd_userId = dev_parentId device, nd_type = DEVICE_DISCONNECTED,
                nd_title = ''Protection not verified during active use'',
                nd_message = [CHR 0x22] @ dev_name device @
                  [CHR 0x22] @ '' has a live session but our DNS server hasn'' @ [CHR 0x27] @ ''t seen it for over 15 minutes. Filtering may be bypassed '' @ emdash @ '' check the router/DNS setup, Private DNS, or for a VPN/hotspot.'',
                nd_deviceId = Some (dev_id device), nd_childId = dev_childId device, nd_sessionId = None\<rparr> s))"

fun healthLoop :: "fcm \<Rightarrow> time \<Rightarrow> ident list \<Rightarrow> Device list \<Rightarrow> 'z store_scheme \<Rightarrow> 'z store_scheme" where
  "healthLoop F now seen [] s = s"
| "healthLoop F now seen (device # ds) s =
     (if dev_id device \<in> set seen then healthLoop F now seen ds s
      else
        let silent = (case dev_lastDnsSeenAt device of None \<Rightarrow> True | Some t \<Rightarrow> t < now - 15 * 60000) in
        healthLoop F now (dev_id device # seen) ds
          (if dev_dnsConfigured device \<and> silent then reportSilence F now device s else s))"

definition monitorDeviceHealth :: "fcm \<Rightarrow> time \<Rightarrow> 'z store_scheme \<Rightarrow> 'z store_scheme" where
  "monitorDeviceHealth F now s = healthLoop F now [] (map snd (activeWithDevice s)) s"

subsection \<open>Per-device bedtime and daily limit\<close>

text \<open>\<^verbatim>\<open>Number(w)\<close> of a decimal numeral.\<close>

definition numberOf :: "string \<Rightarrow> int option" where
  "numberOf w = (if w \<noteq> [] \<and> list_all isDigit w then Some (digitsVal w) else None)"

definition toMin :: "string \<Rightarrow> int option" where
  "toMin s = (case map numberOf (splitOn (CHR '':'') s) of
     Some h # Some m # _ \<Rightarrow> Some (h * 60 + m) | _ \<Rightarrow> None)"

definition isWithinBedtime :: "string \<Rightarrow> string \<Rightarrow> string \<Rightarrow> bool" where
  "isWithinBedtime now bedStart bedEnd =
     (case (toMin now, toMin bedStart, toMin bedEnd) of
        (Some n, Some s, Some e) \<Rightarrow> (if s \<le> e then s \<le> n \<and> n < e else s \<le> n \<or> n < e)
      | (Some n, None, Some e) \<Rightarrow> n < e
      | (Some n, Some s, None) \<Rightarrow> s \<le> n
      | _ \<Rightarrow> False)"

definition inBedtime :: "int \<Rightarrow> time \<Rightarrow> Device \<Rightarrow> bool" where
  "inBedtime tz now d \<longleftrightarrow>
     truthy (dev_bedtimeStart d) \<and> truthy (dev_bedtimeEnd d) \<and>
     isWithinBedtime (hhmm tz now) (patch (dev_bedtimeStart d) []) (patch (dev_bedtimeEnd d) [])"

definition deviceMinutesToday :: "int \<Rightarrow> time \<Rightarrow> ident \<Rightarrow> 'z store_scheme \<Rightarrow> int" where
  "deviceMinutesToday tz now i s =
     sum_list (map ses_durationMinutes
       (findMany (\<lambda>x. ses_deviceId x = i \<and> startOfDay tz now \<le> ses_startedAt x) (sessions s)))"

definition applyDailyLimit :: "int \<Rightarrow> time \<Rightarrow> Device \<Rightarrow> 'z store_scheme \<Rightarrow> 'z store_scheme" where
  "applyDailyLimit tz now device s =
     (case dev_dailyLimitMinutes device of
        None \<Rightarrow> s
      | Some limit \<Rightarrow>
          if limit \<noteq> 0 \<and> truthy (dev_childId device)
          then
            (let used = deviceMinutesToday tz now (dev_id device) s in
             if limit \<le> used
             then auditLog now
                    \<lparr>ad_userId = Some (dev_parentId device), ad_action = ''DAILY_LIMIT_BLOCK'', ad_entity = ''device'',
                     ad_entityId = Some (dev_id device),
                     ad_details = Some (''used='' @ showInt used @ ''min, limit='' @ showInt limit @ ''min''),
                     ad_ipAddress = None\<rparr>
                    (upsertCategoryBlock (patch (dev_childId device) []) GAMING True (Some ''Daily limit exceeded'') s)
             else s)
          else s)"

definition bedtimeAudit :: "int \<Rightarrow> time \<Rightarrow> Device \<Rightarrow> bool \<Rightarrow> 'z store_scheme \<Rightarrow> 'z store_scheme" where
  "bedtimeAudit tz now device lock s =
     auditLog now
       \<lparr>ad_userId = Some (dev_parentId device), ad_action = (if lock then ''BEDTIME_LOCK'' else ''BEDTIME_UNLOCK''),
        ad_entity = ''device'', ad_entityId = Some (dev_id device),
        ad_details = Some ((if lock then ''Auto-locked at '' else ''Auto-unlocked at '') @ hhmm tz now),
        ad_ipAddress = None\<rparr> s"

definition unlockAfterBedtime :: "Device \<Rightarrow> Device" where
  "unlockAfterBedtime d =
     d\<lparr>dev_internetLocked := False, dev_blockingMode := GAMING_ONLY, dev_internetLockedReason := None,
       dev_internetLockedAt := None\<rparr>"

definition bedtimeLocked :: "Device \<Rightarrow> bool" where
  "bedtimeLocked d \<longleftrightarrow>
     dev_internetLocked d \<and> (case dev_internetLockedReason d of None \<Rightarrow> False | Some r \<Rightarrow> startsWith r ''Bedtime'')"

definition enforceSchedule :: "int \<Rightarrow> time \<Rightarrow> Device \<Rightarrow> 'z store_scheme \<Rightarrow> unit result \<times> 'z store_scheme" where
  "enforceSchedule tz now device s =
     (if inBedtime tz now device \<and> \<not> dev_internetLocked device
      then (Inr (), bedtimeAudit tz now device True (updateDevice (dev_id device) (\<lambda>d.
             d\<lparr>dev_internetLocked := True, dev_blockingMode := FULL_INTERNET_LOCK,
               dev_internetLockedReason :=
                 Some (''Bedtime '' @ showOpt (dev_bedtimeStart device) @ ''-'' @ showOpt (dev_bedtimeEnd device)),
               dev_internetLockedAt := Some now\<rparr>) s))
      else
        (let s1 = (if \<not> inBedtime tz now device \<and> bedtimeLocked device
                   then bedtimeAudit tz now device False (updateDevice (dev_id device) unlockAfterBedtime s)
                   else s)
         in (Inr (), applyDailyLimit tz now device s1)))"

definition enforceDeviceSchedules :: "int \<Rightarrow> time \<Rightarrow> 'z store_scheme \<Rightarrow> 'z store_scheme" where
  "enforceDeviceSchedules tz now s =
     forEachCatch (enforceSchedule tz now) (findMany dev_autoBlockEnabled (devices s)) s"

subsection \<open>Low protection\<close>

definition notifyLow :: "fcm \<Rightarrow> time \<Rightarrow> Device \<Rightarrow> 'z store_scheme \<Rightarrow> unit result \<times> 'z store_scheme" where
  "notifyLow F now device s =
     (Inr (),
      if recentNotice (dev_id device) PROTECTION_LOW (now - 24 * 60 * 60000) s then s
      else notify F now
             \<lparr>nd_userId = dev_parentId device, nd_type = PROTECTION_LOW, nd_title = ''Low protection score'',
              nd_message = ''Device '' @ [CHR 0x22] @ dev_name device @ [CHR 0x22] @ '' has a protection score of '' @
                showInt (dev_protectionScore device) @ ''/100. Open insights to see recommendations.'',
              nd_deviceId = Some (dev_id device), nd_childId = dev_childId device, nd_sessionId = None\<rparr> s)"

definition notifyLowProtection :: "fcm \<Rightarrow> time \<Rightarrow> 'z store_scheme \<Rightarrow> 'z store_scheme" where
  "notifyLowProtection F now s =
     forEachCatch (notifyLow F now) (findMany (\<lambda>d. dev_protectionScore d < 50) (devices s)) s"

section \<open>Enforcement keeps the tables the jobs rely on\<close>

definition kept :: "'z store_scheme \<Rightarrow> 'z store_scheme \<Rightarrow> bool" where
  "kept s s' \<longleftrightarrow>
     sessions s' = sessions s \<and> categoryBlocks s' = categoryBlocks s \<and> notifications s' = notifications s \<and>
     map dev_id (devices s') = map dev_id (devices s) \<and> set (auditLogs s) \<subseteq> set (auditLogs s')"

lemma kept_trans: "kept s s' \<Longrightarrow> kept s' s'' \<Longrightarrow> kept s s''"
  by (auto simp: kept_def)

lemma kept_queues: "queues_for d s s' \<Longrightarrow> kept s s'"
  by (simp add: kept_def queues_for_frame)

lemma kept_sync: "kept s (snd (syncToRouter now d b s))"
  by (auto simp: kept_def syncToRouter_def Let_def syncBlockToRouter_def syncUnblockToRouter_def
      enqueueStrategyCommand_def logFallbackAudit_def enqueueCommand_Router_def)

lemma kept_applyStatus: "kept s (snd (applyStatus C now b d p x r s))"
proof -
  let ?s3 = "auditLog now \<lparr>ad_userId = p, ad_action = (if b then ''device.block'' else ''device.unblock''),
      ad_entity = ''device'', ad_entityId = Some (dev_id d), ad_details = x, ad_ipAddress = None\<rparr>
      (invalidateDnsCache C now d (updateDevice (dev_id d) (\<lambda>d. d\<lparr>dev_status := (if b then DEV_BLOCKED else DEV_ONLINE)\<rparr>) s))"
  have "kept s ?s3"
    by (auto simp: kept_def invalidateDnsCache_def updateDevice_def simp del: invalidateSourceIps.simps)
  from kept_trans [OF this kept_sync [of _ now d b]] show ?thesis
    by (simp only: applyStatus_def Let_def case_prod_beta snd_conv)
qed

lemma kept_blockDevice: "kept s (snd (blockDevice C now i reason p s))"
proof (cases "authorise i p s")
  case (Inl e)
  then show ?thesis by (simp add: blockDevice_def kept_def)
next
  case (Inr d)
  have "kept s (snd (ca_blockDevice (getAdapter d) now d reason s))"
    by (rule kept_queues [OF adapter_queues(3)])
  then show ?thesis
    using kept_trans [OF _ kept_applyStatus] Inr by (auto simp: blockDevice_def case_prod_beta)
qed

lemma blockDevice_system_ok:
  "findDevice s i \<noteq> None \<Longrightarrow> \<exists>r. fst (blockDevice C now i reason None s) = Inr r"
  by (auto simp: blockDevice_def authorise_def case_prod_beta)

lemma handleOfflineViolation_kept:
  "kept s (snd (handleOfflineViolation C now d i s)) \<and>
   (findDevice s (dev_id d) \<noteq> None \<longrightarrow> (\<exists>r. fst (handleOfflineViolation C now d i s) = Inr r))"
proof -
  let ?s1 = "snd (ca_stopSession (getAdapter d) now d s)"
  let ?b = "\<lambda>reason. blockDevice C now (dev_id d) reason None ?s1"
  have q: "queues_for d s ?s1" by (rule adapter_queues(2))
  have k: "kept s (snd (blockDevice C now j reason None ?s1))" for j reason
    using kept_trans [OF kept_queues [OF q] kept_blockDevice] .
  have r: "findDevice s (dev_id d) \<noteq> None \<longrightarrow> (\<exists>r. fst (blockDevice C now (dev_id d) reason None ?s1) = Inr r)" for reason
    using blockDevice_system_ok [where s = ?s1] queues_for_frame(1) [OF q] by auto
  have h: "handleOfflineViolation C now d i s =
      (if isOfflineGameUnsupported d
       then if truthy (dev_gatewayId d)
            then (case fst (?b ''Session expired - offline game violation'') of Inl e \<Rightarrow> Inl e | Inr _ \<Rightarrow> Inr offlineViolationResult,
                  snd (?b ''Session expired - offline game violation''))
            else (Inr offlineViolationResult, ?s1)
       else ?b ''Session expired'')"
    by (simp add: handleOfflineViolation_def Let_def split: prod.split sum.split)
  show ?thesis
    using k [of "dev_id d"] r [of "''Session expired''"] r [of "''Session expired - offline game violation''"]
      kept_queues [OF q]
    unfolding h by (simp split: sum.split) (metis option.exhaust sum.distinct(1))
qed

section \<open>One row of a job\<close>

lemma notify_keeps:
  assumes "\<And>n. P (n\<lparr>nev_sentViaFcm := True\<rparr>) = P n" and "\<exists>n \<in> set (notifications s). P n"
  shows "\<exists>n \<in> set (notifications (notify F now d s)). P n"
proof -
  obtain n where n: "n \<in> set (notifications s)" "P n" using assms(2) by blast
  have "\<exists>n \<in> set (updateMany Q (\<lambda>x. x\<lparr>nev_sentViaFcm := True\<rparr>) (notifications s @ [m])). P n" for Q m
  proof (rule bexI)
    show "P (if Q n then n\<lparr>nev_sentViaFcm := True\<rparr> else n)" using n(2) assms(1) by simp
    show "(if Q n then n\<lparr>nev_sentViaFcm := True\<rparr> else n) \<in>
        set (updateMany Q (\<lambda>x. x\<lparr>nev_sentViaFcm := True\<rparr>) (notifications s @ [m]))"
      using n(1) unfolding set_updateMany by (intro image_eqI [where x = n]) simp_all
  qed
  then show ?thesis using n by (auto simp: create_Notification_def deliver_def Let_def simp del: updateMany_append)
qed

lemma categoryActive_upsert_mono:
  assumes "categoryActive s c' cat'"
  shows "categoryActive (upsertCategoryBlock c cat True r s) c' cat'"
proof (cases "c' = c \<and> cat' = cat")
  case True
  then show ?thesis by (simp add: categoryActive_upsert_same)
next
  case False
  let ?P = "\<lambda>b. cbl_childId b = c' \<and> cbl_category b = cat'" and ?Q = "\<lambda>b. cbl_childId b = c \<and> cbl_category b = cat"
  have "findFirst ?P (updateMany ?Q f rows) = findFirst ?P rows"
    if "\<And>b. cbl_childId (f b) = cbl_childId b \<and> cbl_category (f b) = cbl_category b" for f and rows :: "CategoryBlock list"
    using that False by (induction rows) auto
  with False assms show ?thesis
    by (auto simp: categoryActive_def upsertCategoryBlock_def findFirst_append split: option.splits)
qed

definition expiredSession :: "time \<Rightarrow> Session \<Rightarrow> Session" where
  "expiredSession now x = x\<lparr>ses_status := EXPIRED, ses_expiredAt := Some now, ses_remainingMinutes := 0\<rparr>"

text \<open>What the expiry of a session leaves behind: the closed session, the category block of the child,
  the notification of the parent and the audit entry.\<close>

definition expiryDone :: "time \<Rightarrow> Session \<Rightarrow> 'z store_scheme \<Rightarrow> bool" where
  "expiryDone now x s \<longleftrightarrow>
     findSession s (ses_id x) = Some (expiredSession now x) \<and> categoryActive s (ses_childId x) GAMING \<and>
     (\<exists>n \<in> set (notifications s). nev_type n = TIME_ENDED \<and> nev_userId n = ses_parentId x \<and>
        nev_sessionId n = Some (ses_id x) \<and> nev_createdAt n = now) \<and>
     (\<exists>a \<in> set (auditLogs s). aud_action a = ''SESSION_EXPIRED'' \<and> aud_entityId a = Some (ses_id x) \<and> aud_createdAt a = now)"

definition noticed :: "time \<Rightarrow> Session \<Rightarrow> 'z store_scheme \<Rightarrow> bool" where
  "noticed now x s \<longleftrightarrow>
     (\<exists>n \<in> set (notifications s). nev_type n = TIME_10_MIN_LEFT \<and> nev_sessionId n = Some (ses_id x) \<and>
        now - 600000 \<le> nev_createdAt n)"

text \<open>The tail of an expiry, after enforcement, on a state that is as before for the job.\<close>

lemma expireSession_eq:
  assumes "findSession s (ses_id x) = Some y" and "findDevice s (dev_id d) \<noteq> None"
  obtains s2 r dt where "kept (updateSession (ses_id x) (expiredSession now) s) s2"
    and "snd (expireSession C F now (x, d) s) =
      auditLog now \<lparr>ad_userId = Some (ses_parentId x), ad_action = ''SESSION_EXPIRED'', ad_entity = ''session'',
          ad_entityId = Some (ses_id x), ad_details = Some dt, ad_ipAddress = None\<rparr>
        (notify F now \<lparr>nd_userId = ses_parentId x, nd_type = TIME_ENDED, nd_title = ''Screen Time Ended'', nd_message = r,
             nd_deviceId = Some (ses_deviceId x), nd_childId = Some (ses_childId x), nd_sessionId = Some (ses_id x)\<rparr>
          (upsertCategoryBlock (ses_childId x) GAMING True (Some (''Session '' @ ses_id x @ '' expired'')) s2))"
proof -
  let ?s1 = "updateSession (ses_id x) (expiredSession now) s"
  have e: "expire now (ses_id x) s = (Inr (expiredSession now y), ?s1)"
    using assms(1) by (simp add: expire_def writeSession_def expiredSession_def [abs_def])
  have f: "findDevice ?s1 (dev_id d) \<noteq> None" using assms(2) by (simp add: updateSession_def)
  then obtain r s2 where h: "handleOfflineViolation C now d (ses_id x) ?s1 = (Inr r, s2)"
    using handleOfflineViolation_kept [where s = ?s1 and d = d] by (metis prod.collapse)
  have k: "kept ?s1 s2"
    using handleOfflineViolation_kept [where s = ?s1 and d = d and C = C and now = now and i = "ses_id x"] by (simp add: h)
  show ?thesis
    by (rule that [OF k]) (simp only: expireSession_def prod.case sum.case e h Let_def snd_conv)
qed

lemma noticeD: "noticed now x s \<Longrightarrow> noticed now x (notify F t d s)"
  unfolding noticed_def by (rule notify_keeps) simp_all

lemma noticed_notify:
  assumes "nd_type d = TIME_10_MIN_LEFT" "nd_sessionId d = Some (ses_id x)"
  shows "noticed now x (notify F now d s)"
proof -
  obtain n where "n \<in> set (notifications (notify F now d s))" "nev_type n = nd_type d" "nev_sessionId n = nd_sessionId d"
    "nev_createdAt n = now" using notify_adds by metis
  with assms show ?thesis unfolding noticed_def by (intro bexI [of _ n]) simp_all
qed

lemma expiryDone_notify: "expiryDone now x s \<Longrightarrow> expiryDone now x (notify F t d s)"
  unfolding expiryDone_def
  by (intro conjI notify_keeps) (auto)

lemma kept_by_audit:
  "expiryDone now x s \<Longrightarrow> expiryDone now x (auditLog t a s)" "noticed now x s \<Longrightarrow> noticed now x (auditLog t a s)"
  by (auto simp: expiryDone_def noticed_def)

lemma ses_id_expiredSession [simp]: "ses_id (expiredSession now x) = ses_id x"
  by (simp add: expiredSession_def)

text \<open>Expiry closes its session with everything that belongs to it, and leaves what earlier rows
  achieved and the other sessions as they are.\<close>

lemma expireSession_does:
  assumes "findSession s (ses_id x) = Some x" and "findDevice s (dev_id d) \<noteq> None"
  shows "expiryDone now x (snd (expireSession C F now (x, d) s))"
proof -
  obtain s2 r dt where k: "kept (updateSession (ses_id x) (expiredSession now) s) s2"
    and e: "snd (expireSession C F now (x, d) s) =
      auditLog now \<lparr>ad_userId = Some (ses_parentId x), ad_action = ''SESSION_EXPIRED'', ad_entity = ''session'',
          ad_entityId = Some (ses_id x), ad_details = Some dt, ad_ipAddress = None\<rparr>
        (notify F now \<lparr>nd_userId = ses_parentId x, nd_type = TIME_ENDED, nd_title = ''Screen Time Ended'', nd_message = r,
             nd_deviceId = Some (ses_deviceId x), nd_childId = Some (ses_childId x), nd_sessionId = Some (ses_id x)\<rparr>
          (upsertCategoryBlock (ses_childId x) GAMING True (Some (''Session '' @ ses_id x @ '' expired'')) s2))"
    using expireSession_eq [OF assms] .
  have "findSession s2 (ses_id x) = Some (expiredSession now x)"
    using k assms(1) by (simp add: kept_def)
  then show ?thesis
    unfolding e expiryDone_def
    using notify_adds [of F now "\<lparr>nd_userId = ses_parentId x, nd_type = TIME_ENDED, nd_title = ''Screen Time Ended'', nd_message = r,
             nd_deviceId = Some (ses_deviceId x), nd_childId = Some (ses_childId x), nd_sessionId = Some (ses_id x)\<rparr>"]
    by (simp add: categoryActive_upsert_same) blast
qed

lemma expireSession_keeps:
  fixes C :: "'c cacheOps" and F :: fcm and now :: time and s :: "('c, 'z) gstore_scheme"
  assumes "findSession s (ses_id x) \<noteq> None" and "findDevice s (dev_id d) \<noteq> None"
  defines "s' \<equiv> snd (expireSession C F now (x, d) s)"
  shows "map ses_id (sessions s') = map ses_id (sessions s) \<and> map dev_id (devices s') = map dev_id (devices s) \<and>
    (\<forall>i. i \<noteq> ses_id x \<longrightarrow> findSession s' i = findSession s i) \<and>
    (\<forall>y. expiryDone now y s \<and> ses_id y \<noteq> ses_id x \<longrightarrow> expiryDone now y s') \<and>
    (\<forall>y. noticed now y s \<longrightarrow> noticed now y s')"
proof -
  obtain y where y: "findSession s (ses_id x) = Some y" using assms(1) by blast
  obtain s2 r dt where k: "kept (updateSession (ses_id x) (expiredSession now) s) s2"
    and e: "s' =
      auditLog now \<lparr>ad_userId = Some (ses_parentId x), ad_action = ''SESSION_EXPIRED'', ad_entity = ''session'',
          ad_entityId = Some (ses_id x), ad_details = Some dt, ad_ipAddress = None\<rparr>
        (notify F now \<lparr>nd_userId = ses_parentId x, nd_type = TIME_ENDED, nd_title = ''Screen Time Ended'', nd_message = r,
             nd_deviceId = Some (ses_deviceId x), nd_childId = Some (ses_childId x), nd_sessionId = Some (ses_id x)\<rparr>
          (upsertCategoryBlock (ses_childId x) GAMING True (Some (''Session '' @ ses_id x @ '' expired'')) s2))"
    unfolding s'_def using expireSession_eq [OF y assms(2)] .
  define s3 where "s3 = upsertCategoryBlock (ses_childId x) GAMING True (Some (''Session '' @ ses_id x @ '' expired'')) s2"
  have s3: "sessions s3 = sessions (updateSession (ses_id x) (expiredSession now) s)" "notifications s3 = notifications s"
    "map dev_id (devices s3) = map dev_id (devices s)" "set (auditLogs s) \<subseteq> set (auditLogs s3)"
    "\<And>c. categoryActive s c GAMING \<Longrightarrow> categoryActive s3 c GAMING"
    using k categoryActive_upsert_mono [of s2] by (auto simp: s3_def kept_def updateSession_def categoryActive_def)
  have o: "findSession s3 i = findSession s i" if "i \<noteq> ses_id x" for i
    using that by (simp add: s3(1))
  have "expiryDone now y s3" if "expiryDone now y s" "ses_id y \<noteq> ses_id x" for y
    using that s3(2,4,5) o [of "ses_id y"] unfolding expiryDone_def by auto
  moreover have "noticed now y s3" if "noticed now y s" for y
    using that s3(2) by (simp add: noticed_def)
  ultimately show ?thesis
    using o s3(1,3) unfolding e s3_def [symmetric]
    by (auto simp: updateSession_def intro!: expiryDone_notify noticeD kept_by_audit)
qed

lemma checkSession_step:
  fixes C :: "'c cacheOps" and F :: fcm and now :: time and s :: "('c, 'z) gstore_scheme"
  assumes "ses_id x \<in> ses_id ` set (sessions s)" and "dev_id d \<in> dev_id ` set (devices s)"
  defines "s' \<equiv> snd (checkSession C F now (x, d) s)"
  shows "map ses_id (sessions s') = map ses_id (sessions s)" "map dev_id (devices s') = map dev_id (devices s)"
    and "i \<noteq> ses_id x \<Longrightarrow> findSession s' i = findSession s i"
    and "expiryDone now y s \<Longrightarrow> ses_id y \<noteq> ses_id x \<Longrightarrow> expiryDone now y s'"
    and "noticed now y s \<Longrightarrow> noticed now y s'"
    and "0 < calculateRemainingMinutes now x \<Longrightarrow> sessions s' = sessions s"
    and "calculateRemainingMinutes now x \<le> 0 \<Longrightarrow> findSession s (ses_id x) = Some x \<Longrightarrow> expiryDone now x s'"
    and "0 < calculateRemainingMinutes now x \<Longrightarrow> calculateRemainingMinutes now x \<le> 10 \<Longrightarrow> noticed now x s'"
proof -
  have p: "findSession s (ses_id x) \<noteq> None" "findDevice s (dev_id d) \<noteq> None"
    using assms(1,2) by (simp_all add: tbl_simps image_iff)
  note k = expireSession_keeps [OF p, of C F now]
  have n: "noticed now x (notifyTenMinutesLeft F now x m s)" for m
    by (auto simp: notifyTenMinutesLeft_def intro: noticed_notify dest: findFirst_SomeD split: option.split)
      (auto simp: noticed_def dest: findFirst_SomeD)
  have t: "sessions (notifyTenMinutesLeft F now x m s) = sessions s" "devices (notifyTenMinutesLeft F now x m s) = devices s"
    "expiryDone now y s \<Longrightarrow> expiryDone now y (notifyTenMinutesLeft F now x m s)"
    "noticed now y s \<Longrightarrow> noticed now y (notifyTenMinutesLeft F now x m s)" for m y
    by (auto simp: notifyTenMinutesLeft_def intro: expiryDone_notify noticeD split: option.split)
  note defs = s'_def checkSession_def Let_def
  show "map ses_id (sessions s') = map ses_id (sessions s)" "map dev_id (devices s') = map dev_id (devices s)"
    "i \<noteq> ses_id x \<Longrightarrow> findSession s' i = findSession s i"
    "expiryDone now y s \<Longrightarrow> ses_id y \<noteq> ses_id x \<Longrightarrow> expiryDone now y s'"
    "noticed now y s \<Longrightarrow> noticed now y s'"
    using k t by (auto simp: defs)
  show "0 < calculateRemainingMinutes now x \<Longrightarrow> sessions s' = sessions s" using t by (auto simp: defs)
  show "calculateRemainingMinutes now x \<le> 0 \<Longrightarrow> findSession s (ses_id x) = Some x \<Longrightarrow> expiryDone now x s'"
    using expireSession_does [OF _ p(2), where x = x] by (simp add: defs)
  show "0 < calculateRemainingMinutes now x \<Longrightarrow> calculateRemainingMinutes now x \<le> 10 \<Longrightarrow> noticed now x s'"
    using n by (auto simp: defs)
qed

section \<open>Whole jobs\<close>

definition presentIn :: "'z store_scheme \<Rightarrow> (Session \<times> Device) list \<Rightarrow> bool" where
  "presentIn s work \<longleftrightarrow> (\<forall>(y, d) \<in> set work. ses_id y \<in> ses_id ` set (sessions s) \<and> dev_id d \<in> dev_id ` set (devices s))"

lemma presentIn_step:
  assumes "presentIn s ((x, d) # work)"
  shows "presentIn (snd (checkSession C F now (x, d) s)) work"
proof -
  have p: "ses_id x \<in> ses_id ` set (sessions s)" "dev_id d \<in> dev_id ` set (devices s)"
    using assms by (simp_all add: presentIn_def)
  have "ses_id ` set (sessions (snd (checkSession C F now (x, d) s))) = ses_id ` set (sessions s)"
    "dev_id ` set (devices (snd (checkSession C F now (x, d) s))) = dev_id ` set (devices s)"
    using checkSession_step(1,2) [OF p, where C = C and F = F and now = now] by (simp_all flip: set_map)
  with assms show ?thesis by (simp add: presentIn_def)
qed

lemma loop_keeps:
  assumes "presentIn s work" and "ses_id x \<notin> (ses_id \<circ> fst) ` set work"
  shows "findSession (forEachCatch (checkSession C F now) work s) (ses_id x) = findSession s (ses_id x) \<and>
    (expiryDone now x s \<longrightarrow> expiryDone now x (forEachCatch (checkSession C F now) work s)) \<and> (noticed now x s \<longrightarrow> noticed now x (forEachCatch (checkSession C F now) work s))"
  using assms(1,2)
proof (induction work arbitrary: s)
  case (Cons xd work)
  obtain y d where xd: "xd = (y, d)" by fastforce
  have p: "ses_id y \<in> ses_id ` set (sessions s)" "dev_id d \<in> dev_id ` set (devices s)"
    using Cons.prems(1) by (simp_all add: presentIn_def xd)
  note step = checkSession_step [OF p, where C = C and F = F and now = now]
  have "presentIn (snd (checkSession C F now xd s)) work"
    using presentIn_step Cons.prems(1) by (simp add: xd)
  then show ?case
    using Cons.IH [of "snd (checkSession C F now xd s)"] Cons.prems(2) step(3-5) by (simp add: xd)
qed simp

lemma loop_does:
  assumes "presentIn s work" and "distinct (map (ses_id \<circ> fst) work)" and "(x, d) \<in> set work"
    and "findSession s (ses_id x) = Some x"
  shows "(calculateRemainingMinutes now x \<le> 0 \<longrightarrow> expiryDone now x (forEachCatch (checkSession C F now) work s)) \<and>
    (0 < calculateRemainingMinutes now x \<longrightarrow> findSession (forEachCatch (checkSession C F now) work s) (ses_id x) = Some x) \<and>
    (0 < calculateRemainingMinutes now x \<and> calculateRemainingMinutes now x \<le> 10 \<longrightarrow> noticed now x (forEachCatch (checkSession C F now) work s))"
  using assms(1-4)
proof (induction work arbitrary: s)
  case (Cons yd work)
  obtain y e where yd: "yd = (y, e)" by fastforce
  let ?s1 = "snd (checkSession C F now (y, e) s)"
  have p: "ses_id y \<in> ses_id ` set (sessions s)" "dev_id e \<in> dev_id ` set (devices s)"
    using Cons.prems(1) by (simp_all add: presentIn_def yd)
  note step = checkSession_step [OF p, where C = C and F = F and now = now]
  have pr: "presentIn ?s1 work" using presentIn_step Cons.prems(1) by (simp add: yd)
  show ?case
  proof (cases "(x, d) = (y, e)")
    case True
    have n: "ses_id x \<notin> (ses_id \<circ> fst) ` set work" using Cons.prems(2) True by (simp add: yd)
    show ?thesis
      using loop_keeps [OF pr n, where C = C and F = F and now = now] step(6-8) Cons.prems(4) True by (auto simp: yd)
  next
    case False
    then have m: "(x, d) \<in> set work" using Cons.prems(3) by (auto simp: yd)
    then have "ses_id x \<noteq> ses_id y" using Cons.prems(2) by (force simp: yd)
    then have "findSession ?s1 (ses_id x) = Some x" using step(3) Cons.prems(4) by simp
    from Cons.IH [OF pr _ m this] Cons.prems(2) show ?thesis by (simp add: yd)
  qed
qed simp

lemma activeWithDevice_set:
  "(x, d) \<in> set (activeWithDevice s) \<longleftrightarrow>
     x \<in> set (sessions s) \<and> ses_status x = ACTIVE \<and> findDevice s (ses_deviceId x) = Some d"
  by (force simp: activeWithDevice_def List.map_filter_def image_iff)

lemma activeWithDevice_present: "presentIn s (activeWithDevice s)"
  by (auto simp: presentIn_def activeWithDevice_set dest!: findUnique_Some_iff)

lemma activeWithDevice_distinct:
  assumes "distinct (map ses_id (sessions s))"
  shows "distinct (map (ses_id \<circ> fst) (activeWithDevice s))"
proof -
  have "distinct (map (ses_id \<circ> fst) (List.map_filter (\<lambda>x. map_option (Pair x) (f x)) (findMany P xs))) \<and>
      set (map (ses_id \<circ> fst) (List.map_filter (\<lambda>x. map_option (Pair x) (f x)) (findMany P xs))) \<subseteq> ses_id ` set xs"
    if "distinct (map ses_id xs)" for P and f :: "Session \<Rightarrow> Device option" and xs
    using that by (induction xs) (auto simp: List.map_filter_simps split: option.split)
  with assms show ?thesis by (simp add: activeWithDevice_def)
qed

text \<open>A job that writes each device of its snapshot at most once writes the current row by the snapshot.\<close>

lemma forEach_update:
  fixes body :: "Device \<Rightarrow> 'z store_scheme \<Rightarrow> unit result \<times> 'z store_scheme"
  assumes "\<And>d s. devices (snd (body d s)) = updateMany (\<lambda>e. dev_id e = dev_id d) (g d) (devices s)"
    and "\<And>d e. dev_id (g d e) = dev_id e" and "distinct (map dev_id ds)"
  shows "findDevice (forEachCatch body ds s) i =
           (case findUnique dev_id i ds of None \<Rightarrow> findDevice s i | Some d \<Rightarrow> map_option (g d) (findDevice s i))"
  using assms(3)
proof (induction ds arbitrary: s)
  case (Cons d ds)
  then have "findUnique dev_id (dev_id d) ds = None" by (simp add: tbl_simps)
  with Cons show ?case using assms(1,2) by (auto simp: findUnique_updateMany split: option.split)
qed simp

lemma findUnique_findMany:
  "distinct (map key rows) \<Longrightarrow>
   findUnique key k (findMany P rows) = (case findUnique key k rows of None \<Rightarrow> None | Some r \<Rightarrow> if P r then Some r else None)"
  by (induction rows) (auto split: option.split simp: tbl_simps, metis findUnique_Some_iff image_eqI)

lemma distinct_findMany: "distinct (map key rows) \<Longrightarrow> distinct (map key (findMany P rows))"
  by (simp add: findMany_def distinct_map_filter)

lemma forEach_snapshot:
  fixes body :: "Device \<Rightarrow> 'z store_scheme \<Rightarrow> unit result \<times> 'z store_scheme"
  assumes "\<And>d s. devices (snd (body d s)) = updateMany (\<lambda>e. dev_id e = dev_id d) (g d) (devices s)"
    and "\<And>d e. dev_id (g d e) = dev_id e" and "distinct (map dev_id (devices s))"
  shows "findDevice (forEachCatch body (findMany P (devices s)) s) i =
           map_option (\<lambda>d. if P d then g d d else d) (findDevice s i)"
  unfolding forEach_update [where g = g, OF assms(1,2) distinct_findMany [OF assms(3)]]
  using findUnique_findMany [OF assms(3), where k = i and P = P] by (auto split: option.splits)

lemma forEach_ids:
  fixes body :: "Device \<Rightarrow> 'z store_scheme \<Rightarrow> unit result \<times> 'z store_scheme"
  assumes "\<And>d s. devices (snd (body d s)) = updateMany (\<lambda>e. dev_id e = dev_id d) (g d) (devices s)"
    and "\<And>d e. dev_id (g d e) = dev_id e"
  shows "map dev_id (devices (forEachCatch body ds s)) = map dev_id (devices s)"
  using assms by (induction ds arbitrary: s) simp_all

definition struck :: "time \<Rightarrow> Device \<Rightarrow> Device \<Rightarrow> Device" where
  "struck now snap d =
     d\<lparr>dev_protectionStatus := (if COMPROMISED_THRESHOLD \<le> dev_bypassAttempts snap + 1 then COMPROMISED else POSSIBLE_DNS_BYPASS),
       dev_bypassAttempts := dev_bypassAttempts snap + 1, dev_lastBypassDetectedAt := Some now\<rparr>"

lemma reportBypass_devices:
  "devices (snd (reportBypass F now d s)) = updateMany (\<lambda>e. dev_id e = dev_id d) (struck now d) (devices s)"
  "dev_id (struck now d e) = dev_id e"
  by (simp_all add: reportBypass_def Let_def updateDevice_def struck_def [abs_def])

lemma detectDnsBypass_devices:
  assumes "distinct (map dev_id (devices s))"
  shows "findDevice (detectDnsBypass F now s) i =
      map_option (\<lambda>d. if bypassSuspect now d then struck now d d else d) (findDevice s i)"
    and "map dev_id (devices (detectDnsBypass F now s)) = map dev_id (devices s)"
  unfolding detectDnsBypass_def
  using forEach_snapshot [where body = "reportBypass F now" and g = "struck now", OF reportBypass_devices assms]
    forEach_ids [where body = "reportBypass F now" and g = "struck now", OF reportBypass_devices]
  by blast+

section \<open>Bedtime\<close>

text \<open>A time of the day in the form HH:MM.\<close>

definition clockText :: "int \<Rightarrow> int \<Rightarrow> string" where
  "clockText h m = padStart2 (showInt h) @ '':'' @ padStart2 (showInt m)"

lemma numberOf_padded:
  assumes "0 \<le> h"
  shows "numberOf (padStart2 (showInt h)) = Some h" and "CHR '':'' \<notin> set (padStart2 (showInt h))"
proof -
  have d: "list_all isDigit (showInt h)" "showInt h \<noteq> []" "digitsVal (showInt h) = h"
    using assms showNat_digits [of "nat h"] digitsVal_showNat [of "nat h"] by (simp_all add: showInt_def)
  have z: "digitsVal (replicate n (CHR ''0'') @ ds) = digitsVal ds" for n ds
    by (induction n) (simp_all add: digitsVal_def digitVal_def)
  have p: "list_all isDigit (padStart2 (showInt h))"
    using d(1) by (auto simp: padStart2_def list_all_iff isDigit_def)
  then show "numberOf (padStart2 (showInt h)) = Some h"
    using d(2,3) by (simp add: numberOf_def padStart2_def z)
  show "CHR '':'' \<notin> set (padStart2 (showInt h))"
    using p by (auto simp: list_all_iff isDigit_def)
qed

lemma toMin_clockText: "0 \<le> h \<Longrightarrow> 0 \<le> m \<Longrightarrow> toMin (clockText h m) = Some (h * 60 + m)"
  by (simp add: toMin_def clockText_def splitOn_append splitOn_plain numberOf_padded)

lemma toMin_hhmm: "toMin (hhmm tz now) = Some (localMinutes tz now)"
proof -
  have "0 \<le> getHours tz now" "0 \<le> getMinutes tz now"
    using localMinutes_range [of tz now] by (simp_all add: getHours_def getMinutes_def pos_imp_zdiv_nonneg_iff)
  then show ?thesis
    using toMin_clockText [of "getHours tz now" "getMinutes tz now"] hours_minutes [of tz now]
    by (simp add: hhmm_def clockText_def)
qed

lemma mod_day: "- 1440 < k \<Longrightarrow> k < 1440 \<Longrightarrow> k mod 1440 = (if 0 \<le> k then k else k + 1440)" for k :: int
proof -
  assume k: "- 1440 < k" "k < 1440"
  show ?thesis
  proof (cases "0 \<le> k")
    case False
    then have "(k + 1440) mod 1440 = k + 1440" using k by (intro mod_pos_pos_trivial) simp_all
    then show ?thesis using False by simp
  qed (use k in simp)
qed

lemma inBedtime_circular:
  assumes "dev_bedtimeStart d = Some (clockText sh sm)" "dev_bedtimeEnd d = Some (clockText eh em)"
    and "0 \<le> sh" "sh < 24" "0 \<le> sm" "sm < 60" "0 \<le> eh" "eh < 24" "0 \<le> em" "em < 60"
  shows "inBedtime tz now d \<longleftrightarrow>
      (localMinutes tz now - (sh * 60 + sm)) mod 1440 < ((eh * 60 + em) - (sh * 60 + sm)) mod 1440"
proof -
  have "truthy (Some (clockText h m))" for h m by (simp add: clockText_def)
  then show ?thesis
    using assms localMinutes_range [of tz now]
    by (auto simp: inBedtime_def isWithinBedtime_def toMin_hhmm toMin_clockText mod_day)
qed

text \<open>What the schedule job makes of a device.\<close>

definition scheduled :: "int \<Rightarrow> time \<Rightarrow> Device \<Rightarrow> Device \<Rightarrow> Device" where
  "scheduled tz now snap d =
     (if inBedtime tz now snap \<and> \<not> dev_internetLocked snap
      then d\<lparr>dev_internetLocked := True, dev_blockingMode := FULL_INTERNET_LOCK,
             dev_internetLockedReason :=
               Some (''Bedtime '' @ showOpt (dev_bedtimeStart snap) @ ''-'' @ showOpt (dev_bedtimeEnd snap)),
             dev_internetLockedAt := Some now\<rparr>
      else if \<not> inBedtime tz now snap \<and> bedtimeLocked snap then unlockAfterBedtime d else d)"

lemma updateMany_id [simp]: "updateMany P (\<lambda>x. x) rows = rows"
  by (induction rows) simp_all

lemma applyDailyLimit_devices [simp]: "devices (applyDailyLimit tz now d s) = devices s"
  by (simp add: applyDailyLimit_def Let_def split: option.split)

lemma enforceSchedule_devices:
  "devices (snd (enforceSchedule tz now d s)) = updateMany (\<lambda>e. dev_id e = dev_id d) (scheduled tz now d) (devices s)"
  "dev_id (scheduled tz now d e) = dev_id e"
proof -
  consider "inBedtime tz now d \<and> \<not> dev_internetLocked d" | "\<not> inBedtime tz now d \<and> bedtimeLocked d"
    | "\<not> (inBedtime tz now d \<and> \<not> dev_internetLocked d)" "\<not> (\<not> inBedtime tz now d \<and> bedtimeLocked d)" by blast
  then show "devices (snd (enforceSchedule tz now d s)) = updateMany (\<lambda>e. dev_id e = dev_id d) (scheduled tz now d) (devices s)"
    by cases (simp_all only: enforceSchedule_def scheduled_def [abs_def] if_True if_False simp_thms Let_def snd_conv
        updateMany_id applyDailyLimit_devices bedtimeAudit_def auditLog_frame updateDevice_def, simp_all)
qed (simp add: scheduled_def unlockAfterBedtime_def)

lemma enforceDeviceSchedules_devices:
  assumes "distinct (map dev_id (devices s))"
  shows "findDevice (enforceDeviceSchedules tz now s) i =
      map_option (\<lambda>d. if dev_autoBlockEnabled d then scheduled tz now d d else d) (findDevice s i)"
  unfolding enforceDeviceSchedules_def
  by (rule forEach_snapshot [where g = "scheduled tz now", OF enforceSchedule_devices assms])

section \<open>Properties\<close>

text \<open>C13: Time limits are enforced every minute. When the session job runs, every active session whose
  time is up becomes EXPIRED with no minutes left, its child's GAMING category is blocked, the parent is
  notified and the audit log has the expiry; every active session with time left stays exactly as it
  is, and one with at most ten minutes left has a ten-minute notice younger than ten minutes.\<close>
theorem checkActiveSessions_enforces:
  assumes "distinct (map ses_id (sessions s))" and "x \<in> set (sessions s)" "ses_status x = ACTIVE"
    and "findDevice s (ses_deviceId x) \<noteq> None"
  shows "(calculateRemainingMinutes now x \<le> 0 \<longrightarrow> expiryDone now x (checkActiveSessions C F now s)) \<and>
    (0 < calculateRemainingMinutes now x \<longrightarrow> findSession (checkActiveSessions C F now s) (ses_id x) = Some x) \<and>
    (0 < calculateRemainingMinutes now x \<and> calculateRemainingMinutes now x \<le> 10 \<longrightarrow>
       noticed now x (checkActiveSessions C F now s))"
proof -
  obtain d where d: "findDevice s (ses_deviceId x) = Some d" using assms(4) by blast
  have "(x, d) \<in> set (activeWithDevice s)" using assms(2,3) d by (simp add: activeWithDevice_set)
  from loop_does [OF activeWithDevice_present activeWithDevice_distinct [OF assms(1)] this
      findUnique_distinct [OF assms(1,2)]]
  show ?thesis by (simp add: checkActiveSessions_def)
qed

definition expiringStore :: "mapStore gstore" where
  "expiringStore = dnsStore\<lparr>sessions := [newSession 0 ''x'' ''d'' ''c'' ''p'' 30]\<rparr>"

theorem checkActiveSessions_enforces_witness:
  "expiryDone 1800000 (newSession 0 ''x'' ''d'' ''c'' ''p'' 30) (checkActiveSessions mapCache flakyFcm 1800000 expiringStore)"
proof -
  have t: "sessions expiringStore = [newSession 0 ''x'' ''d'' ''c'' ''p'' 30]"
    "devices expiringStore = [bareDevice ''d'' ''p'' ''c'']"
    by (simp_all add: expiringStore_def dnsStore_tables)
  have r: "calculateRemainingMinutes 1800000 (newSession 0 ''x'' ''d'' ''c'' ''p'' 30) = 0"
    by (simp add: calculateRemainingMinutes_def newSession_def calculateElapsedMinutes_def)
  show ?thesis
    using checkActiveSessions_enforces [where s = expiringStore and x = "newSession 0 ''x'' ''d'' ''c'' ''p'' 30" and
        C = mapCache and F = flakyFcm and now = 1800000] r
    by (simp add: t newSession_def bareDevice_def)
qed

text \<open>Three strikes. When a locked device stays silent on DNS, each run of the bypass job counts one
  attempt, up to three; the device is COMPROMISED from the third on, is not counted again after that,
  and is marked as a possible bypass before.\<close>
theorem bypass_three_strikes:
  assumes "distinct (map dev_id (devices s))" and "findDevice s i = Some d"
    and "dev_bypassAttempts d = 0" and "\<And>t. t \<in> set ts \<Longrightarrow> bypassSuspect t d" and "ts \<noteq> []"
  shows "\<exists>e. findDevice (fold (detectDnsBypass F) ts s) i = Some e \<and>
      dev_bypassAttempts e = min 3 (int (length ts)) \<and>
      dev_protectionStatus e = (if 3 \<le> length ts then COMPROMISED else POSSIBLE_DNS_BYPASS)"
proof -
  define same where "same e = (dev_internetLocked e = dev_internetLocked d \<and> dev_lastDnsSeenAt e = dev_lastDnsSeenAt d \<and>
      dev_internetLockedAt e = dev_internetLockedAt d)" for e :: Device
  have "distinct (map dev_id (devices (fold (detectDnsBypass F) us s))) \<and>
      (\<exists>e. findDevice (fold (detectDnsBypass F) us s) i = Some e \<and> same e \<and>
      dev_bypassAttempts e = min 3 (int (length us)) \<and>
      dev_protectionStatus e = (if us = [] then dev_protectionStatus d
        else if 3 \<le> length us then COMPROMISED else POSSIBLE_DNS_BYPASS))"
    if "set us \<subseteq> set ts" for us
    using that
  proof (induction us rule: rev_induct)
    case Nil
    show ?case using assms(1-3) by (simp add: same_def)
  next
    case (snoc t us)
    let ?s = "fold (detectDnsBypass F) us s"
    obtain e where e: "findDevice ?s i = Some e" "same e" "dev_bypassAttempts e = min 3 (int (length us))"
      "dev_protectionStatus e = (if us = [] then dev_protectionStatus d
        else if 3 \<le> length us then COMPROMISED else POSSIBLE_DNS_BYPASS)"
      and dist: "distinct (map dev_id (devices ?s))"
      using snoc by auto
    have "bypassSuspect t d" using assms(4) snoc.prems by auto
    then have "bypassSuspect t e \<longleftrightarrow> length us < 3"
      using e(2,4) by (auto simp: bypassSuspect_def same_def Let_def)
    with e detectDnsBypass_devices [OF dist, where F = F and now = t] dist show ?case
      by (auto simp: struck_def same_def COMPROMISED_THRESHOLD_def)
  qed
  from this [of ts] show ?thesis using assms(5) by auto
qed

definition silentStore :: "mapStore gstore" where
  "silentStore = dnsStore\<lparr>devices := [(bareDevice ''d'' ''p'' ''c'')\<lparr>dev_internetLocked := True, dev_internetLockedAt := Some 0\<rparr>]\<rparr>"

theorem bypass_three_strikes_witness:
  "\<exists>e. findDevice (fold (detectDnsBypass flakyFcm) [700000, 1000000, 1300000, 1600000] silentStore) ''d'' = Some e \<and>
       dev_bypassAttempts e = 3 \<and> dev_protectionStatus e = COMPROMISED"
proof -
  let ?d = "(bareDevice ''d'' ''p'' ''c'')\<lparr>dev_internetLocked := True, dev_internetLockedAt := Some 0\<rparr>"
  have "distinct (map dev_id (devices silentStore))" "findDevice silentStore ''d'' = Some ?d" "dev_bypassAttempts ?d = 0"
    by (simp_all add: silentStore_def bareDevice_def)
  moreover have "bypassSuspect t ?d" if "t \<in> set [700000, 1000000, 1300000, 1600000]" for t
    using that by (auto simp: bypassSuspect_def STALE_THRESHOLD_MIN_def bareDevice_def)
  ultimately show ?thesis
    using bypass_three_strikes [of silentStore "''d''" ?d "[700000, 1000000, 1300000, 1600000]" flakyFcm] by simp
qed

text \<open>Bedtime is a clock interval, also across midnight. For a device with automatic blocking and
  a bedtime from \<open>sh:sm\<close> to \<open>eh:em\<close>, a run of the schedule job leaves the device locked when the minutes
  elapsed since the start of bedtime (around the clock) are fewer than its length, and otherwise
  lifts exactly the locks whose reason starts with "Bedtime".\<close>
theorem bedtime_enforced:
  assumes "distinct (map dev_id (devices s))" and "findDevice s i = Some d" and "dev_autoBlockEnabled d"
    and "dev_bedtimeStart d = Some (clockText sh sm)" "dev_bedtimeEnd d = Some (clockText eh em)"
    and "0 \<le> sh" "sh < 24" "0 \<le> sm" "sm < 60" "0 \<le> eh" "eh < 24" "0 \<le> em" "em < 60"
  shows "\<exists>e. findDevice (enforceDeviceSchedules tz now s) i = Some e \<and>
      (if (localMinutes tz now - (sh * 60 + sm)) mod 1440 < ((eh * 60 + em) - (sh * 60 + sm)) mod 1440
       then dev_internetLocked e
       else dev_internetLocked e = (dev_internetLocked d \<and> \<not> bedtimeLocked d))"
proof -
  note b = inBedtime_circular [OF assms(4-), of tz now]
  have "findDevice (enforceDeviceSchedules tz now s) i = Some (scheduled tz now d d)"
    using enforceDeviceSchedules_devices [OF assms(1), where tz = tz and now = now and i = i] assms(2,3) by simp
  then show ?thesis unfolding b [symmetric] by (auto simp: scheduled_def unlockAfterBedtime_def bedtimeLocked_def)
qed

definition bedtimeStore :: "mapStore gstore" where
  "bedtimeStore = dnsStore\<lparr>devices := [(bareDevice ''d'' ''p'' ''c'')
     \<lparr>dev_autoBlockEnabled := True, dev_bedtimeStart := Some (clockText 21 30), dev_bedtimeEnd := Some (clockText 7 0)\<rparr>]\<rparr>"

theorem bedtime_enforced_witness:
  "\<exists>e. findDevice (enforceDeviceSchedules 0 82800000 bedtimeStore) ''d'' = Some e \<and> dev_internetLocked e"
proof -
  let ?d = "(bareDevice ''d'' ''p'' ''c'')
     \<lparr>dev_autoBlockEnabled := True, dev_bedtimeStart := Some (clockText 21 30), dev_bedtimeEnd := Some (clockText 7 0)\<rparr>"
  have "distinct (map dev_id (devices bedtimeStore))" "findDevice bedtimeStore ''d'' = Some ?d" "dev_autoBlockEnabled ?d"
    "dev_bedtimeStart ?d = Some (clockText 21 30)" "dev_bedtimeEnd ?d = Some (clockText 7 0)"
    by (simp_all add: bedtimeStore_def bareDevice_def)
  from bedtime_enforced [OF this, of 0 82800000] show ?thesis
    by (simp add: localMinutes_def msPerDay_def msPerMinute_def)
qed

end
