(* ===== verification/Protection.thy ===== *)
theory Protection
  imports Scheduler Family
begin

text \<open>
  Protection score, insights and schedules of a device (\<^verbatim>\<open>protection.service.ts\<close>, \<^verbatim>\<open>schedule.dto.ts\<close>).
  \<open>validSchedule\<close> is what the validation pipe admits. A field of the schedule is \<open>None\<close> when it is left
  out, \<open>Some None\<close> when it is \<^verbatim>\<open>null\<close>. The ties of the domain ranking are in the order of the first query.
\<close>

section \<open>Operations\<close>

datatype ProtectionLevel = HIGH | MEDIUM | LOW

record ProtectionScoreResult =
  psr_score :: int
  psr_level :: ProtectionLevel
  psr_breakdown :: "(string \<times> int) list"

definition dnsScore :: "time \<Rightarrow> Device \<Rightarrow> int" where
  "dnsScore now d =
     (if dev_dnsConfigured d then 10 else 0) +
     (case dev_lastDnsSeenAt d of
        None \<Rightarrow> 0
      | Some t \<Rightarrow>
          if now - t \<le> 10 * 60000 then 20
          else if now - t \<le> 60 * 60000 then 10
          else if now - t \<le> 24 * 60 * 60000 then 5 else 0)"

definition lockScore :: "Device \<Rightarrow> int" where
  "lockScore d = (if dev_internetLocked d then 15 else if dev_blockingMode d = GAMING_ONLY then 10 else 0)"

text \<open>\<^verbatim>\<open>Math.round((checklistDone / 6) * 15)\<close> is exact to the nearest integer on the counts 0 to 6.\<close>

definition offlineScore :: "Device \<Rightarrow> OfflineControlChecklist option \<Rightarrow> int" where
  "offlineScore d cl =
     (if dev_offlineSetupVerified d then 15 else if dev_offlineControlEnabled d then 8 else 0) +
     roundDiv (int (completedCount cl) * 15) 6"

definition bypassScore :: "Device \<Rightarrow> int" where
  "bypassScore d =
     (let base = (if dev_protectionStatus d = COMPROMISED then 0
                  else if dev_protectionStatus d = POSSIBLE_DNS_BYPASS then 25 - 10 else 25)
      in max 0 (base - min 20 (dev_bypassAttempts d * 3)))"

definition levelOf :: "int \<Rightarrow> ProtectionLevel" where
  "levelOf score = (if 80 \<le> score then HIGH else if 50 \<le> score then MEDIUM else LOW)"

definition calculateProtectionScore ::
  "time \<Rightarrow> ident \<Rightarrow> 'z store_scheme \<Rightarrow> ProtectionScoreResult result \<times> 'z store_scheme" where
  "calculateProtectionScore now deviceId s =
     (case findDevice s deviceId of
        None \<Rightarrow> (Inl (NotFoundException ''Device not found''), s)
      | Some d \<Rightarrow>
          (let cl = findUnique ocl_deviceId deviceId (checklists s);
               score = max 0 (min 100 (dnsScore now d + lockScore d + offlineScore d cl + bypassScore d))
           in (Inr \<lparr>psr_score = score, psr_level = levelOf score,
                    psr_breakdown = [(''dnsVisibility'', dnsScore now d), (''lockState'', lockScore d),
                      (''offlineSetup'', offlineScore d cl), (''bypassHistory'', bypassScore d)]\<rparr>,
               updateDevice deviceId (\<lambda>d. d\<lparr>dev_protectionScore := score\<rparr>) s)))"

definition getProtectionScore ::
  "time \<Rightarrow> ident \<Rightarrow> ident \<Rightarrow> 'z store_scheme \<Rightarrow> ProtectionScoreResult result \<times> 'z store_scheme" where
  "getProtectionScore now parentId deviceId s =
     (case ownDevice parentId deviceId s of
        Inl e \<Rightarrow> (Inl e, s)
      | Inr _ \<Rightarrow> calculateProtectionScore now deviceId s)"

record Insights =
  ins_deviceId :: ident
  ins_protectionScore :: int
  ins_protectionLevel :: ProtectionLevel
  ins_breakdown :: "(string \<times> int) list"
  ins_protectionStatus :: ProtectionStatus
  ins_lastDnsSeenAt :: "time option"
  ins_bypassAttempts :: int
  ins_lastBypassDetectedAt :: "time option"
  ins_checklistCompletedCount :: nat
  ins_topDomains :: "(string \<times> int) list"
  ins_recommendations :: "string list"

text \<open>\<^verbatim>\<open>groupBy\<close> the domain with its count.\<close>

definition groupByDomain :: "DnsQueryLog list \<Rightarrow> (string \<times> int) list" where
  "groupByDomain ls =
     map (\<lambda>w. (w, int (length (filter (\<lambda>l. dql_domain l = w) ls)))) (rev (remdups (rev (map dql_domain ls))))"

definition topDomains :: "time \<Rightarrow> Device \<Rightarrow> 'z store_scheme \<Rightarrow> (string \<times> int) list" where
  "topDomains now d s =
     (let ips = filter truthy [dev_ipAddress d, dev_dnsSourceIp d] in
      if ips = [] then []
      else take 10 (orderByDesc snd (groupByDomain
             (findMany (\<lambda>l. Some (dql_sourceIp l) \<in> set ips \<and> now - 7 * 24 * 60 * 60000 \<le> dql_createdAt l) (dnsQueryLogs s)))))"

definition insightRecommendations :: "Device \<Rightarrow> nat \<Rightarrow> ProtectionLevel \<Rightarrow> string list" where
  "insightRecommendations d done' level =
     (let rs =
        (if \<not> dev_dnsConfigured d then [''Configure DNS at the router so this device cannot bypass filtering.''] else []) @
        (if \<not> dev_offlineControlEnabled d then [''Open the offline-control setup guide and complete vendor steps.''] else []) @
        (if done' < 4 then [''Continue the offline-control checklist (PIN, child account, play-time, age '' @ ''rating).''] else []) @
        (if dev_protectionStatus d = POSSIBLE_DNS_BYPASS
         then [''Possible DNS bypass: re-check the device DNS settings.''] else []) @
        (if dev_protectionStatus d = COMPROMISED
         then [''Device flagged COMPROMISED: lock the network settings and verify the router DNS.''] else []) @
        (if \<not> dev_internetLocked d \<and> level = LOW then [''Consider FULL INTERNET LOCK while the score is low.''] else [])
      in if rs = [] then [''All signals look healthy. Keep monitoring.''] else rs)"

definition getInsights :: "time \<Rightarrow> ident \<Rightarrow> ident \<Rightarrow> 'z store_scheme \<Rightarrow> Insights result \<times> 'z store_scheme" where
  "getInsights now parentId deviceId s =
     (case ownDevice parentId deviceId s of
        Inl e \<Rightarrow> (Inl e, s)
      | Inr device \<Rightarrow>
          (case calculateProtectionScore now deviceId s of
             (Inl e, s1) \<Rightarrow> (Inl e, s1)
           | (Inr r, s1) \<Rightarrow>
               (let n = completedCount (findUnique ocl_deviceId deviceId (checklists s1)) in
                (Inr \<lparr>ins_deviceId = dev_id device, ins_protectionScore = psr_score r, ins_protectionLevel = psr_level r,
                      ins_breakdown = psr_breakdown r, ins_protectionStatus = dev_protectionStatus device,
                      ins_lastDnsSeenAt = dev_lastDnsSeenAt device, ins_bypassAttempts = dev_bypassAttempts device,
                      ins_lastBypassDetectedAt = dev_lastBypassDetectedAt device, ins_checklistCompletedCount = n,
                      ins_topDomains = topDomains now device s1,
                      ins_recommendations = insightRecommendations device n (psr_level r)\<rparr>, s1))))"

record UpsertScheduleDto =
  usd_dailyLimitMinutes :: "int option option"
  usd_bedtimeStart :: "string option option"
  usd_bedtimeEnd :: "string option option"
  usd_autoBlockEnabled :: "bool option"

text \<open>The pattern \<^verbatim>\<open>^([01]\d|2[0-3]):[0-5]\d$\<close>.\<close>

definition HHMM :: "string \<Rightarrow> bool" where
  "HHMM w =
     (case w of
        [a, b, c, d, e] \<Rightarrow>
          c = CHR '':'' \<and> isDigit b \<and> isDigit e \<and> d \<in> set ''012345'' \<and>
          (a \<in> set ''01'' \<or> (a = CHR ''2'' \<and> b \<in> set ''0123''))
      | _ \<Rightarrow> False)"

definition validSchedule :: "UpsertScheduleDto \<Rightarrow> bool" where
  "validSchedule dto \<longleftrightarrow>
     (case usd_dailyLimitMinutes dto of Some (Some m) \<Rightarrow> 0 \<le> m \<and> m \<le> 1440 | _ \<Rightarrow> True) \<and>
     (case usd_bedtimeStart dto of Some (Some w) \<Rightarrow> HHMM w | _ \<Rightarrow> True) \<and>
     (case usd_bedtimeEnd dto of Some (Some w) \<Rightarrow> HHMM w | _ \<Rightarrow> True)"

definition applySchedule :: "UpsertScheduleDto \<Rightarrow> Device \<Rightarrow> Device" where
  "applySchedule dto d =
     d\<lparr>dev_dailyLimitMinutes := patch (usd_dailyLimitMinutes dto) (dev_dailyLimitMinutes d),
       dev_bedtimeStart := patch (usd_bedtimeStart dto) (dev_bedtimeStart d),
       dev_bedtimeEnd := patch (usd_bedtimeEnd dto) (dev_bedtimeEnd d),
       dev_autoBlockEnabled := patch (usd_autoBlockEnabled dto) (dev_autoBlockEnabled d)\<rparr>"

definition upsertSchedule ::
  "ident \<Rightarrow> ident \<Rightarrow> UpsertScheduleDto \<Rightarrow> 'z store_scheme \<Rightarrow> Device result \<times> 'z store_scheme" where
  "upsertSchedule parentId deviceId dto s =
     (case ownDevice parentId deviceId s of
        Inl e \<Rightarrow> (Inl e, s)
      | Inr d \<Rightarrow> (Inr (applySchedule dto d), updateDevice deviceId (applySchedule dto) s))"

record Schedule =
  sch_deviceId :: ident
  sch_dailyLimitMinutes :: "int option"
  sch_bedtimeStart :: "string option"
  sch_bedtimeEnd :: "string option"
  sch_autoBlockEnabled :: bool

definition getSchedule :: "ident \<Rightarrow> ident \<Rightarrow> 'z store_scheme \<Rightarrow> Schedule result" where
  "getSchedule parentId deviceId s =
     map_sum id (\<lambda>d. \<lparr>sch_deviceId = dev_id d, sch_dailyLimitMinutes = dev_dailyLimitMinutes d,
       sch_bedtimeStart = dev_bedtimeStart d, sch_bedtimeEnd = dev_bedtimeEnd d,
       sch_autoBlockEnabled = dev_autoBlockEnabled d\<rparr>) (ownDevice parentId deviceId s)"

interpretation schedule_guard: owner_guarded findDevice dev_parentId "''Device not found''" "''Not your device''"
  "\<lambda>i p. upsertSchedule p i dto" for dto
  by unfold_locales (simp add: upsertSchedule_def ownDevice_def)

interpretation score_guard: owner_guarded findDevice dev_parentId "''Device not found''" "''Not your device''"
  "\<lambda>i p. getProtectionScore now p i" for now
  by unfold_locales (simp add: getProtectionScore_def ownDevice_def)

interpretation insights_guard: owner_guarded findDevice dev_parentId "''Device not found''" "''Not your device''"
  "\<lambda>i p. getInsights now p i" for now
  by unfold_locales (simp add: getInsights_def ownDevice_def)

section \<open>The parts of the score\<close>

lemma completedCount_le: "completedCount cl \<le> 6"
  by (cases cl) (simp_all add: completedCount_def checklistFlags_def)

lemma score_parts:
  "0 \<le> dnsScore now d \<and> dnsScore now d \<le> 30" "0 \<le> lockScore d \<and> lockScore d \<le> 15"
  "0 \<le> offlineScore d cl \<and> offlineScore d cl \<le> 30" "0 \<le> dev_bypassAttempts d \<Longrightarrow> 0 \<le> bypassScore d \<and> bypassScore d \<le> 25"
proof -
  have "0 \<le> roundDiv (int (completedCount cl) * 15) 6 \<and> roundDiv (int (completedCount cl) * 15) 6 \<le> 15"
    using completedCount_le [of cl] by (intro roundDiv_bounds) simp_all
  then show "0 \<le> offlineScore d cl \<and> offlineScore d cl \<le> 30" by (simp add: offlineScore_def)
  show "0 \<le> dnsScore now d \<and> dnsScore now d \<le> 30" by (simp add: dnsScore_def split: option.split)
  show "0 \<le> lockScore d \<and> lockScore d \<le> 15" by (simp add: lockScore_def)
  show "0 \<le> dev_bypassAttempts d \<Longrightarrow> 0 \<le> bypassScore d \<and> bypassScore d \<le> 25" by (auto simp: bypassScore_def Let_def min_def)
qed

section \<open>Validated bedtimes are clock times\<close>

lemma isDigit_iff: "isDigit c \<longleftrightarrow> c \<in> set ''0123456789''"
proof
  assume "isDigit c"
  then have "48 \<le> (of_char c :: nat)" "(of_char c :: nat) < 58" by (simp_all add: isDigit_def)
  then have "(of_char c :: nat) \<in> set [48..<58]" by (simp only: set_upt atLeastLessThan_iff)
  then have "char_of (of_char c :: nat) \<in> char_of ` set [48..<58]" by blast
  moreover have "(char_of :: nat \<Rightarrow> char) ` set [48..<58] = set ''0123456789''" by code_simp
  ultimately show "c \<in> set ''0123456789''" by (simp only: char_of_char)
qed (auto simp: isDigit_def)

lemma hour_texts:
  "list_all (\<lambda>a. list_all (\<lambda>b. a \<in> set ''01'' \<or> b \<in> set ''0123'' \<longrightarrow>
     [a, b] \<in> set (map (\<lambda>h. padStart2 (showInt h)) [0..23])) ''0123456789'') ''012''"
  by code_simp

lemma minute_texts:
  "list_all (\<lambda>a. list_all (\<lambda>b. [a, b] \<in> set (map (\<lambda>h. padStart2 (showInt h)) [0..59])) ''0123456789'') ''012345''"
  by code_simp

lemma HHMM_clockText:
  assumes "HHMM w"
  obtains h m where "w = clockText h m" "0 \<le> h" "h < 24" "0 \<le> m" "m < 60"
proof -
  obtain a b d e where w: "w = [a, b, CHR '':'', d, e]" and be: "isDigit b" "isDigit e" and d: "d \<in> set ''012345''"
    and a: "a \<in> set ''01'' \<or> (a = CHR ''2'' \<and> b \<in> set ''0123'')"
    using assms by (auto simp: HHMM_def split: list.splits)
  have "[a, b] \<in> set (map (\<lambda>h. padStart2 (showInt h)) [0..23])"
    using hour_texts a be(1) unfolding list_all_iff isDigit_iff by auto
  then obtain h where h: "0 \<le> h" "h < 24" "[a, b] = padStart2 (showInt h)" by auto
  have "[d, e] \<in> set (map (\<lambda>h. padStart2 (showInt h)) [0..59])"
    using minute_texts d be(2) unfolding list_all_iff isDigit_iff by blast
  then obtain m where m: "0 \<le> m" "m < 60" "[d, e] = padStart2 (showInt m)" by auto
  have "w = clockText h m" unfolding clockText_def h(3) [symmetric] m(3) [symmetric] by (simp add: w)
  with h m that show ?thesis by blast
qed

section \<open>Properties\<close>

text \<open>The protection score is the sum of its four parts, which lie in 0-30, 0-15, 0-30 and 0-25, so it
  is between 0 and 100 without clamping; the level is its band, and computing it changes nothing but
  the stored score of the device.\<close>
theorem protection_score_sound:
  assumes "calculateProtectionScore now i s = (Inr r, s')" and "\<And>d. d \<in> set (devices s) \<Longrightarrow> 0 \<le> dev_bypassAttempts d"
  shows "0 \<le> psr_score r \<and> psr_score r \<le> 100 \<and> psr_score r = sum_list (map snd (psr_breakdown r)) \<and>
    (psr_level r = HIGH \<longleftrightarrow> 80 \<le> psr_score r) \<and> (psr_level r = LOW \<longleftrightarrow> psr_score r < 50) \<and>
    s' = updateDevice i (\<lambda>d. d\<lparr>dev_protectionScore := psr_score r\<rparr>) s"
proof -
  obtain d where d: "findDevice s i = Some d"
    using assms(1) by (auto simp: calculateProtectionScore_def split: option.splits)
  then have "0 \<le> dev_bypassAttempts d" using assms(2) findUnique_Some_iff by fastforce
  define total where "total = dnsScore now d + lockScore d + offlineScore d (findUnique ocl_deviceId i (checklists s)) + bypassScore d"
  have "0 \<le> total" "total \<le> 100"
    using \<open>0 \<le> dev_bypassAttempts d\<close> score_parts(1) [of now d] score_parts(2) [of d] score_parts(4) [of d]
      score_parts(3) [of d "findUnique ocl_deviceId i (checklists s)"] unfolding total_def by linarith+
  then have "max 0 (min 100 total) = total" by simp
  with assms(1) d have r: "psr_score r = total" "psr_level r = levelOf total" "sum_list (map snd (psr_breakdown r)) = total"
    "s' = updateDevice i (\<lambda>d. d\<lparr>dev_protectionScore := total\<rparr>) s"
    by (auto simp: calculateProtectionScore_def Let_def simp flip: total_def) (simp add: total_def)
  with \<open>0 \<le> total\<close> \<open>total \<le> 100\<close> show ?thesis by (simp add: levelOf_def)
qed

theorem protection_score_sound_witness:
  "\<exists>r s'. calculateProtectionScore 0 ''d'' demoStore = (Inr r, s') \<and> psr_score r = 35 \<and>
     psr_score r = sum_list (map snd (psr_breakdown r))"
proof -
  obtain r s' where e: "calculateProtectionScore 0 ''d'' demoStore = (Inr r, s')" and r: "psr_score r = 35"
    by (simp add: calculateProtectionScore_def demoStore_def emptyStore_def bareDevice_def Let_def dnsScore_def
        lockScore_def offlineScore_def bypassScore_def completedCount_def roundDiv_def)
  have "0 \<le> dev_bypassAttempts d" if "d \<in> set (devices demoStore)" for d
    using that by (simp add: demoStore_def bareDevice_def)
  with e r protection_score_sound [OF e] show ?thesis by blast
qed

text \<open>A bedtime that a parent sets is enforced. When a validated schedule with both ends and automatic
  blocking is accepted, the parent owns the device, reading the schedule back gives it, and whenever
  the job then runs inside the bedtime, the device is locked.\<close>
theorem schedule_enforced:
  assumes "upsertSchedule p i dto s = (Inr d', s')" and "validSchedule dto" and "distinct (map dev_id (devices s))"
    and "usd_bedtimeStart dto = Some (Some a)" "usd_bedtimeEnd dto = Some (Some b)" "usd_autoBlockEnabled dto = Some True"
  shows "\<exists>st en. toMin a = Some st \<and> toMin b = Some en \<and> 0 \<le> st \<and> st < 1440 \<and> 0 \<le> en \<and> en < 1440 \<and>
    (\<exists>sch. getSchedule p i s' = Inr sch \<and> sch_bedtimeStart sch = Some a \<and> sch_bedtimeEnd sch = Some b \<and> sch_autoBlockEnabled sch) \<and>
    ((localMinutes tz now - st) mod 1440 < (en - st) mod 1440 \<longrightarrow>
       (\<exists>e. findDevice (enforceDeviceSchedules tz now s') i = Some e \<and> dev_parentId e = p \<and> dev_internetLocked e))"
proof -
  obtain sh sm where a: "a = clockText sh sm" "0 \<le> sh" "sh < 24" "0 \<le> sm" "sm < 60"
    using assms(2,4) by (auto simp: validSchedule_def elim: HHMM_clockText)
  obtain eh em where b: "b = clockText eh em" "0 \<le> eh" "eh < 24" "0 \<le> em" "em < 60"
    using assms(2,5) by (auto simp: validSchedule_def elim: HHMM_clockText)
  obtain d where d: "findDevice s i = Some d" "dev_parentId d = p" and s': "s' = updateDevice i (applySchedule dto) s"
    using assms(1) by (auto simp: upsertSchedule_def ownDevice_Inr split: sum.splits)
  let ?e = "applySchedule dto d"
  have e: "findDevice s' i = Some ?e" using d(1) s' by (simp add: applySchedule_def)
  have f: "dev_parentId ?e = p" "dev_autoBlockEnabled ?e" "dev_bedtimeStart ?e = Some a" "dev_bedtimeEnd ?e = Some b"
    using assms(4-6) d(2) by (simp_all add: applySchedule_def)
  have dist: "distinct (map dev_id (devices s'))"
    using assms(3) by (simp add: s' updateDevice_def applySchedule_def)
  have "ownDevice p i s' = Inr ?e" using e f(1) by (simp add: ownDevice_Inr)
  then have g: "\<exists>sch. getSchedule p i s' = Inr sch \<and> sch_bedtimeStart sch = Some a \<and> sch_bedtimeEnd sch = Some b \<and> sch_autoBlockEnabled sch"
    using f by (simp add: getSchedule_def)
  have "\<exists>e. findDevice (enforceDeviceSchedules tz now s') i = Some e \<and> dev_parentId e = p \<and> dev_internetLocked e"
    if "(localMinutes tz now - (sh * 60 + sm)) mod 1440 < ((eh * 60 + em) - (sh * 60 + sm)) mod 1440"
  proof -
    have "inBedtime tz now ?e"
      using inBedtime_circular [OF f(3,4) [unfolded a(1) b(1)] a(2-) b(2-), of tz now] that by simp
    then show ?thesis
      using enforceDeviceSchedules_devices [OF dist, where tz = tz and now = now and i = i] e f
      by (auto simp: scheduled_def)
  qed
  with g a b show ?thesis
    by (intro exI [of _ "sh * 60 + sm"] exI [of _ "eh * 60 + em"]) (simp add: toMin_clockText)
qed

theorem schedule_enforced_witness:
  "\<exists>e. findDevice (enforceDeviceSchedules 0 82800000 (snd (upsertSchedule ''p'' ''d''
      \<lparr>usd_dailyLimitMinutes = None, usd_bedtimeStart = Some (Some ''21:30''), usd_bedtimeEnd = Some (Some ''07:00''),
       usd_autoBlockEnabled = Some True\<rparr> demoStore))) ''d'' = Some e \<and> dev_parentId e = ''p'' \<and> dev_internetLocked e"
proof -
  let ?dto = "\<lparr>usd_dailyLimitMinutes = None, usd_bedtimeStart = Some (Some ''21:30''), usd_bedtimeEnd = Some (Some ''07:00''),
       usd_autoBlockEnabled = Some True\<rparr>"
  have d: "devices demoStore = [bareDevice ''d'' ''p'' ''c'']" by (simp add: demoStore_def)
  have u: "upsertSchedule ''p'' ''d'' ?dto demoStore =
      (Inr (applySchedule ?dto (bareDevice ''d'' ''p'' ''c'')), snd (upsertSchedule ''p'' ''d'' ?dto demoStore))"
    by (simp add: upsertSchedule_def ownDevice_def d owned_def) (simp add: bareDevice_def)
  have v: "validSchedule ?dto" by (simp add: validSchedule_def HHMM_def isDigit_iff)
  have m: "toMin ''21:30'' = Some 1290" "toMin ''07:00'' = Some 420" by code_simp+
  have "distinct (map dev_id (devices demoStore))" by (simp add: d)
  from schedule_enforced [OF u v this, of "''21:30''" "''07:00''" 0 82800000] m show ?thesis
    by (simp add: localMinutes_def msPerDay_def msPerMinute_def)
qed

end
