(* ===== verification/Pairing.thy ===== *)
theory Pairing
  imports Dns_Policy Notify
begin

text \<open>
  The DNS pairing handshake: \<^verbatim>\<open>pairing.service.ts\<close>, \<^verbatim>\<open>pairing.repository.ts\<close>, \<^verbatim>\<open>pairing.constants.ts\<close> and
  \<^verbatim>\<open>connection-quality.ts\<close>. A parent starts a pairing and gets a one-time token; the resolver reports
  the probe query that carries it together with its source address, which becomes the DNS address
  of the device. Later probes carry the long-lived beacon token of the device and repair the address.

  A Prisma transaction is a body that returns its result, its pending writes and the store after the
  writes it made outside the transaction; \<open>runInTransaction\<close> applies the pending writes only when the
  body did not throw. The two environment variables are the record \<open>pairEnv\<close>; the suffix is a DNS name,
  so that the dot is the only character of it that is special in a regular expression. Random UUIDs
  are drawn from the identifier tape of the store.
\<close>

section \<open>Constants and host names\<close>

definition PAIR_TOKEN_TTL_MS :: int where "PAIR_TOKEN_TTL_MS = 10 * 60000"

definition PAIR_MAX_CONFIRM_ATTEMPTS :: int where "PAIR_MAX_CONFIRM_ATTEMPTS = 5"

record pairEnv =
  env_DNS_RESOLVER_PUBLIC_HOST :: "string option"
  env_PAIR_DOMAIN_SUFFIX :: "string option"

definition envOr :: "string option \<Rightarrow> string \<Rightarrow> string" where
  "envOr v dflt = (case v of None \<Rightarrow> dflt | Some x \<Rightarrow> if x = [] then dflt else x)"

definition PAIR_DOMAIN_SUFFIX :: "pairEnv \<Rightarrow> string" where
  "PAIR_DOMAIN_SUFFIX env = envOr (env_PAIR_DOMAIN_SUFFIX env) ''pair.guardtime.local''"

definition DNS_SERVER_HOST :: "pairEnv \<Rightarrow> string" where
  "DNS_SERVER_HOST env = envOr (env_DNS_RESOLVER_PUBLIC_HOST env) ''dns.guardtime.app''"

definition pairHostnameFor :: "pairEnv \<Rightarrow> string \<Rightarrow> string" where
  "pairHostnameFor env token = token @ ''.'' @ PAIR_DOMAIN_SUFFIX env"

text \<open>The capture group of \<^verbatim>\<open>PAIR_HOSTNAME_PATTERN\<close>: hexadecimal groups of 8-4-4-4-12 digits, either case.\<close>

definition isHexI :: "char \<Rightarrow> bool" where
  "isHexI c = (lowerChar c \<in> set ''0123456789abcdef'')"

definition isUuidText :: "string \<Rightarrow> bool" where
  "isUuidText t = (map length (splitOn (CHR ''-'') t) = [8, 4, 4, 4, 12] \<and> list_all (list_all isHexI) (splitOn (CHR ''-'') t))"

definition PAIR_HOSTNAME_PATTERN :: "pairEnv \<Rightarrow> string \<Rightarrow> string option" where
  "PAIR_HOSTNAME_PATTERN env host =
     (let suffix = ''.'' @ toLowerCase (PAIR_DOMAIN_SUFFIX env);
          group1 = take (length host - length suffix) host
      in if endsWith (toLowerCase host) suffix \<and> isUuidText group1 then Some group1 else None)"

definition extractPairToken :: "pairEnv \<Rightarrow> string \<Rightarrow> string option" where
  "extractPairToken env domain = PAIR_HOSTNAME_PATTERN env (stripTrailingDot (toLowerCase domain))"

section \<open>Connection quality\<close>

datatype ConnectionQuality = EXCELLENT | GOOD | POOR | OFFLINE_QUALITY

definition computeConnectionQuality :: "time option \<Rightarrow> time \<Rightarrow> ConnectionQuality" where
  "computeConnectionQuality lastDnsSeenAt now =
     (case lastDnsSeenAt of
        None \<Rightarrow> OFFLINE_QUALITY
      | Some seen \<Rightarrow>
          let ageMs = now - seen in
          if ageMs < 0 then EXCELLENT
          else if ageMs \<le> 2 * 60000 then EXCELLENT
          else if ageMs \<le> 15 * 60000 then GOOD
          else if ageMs \<le> 60 * 60000 then POOR
          else OFFLINE_QUALITY)"

section \<open>Repository\<close>

definition findDeviceForOwner :: "ident \<Rightarrow> 'z store_scheme \<Rightarrow> Device option" where
  "findDeviceForOwner i s = findDevice s i"

definition findDeviceByBeaconToken :: "string \<Rightarrow> 'z store_scheme \<Rightarrow> Device option" where
  "findDeviceByBeaconToken token s = findUnique dev_dnsBeaconToken (Some token) (devices s)"

definition deleteWaitingSessionsForDevice :: "ident \<Rightarrow> 'z store_scheme \<Rightarrow> 'z store_scheme" where
  "deleteWaitingSessionsForDevice i s =
     s\<lparr>pairingSessions := deleteMany (\<lambda>x. pse_deviceId x = i \<and> pse_status x = PAIR_WAITING) (pairingSessions s)\<rparr>"

definition findSessionByToken :: "string \<Rightarrow> 'z store_scheme \<Rightarrow> PairingSession option" where
  "findSessionByToken token s = findUnique pse_token token (pairingSessions s)"

definition createSession ::
  "time \<Rightarrow> ident \<Rightarrow> ident \<Rightarrow> string \<Rightarrow> time \<Rightarrow> 'z store_scheme \<Rightarrow> PairingSession result \<times> 'z store_scheme" where
  "createSession now deviceId parentId token expiresAt s =
     (if findSessionByToken token s \<noteq> None then (Inl PrismaUniqueViolation, s)
      else
        let row = \<lparr>pse_id = newId s, pse_deviceId = deviceId, pse_parentId = parentId, pse_token = token,
                   pse_status = PAIR_WAITING, pse_expiresAt = expiresAt, pse_attempts = 0, pse_createdAt = now\<rparr>
        in (Inr row, drawId (s\<lparr>pairingSessions := pairingSessions s @ [row]\<rparr>)))"

definition findLatestWaitingSession :: "ident \<Rightarrow> 'z store_scheme \<Rightarrow> PairingSession option" where
  "findLatestWaitingSession i s =
     (case orderByDesc pse_createdAt
             (findMany (\<lambda>x. pse_deviceId x = i \<and> pse_status x = PAIR_WAITING) (pairingSessions s)) of
        [] \<Rightarrow> None | x # _ \<Rightarrow> Some x)"

definition updatePairing :: "ident \<Rightarrow> (PairingSession \<Rightarrow> PairingSession) \<Rightarrow> 'z store_scheme \<Rightarrow> 'z store_scheme" where
  "updatePairing i f s = s\<lparr>pairingSessions := updateMany (\<lambda>x. pse_id x = i) f (pairingSessions s)\<rparr>"

definition markSessionStatus :: "ident \<Rightarrow> PairStatus \<Rightarrow> 'z store_scheme \<Rightarrow> 'z store_scheme" where
  "markSessionStatus i st = updatePairing i (\<lambda>x. x\<lparr>pse_status := st\<rparr>)"

definition incrementSessionAttempts :: "ident \<Rightarrow> 'z store_scheme \<Rightarrow> 'z store_scheme" where
  "incrementSessionAttempts i = updatePairing i (\<lambda>x. x\<lparr>pse_attempts := pse_attempts x + 1\<rparr>)"

definition deleteSession :: "ident \<Rightarrow> 'z store_scheme \<Rightarrow> 'z store_scheme" where
  "deleteSession i s = s\<lparr>pairingSessions := deleteMany (\<lambda>x. pse_id x = i) (pairingSessions s)\<rparr>"

text \<open>A write to a device: refused when there is no such row.\<close>

definition writeDevice :: "ident \<Rightarrow> (Device \<Rightarrow> Device) \<Rightarrow> 'z store_scheme \<Rightarrow> unit result \<times> 'z store_scheme" where
  "writeDevice i f s =
     (case findDevice s i of None \<Rightarrow> (Inl PrismaRecordNotFound, s) | Some _ \<Rightarrow> (Inr (), updateDevice i f s))"

definition pairedDevice :: "string \<Rightarrow> string option \<Rightarrow> time \<Rightarrow> string \<Rightarrow> Device \<Rightarrow> Device" where
  "pairedDevice sourceIp region pairedAt beacon d =
     d\<lparr>dev_paired := True, dev_pairStatus := PAIR_PAIRED, dev_pairedAt := Some pairedAt,
       dev_dnsSourceIp := Some sourceIp, dev_publicIp := Some sourceIp, dev_dnsConfigured := True,
       dev_lastDnsSeenAt := Some pairedAt, dev_resolverRegion := region, dev_dnsBeaconToken := Some beacon\<rparr>"

definition markDevicePaired ::
  "ident \<Rightarrow> string \<Rightarrow> string option \<Rightarrow> time \<Rightarrow> string \<Rightarrow> 'z store_scheme \<Rightarrow> unit result \<times> 'z store_scheme" where
  "markDevicePaired i sourceIp region pairedAt beacon s =
     (if list_ex (\<lambda>d. dev_dnsBeaconToken d = Some beacon \<and> dev_id d \<noteq> i) (devices s)
      then (Inl PrismaUniqueViolation, s)
      else writeDevice i (pairedDevice sourceIp region pairedAt beacon) s)"

definition setDevicePairStatus :: "ident \<Rightarrow> PairStatus \<Rightarrow> 'z store_scheme \<Rightarrow> unit result \<times> 'z store_scheme" where
  "setDevicePairStatus i st = writeDevice i (\<lambda>d. d\<lparr>dev_pairStatus := st\<rparr>)"

definition touchLastSeen :: "ident \<Rightarrow> time \<Rightarrow> 'z store_scheme \<Rightarrow> unit result \<times> 'z store_scheme" where
  "touchLastSeen i seenAt = writeDevice i (\<lambda>d. d\<lparr>dev_lastDnsSeenAt := Some seenAt\<rparr>)"

definition movedDevice :: "string \<Rightarrow> time \<Rightarrow> Device \<Rightarrow> Device" where
  "movedDevice ip seenAt d = d\<lparr>dev_dnsSourceIp := Some ip, dev_publicIp := Some ip, dev_lastDnsSeenAt := Some seenAt\<rparr>"

definition applyIpChange :: "ident \<Rightarrow> string \<Rightarrow> time \<Rightarrow> 'z store_scheme \<Rightarrow> unit result \<times> 'z store_scheme" where
  "applyIpChange i ip seenAt = writeDevice i (movedDevice ip seenAt)"

definition upsertIpHistory :: "ident \<Rightarrow> string \<Rightarrow> time \<Rightarrow> 'z store_scheme \<Rightarrow> 'z store_scheme" where
  "upsertIpHistory i ip seenAt s =
     (if list_ex (\<lambda>h. iph_deviceId h = i \<and> iph_ipAddress h = ip) (ipHistory s)
      then s\<lparr>ipHistory := updateMany (\<lambda>h. iph_deviceId h = i \<and> iph_ipAddress h = ip)
                            (\<lambda>h. h\<lparr>iph_lastSeenAt := seenAt\<rparr>) (ipHistory s)\<rparr>
      else s\<lparr>ipHistory := ipHistory s @
               [\<lparr>iph_deviceId = i, iph_ipAddress = ip, iph_firstSeenAt = seenAt, iph_lastSeenAt = seenAt\<rparr>]\<rparr>)"

definition recordConnectionEvent ::
  "time \<Rightarrow> ident \<Rightarrow> ConnectionEventType \<Rightarrow> string option \<Rightarrow> json option \<Rightarrow> 'z store_scheme \<Rightarrow> 'z store_scheme" where
  "recordConnectionEvent now i typ ip metadata s =
     drawId (s\<lparr>connectionEvents := connectionEvents s @
       [\<lparr>cev_id = newId s, cev_deviceId = i, cev_type = typ, cev_ipAddress = ip, cev_metadata = metadata,
         cev_createdAt = now\<rparr>]\<rparr>)"

definition listRecentConnectionEvents :: "ident \<Rightarrow> nat \<Rightarrow> 'z store_scheme \<Rightarrow> DeviceConnectionEvent list" where
  "listRecentConnectionEvents i n s =
     take n (orderByDesc cev_createdAt (findMany (\<lambda>e. cev_deviceId e = i) (connectionEvents s)))"

definition listIpHistory :: "ident \<Rightarrow> 'z store_scheme \<Rightarrow> DeviceIpHistory list" where
  "listIpHistory i s = orderByDesc iph_lastSeenAt (findMany (\<lambda>h. iph_deviceId h = i) (ipHistory s))"

definition countQueriesSince :: "string \<Rightarrow> time \<Rightarrow> 'z store_scheme \<Rightarrow> nat" where
  "countQueriesSince ip since s =
     length (findMany (\<lambda>q. dql_sourceIp q = ip \<and> since \<le> dql_createdAt q) (dnsQueryLogs s))"

definition lastQueryFor :: "string \<Rightarrow> 'z store_scheme \<Rightarrow> DnsQueryLog option" where
  "lastQueryFor ip s =
     (case orderByDesc dql_createdAt (findMany (\<lambda>q. dql_sourceIp q = ip) (dnsQueryLogs s)) of
        [] \<Rightarrow> None | q # _ \<Rightarrow> Some q)"

definition listExpiredSessions :: "time \<Rightarrow> nat \<Rightarrow> 'z store_scheme \<Rightarrow> PairingSession list" where
  "listExpiredSessions now n s =
     take n (findMany (\<lambda>x. pse_status x = PAIR_WAITING \<and> pse_expiresAt x < now) (pairingSessions s))"

text \<open>An interactive transaction: the pending writes take effect only when the body does not throw.\<close>

type_synonym ('a, 'z) txBody = "'z store_scheme \<Rightarrow> 'a result \<times> ('z store_scheme \<Rightarrow> 'z store_scheme) \<times> 'z store_scheme"

definition runInTransaction :: "('a, 'z) txBody \<Rightarrow> 'z store_scheme \<Rightarrow> 'a result \<times> 'z store_scheme" where
  "runInTransaction body s =
     (case body s of (Inl e, pending, s') \<Rightarrow> (Inl e, s') | (Inr a, pending, s') \<Rightarrow> (Inr a, pending s'))"

section \<open>Service\<close>

record StartPairingResponse =
  spr_sessionId :: ident
  spr_dnsServer :: string
  spr_token :: string
  spr_expiresAt :: string
  spr_qrPayload :: string

record PairingStatusResponse =
  psp_pairStatus :: PairStatus
  psp_paired :: bool
  psp_pairedAt :: "string option"
  psp_dnsSourceIp :: "string option"
  psp_publicIp :: "string option"
  psp_resolverRegion :: "string option"
  psp_lastDnsSeenAt :: "string option"
  psp_connectionQuality :: ConnectionQuality
  psp_beaconToken :: "string option"

record ConfirmPairingDto =
  cpd_token :: string
  cpd_sourceIp :: string
  cpd_resolverRegion :: "string option"

record ConnectionStatsResponse =
  csr_paired :: bool
  csr_connectionQuality :: ConnectionQuality
  csr_lastDnsSeenAt :: "string option"
  csr_dnsSourceIp :: "string option"
  csr_publicIp :: "string option"
  csr_resolverRegion :: "string option"
  csr_queriesToday :: nat
  csr_lastQueryDomain :: "string option"
  csr_recentEvents :: "(ident \<times> ConnectionEventType \<times> string option \<times> json option \<times> string) list"
  csr_ipHistory :: "(string \<times> string \<times> string) list"

definition ownedForPairing :: "ident \<Rightarrow> ident \<Rightarrow> 'z store_scheme \<Rightarrow> Device result" where
  "ownedForPairing deviceId parentId s =
     owned dev_parentId ''Device not found'' ''You do not own this device'' parentId (findDeviceForOwner deviceId s)"

definition startPairing ::
  "pairEnv \<Rightarrow> time \<Rightarrow> ident \<Rightarrow> ident \<Rightarrow> 'z store_scheme \<Rightarrow> StartPairingResponse result \<times> 'z store_scheme" where
  "startPairing env now deviceId parentId s =
     (case ownedForPairing deviceId parentId s of
        Inl e \<Rightarrow> (Inl e, s)
      | Inr device \<Rightarrow>
          let s1 = deleteWaitingSessionsForDevice deviceId s;
              token = newId s1;
              expiresAt = now + PAIR_TOKEN_TTL_MS
          in
          (case createSession now deviceId parentId token expiresAt (drawId s1) of
             (Inl e, s2) \<Rightarrow> (Inl e, s2)
           | (Inr session, s2) \<Rightarrow>
               (case setDevicePairStatus deviceId PAIR_WAITING s2 of
                  (Inl e, s3) \<Rightarrow> (Inl e, s3)
                | (Inr _, s3) \<Rightarrow>
                    (Inr \<lparr>spr_sessionId = pse_id session, spr_dnsServer = DNS_SERVER_HOST env, spr_token = token,
                          spr_expiresAt = toISOString expiresAt,
                          spr_qrPayload = stringify (JObj
                            [(''v'', JNum 1), (''deviceId'', JStr deviceId), (''token'', JStr token),
                             (''dnsServer'', JStr (DNS_SERVER_HOST env)), (''probeHost'', JStr (pairHostnameFor env token))])\<rparr>,
                     auditLog now \<lparr>ad_userId = Some parentId, ad_action = ''pairing.start'', ad_entity = ''device'',
                       ad_entityId = Some deviceId, ad_details = None, ad_ipAddress = None\<rparr> s3))))"

definition getStatus_Pairing :: "time \<Rightarrow> ident \<Rightarrow> ident \<Rightarrow> 'z store_scheme \<Rightarrow> PairingStatusResponse result" where
  "getStatus_Pairing now deviceId parentId s =
     (case ownedForPairing deviceId parentId s of
        Inl e \<Rightarrow> Inl e
      | Inr device \<Rightarrow>
          Inr \<lparr>psp_pairStatus = dev_pairStatus device, psp_paired = dev_paired device,
               psp_pairedAt = map_option toISOString (dev_pairedAt device), psp_dnsSourceIp = dev_dnsSourceIp device,
               psp_publicIp = dev_publicIp device, psp_resolverRegion = dev_resolverRegion device,
               psp_lastDnsSeenAt = map_option toISOString (dev_lastDnsSeenAt device),
               psp_connectionQuality = computeConnectionQuality (dev_lastDnsSeenAt device) now,
               psp_beaconToken = (if dev_paired device then dev_dnsBeaconToken device else None)\<rparr>)"

definition getConnectionStats :: "time \<Rightarrow> ident \<Rightarrow> ident \<Rightarrow> 'z store_scheme \<Rightarrow> ConnectionStatsResponse result" where
  "getConnectionStats now deviceId parentId s =
     (case ownedForPairing deviceId parentId s of
        Inl e \<Rightarrow> Inl e
      | Inr device \<Rightarrow>
          let midnightUtc = startOfDay 0 now;
              ip = (if truthy (dev_dnsSourceIp device) then dev_dnsSourceIp device else None)
          in
          Inr \<lparr>csr_paired = dev_paired device,
               csr_connectionQuality = computeConnectionQuality (dev_lastDnsSeenAt device) now,
               csr_lastDnsSeenAt = map_option toISOString (dev_lastDnsSeenAt device),
               csr_dnsSourceIp = dev_dnsSourceIp device, csr_publicIp = dev_publicIp device,
               csr_resolverRegion = dev_resolverRegion device,
               csr_queriesToday = (case ip of None \<Rightarrow> 0 | Some a \<Rightarrow> countQueriesSince a midnightUtc s),
               csr_lastQueryDomain = (case ip of None \<Rightarrow> None | Some a \<Rightarrow> map_option dql_domain (lastQueryFor a s)),
               csr_recentEvents = map (\<lambda>e. (cev_id e, cev_type e, cev_ipAddress e, cev_metadata e, toISOString (cev_createdAt e)))
                                    (listRecentConnectionEvents deviceId 20 s),
               csr_ipHistory = map (\<lambda>h. (iph_ipAddress h, toISOString (iph_firstSeenAt h), toISOString (iph_lastSeenAt h)))
                                 (listIpHistory deviceId s)\<rparr>)"

definition cancelPairing :: "time \<Rightarrow> ident \<Rightarrow> ident \<Rightarrow> 'z store_scheme \<Rightarrow> unit result \<times> 'z store_scheme" where
  "cancelPairing now deviceId parentId s =
     (case ownedForPairing deviceId parentId s of
        Inl e \<Rightarrow> (Inl e, s)
      | Inr device \<Rightarrow>
          (Inr (), auditLog now \<lparr>ad_userId = Some parentId, ad_action = ''pairing.cancel'', ad_entity = ''device'',
             ad_entityId = Some deviceId, ad_details = None, ad_ipAddress = None\<rparr>
             (deleteWaitingSessionsForDevice deviceId s)))"

primrec showPairStatus :: "PairStatus \<Rightarrow> string" where
  "showPairStatus PAIR_WAITING = ''WAITING''"
| "showPairStatus PAIR_PAIRED = ''PAIRED''"
| "showPairStatus PAIR_EXPIRED = ''EXPIRED''"
| "showPairStatus PAIR_FAILED = ''FAILED''"

text \<open>A session that cannot be confirmed any more: the session row is marked inside the transaction,
  the device row outside of it, then the body throws.\<close>

definition giveUpSession :: "PairingSession \<Rightarrow> PairStatus \<Rightarrow> string \<Rightarrow> (ident option, 'z) txBody" where
  "giveUpSession session st msg s =
     (case setDevicePairStatus (pse_deviceId session) st s of
        (Inl e, s') \<Rightarrow> (Inl e, markSessionStatus (pse_id session) st, s')
      | (Inr _, s') \<Rightarrow> (Inl (BadRequestException msg), markSessionStatus (pse_id session) st, s'))"

text \<open>The pending writes of a successful confirmation.\<close>

definition confirmWrites ::
  "time \<Rightarrow> PairingSession \<Rightarrow> ConfirmPairingDto \<Rightarrow> string \<Rightarrow> 'z store_scheme \<Rightarrow> 'z store_scheme" where
  "confirmWrites now session dto beacon s =
     deleteSession (pse_id session)
       (recordConnectionEvent now (pse_deviceId session) EV_PAIRED (Some (cpd_sourceIp dto)) (Some (JObj [(''via'', JStr ''probe'')]))
         (upsertIpHistory (pse_deviceId session) (cpd_sourceIp dto) now
           (snd (markDevicePaired (pse_deviceId session) (cpd_sourceIp dto) (cpd_resolverRegion dto) now beacon
             (incrementSessionAttempts (pse_id session) s)))))"

definition confirmBody :: "time \<Rightarrow> ConfirmPairingDto \<Rightarrow> (ident option, 'z) txBody" where
  "confirmBody now dto s =
     (case findSessionByToken (cpd_token dto) s of
        None \<Rightarrow> (Inr None, id, s)
      | Some session \<Rightarrow>
          if pse_status session \<noteq> PAIR_WAITING then
            (Inl (BadRequestException (''Pairing session already '' @ toLowerCase (showPairStatus (pse_status session)))), id, s)
          else if pse_expiresAt session < now then
            giveUpSession session PAIR_EXPIRED (''Pairing token expired '' @ emdash @ '' start pairing again'') s
          else
            (case findUnique pse_id (pse_id session) (pairingSessions (incrementSessionAttempts (pse_id session) s)) of
               None \<Rightarrow> (Inl PrismaRecordNotFound, id, s)
             | Some attempts \<Rightarrow>
                 if 5 < pse_attempts attempts then
                   giveUpSession session PAIR_FAILED (''Too many pairing attempts '' @ emdash @ '' start pairing again'') s
                 else
                   let beacon = newId s; s1 = drawId s in
                   (case fst (markDevicePaired (pse_deviceId session) (cpd_sourceIp dto) (cpd_resolverRegion dto) now beacon s1) of
                      Inl e \<Rightarrow> (Inl e, id, s1)
                    | Inr _ \<Rightarrow>
                        (Inr (Some (pse_deviceId session)), confirmWrites now session dto beacon,
                         auditLog now \<lparr>ad_userId = None, ad_action = ''pairing.confirmed'', ad_entity = ''device'',
                           ad_entityId = Some (pse_deviceId session), ad_details = None,
                           ad_ipAddress = Some (cpd_sourceIp dto)\<rparr> s1))))"

definition tryConfirmPairingSession ::
  "time \<Rightarrow> ConfirmPairingDto \<Rightarrow> 'z store_scheme \<Rightarrow> ident option result \<times> 'z store_scheme" where
  "tryConfirmPairingSession now dto = runInTransaction (confirmBody now dto)"

definition recordHeartbeat :: "time \<Rightarrow> ident \<Rightarrow> string \<Rightarrow> 'z store_scheme \<Rightarrow> 'z store_scheme" where
  "recordHeartbeat now deviceId sourceIp s =
     (case findDeviceForOwner deviceId s of
        None \<Rightarrow> s
      | Some device \<Rightarrow>
          if \<not> dev_paired device then s
          else if dev_dnsSourceIp device \<noteq> Some sourceIp then
            snd (runInTransaction (\<lambda>s.
              (Inr (),
               (\<lambda>s. recordConnectionEvent now deviceId EV_IP_CHANGED (Some sourceIp)
                      (Some (JObj [(''previous'', nullable JStr (dev_dnsSourceIp device))]))
                      (upsertIpHistory deviceId sourceIp now (snd (applyIpChange deviceId sourceIp now s)))),
               s)) s)
          else snd (touchLastSeen deviceId now (upsertIpHistory deviceId sourceIp now s)))"

definition confirmProbe :: "time \<Rightarrow> ConfirmPairingDto \<Rightarrow> 'z store_scheme \<Rightarrow> ident result \<times> 'z store_scheme" where
  "confirmProbe now dto s =
     (case tryConfirmPairingSession now dto s of
        (Inl e, s1) \<Rightarrow> (Inl e, s1)
      | (Inr (Some i), s1) \<Rightarrow> (Inr i, s1)
      | (Inr None, s1) \<Rightarrow>
          (case findDeviceByBeaconToken (cpd_token dto) s1 of
             None \<Rightarrow> (Inl (NotFoundException ''Unknown or expired pairing/beacon token''), s1)
           | Some device \<Rightarrow> (Inr (dev_id device), recordHeartbeat now (dev_id device) (cpd_sourceIp dto) s1)))"

section \<open>Runs\<close>

datatype pairing_op =
    StartPairing ident ident
  | CancelPairing ident ident
  | ConfirmProbe ConfirmPairingDto

fun pairing_exec :: "pairEnv \<Rightarrow> time \<Rightarrow> pairing_op \<Rightarrow> 'z store_scheme \<Rightarrow> 'z store_scheme" where
  "pairing_exec env now (StartPairing i p) s = snd (startPairing env now i p s)"
| "pairing_exec env now (CancelPairing i p) s = snd (cancelPairing now i p s)"
| "pairing_exec env now (ConfirmProbe dto) s = snd (confirmProbe now dto s)"

text \<open>The states reachable by requests at arbitrary times from a database without pairings.\<close>

inductive pairing_run :: "pairEnv \<Rightarrow> 'z store_scheme \<Rightarrow> bool" for env where
  init: "inj (db_uuid s) \<Longrightarrow> distinct (map dev_id (devices s)) \<Longrightarrow> pairingSessions s = [] \<Longrightarrow>
         (\<And>d. d \<in> set (devices s) \<Longrightarrow> dev_dnsBeaconToken d = None) \<Longrightarrow> pairing_run env s"
| step: "pairing_run env s \<Longrightarrow> pairing_run env (pairing_exec env now opn s)"

section \<open>The invariant\<close>

definition drawn :: "'z store_scheme \<Rightarrow> ident \<Rightarrow> bool" where
  "drawn s x = (x \<in> db_uuid s ` {..<db_next s})"

definition ownedPairs :: "'z store_scheme \<Rightarrow> (ident \<times> ident) set" where
  "ownedPairs s = (\<lambda>d. (dev_id d, dev_parentId d)) ` set (devices s)"

definition pairing_row_ok :: "'z store_scheme \<Rightarrow> PairingSession \<Rightarrow> bool" where
  "pairing_row_ok s x \<longleftrightarrow> pse_status x = PAIR_WAITING \<and> pse_attempts x = 0 \<and>
     pse_expiresAt x = pse_createdAt x + PAIR_TOKEN_TTL_MS \<and> (pse_deviceId x, pse_parentId x) \<in> ownedPairs s \<and>
     drawn s (pse_id x) \<and> drawn s (pse_token x)"

definition beacons :: "'z store_scheme \<Rightarrow> ident set" where
  "beacons s = {b. Some b \<in> dev_dnsBeaconToken ` set (devices s)}"

definition tokens :: "'z store_scheme \<Rightarrow> ident set" where
  "tokens s = pse_token ` set (pairingSessions s)"

definition pairing_ok :: "'z store_scheme \<Rightarrow> bool" where
  "pairing_ok s \<longleftrightarrow> inj (db_uuid s) \<and> distinct (map dev_id (devices s)) \<and>
     distinct (map pse_id (pairingSessions s)) \<and> distinct (map pse_token (pairingSessions s)) \<and>
     distinct (map pse_deviceId (pairingSessions s)) \<and> (\<forall>x \<in> set (pairingSessions s). pairing_row_ok s x) \<and>
     (\<forall>b \<in> beacons s. drawn s b) \<and> beacons s \<inter> tokens s = {}"

lemma drawn_mono: "drawn s x \<Longrightarrow> db_uuid s' = db_uuid s \<Longrightarrow> db_next s \<le> db_next s' \<Longrightarrow> drawn s' x"
  by (auto simp: drawn_def)

lemma newId_not_drawn: "inj (db_uuid s) \<Longrightarrow> \<not> drawn s (newId s)"
  by (auto simp: drawn_def newId_def inj_eq)

lemma deleteMany_updateMany_same:
  "(\<And>r. P r \<Longrightarrow> P (f r)) \<Longrightarrow> deleteMany P (updateMany P f rows) = deleteMany P rows"
  by (induction rows) auto

lemma map_deleteMany_distinct: "distinct (map f rows) \<Longrightarrow> distinct (map f (deleteMany P rows))"
  by (simp add: deleteMany_def distinct_map_filter)

text \<open>A step keeps the invariant and reissues no identifier: its new tokens and beacons were not drawn before.\<close>

definition advances :: "'z store_scheme \<Rightarrow> 'z store_scheme \<Rightarrow> bool" where
  "advances s s' \<longleftrightarrow> pairing_ok s' \<and> db_uuid s' = db_uuid s \<and> db_next s \<le> db_next s' \<and>
     (\<forall>b \<in> tokens s'. b \<in> tokens s \<or> \<not> drawn s b) \<and> (\<forall>b \<in> beacons s'. b \<in> beacons s \<or> \<not> drawn s b)"

lemma advances_refl: "pairing_ok s \<Longrightarrow> advances s s"
  by (simp add: advances_def)

text \<open>How the invariant survives a step: sessions are deleted, at most one fresh one is added, and the
  new beacon tokens are fresh.\<close>

lemma advances_step:
  assumes ok: "pairing_ok s" and uuid: "db_uuid s' = db_uuid s" "db_next s \<le> db_next s'"
    and ids: "map dev_id (devices s') = map dev_id (devices s)" and own: "ownedPairs s' = ownedPairs s"
    and ps: "pairingSessions s' = deleteMany P (pairingSessions s) @ new"
    and bea: "beacons s' \<subseteq> beacons s \<union> B" "\<And>b. b \<in> B \<Longrightarrow> drawn s' b \<and> \<not> drawn s b"
    and new: "new = [] \<or> (\<exists>x. new = [x] \<and> B = {} \<and> pairing_row_ok s' x \<and> \<not> drawn s (pse_id x) \<and>
                \<not> drawn s (pse_token x) \<and> (\<forall>y \<in> set (deleteMany P (pairingSessions s)). pse_deviceId y \<noteq> pse_deviceId x))"
  shows "advances s s'"
proof -
  have mono: "drawn s x \<Longrightarrow> drawn s' x" for x using drawn_mono uuid by blast
  have rows: "pairing_row_ok s' x \<and> pairing_row_ok s x" if "x \<in> set (pairingSessions s)" for x
    using that ok mono by (auto simp: pairing_ok_def pairing_row_ok_def own)
  have "b \<notin> tokens s" if "b \<in> beacons s \<union> B" for b
    using that ok bea(2) by (auto simp: pairing_ok_def tokens_def pairing_row_ok_def)
  then have toks: "beacons s' \<inter> tokens s = {}" using bea(1) by blast
  have drs: "drawn s' b" if "b \<in> beacons s'" for b
    using that ok bea mono by (auto simp: pairing_ok_def)
  have dist: "distinct (map f (deleteMany P (pairingSessions s)))" if "distinct (map f (pairingSessions s))" for f :: "_ \<Rightarrow> ident"
    using that by (rule map_deleteMany_distinct)
  have "tokens s' \<subseteq> tokens s \<union> pse_token ` set new" using ps by (auto simp: tokens_def)
  then have "(\<forall>b \<in> tokens s'. b \<in> tokens s \<or> \<not> drawn s b) \<and> (\<forall>b \<in> beacons s'. b \<in> beacons s \<or> \<not> drawn s b)"
    using bea new by auto
  moreover have "pairing_ok s'"
  proof (cases "new = []")
    case True
    then show ?thesis
      using ok rows toks drs dist bea(1) unfolding pairing_ok_def by (auto simp: ids uuid ps tokens_def)
  next
    case False
    with new obtain x where x: "new = [x]" "B = {}" "pairing_row_ok s' x" "\<not> drawn s (pse_id x)" "\<not> drawn s (pse_token x)"
      "\<forall>y \<in> set (deleteMany P (pairingSessions s)). pse_deviceId y \<noteq> pse_deviceId x" by blast
    have "pse_id x \<notin> pse_id ` set (pairingSessions s)" "pse_token x \<notin> pse_token ` set (pairingSessions s)"
      using rows x(4,5) by (auto simp: pairing_row_ok_def)
    moreover have "pse_token x \<notin> beacons s" using ok x(5) by (auto simp: pairing_ok_def)
    ultimately show ?thesis
      using ok rows toks drs dist bea(1) x unfolding pairing_ok_def by (auto simp: ids uuid ps tokens_def image_iff)
  qed
  ultimately show ?thesis using uuid by (simp add: advances_def)
qed

lemma ownedPairs_update:
  "devices s' = updateMany P f (devices s) \<Longrightarrow> (\<And>d. dev_id (f d) = dev_id d \<and> dev_parentId (f d) = dev_parentId d) \<Longrightarrow>
   ownedPairs s' = ownedPairs s"
  unfolding ownedPairs_def by (simp only: updateMany_def set_map image_image) (rule image_cong, simp_all)

lemma beacons_update:
  "devices s' = updateMany P f (devices s) \<Longrightarrow> (\<And>d b. dev_dnsBeaconToken (f d) = Some b \<Longrightarrow> dev_dnsBeaconToken d = Some b \<or> b \<in> B) \<Longrightarrow>
   beacons s' \<subseteq> beacons s \<union> B"
  by (auto simp: beacons_def in_updateMany_iff image_iff) (metis+)

lemmas repo_defs = deleteWaitingSessionsForDevice_def findSessionByToken_def findDeviceForOwner_def
  findDeviceByBeaconToken_def updatePairing_def markSessionStatus_def incrementSessionAttempts_def
  deleteSession_def upsertIpHistory_def recordConnectionEvent_def

lemma pairing_tables_upsertIp [simp]:
  "devices (upsertIpHistory i ip t s) = devices s" "pairingSessions (upsertIpHistory i ip t s) = pairingSessions s"
  "db_uuid (upsertIpHistory i ip t s) = db_uuid s" "db_next (upsertIpHistory i ip t s) = db_next s"
  "auditLogs (upsertIpHistory i ip t s) = auditLogs s" "connectionEvents (upsertIpHistory i ip t s) = connectionEvents s"
  by (simp_all add: upsertIpHistory_def)

lemma pairing_tables_event [simp]:
  "devices (recordConnectionEvent t i k ip m s) = devices s"
  "pairingSessions (recordConnectionEvent t i k ip m s) = pairingSessions s"
  "db_uuid (recordConnectionEvent t i k ip m s) = db_uuid s"
  "db_next (recordConnectionEvent t i k ip m s) = db_next s + 1"
  "ipHistory (recordConnectionEvent t i k ip m s) = ipHistory s"
  by (simp_all add: recordConnectionEvent_def)

lemma updateDevice_tape [simp]:
  "db_uuid (updateDevice i f s) = db_uuid s" "db_next (updateDevice i f s) = db_next s"
  by (simp_all add: updateDevice_def)

lemma writeDevice_state [simp]: "snd (writeDevice i f s) = updateDevice i f s"
proof (cases "findDevice s i")
  case None
  then have "updateMany (\<lambda>d. dev_id d = i) f (devices s) = devices s"
    by (auto simp: findUnique_None_iff updateMany_def intro!: map_idI)
  with None show ?thesis by (simp add: writeDevice_def updateDevice_def)
qed (simp add: writeDevice_def)

lemma writeDevice_result: "fst (writeDevice i f s) = (if findDevice s i = None then Inl PrismaRecordNotFound else Inr ())"
  by (simp add: writeDevice_def split: option.splits)

section \<open>What each operation does\<close>

definition freshPairing :: "time \<Rightarrow> ident \<Rightarrow> ident \<Rightarrow> 'z store_scheme \<Rightarrow> PairingSession" where
  "freshPairing now i p s =
     \<lparr>pse_id = newId (drawId s), pse_deviceId = i, pse_parentId = p, pse_token = newId s, pse_status = PAIR_WAITING,
      pse_expiresAt = now + PAIR_TOKEN_TTL_MS, pse_attempts = 0, pse_createdAt = now\<rparr>"

lemma waiting_only:
  assumes "pairing_ok s"
  shows "deleteMany (\<lambda>x. pse_deviceId x = i \<and> pse_status x = PAIR_WAITING) (pairingSessions s) =
         deleteMany (\<lambda>x. pse_deviceId x = i) (pairingSessions s)"
  using assms by (auto simp: deleteMany_def pairing_ok_def pairing_row_ok_def intro!: filter_cong)

lemma token_fresh: "pairing_ok s \<Longrightarrow> newId s \<notin> tokens s"
  using newId_not_drawn [of s] by (auto simp: pairing_ok_def pairing_row_ok_def tokens_def)

lemma startPairing_effect:
  assumes ok: "pairing_ok s" and "findDevice s i = Some d" "dev_parentId d = p"
  obtains r s' where "startPairing env now i p s = (Inr r, s')" "spr_token r = newId s"
    "pairingSessions s' = deleteMany (\<lambda>x. pse_deviceId x = i) (pairingSessions s) @ [freshPairing now i p s]"
    "devices s' = updateMany (\<lambda>d. dev_id d = i) (\<lambda>d. d\<lparr>dev_pairStatus := PAIR_WAITING\<rparr>) (devices s)"
    "db_uuid s' = db_uuid s" "db_next s' = db_next s + 2"
proof -
  let ?s1 = "deleteWaitingSessionsForDevice i s"
  have new: "newId ?s1 = newId s" "newId (drawId ?s1) = newId (drawId s)"
    by (simp_all add: newId_def repo_defs drawId_def)
  have "findSessionByToken (newId s) (drawId ?s1) = None"
    using token_fresh [OF ok] by (auto simp: repo_defs findUnique_None_iff tokens_def)
  then have create: "createSession now i p (newId s) (now + PAIR_TOKEN_TTL_MS) (drawId ?s1) =
      (Inr (freshPairing now i p s), drawId (drawId ?s1\<lparr>pairingSessions := pairingSessions ?s1 @ [freshPairing now i p s]\<rparr>))"
    (is "_ = (_, ?s2)")
    by (simp add: createSession_def freshPairing_def new(2) Let_def)
  have dev: "findDevice ?s2 i = Some d" "devices ?s2 = devices s" "db_uuid ?s2 = db_uuid s" "db_next ?s2 = db_next s + 2"
    using assms(2) by (simp_all add: repo_defs)
  have ps: "pairingSessions ?s2 = deleteMany (\<lambda>x. pse_deviceId x = i) (pairingSessions s) @ [freshPairing now i p s]"
    using waiting_only [OF ok] by (simp add: repo_defs)
  obtain r a where eq: "startPairing env now i p s =
      (Inr r, auditLog now a (updateDevice i (\<lambda>d. d\<lparr>dev_pairStatus := PAIR_WAITING\<rparr>) ?s2))" "spr_token r = newId s"
    using assms(2,3) create dev(1)
    by (simp add: startPairing_def ownedForPairing_def findDeviceForOwner_def owned_def new(1)
        setDevicePairStatus_def writeDevice_def Let_def)
  show thesis
    by (rule that [OF eq]) (use dev ps in \<open>simp_all add: updateDevice_def\<close>)
qed

interpretation start_pairing_guard: owner_guarded findDevice dev_parentId "''Device not found''"
  "''You do not own this device''" "startPairing env now" for env now
  by unfold_locales (simp add: startPairing_def ownedForPairing_def findDeviceForOwner_def)

interpretation cancel_pairing_guard: owner_guarded findDevice dev_parentId "''Device not found''"
  "''You do not own this device''" "cancelPairing now" for now
  by unfold_locales (simp add: cancelPairing_def ownedForPairing_def findDeviceForOwner_def)

lemma startPairing_refused:
  "(\<forall>d. findDevice s i = Some d \<longrightarrow> dev_parentId d \<noteq> p) \<Longrightarrow> snd (startPairing env now i p s) = s"
  using start_pairing_guard.change_imp_owned by blast

text \<open>A probe is a pairing, an expired pairing, a heartbeat or unknown.\<close>

lemma row_by_token:
  assumes "pairing_ok s" "findSessionByToken tok s = Some x"
  shows "x \<in> set (pairingSessions s)" "pse_token x = tok" "pairing_row_ok s x"
    "findUnique pse_id (pse_id x) (pairingSessions s) = Some x"
    "\<exists>d. findDevice s (pse_deviceId x) = Some d \<and> dev_parentId d = pse_parentId x"
proof -
  show x: "x \<in> set (pairingSessions s)" and "pse_token x = tok"
    using assms(2) findUnique_Some_iff by (fastforce simp: findSessionByToken_def)+
  then show r: "pairing_row_ok s x" using assms(1) by (simp add: pairing_ok_def)
  show "findUnique pse_id (pse_id x) (pairingSessions s) = Some x"
    using x assms(1) by (simp add: pairing_ok_def findUnique_distinct)
  obtain d where "d \<in> set (devices s)" "dev_id d = pse_deviceId x" "dev_parentId d = pse_parentId x"
    using r by (auto simp: pairing_row_ok_def ownedPairs_def)
  then show "\<exists>d. findDevice s (pse_deviceId x) = Some d \<and> dev_parentId d = pse_parentId x"
    using assms(1) findUnique_distinct [of dev_id "devices s" d] by (auto simp: pairing_ok_def)
qed

lemma confirmProbe_pairs:
  assumes ok: "pairing_ok s" and x: "findSessionByToken (cpd_token dto) s = Some x" and "now \<le> pse_expiresAt x"
  obtains s' where "confirmProbe now dto s = (Inr (pse_deviceId x), s')"
    "pairingSessions s' = deleteMany (\<lambda>y. pse_id y = pse_id x) (pairingSessions s)"
    "devices s' = updateMany (\<lambda>d. dev_id d = pse_deviceId x)
       (pairedDevice (cpd_sourceIp dto) (cpd_resolverRegion dto) now (newId s)) (devices s)"
    "db_uuid s' = db_uuid s" "db_next s' = db_next s + 2"
proof -
  note r = row_by_token [OF ok x]
  let ?a = "\<lparr>ad_userId = None, ad_action = ''pairing.confirmed'', ad_entity = ''device'',
     ad_entityId = Some (pse_deviceId x), ad_details = None, ad_ipAddress = Some (cpd_sourceIp dto)\<rparr>"
  let ?s = "confirmWrites now x dto (newId s) (auditLog now ?a (drawId s))"
  have "newId s \<notin> beacons s" using ok newId_not_drawn [of s] by (auto simp: pairing_ok_def)
  then have uniq: "\<not> list_ex (\<lambda>d. dev_dnsBeaconToken d = Some (newId s) \<and> dev_id d \<noteq> i) (devices s)" for i
    by (auto simp: beacons_def list_ex_iff image_iff)
  have "confirmProbe now dto s = (Inr (pse_deviceId x), ?s)"
    using r(3,4,5) x assms(3) uniq
    by (auto simp: confirmProbe_def tryConfirmPairingSession_def runInTransaction_def confirmBody_def pairing_row_ok_def
        incrementSessionAttempts_def updatePairing_def markDevicePaired_def writeDevice_result Let_def)
  moreover have "pairingSessions ?s = deleteMany (\<lambda>y. pse_id y = pse_id x) (pairingSessions s)"
    using uniq by (simp add: confirmWrites_def markDevicePaired_def incrementSessionAttempts_def updatePairing_def
        deleteSession_def deleteMany_updateMany_same)
  moreover have "devices ?s = updateMany (\<lambda>d. dev_id d = pse_deviceId x)
       (pairedDevice (cpd_sourceIp dto) (cpd_resolverRegion dto) now (newId s)) (devices s)"
    using uniq by (simp add: confirmWrites_def markDevicePaired_def incrementSessionAttempts_def updatePairing_def
        deleteSession_def updateDevice_def)
  moreover have "db_uuid ?s = db_uuid s" "db_next ?s = db_next s + 2"
    using uniq by (simp_all add: confirmWrites_def markDevicePaired_def incrementSessionAttempts_def updatePairing_def
        deleteSession_def)
  ultimately show thesis by (rule that)
qed

lemma confirmProbe_expired:
  assumes ok: "pairing_ok s" and x: "findSessionByToken (cpd_token dto) s = Some x" and "pse_expiresAt x < now"
  shows "confirmProbe now dto s =
     (Inl (BadRequestException (''Pairing token expired '' @ emdash @ '' start pairing again'')),
      updateDevice (pse_deviceId x) (\<lambda>d. d\<lparr>dev_pairStatus := PAIR_EXPIRED\<rparr>) s)"
  using row_by_token [OF ok x] assms
  by (auto simp: confirmProbe_def tryConfirmPairingSession_def runInTransaction_def confirmBody_def giveUpSession_def
      pairing_row_ok_def setDevicePairStatus_def writeDevice_def)

lemma confirmProbe_other:
  assumes "findSessionByToken (cpd_token dto) s = None"
  shows "confirmProbe now dto s =
     (case findDeviceByBeaconToken (cpd_token dto) s of
        None \<Rightarrow> (Inl (NotFoundException ''Unknown or expired pairing/beacon token''), s)
      | Some d \<Rightarrow> (Inr (dev_id d), recordHeartbeat now (dev_id d) (cpd_sourceIp dto) s))"
  using assms by (simp add: confirmProbe_def tryConfirmPairingSession_def runInTransaction_def confirmBody_def)

lemma recordHeartbeat_effect:
  "pairingSessions (recordHeartbeat now i ip s) = pairingSessions s"
  "db_uuid (recordHeartbeat now i ip s) = db_uuid s" "db_next s \<le> db_next (recordHeartbeat now i ip s)"
  "devices (recordHeartbeat now i ip s) =
     updateMany (\<lambda>d. dev_id d = i)
       (\<lambda>d. if \<exists>e. findDevice s i = Some e \<and> dev_paired e \<and> dev_dnsSourceIp e \<noteq> Some ip then movedDevice ip now d
            else if \<exists>e. findDevice s i = Some e \<and> dev_paired e then d\<lparr>dev_lastDnsSeenAt := Some now\<rparr> else d) (devices s)"
proof -
  have id: "updateMany (\<lambda>d. dev_id d = i) (\<lambda>d. d) ds = ds" for ds by (simp add: updateMany_def)
  show "pairingSessions (recordHeartbeat now i ip s) = pairingSessions s"
    "db_uuid (recordHeartbeat now i ip s) = db_uuid s" "db_next s \<le> db_next (recordHeartbeat now i ip s)"
    by (simp_all add: recordHeartbeat_def runInTransaction_def applyIpChange_def touchLastSeen_def split: option.splits)
  show "devices (recordHeartbeat now i ip s) =
     updateMany (\<lambda>d. dev_id d = i)
       (\<lambda>d. if \<exists>e. findDevice s i = Some e \<and> dev_paired e \<and> dev_dnsSourceIp e \<noteq> Some ip then movedDevice ip now d
            else if \<exists>e. findDevice s i = Some e \<and> dev_paired e then d\<lparr>dev_lastDnsSeenAt := Some now\<rparr> else d) (devices s)"
    by (simp add: recordHeartbeat_def runInTransaction_def applyIpChange_def touchLastSeen_def findDeviceForOwner_def
        updateDevice_def id split: option.splits)
qed

section \<open>The invariant is kept\<close>

text \<open>A step that only rewrites devices and deletes sessions.\<close>

lemma advances_devices:
  assumes "pairing_ok s" and "devices s' = updateMany Q f (devices s)"
    and "\<And>d. dev_id (f d) = dev_id d \<and> dev_parentId (f d) = dev_parentId d"
    and "\<And>d b. dev_dnsBeaconToken (f d) = Some b \<Longrightarrow> dev_dnsBeaconToken d = Some b \<or> b \<in> B"
    and "\<And>b. b \<in> B \<Longrightarrow> drawn s' b \<and> \<not> drawn s b"
    and "pairingSessions s' = deleteMany P (pairingSessions s)" "db_uuid s' = db_uuid s" "db_next s \<le> db_next s'"
  shows "advances s s'"
proof (rule advances_step [where s = s and P = P and new = "[]" and B = B])
  show "map dev_id (devices s') = map dev_id (devices s)" using assms(2,3) by simp
  show "ownedPairs s' = ownedPairs s" by (rule ownedPairs_update [OF assms(2,3)])
  show "beacons s' \<subseteq> beacons s \<union> B" by (rule beacons_update [OF assms(2,4)])
qed (use assms in simp_all)

lemma deleteMany_none: "deleteMany (\<lambda>x. False) xs = xs"
  by (simp add: deleteMany_def)

lemma advances_start:
  assumes ok: "pairing_ok s"
  shows "advances s (snd (startPairing env now i p s))"
proof (cases "\<exists>d. findDevice s i = Some d \<and> dev_parentId d = p")
  case False
  then have "snd (startPairing env now i p s) = s" by (intro startPairing_refused) auto
  then show ?thesis using advances_refl [OF ok] by simp
next
  case True
  then obtain d where d: "findDevice s i = Some d" "dev_parentId d = p" by blast
  from startPairing_effect [OF ok d, of env now] obtain r s' where st: "startPairing env now i p s = (Inr r, s')"
    and ps: "pairingSessions s' = deleteMany (\<lambda>x. pse_deviceId x = i) (pairingSessions s) @ [freshPairing now i p s]"
    and dv: "devices s' = updateMany (\<lambda>d. dev_id d = i) (\<lambda>d. d\<lparr>dev_pairStatus := PAIR_WAITING\<rparr>) (devices s)"
    and up: "db_uuid s' = db_uuid s" "db_next s' = db_next s + 2" by blast
  have own: "ownedPairs s' = ownedPairs s" by (rule ownedPairs_update [OF dv]) simp
  have bea: "beacons s' \<subseteq> beacons s \<union> {}" by (rule beacons_update [OF dv]) simp
  have inj: "inj (db_uuid s)" using ok by (simp add: pairing_ok_def)
  have "(i, p) \<in> ownedPairs s" using d findUnique_Some_iff [OF d(1)] by (force simp: ownedPairs_def)
  then have row: "pairing_row_ok s' (freshPairing now i p s)"
    by (auto simp: pairing_row_ok_def freshPairing_def own drawn_def up newId_def drawId_def)
  have fresh: "\<not> drawn s (newId s)" "\<not> drawn s (newId (drawId s))"
    using inj by (auto simp: drawn_def newId_def inj_eq)
  have "advances s s'"
    by (rule advances_step [OF ok up(1) _ _ own ps bea])
      (use up dv row fresh in \<open>auto simp: freshPairing_def\<close>)
  then show ?thesis by (simp add: st)
qed

lemma advances_cancel:
  assumes "pairing_ok s"
  shows "advances s (snd (cancelPairing now i p s))"
proof (cases "ownedForPairing i p s")
  case (Inl e)
  then show ?thesis using advances_refl [OF assms] by (simp add: cancelPairing_def)
next
  case (Inr d)
  show ?thesis
    by (rule advances_devices [where s = s and f = id and Q = "\<lambda>d. False" and B = "{}"
          and P = "\<lambda>x. pse_deviceId x = i \<and> pse_status x = PAIR_WAITING"])
      (use assms Inr in \<open>simp_all add: cancelPairing_def deleteWaitingSessionsForDevice_def updateMany_def\<close>)
qed

lemma advances_confirm:
  assumes ok: "pairing_ok s"
  shows "advances s (snd (confirmProbe now dto s))"
proof (cases "findSessionByToken (cpd_token dto) s")
  case None
  have "advances s (recordHeartbeat now i ip s)" for i ip
    by (rule advances_devices [OF ok recordHeartbeat_effect(4) [of now i ip s], where B = "{}" and P = "\<lambda>x. False"])
      (auto simp: recordHeartbeat_effect movedDevice_def deleteMany_none split: if_splits)
  with None advances_refl [OF ok] show ?thesis by (simp add: confirmProbe_other split: option.splits)
next
  case (Some x)
  show ?thesis
  proof (cases "pse_expiresAt x < now")
    case True
    have "advances s (updateDevice i (\<lambda>d. d\<lparr>dev_pairStatus := PAIR_EXPIRED\<rparr>) s)" for i
      by (rule advances_devices [OF ok, where B = "{}" and P = "\<lambda>x. False" and Q = "\<lambda>d. dev_id d = i"
            and f = "\<lambda>d. d\<lparr>dev_pairStatus := PAIR_EXPIRED\<rparr>"])
        (auto simp: updateDevice_def deleteMany_none)
    then show ?thesis by (simp add: confirmProbe_expired [OF ok Some True])
  next
    case False
    then have "now \<le> pse_expiresAt x" by simp
    from confirmProbe_pairs [OF ok Some this] obtain s' where c: "confirmProbe now dto s = (Inr (pse_deviceId x), s')"
      and ps: "pairingSessions s' = deleteMany (\<lambda>y. pse_id y = pse_id x) (pairingSessions s)"
      and dv: "devices s' = updateMany (\<lambda>d. dev_id d = pse_deviceId x)
       (pairedDevice (cpd_sourceIp dto) (cpd_resolverRegion dto) now (newId s)) (devices s)"
      and up: "db_uuid s' = db_uuid s" "db_next s' = db_next s + 2" .
    have "drawn s' (newId s) \<and> \<not> drawn s (newId s)"
      using ok by (auto simp: drawn_def newId_def up pairing_ok_def inj_eq)
    then have "advances s s'"
      by (intro advances_devices [OF ok dv _ _ _ ps up(1), where B = "{newId s}"])
        (auto simp: pairedDevice_def up)
    then show ?thesis by (simp add: c)
  qed
qed

lemma advances_exec: "pairing_ok s \<Longrightarrow> advances s (pairing_exec env now opn s)"
  by (cases opn) (simp_all add: advances_start advances_cancel advances_confirm)

lemma pairing_run_ok: "pairing_run env s \<Longrightarrow> pairing_ok s"
proof (induction rule: pairing_run.induct)
  case (init s)
  then show ?case by (auto simp: pairing_ok_def beacons_def image_iff)
next
  case (step s now opn)
  then show ?case using advances_exec [of s env now opn] by (simp add: advances_def)
qed

section \<open>Spent tokens\<close>

definition pairing_execs :: "pairEnv \<Rightarrow> (time \<times> pairing_op) list \<Rightarrow> 'z store_scheme \<Rightarrow> 'z store_scheme" where
  "pairing_execs env ops s = fold (\<lambda>(now, opn) s. pairing_exec env now opn s) ops s"

definition spent :: "string \<Rightarrow> 'z store_scheme \<Rightarrow> bool" where
  "spent tok s \<longleftrightarrow> drawn s tok \<and> tok \<notin> tokens s \<and> tok \<notin> beacons s"

lemma spent_refused:
  "spent (cpd_token dto) s \<Longrightarrow>
   confirmProbe now dto s = (Inl (NotFoundException ''Unknown or expired pairing/beacon token''), s)"
  by (auto simp: confirmProbe_other spent_def tokens_def beacons_def findSessionByToken_def findDeviceByBeaconToken_def
      findUnique_None_iff split: option.splits dest: findUnique_Some_iff)

lemma spent_stays:
  assumes "pairing_ok s" "spent tok s"
  shows "spent tok (pairing_execs env ops s)"
  using assms
proof (induction ops arbitrary: s)
  case Nil
  then show ?case by (simp add: pairing_execs_def)
next
  case (Cons a ops)
  obtain now opn where a: "a = (now, opn)" by (cases a)
  have adv: "advances s (pairing_exec env now opn s)" by (rule advances_exec [OF Cons.prems(1)])
  then have "spent tok (pairing_exec env now opn s)"
    using Cons.prems(2) drawn_mono [of s tok] unfolding spent_def advances_def by blast
  with adv show ?case using Cons.IH by (simp add: a pairing_execs_def advances_def)
qed

text \<open>Which requests spend the token of a session.\<close>

lemma token_spent:
  assumes ok: "pairing_ok s" and x: "x \<in> set (pairingSessions s)"
    and op: "(\<exists>dto. opn = ConfirmProbe dto \<and> cpd_token dto = pse_token x \<and> is_ok (fst (confirmProbe now dto s))) \<or>
         opn = StartPairing (pse_deviceId x) (pse_parentId x) \<or> opn = CancelPairing (pse_deviceId x) (pse_parentId x)"
  shows "spent (pse_token x) (pairing_exec env now opn s)"
proof -
  let ?s = "pairing_exec env now opn s"
  have f: "findSessionByToken (pse_token x) s = Some x"
    using ok x by (simp add: findSessionByToken_def pairing_ok_def findUnique_distinct)
  note r = row_by_token [OF ok f]
  obtain d where d: "findDevice s (pse_deviceId x) = Some d" "dev_parentId d = pse_parentId x" using r(5) by blast
  have dr: "drawn s (pse_token x)" using r(3) by (simp add: pairing_row_ok_def)
  have nb: "pse_token x \<notin> beacons s" using ok x by (auto simp: pairing_ok_def tokens_def)
  have nx: "pse_token x \<noteq> newId s" using dr ok newId_not_drawn [of s] by (auto simp: pairing_ok_def)
  have only: "y = x" if "y \<in> set (pairingSessions s)" "pse_token y = pse_token x" for y
    using that f ok findUnique_distinct [of pse_token "pairingSessions s" y] by (simp add: pairing_ok_def findSessionByToken_def)
  have adv: "advances s ?s" by (rule advances_exec [OF ok])
  have "x \<notin> set (pairingSessions ?s) \<and> set (pairingSessions ?s) \<subseteq> set (pairingSessions s) \<union> {y. pse_token y = newId s}"
    using op
  proof (elim disjE exE conjE)
    fix dto assume o: "opn = ConfirmProbe dto" "cpd_token dto = pse_token x" "is_ok (fst (confirmProbe now dto s))"
    have f': "findSessionByToken (cpd_token dto) s = Some x" using f o(2) by simp
    have "\<not> pse_expiresAt x < now" using o(3) confirmProbe_expired [OF ok f', of now] by auto
    then have "now \<le> pse_expiresAt x" by simp
    from confirmProbe_pairs [OF ok f' this] obtain s' where "confirmProbe now dto s = (Inr (pse_deviceId x), s')"
      "pairingSessions s' = deleteMany (\<lambda>y. pse_id y = pse_id x) (pairingSessions s)" by metis
    then show ?thesis by (auto simp: o(1))
  next
    assume o: "opn = StartPairing (pse_deviceId x) (pse_parentId x)"
    from startPairing_effect [OF ok d, of env now] obtain r s' where
      "startPairing env now (pse_deviceId x) (pse_parentId x) s = (Inr r, s')"
      "pairingSessions s' = deleteMany (\<lambda>y. pse_deviceId y = pse_deviceId x) (pairingSessions s) @
         [freshPairing now (pse_deviceId x) (pse_parentId x) s]" by metis
    moreover have "freshPairing now (pse_deviceId x) (pse_parentId x) s \<noteq> x"
      using nx by (auto simp: freshPairing_def dest: arg_cong [of _ _ pse_token])
    ultimately show ?thesis by (auto simp: o freshPairing_def)
  next
    assume o: "opn = CancelPairing (pse_deviceId x) (pse_parentId x)"
    have "ownedForPairing (pse_deviceId x) (pse_parentId x) s = Inr d"
      using d by (simp add: ownedForPairing_def findDeviceForOwner_def owned_def)
    then show ?thesis
      using r(3) by (auto simp: o cancelPairing_def deleteWaitingSessionsForDevice_def pairing_row_ok_def)
  qed
  with nx have "pse_token x \<notin> tokens ?s" using only by (auto simp: tokens_def)
  moreover have "pse_token x \<notin> beacons ?s" using adv nb dr by (auto simp: advances_def)
  moreover have "drawn ?s (pse_token x)" using adv dr drawn_mono [of s "pse_token x" ?s] by (simp add: advances_def)
  ultimately show ?thesis by (simp add: spent_def)
qed

section \<open>Host names\<close>

lemma pattern_iff:
  assumes "toLowerCase host = host"
  shows "PAIR_HOSTNAME_PATTERN env host = Some t \<longleftrightarrow>
     isUuidText t \<and> host = t @ ''.'' @ toLowerCase (PAIR_DOMAIN_SUFFIX env)"
  unfolding PAIR_HOSTNAME_PATTERN_def Let_def assms by (auto simp: endsWith_iff)

lemma lower_stripped [simp]: "toLowerCase (stripTrailingDot (toLowerCase q)) = stripTrailingDot (toLowerCase q)"
proof -
  have "toLowerCase (butlast w) = butlast (toLowerCase w)" for w by (simp add: toLowerCase_def map_butlast)
  then show ?thesis by (simp add: stripTrailingDot_def)
qed

text \<open>A probe name determines its token. The resolver recognises a queried name as the probe of a token
  exactly when the token is a lower-case UUID and the name, in any letter case and with or without the
  final dot, is the host name that was handed out for the token.\<close>
theorem pair_host_roundtrip:
  "extractPairToken env q = Some t \<longleftrightarrow>
     isUuidText t \<and> toLowerCase t = t \<and> stripTrailingDot (toLowerCase q) = toLowerCase (pairHostnameFor env t)"
proof -
  let ?h = "stripTrailingDot (toLowerCase q)" and ?x = "''.'' @ toLowerCase (PAIR_DOMAIN_SUFFIX env)"
  have low: "toLowerCase t = t" if "?h = t @ ?x"
    using lower_stripped [of q] that by (simp add: toLowerCase_def)
  have "toLowerCase (pairHostnameFor env t) = toLowerCase t @ ?x"
    by (simp add: pairHostnameFor_def) (simp add: toLowerCase_def lowerChar_def)
  with low show ?thesis unfolding extractPairToken_def by (simp add: pattern_iff) metis
qed

section \<open>Properties of the handshake\<close>

text \<open>C19: What the pairing table always holds. In every state reachable by pairing requests a device has
  at most one session, started by its owner, still waiting, valid for ten minutes from its creation, and
  with no attempt counted: the attempt limit and the answers for finished sessions are never reached.\<close>
theorem pairing_run_safe:
  assumes "pairing_run env s"
  shows "distinct (map pse_deviceId (pairingSessions s)) \<and> distinct (map pse_token (pairingSessions s)) \<and>
    (\<forall>x \<in> set (pairingSessions s). pse_status x = PAIR_WAITING \<and> pse_attempts x = 0 \<and>
       pse_expiresAt x = pse_createdAt x + 600000 \<and>
       (\<exists>d. findDevice s (pse_deviceId x) = Some d \<and> dev_parentId d = pse_parentId x))"
proof -
  have ok: "pairing_ok s" by (rule pairing_run_ok [OF assms])
  have "\<exists>d. findDevice s (pse_deviceId x) = Some d \<and> dev_parentId d = pse_parentId x" if "x \<in> set (pairingSessions s)" for x
    using row_by_token(5) [OF ok, of "pse_token x" x] that ok findUnique_distinct [of pse_token "pairingSessions s" x]
    by (simp add: findSessionByToken_def pairing_ok_def)
  with ok show ?thesis by (auto simp: pairing_ok_def pairing_row_ok_def PAIR_TOKEN_TTL_MS_def)
qed

definition noEnv :: pairEnv where
  "noEnv = \<lparr>env_DNS_RESOLVER_PUBLIC_HOST = None, env_PAIR_DOMAIN_SUFFIX = None\<rparr>"

lemma demo_run: "pairing_run noEnv demoStore"
  by (rule pairing_run.init [OF inj_demo]) (auto simp: demoStore_def emptyStore_def bareDevice_def)

theorem pairing_run_safe_witness:
  "distinct (map pse_deviceId (pairingSessions (pairing_exec noEnv 0 (StartPairing ''d'' ''p'') demoStore)))"
  using pairing_run_safe [OF pairing_run.step [OF demo_run]] by blast

text \<open>C17: A pairing token works once. After a probe with the token has paired the device, or the owner has
  restarted or cancelled the pairing, every probe with that token is refused as unknown and changes
  nothing, whatever requests come in between.\<close>
theorem pairing_token_single_use:
  assumes "pairing_run env s" and "x \<in> set (pairingSessions s)"
    and "(\<exists>dto. opn = ConfirmProbe dto \<and> cpd_token dto = pse_token x \<and> is_ok (fst (confirmProbe now dto s))) \<or>
         opn = StartPairing (pse_deviceId x) (pse_parentId x) \<or> opn = CancelPairing (pse_deviceId x) (pse_parentId x)"
    and "s' = pairing_execs env ops (pairing_exec env now opn s)" and "cpd_token dto = pse_token x"
  shows "confirmProbe later dto s' = (Inl (NotFoundException ''Unknown or expired pairing/beacon token''), s')"
proof -
  have ok: "pairing_ok s" by (rule pairing_run_ok [OF assms(1)])
  have "pairing_ok (pairing_exec env now opn s)" using advances_exec [OF ok] by (simp add: advances_def)
  from spent_stays [OF this token_spent [OF ok assms(2,3)]] show ?thesis
    by (simp add: spent_refused assms(4,5))
qed

definition demoPaired :: store where
  "demoPaired = pairing_exec noEnv 0 (StartPairing ''d'' ''p'') demoStore"

lemma demo_pairing: "pairingSessions demoPaired = [freshPairing 0 ''d'' ''p'' demoStore]" "pairing_run noEnv demoPaired"
proof -
  have "pairingSessions demoStore = []" and d: "findDevice demoStore ''d'' = Some (bareDevice ''d'' ''p'' ''c'')"
    by (simp_all add: demoStore_def emptyStore_def bareDevice_def)
  moreover have "dev_parentId (bareDevice ''d'' ''p'' ''c'') = ''p''" by (simp add: bareDevice_def)
  from startPairing_effect [OF pairing_run_ok [OF demo_run] d this, of noEnv 0] obtain r s' where
    "startPairing noEnv 0 ''d'' ''p'' demoStore = (Inr r, s')"
    "pairingSessions s' = deleteMany (\<lambda>x. pse_deviceId x = ''d'') (pairingSessions demoStore) @ [freshPairing 0 ''d'' ''p'' demoStore]"
    by metis
  ultimately show "pairingSessions demoPaired = [freshPairing 0 ''d'' ''p'' demoStore]"
    by (simp add: demoPaired_def)
  show "pairing_run noEnv demoPaired" unfolding demoPaired_def by (rule pairing_run.step [OF demo_run])
qed

theorem pairing_token_single_use_witness:
  "is_ok (fst (confirmProbe 5 \<lparr>cpd_token = ''x'', cpd_sourceIp = ''1.2.3.4'', cpd_resolverRegion = None\<rparr>
      (pairing_execs noEnv [] (pairing_exec noEnv 4 (CancelPairing ''d'' ''p'') demoPaired)))) = False"
proof -
  let ?x = "freshPairing 0 ''d'' ''p'' demoStore"
  have x: "pse_token ?x = ''x''" "pse_deviceId ?x = ''d''" "pse_parentId ?x = ''p''"
    by (simp_all add: freshPairing_def newId_def demoStore_def emptyStore_def)
  show ?thesis
    by (subst pairing_token_single_use [OF demo_pairing(2), where x = ?x and opn = "CancelPairing ''d'' ''p''" and now = 4 and ops = "[]"])
      (simp_all add: demo_pairing(1) x)
qed

lemma findDevice_update:
  assumes "devices s' = updateMany (\<lambda>d. dev_id d = j) f (devices s)" "\<And>d. dev_id (f d) = dev_id d"
  shows "findDevice s' i = (if i = j then map_option f (findDevice s i) else findDevice s i)"
  using assms by simp

lemma beacon_device:
  assumes ok: "pairing_ok s" and d: "findDeviceByBeaconToken b s = Some d"
  shows "findDevice s (dev_id d) = Some d" "dev_dnsBeaconToken d = Some b" "findSessionByToken b s = None"
proof -
  have m: "d \<in> set (devices s)" and b: "dev_dnsBeaconToken d = Some b"
    using findUnique_Some_iff [OF d [unfolded findDeviceByBeaconToken_def]] by auto
  show "dev_dnsBeaconToken d = Some b" by (fact b)
  show "findDevice s (dev_id d) = Some d" using ok m findUnique_distinct by (fastforce simp: pairing_ok_def)
  have "b \<in> beacons s" using m b by (force simp: beacons_def)
  then show "findSessionByToken b s = None"
    using ok by (auto simp: findSessionByToken_def findUnique_None_iff pairing_ok_def tokens_def)
qed

lemma start_pairing_state:
  "findDevice (snd (startPairing env now j p s)) i = Some e \<Longrightarrow> pairing_ok s \<Longrightarrow>
   \<exists>d. findDevice s i = Some d \<and> dev_paired e = dev_paired d \<and> dev_dnsSourceIp e = dev_dnsSourceIp d"
proof (cases "\<exists>d. findDevice s j = Some d \<and> dev_parentId d = p")
  case False
  moreover assume "findDevice (snd (startPairing env now j p s)) i = Some e"
  ultimately show ?thesis by (subst (asm) startPairing_refused) auto
next
  case True
  assume e: "findDevice (snd (startPairing env now j p s)) i = Some e" and ok: "pairing_ok s"
  from True obtain d where d: "findDevice s j = Some d" "dev_parentId d = p" by blast
  from startPairing_effect [OF ok d, of env now] obtain r s' where st: "startPairing env now j p s = (Inr r, s')"
    and dv: "devices s' = updateMany (\<lambda>d. dev_id d = j) (\<lambda>d. d\<lparr>dev_pairStatus := PAIR_WAITING\<rparr>) (devices s)" by metis
  show ?thesis using e findDevice_update [OF dv, of i] by (auto simp: st split: if_splits)
qed


definition demoProbe :: ConfirmPairingDto where
  "demoProbe = \<lparr>cpd_token = ''x'', cpd_sourceIp = ''1.2.3.4'', cpd_resolverRegion = None\<rparr>"

lemma demo_confirmed:
  "map_option (\<lambda>d. (dev_paired d, dev_dnsSourceIp d, dev_dnsBeaconToken d)) (findDevice demoPaired ''d'') = Some (False, None, None)"
  "map_option dev_paired (findDevice (pairing_exec noEnv 5 (ConfirmProbe demoProbe) demoPaired) ''d'') = Some True"
  by code_simp+


text \<open>A probe with the beacon token of a paired device.\<close>

lemma beacon_probe:
  assumes ok: "pairing_ok s" and e: "findDevice s i = Some e" "dev_paired e" "dev_dnsBeaconToken e = Some b"
    and uniq: "\<And>d. d \<in> set (devices s) \<Longrightarrow> dev_dnsBeaconToken d = Some b \<Longrightarrow> dev_id d = i"
  shows "\<exists>s' e'. confirmProbe t \<lparr>cpd_token = b, cpd_sourceIp = ip, cpd_resolverRegion = region\<rparr> s = (Inr i, s') \<and>
     findDevice s' i = Some e' \<and> dev_parentId e' = dev_parentId e \<and> dev_dnsSourceIp e' = Some ip \<and>
     dev_lastDnsSeenAt e' = Some t \<and> findDeviceByIp ip s' \<noteq> None"
proof -
  have m: "e \<in> set (devices s)" "dev_id e = i" using findUnique_Some_iff [OF e(1)] by auto
  obtain d where d: "findDeviceByBeaconToken b s = Some d"
    using m(1) e(3) by (cases "findDeviceByBeaconToken b s") (force simp: findDeviceByBeaconToken_def findUnique_None_iff)+
  have "d \<in> set (devices s)" "dev_dnsBeaconToken d = Some b"
    using findUnique_Some_iff [OF d [unfolded findDeviceByBeaconToken_def]] by auto
  then have i: "dev_id d = i" by (rule uniq)
  let ?s = "recordHeartbeat t i ip s"
  obtain e' where e': "findDevice ?s i = Some e'" "dev_parentId e' = dev_parentId e" "dev_dnsSourceIp e' = Some ip"
     "dev_lastDnsSeenAt e' = Some t"
    using e(1,2) findDevice_update [OF recordHeartbeat_effect(4) [of t i ip s], of i]
    by (auto simp: movedDevice_def split: if_splits)
  have "findDeviceByIp ip ?s \<noteq> None"
    using findUnique_Some_iff [OF e'(1)] e'(3) unfolding findDeviceByIp_def findFirst_None_iff by blast
  with e' beacon_device(3) [OF ok d] d i show ?thesis by (simp add: confirmProbe_other)
qed



text \<open>An expired token is refused, and the refusal rolls the session back. A probe with the token of an
  expired pairing is answered with 400 and the device is shown as EXPIRED; the mark on the session, made
  in the transaction that the error aborts, is lost, so that the session stays waiting.\<close>
theorem expired_rolls_back:
  assumes run: "pairing_run env s" and x: "x \<in> set (pairingSessions s)" "pse_token x = cpd_token dto"
    and "pse_createdAt x + 600000 < now"
  shows "\<exists>msg s' d. confirmProbe now dto s = (Inl (BadRequestException msg), s') \<and>
     findDevice s' (pse_deviceId x) = Some d \<and> dev_pairStatus d = PAIR_EXPIRED \<and>
     pairingSessions s' = pairingSessions s \<and> pse_status x = PAIR_WAITING"
proof -
  have ok: "pairing_ok s" by (rule pairing_run_ok [OF run])
  have f: "findSessionByToken (cpd_token dto) s = Some x"
    using ok x findUnique_distinct [of pse_token "pairingSessions s" x] by (simp add: findSessionByToken_def pairing_ok_def)
  note r = row_by_token [OF ok f]
  have "pse_expiresAt x < now" using r(3) assms(4) by (simp add: pairing_row_ok_def PAIR_TOKEN_TTL_MS_def)
  from confirmProbe_expired [OF ok f this] r(3,5) show ?thesis by (auto simp: pairing_row_ok_def)
qed

theorem expired_rolls_back_witness:
  "pairingSessions (snd (confirmProbe 700000 demoProbe demoPaired)) = pairingSessions demoPaired"
proof -
  have "pse_token (freshPairing 0 ''d'' ''p'' demoStore) = cpd_token demoProbe"
    by (simp add: freshPairing_def demoProbe_def newId_def demoStore_def emptyStore_def)
  from expired_rolls_back [OF demo_pairing(2) _ this, of 700000] show ?thesis
    by (auto simp: demo_pairing(1) freshPairing_def)
qed

end
