(* ===== verification/Auth.thy ===== *)
theory Auth
  imports Schema
begin

text \<open>
  Accounts and authentication (\<^verbatim>\<open>auth.service.ts\<close>, \<^verbatim>\<open>jwt-auth.guard.ts\<close>, \<^verbatim>\<open>roles.guard.ts\<close>): registration,
  login with lockout, refresh-token rotation, logout, and the guards of the controllers.

  \<^verbatim>\<open>bcrypt\<close>, \<^verbatim>\<open>@nestjs/jwt\<close> and SHA-256 are the parameter record \<open>tokenLib\<close>; \<open>token_laws\<close> states what the
  rotation relies on: distinct \<^verbatim>\<open>jti\<close> claims give distinct tokens, the digest has no collisions, and a
  token always verifies to the same claims. \<^verbatim>\<open>randomUUID()\<close> draws from the identifier tape. \<open>refresh\<close> is
  its two database steps, \<open>refreshPrepare\<close> and the compare-and-swap \<open>refreshCommit\<close>, so that runs may
  interleave them with other requests.
\<close>

section \<open>Types\<close>

record JwtPayload =
  jwp_sub :: ident
  jwp_email :: string
  jwp_role :: Role
  jwp_jti :: ident

record tokenLib =
  tl_bcryptHash :: "string \<Rightarrow> string \<Rightarrow> string"
  tl_bcryptCompare :: "string \<Rightarrow> string \<Rightarrow> bool"
  tl_sign :: "string \<Rightarrow> string \<Rightarrow> time \<Rightarrow> JwtPayload \<Rightarrow> string"
  tl_verify :: "string \<Rightarrow> time \<Rightarrow> string \<Rightarrow> JwtPayload option"
  tl_sha256 :: "string \<Rightarrow> string"

record authConfig =
  acf_jwtSecret :: string
  acf_jwtRefreshSecret :: string
  acf_jwtExpiresIn :: string
  acf_jwtRefreshExpiresIn :: string

record RegisterDto =
  rdt_email :: string
  rdt_password :: string
  rdt_firstName :: "string option"
  rdt_lastName :: "string option"

record LoginDto =
  ldt_email :: string
  ldt_password :: string

record AuthResponseDto =
  ard_accessToken :: string
  ard_refreshToken :: string
  ard_userId :: ident
  ard_role :: Role

section \<open>Operations\<close>

definition MAX_FAILED_ATTEMPTS :: int where "MAX_FAILED_ATTEMPTS = 5"
definition LOCKOUT_DURATION_MINUTES :: int where "LOCKOUT_DURATION_MINUTES = 15"

text \<open>The constructor: both secrets are present and long enough.\<close>

definition authConstructor ::
  "string option \<Rightarrow> string option \<Rightarrow> string option \<Rightarrow> string option \<Rightarrow> authConfig result" where
  "authConstructor jwtSecret jwtRefreshSecret expiration refreshExpiration =
     (if \<not> truthy jwtSecret \<or> length (patch jwtSecret []) < 32
      then Inl (InternalServerErrorException
        ''JWT_SECRET must be defined and at least 32 characters long. Refusing to start.'')
      else if \<not> truthy jwtRefreshSecret \<or> length (patch jwtRefreshSecret []) < 32
      then Inl (InternalServerErrorException
        ''JWT_REFRESH_SECRET must be defined and at least 32 characters long. Refusing to start.'')
      else Inr \<lparr>acf_jwtSecret = patch jwtSecret [], acf_jwtRefreshSecret = patch jwtRefreshSecret [],
                acf_jwtExpiresIn = patch expiration ''15m'', acf_jwtRefreshExpiresIn = patch refreshExpiration ''7d''\<rparr>)"

definition hashToken :: "tokenLib \<Rightarrow> string \<Rightarrow> string" where
  "hashToken L token = tl_sha256 L token"

definition generateTokens ::
  "tokenLib \<Rightarrow> authConfig \<Rightarrow> time \<Rightarrow> ident \<Rightarrow> string \<Rightarrow> Role \<Rightarrow> 'z store_scheme \<Rightarrow> AuthResponseDto \<times> 'z store_scheme" where
  "generateTokens L cfg now sub email role s =
     (let s1 = drawId s in
      (\<lparr>ard_accessToken = tl_sign L (acf_jwtSecret cfg) (acf_jwtExpiresIn cfg) now
          \<lparr>jwp_sub = sub, jwp_email = email, jwp_role = role, jwp_jti = newId s\<rparr>,
        ard_refreshToken = tl_sign L (acf_jwtRefreshSecret cfg) (acf_jwtRefreshExpiresIn cfg) now
          \<lparr>jwp_sub = sub, jwp_email = email, jwp_role = role, jwp_jti = newId s1\<rparr>,
        ard_userId = sub, ard_role = role\<rparr>, drawId s1))"

definition issueTokens ::
  "tokenLib \<Rightarrow> authConfig \<Rightarrow> time \<Rightarrow> ident \<Rightarrow> string \<Rightarrow> Role \<Rightarrow> 'z store_scheme \<Rightarrow> AuthResponseDto \<times> 'z store_scheme" where
  "issueTokens L cfg now sub email role s =
     (case generateTokens L cfg now sub email role s of
        (tokens, s1) \<Rightarrow>
          (tokens, updateUser sub (\<lambda>u. u\<lparr>usr_refreshToken := Some (hashToken L (ard_refreshToken tokens))\<rparr>) s1))"

text \<open>\<open>salt\<close> is the salt that \<^verbatim>\<open>bcrypt.hash\<close> draws.\<close>

definition register ::
  "tokenLib \<Rightarrow> authConfig \<Rightarrow> string \<Rightarrow> time \<Rightarrow> RegisterDto \<Rightarrow> 'z store_scheme \<Rightarrow> AuthResponseDto result \<times> 'z store_scheme" where
  "register L cfg salt now dto s =
     (let email = toLowerCase (trim (rdt_email dto)) in
      case findUnique usr_email email (users s) of
        Some _ \<Rightarrow> (Inl (ConflictException ''Email already registered''), s)
      | None \<Rightarrow>
          (let u = \<lparr>usr_id = newId s, usr_email = email, usr_passwordHash = tl_bcryptHash L salt (rdt_password dto),
                    usr_role = PARENT, usr_firstName = rdt_firstName dto, usr_lastName = rdt_lastName dto,
                    usr_refreshToken = None, usr_failedLoginAttempts = 0, usr_lockedUntil = None, usr_createdAt = now\<rparr>;
               s1 = drawId (s\<lparr>users := users s @ [u],
                      subscriptions := subscriptions s @ [\<lparr>sub_userId = usr_id u, sub_plan = FREE, sub_active = True\<rparr>]\<rparr>)
           in case issueTokens L cfg now (usr_id u) (usr_email u) (usr_role u) s1 of
                (tokens, s2) \<Rightarrow> (Inr tokens, s2)))"

definition ceilMinutes :: "int \<Rightarrow> int" where
  "ceilMinutes ms = - ((- ms) div 60000)"

definition isLocked :: "time \<Rightarrow> User \<Rightarrow> bool" where
  "isLocked now u \<longleftrightarrow> (case usr_lockedUntil u of None \<Rightarrow> False | Some t \<Rightarrow> now < t)"

definition lockedMessage :: "time \<Rightarrow> User \<Rightarrow> string" where
  "lockedMessage now u =
     ''Account is temporarily locked due to too many failed login attempts. Try again in '' @
     showInt (ceilMinutes (patch (usr_lockedUntil u) 0 - now)) @ '' minute(s).''"

definition login ::
  "tokenLib \<Rightarrow> authConfig \<Rightarrow> time \<Rightarrow> LoginDto \<Rightarrow> 'z store_scheme \<Rightarrow> AuthResponseDto result \<times> 'z store_scheme" where
  "login L cfg now dto s =
     (case findUnique usr_email (toLowerCase (trim (ldt_email dto))) (users s) of
        None \<Rightarrow> (Inl (UnauthorizedException ''Invalid credentials''), s)
      | Some user \<Rightarrow>
          if isLocked now user then (Inl (ForbiddenException (lockedMessage now user)), s)
          else if \<not> tl_bcryptCompare L (ldt_password dto) (usr_passwordHash user)
          then
            (let newAttempts = usr_failedLoginAttempts user + 1;
                 shouldLock = (MAX_FAILED_ATTEMPTS \<le> newAttempts)
             in (Inl (UnauthorizedException ''Invalid credentials''),
                 updateUser (usr_id user)
                   (\<lambda>u. u\<lparr>usr_failedLoginAttempts := newAttempts,
                          usr_lockedUntil := (if shouldLock then Some (now + LOCKOUT_DURATION_MINUTES * 60000)
                                              else usr_lockedUntil u)\<rparr>) s))
          else
            (let s1 = (if 0 < usr_failedLoginAttempts user
                       then updateUser (usr_id user) (\<lambda>u. u\<lparr>usr_failedLoginAttempts := 0, usr_lockedUntil := None\<rparr>) s
                       else s)
             in case issueTokens L cfg now (usr_id user) (usr_email user) (usr_role user) s1 of
                  (tokens, s2) \<Rightarrow> (Inr tokens, s2)))"

definition refreshPrepare ::
  "tokenLib \<Rightarrow> authConfig \<Rightarrow> time \<Rightarrow> string \<Rightarrow> 'z store_scheme \<Rightarrow> User result" where
  "refreshPrepare L cfg now refreshToken s =
     (case tl_verify L (acf_jwtRefreshSecret cfg) now refreshToken of
        None \<Rightarrow> Inl (UnauthorizedException ''Invalid or expired refresh token'')
      | Some payload \<Rightarrow>
          (case findUser s (jwp_sub payload) of
             None \<Rightarrow> Inl (UnauthorizedException ''Invalid refresh token'')
           | Some user \<Rightarrow>
               if \<not> truthy (usr_refreshToken user) \<or> usr_refreshToken user \<noteq> Some (hashToken L refreshToken)
               then Inl (UnauthorizedException ''Invalid refresh token'') else Inr user))"

definition refreshCommit ::
  "tokenLib \<Rightarrow> authConfig \<Rightarrow> time \<Rightarrow> User \<Rightarrow> string \<Rightarrow> 'z store_scheme \<Rightarrow> AuthResponseDto result \<times> 'z store_scheme" where
  "refreshCommit L cfg now user presentedHash s =
     (case generateTokens L cfg now (usr_id user) (usr_email user) (usr_role user) s of
        (tokens, s1) \<Rightarrow>
          if list_ex (\<lambda>u. usr_id u = usr_id user \<and> usr_refreshToken u = Some presentedHash) (users s1)
          then (Inr tokens,
                s1\<lparr>users := updateMany (\<lambda>u. usr_id u = usr_id user \<and> usr_refreshToken u = Some presentedHash)
                     (\<lambda>u. u\<lparr>usr_refreshToken := Some (hashToken L (ard_refreshToken tokens))\<rparr>) (users s1)\<rparr>)
          else (Inl (UnauthorizedException ''Invalid refresh token''), s1))"

definition refresh ::
  "tokenLib \<Rightarrow> authConfig \<Rightarrow> time \<Rightarrow> string \<Rightarrow> 'z store_scheme \<Rightarrow> AuthResponseDto result \<times> 'z store_scheme" where
  "refresh L cfg now refreshToken s =
     (case refreshPrepare L cfg now refreshToken s of
        Inl e \<Rightarrow> (Inl e, s)
      | Inr user \<Rightarrow> refreshCommit L cfg now user (hashToken L refreshToken) s)"

definition logout :: "ident \<Rightarrow> 'z store_scheme \<Rightarrow> unit result \<times> 'z store_scheme" where
  "logout userId s =
     (case findUser s userId of
        None \<Rightarrow> (Inl PrismaRecordNotFound, s)
      | Some _ \<Rightarrow> (Inr (), updateUser userId (\<lambda>u. u\<lparr>usr_refreshToken := None\<rparr>) s))"

section \<open>Guards\<close>

definition extractTokenFromHeader :: "string option \<Rightarrow> string option" where
  "extractTokenFromHeader authorization =
     (case authorization of
        None \<Rightarrow> None
      | Some h \<Rightarrow>
          (case splitOn (CHR '' '') h of
             ty # token # _ \<Rightarrow> if ty = ''Bearer'' then Some token else None
           | _ \<Rightarrow> None))"

definition canActivate_Jwt :: "tokenLib \<Rightarrow> authConfig \<Rightarrow> time \<Rightarrow> string option \<Rightarrow> JwtPayload result" where
  "canActivate_Jwt L cfg now authorization =
     (let token = extractTokenFromHeader authorization in
      if \<not> truthy token then Inl (UnauthorizedException ''Missing authentication token'')
      else case tl_verify L (acf_jwtSecret cfg) now (patch token []) of
             None \<Rightarrow> Inl (UnauthorizedException ''Invalid or expired token'')
           | Some payload \<Rightarrow> Inr payload)"

definition canActivate_Roles :: "Role list option \<Rightarrow> JwtPayload option \<Rightarrow> bool result" where
  "canActivate_Roles requiredRoles user =
     (if patch requiredRoles [] = [] then Inr True
      else case user of
             None \<Rightarrow> Inl (ForbiddenException ''Insufficient role permissions'')
           | Some u \<Rightarrow>
               if jwp_role u \<in> set (patch requiredRoles []) then Inr True
               else Inl (ForbiddenException ''Insufficient role permissions''))"

section \<open>Runs\<close>

text \<open>The database steps of the requests, in any order; a refresh contributes its commit, with whatever
  row and hash an earlier read gave it.\<close>

datatype auth_op =
    ARegister string RegisterDto
  | ALogin LoginDto
  | ACommit User string
  | ALogout ident

fun auth_exec :: "tokenLib \<Rightarrow> authConfig \<Rightarrow> time \<Rightarrow> auth_op \<Rightarrow> 'z store_scheme \<Rightarrow> 'z store_scheme" where
  "auth_exec L cfg now (ARegister salt dto) s = snd (register L cfg salt now dto s)"
| "auth_exec L cfg now (ALogin dto) s = snd (login L cfg now dto s)"
| "auth_exec L cfg now (ACommit u h) s = snd (refreshCommit L cfg now u h s)"
| "auth_exec L cfg now (ALogout i) s = snd (logout i s)"

fun auth_exec_all :: "tokenLib \<Rightarrow> authConfig \<Rightarrow> (time \<times> auth_op) list \<Rightarrow> 'z store_scheme \<Rightarrow> 'z store_scheme" where
  "auth_exec_all L cfg [] s = s"
| "auth_exec_all L cfg ((t, opn) # ops) s = auth_exec_all L cfg ops (auth_exec L cfg t opn s)"

definition token_laws :: "tokenLib \<Rightarrow> bool" where
  "token_laws L \<longleftrightarrow>
     inj (tl_sha256 L) \<and>
     (\<forall>sec e t t' c c'. tl_sign L sec e t c = tl_sign L sec e t' c' \<longrightarrow> jwp_jti c = jwp_jti c') \<and>
     (\<forall>sec t t' tok c c'. tl_verify L sec t tok = Some c \<longrightarrow> tl_verify L sec t' tok = Some c' \<longrightarrow> c = c')"

text \<open>A refresh token signed with the identifier at position \<open>k\<close> of the tape, by its digest.\<close>

definition signedAt :: "tokenLib \<Rightarrow> authConfig \<Rightarrow> 'z store_scheme \<Rightarrow> nat \<Rightarrow> string \<Rightarrow> bool" where
  "signedAt L cfg s k h \<longleftrightarrow>
     (\<exists>t c. h = hashToken L (tl_sign L (acf_jwtRefreshSecret cfg) (acf_jwtRefreshExpiresIn cfg) t c) \<and> jwp_jti c = db_uuid s k)"

lemma issueTokens_state:
  "users (snd (issueTokens L cfg now i em r s)) =
     updateMany (\<lambda>u. usr_id u = i)
       (\<lambda>u. u\<lparr>usr_refreshToken := Some (hashToken L (ard_refreshToken (fst (generateTokens L cfg now i em r s))))\<rparr>) (users s)"
  "db_uuid (snd (issueTokens L cfg now i em r s)) = db_uuid s"
  "db_next (snd (issueTokens L cfg now i em r s)) = db_next s + 2"
  by (simp_all add: issueTokens_def generateTokens_def updateUser_def Let_def drawId_def)

lemma generateTokens_signed:
  "signedAt L cfg s (db_next s + 1) (hashToken L (ard_refreshToken (fst (generateTokens L cfg now i em r s))))"
  unfolding signedAt_def
  by (rule exI [of _ now], rule exI [of _ "\<lparr>jwp_sub = i, jwp_email = em, jwp_role = r, jwp_jti = newId (drawId s)\<rparr>"])
    (simp add: generateTokens_def Let_def newId_def)

lemma refreshCommit_state:
  "users (snd (refreshCommit L cfg now u h s)) =
     updateMany (\<lambda>v. usr_id v = usr_id u \<and> usr_refreshToken v = Some h)
       (\<lambda>v. v\<lparr>usr_refreshToken := Some (hashToken L (ard_refreshToken
          (fst (generateTokens L cfg now (usr_id u) (usr_email u) (usr_role u) s))))\<rparr>) (users s)"
  "db_uuid (snd (refreshCommit L cfg now u h s)) = db_uuid s"
  "db_next (snd (refreshCommit L cfg now u h s)) = db_next s + 2"
proof -
  have "updateMany P f rows = rows" if "\<not> list_ex P rows" for P and f :: "User \<Rightarrow> User" and rows
    using that by (induction rows) auto
  then show "users (snd (refreshCommit L cfg now u h s)) =
     updateMany (\<lambda>v. usr_id v = usr_id u \<and> usr_refreshToken v = Some h)
       (\<lambda>v. v\<lparr>usr_refreshToken := Some (hashToken L (ard_refreshToken
          (fst (generateTokens L cfg now (usr_id u) (usr_email u) (usr_role u) s))))\<rparr>) (users s)"
    "db_uuid (snd (refreshCommit L cfg now u h s)) = db_uuid s"
    "db_next (snd (refreshCommit L cfg now u h s)) = db_next s + 2"
    by (simp_all add: refreshCommit_def generateTokens_def Let_def drawId_def)
qed

text \<open>Where the accounts after a step come from: the row of the same account before (up to the counters
  of failed logins and the refresh token), or a new parent account; and a stored digest is an old one
  of the account or that of a token signed in this step.\<close>

definition derived :: "tokenLib \<Rightarrow> authConfig \<Rightarrow> 'z store_scheme \<Rightarrow> 'z store_scheme \<Rightarrow> bool" where
  "derived L cfg s s' \<longleftrightarrow>
     db_uuid s' = db_uuid s \<and> db_next s \<le> db_next s' \<and>
     (\<forall>u' \<in> set (users s').
        (usr_role u' = PARENT \<or> (\<exists>u \<in> set (users s). usr_id u = usr_id u' \<and> usr_role u = usr_role u')) \<and>
        (\<forall>h. usr_refreshToken u' = Some h \<longrightarrow>
           (\<exists>u \<in> set (users s). usr_id u = usr_id u' \<and> usr_refreshToken u = Some h) \<or>
           (\<exists>k. db_next s \<le> k \<and> k < db_next s' \<and> signedAt L cfg s k h)))"

lemma signedAt_uuid: "db_uuid s' = db_uuid s \<Longrightarrow> signedAt L cfg s' = signedAt L cfg s"
  by (simp add: signedAt_def [abs_def])

lemma signedAt_unique:
  assumes "token_laws L" "inj (db_uuid s)" "signedAt L cfg s k h" "signedAt L cfg s j h"
  shows "j = k"
proof -
  let ?sign = "tl_sign L (acf_jwtRefreshSecret cfg) (acf_jwtRefreshExpiresIn cfg)"
  obtain t c where c: "h = tl_sha256 L (?sign t c)" "jwp_jti c = db_uuid s k"
    using assms(3) by (auto simp: signedAt_def hashToken_def)
  obtain t' c' where c': "h = tl_sha256 L (?sign t' c')" "jwp_jti c' = db_uuid s j"
    using assms(4) by (auto simp: signedAt_def hashToken_def)
  have "?sign t c = ?sign t' c'" using c(1) c'(1) assms(1) by (simp add: token_laws_def inj_eq)
  then have "jwp_jti c = jwp_jti c'" using assms(1) unfolding token_laws_def by blast
  with c(2) c'(2) assms(2) show ?thesis by (simp add: inj_eq)
qed

lemma derived_refl: "derived L cfg s s"
  unfolding derived_def by blast

lemma derived_trans:
  assumes "derived L cfg s s'" and "derived L cfg s' s''"
  shows "derived L cfg s s''"
proof -
  have n: "db_uuid s' = db_uuid s" "db_uuid s'' = db_uuid s" "db_next s \<le> db_next s'" "db_next s' \<le> db_next s''"
    using assms unfolding derived_def by simp_all
  note e = signedAt_uuid [OF n(1)]
  show ?thesis
    unfolding derived_def
  proof (intro conjI ballI allI impI)
    fix u'' assume u'': "u'' \<in> set (users s'')"
    show "usr_role u'' = PARENT \<or> (\<exists>u \<in> set (users s). usr_id u = usr_id u'' \<and> usr_role u = usr_role u'')"
    proof (cases "usr_role u'' = PARENT")
      case False
      with assms(2) u'' obtain u' where u': "u' \<in> set (users s')" "usr_id u' = usr_id u''" "usr_role u' = usr_role u''"
        unfolding derived_def by blast
      with assms(1) False show ?thesis unfolding derived_def by fastforce
    qed simp
    fix h assume "usr_refreshToken u'' = Some h"
    then consider (old) u' where "u' \<in> set (users s')" "usr_id u' = usr_id u''" "usr_refreshToken u' = Some h"
      | (new) k where "db_next s' \<le> k" "k < db_next s''" "signedAt L cfg s k h"
      using assms(2) u'' unfolding derived_def e by blast
    then show "(\<exists>u \<in> set (users s). usr_id u = usr_id u'' \<and> usr_refreshToken u = Some h) \<or>
        (\<exists>k. db_next s \<le> k \<and> k < db_next s'' \<and> signedAt L cfg s k h)"
    proof cases
      case old
      then consider "\<exists>u \<in> set (users s). usr_id u = usr_id u' \<and> usr_refreshToken u = Some h"
        | k where "db_next s \<le> k" "k < db_next s'" "signedAt L cfg s k h"
        using assms(1) unfolding derived_def by blast
      then show ?thesis using old(2) n by cases (auto intro: order_less_le_trans)
    next
      case new
      then show ?thesis using n by (meson order_trans)
    qed
  qed (use n in auto)
qed

lemma derived_updateI:
  assumes "db_uuid s' = db_uuid s" "db_next s \<le> db_next s'" "users s' = updateMany P g (users s)"
    and "\<And>u. usr_id (g u) = usr_id u" "\<And>u. usr_role (g u) = usr_role u"
    and "\<And>u h. usr_refreshToken (g u) = Some h \<Longrightarrow>
           usr_refreshToken u = Some h \<or> (\<exists>k. db_next s \<le> k \<and> k < db_next s' \<and> signedAt L cfg s k h)"
  shows "derived L cfg s s'"
  unfolding derived_def
proof (intro conjI ballI allI impI)
  fix u' assume "u' \<in> set (users s')"
  then obtain u where u: "u \<in> set (users s)" "u' = g u \<or> u' = u"
    using assms(3) by (auto simp: in_updateMany_iff)
  then show "usr_role u' = PARENT \<or> (\<exists>u \<in> set (users s). usr_id u = usr_id u' \<and> usr_role u = usr_role u')"
    using assms(4,5) by metis
  fix h assume "usr_refreshToken u' = Some h"
  then show "(\<exists>u \<in> set (users s). usr_id u = usr_id u' \<and> usr_refreshToken u = Some h) \<or>
      (\<exists>k. db_next s \<le> k \<and> k < db_next s' \<and> signedAt L cfg s k h)"
    using u assms(4,6) by metis
qed (use assms in auto)

lemma derived_issueTokens: "derived L cfg s (snd (issueTokens L cfg now i em r s))"
proof (rule derived_updateI [OF _ _ issueTokens_state(1)])
  fix u :: User and h
  assume "usr_refreshToken (u\<lparr>usr_refreshToken := Some (hashToken L (ard_refreshToken (fst (generateTokens L cfg now i em r s))))\<rparr>) = Some h"
  then have "h = hashToken L (ard_refreshToken (fst (generateTokens L cfg now i em r s)))" by simp
  then show "usr_refreshToken u = Some h \<or>
      (\<exists>k. db_next s \<le> k \<and> k < db_next (snd (issueTokens L cfg now i em r s)) \<and> signedAt L cfg s k h)"
    using generateTokens_signed [of L cfg s now i em r]
    by (intro disjI2 exI [of _ "db_next s + 1"]) (simp add: issueTokens_state)
qed (simp_all add: issueTokens_state)

lemma derived_refreshCommit: "derived L cfg s (snd (refreshCommit L cfg now v h' s))"
proof (rule derived_updateI [OF _ _ refreshCommit_state(1)])
  let ?h = "hashToken L (ard_refreshToken (fst (generateTokens L cfg now (usr_id v) (usr_email v) (usr_role v) s)))"
  fix u :: User and h
  assume "usr_refreshToken (u\<lparr>usr_refreshToken := Some ?h\<rparr>) = Some h"
  then have "h = ?h" by simp
  then show "usr_refreshToken u = Some h \<or>
      (\<exists>k. db_next s \<le> k \<and> k < db_next (snd (refreshCommit L cfg now v h' s)) \<and> signedAt L cfg s k h)"
    using generateTokens_signed [of L cfg s now "usr_id v" "usr_email v" "usr_role v"]
    by (intro disjI2 exI [of _ "db_next s + 1"]) (simp add: refreshCommit_state)
qed (simp_all add: refreshCommit_state)

lemma derived_updateUser:
  assumes "\<And>u. usr_id (g u) = usr_id u" "\<And>u. usr_role (g u) = usr_role u"
    and "\<And>u. usr_refreshToken (g u) = usr_refreshToken u \<or> usr_refreshToken (g u) = None"
  shows "derived L cfg s (updateUser i g s)"
proof (rule derived_updateI [where g = g])
  show "users (updateUser i g s) = updateMany (\<lambda>u. usr_id u = i) g (users s)" by (simp add: updateUser_def)
  show "usr_refreshToken u = Some h \<or> (\<exists>k. db_next s \<le> k \<and> k < db_next (updateUser i g s) \<and> signedAt L cfg s k h)"
    if "usr_refreshToken (g u) = Some h" for u h using that assms(3) [of u] by auto
qed (simp_all add: updateUser_def assms)

lemma derived_login: "derived L cfg s (snd (login L cfg now dto s))"
proof -
  have r: "derived L cfg s (updateUser i (\<lambda>u. u\<lparr>usr_failedLoginAttempts := 0, usr_lockedUntil := None\<rparr>) s)" for i
    by (rule derived_updateUser) simp_all
  have w: "derived L cfg s (updateUser i (\<lambda>u. u\<lparr>usr_failedLoginAttempts := n,
      usr_lockedUntil := (if b then Some l else usr_lockedUntil u)\<rparr>) s)" for i n b l
    by (rule derived_updateUser) simp_all
  show ?thesis
    by (simp add: login_def Let_def case_prod_beta derived_trans [OF r derived_issueTokens] derived_issueTokens w
        derived_refl split: option.split)
qed

lemma derived_register: "derived L cfg s (snd (register L cfg salt now dto s))"
proof -
  have a: "derived L cfg s (drawId (s\<lparr>users := users s @ [u], subscriptions := x\<rparr>))"
    if "usr_role u = PARENT" "usr_refreshToken u = None" for u x
    using that unfolding derived_def by (auto simp: drawId_def)
  show ?thesis
    by (auto simp: register_def Let_def case_prod_beta derived_refl split: option.split
        intro!: derived_trans [OF a derived_issueTokens])
qed

lemma derived_exec: "derived L cfg s (auth_exec L cfg now opn s)"
proof (cases opn)
  case (ALogout i)
  have "derived L cfg s (updateUser i (\<lambda>u. u\<lparr>usr_refreshToken := None\<rparr>) s)"
    by (rule derived_updateUser) simp_all
  then show ?thesis using ALogout by (simp add: logout_def derived_refl split: option.split)
qed (simp_all add: derived_register derived_login derived_refreshCommit)

lemma derived_exec_all: "derived L cfg s (auth_exec_all L cfg ops s)"
proof (induction L cfg ops s rule: auth_exec_all.induct)
  case (2 L cfg t opn ops s)
  then show ?case using derived_trans [OF derived_exec] by simp
qed (simp add: derived_refl)

section \<open>Failed logins\<close>

text \<open>Login attempts of one account, in order.\<close>

fun attempts :: "tokenLib \<Rightarrow> authConfig \<Rightarrow> string \<Rightarrow> (time \<times> string) list \<Rightarrow> 'z store_scheme \<Rightarrow> 'z store_scheme" where
  "attempts L cfg em [] s = s"
| "attempts L cfg em ((t, pw) # as) s = attempts L cfg em as (snd (login L cfg t \<lparr>ldt_email = em, ldt_password = pw\<rparr> s))"

definition account :: "string \<Rightarrow> 'z store_scheme \<Rightarrow> User option" where
  "account em s = findUnique usr_email (toLowerCase (trim em)) (users s)"

definition failed :: "time \<Rightarrow> User \<Rightarrow> User" where
  "failed now u = u\<lparr>usr_failedLoginAttempts := usr_failedLoginAttempts u + 1,
     usr_lockedUntil := (if 5 \<le> usr_failedLoginAttempts u + 1 then Some (now + 900000) else usr_lockedUntil u)\<rparr>"

lemma login_wrong:
  assumes "account em s = Some u" "\<not> isLocked now u" "\<not> tl_bcryptCompare L pw (usr_passwordHash u)"
  shows "fst (login L cfg now \<lparr>ldt_email = em, ldt_password = pw\<rparr> s) = Inl (UnauthorizedException ''Invalid credentials'')"
    and "account em (snd (login L cfg now \<lparr>ldt_email = em, ldt_password = pw\<rparr> s)) = Some (failed now u)"
  using assms
  by (auto simp: login_def account_def Let_def updateUser_def findUnique_updateMany failed_def
      MAX_FAILED_ATTEMPTS_def LOCKOUT_DURATION_MINUTES_def)

lemma login_locked:
  assumes "account em s = Some u" "isLocked now u"
  shows "login L cfg now \<lparr>ldt_email = em, ldt_password = pw\<rparr> s = (Inl (ForbiddenException (lockedMessage now u)), s)"
  using assms by (simp add: login_def account_def)

lemma few_failures:
  assumes "account em s = Some u" and "usr_failedLoginAttempts u + int (length as) < 5"
    and "\<And>t pw. (t, pw) \<in> set as \<Longrightarrow> \<not> isLocked t u \<and> \<not> tl_bcryptCompare L pw (usr_passwordHash u)"
  shows "account em (attempts L cfg em as s) =
           Some (u\<lparr>usr_failedLoginAttempts := usr_failedLoginAttempts u + int (length as)\<rparr>)"
  using assms
proof (induction as arbitrary: s u)
  case (Cons a as)
  obtain t pw where a: "a = (t, pw)" by fastforce
  have w: "\<not> isLocked t u" "\<not> tl_bcryptCompare L pw (usr_passwordHash u)" using Cons.prems(3) [of t pw] by (simp_all add: a)
  have f: "failed t u = u\<lparr>usr_failedLoginAttempts := usr_failedLoginAttempts u + 1\<rparr>"
    using Cons.prems(2) by (simp add: failed_def)
  have "account em (attempts L cfg em as (snd (login L cfg t \<lparr>ldt_email = em, ldt_password = pw\<rparr> s))) =
      Some ((failed t u)\<lparr>usr_failedLoginAttempts := usr_failedLoginAttempts (failed t u) + int (length as)\<rparr>)"
  proof (rule Cons.IH [OF login_wrong(2) [OF Cons.prems(1) w]])
    show "usr_failedLoginAttempts (failed t u) + int (length as) < 5" using Cons.prems(2) by (simp add: f)
    show "\<not> isLocked t' (failed t u) \<and> \<not> tl_bcryptCompare L pw' (usr_passwordHash (failed t u))" if "(t', pw') \<in> set as" for t' pw'
      using Cons.prems(3) [of t' pw'] that by (simp add: f isLocked_def)
  qed
  then show ?case by (simp add: a f add_ac)
qed simp

section \<open>Properties\<close>

text \<open>Self-service never raises a role. After any sequence of registrations, logins, refreshes and
  logouts, an account that is not a PARENT had its identifier and role before.\<close>
theorem no_privilege_escalation:
  assumes "u' \<in> set (users (auth_exec_all L cfg ops s))" and "usr_role u' \<noteq> PARENT"
  shows "\<exists>u \<in> set (users s). usr_id u = usr_id u' \<and> usr_role u = usr_role u'"
  using derived_exec_all [of L cfg s ops] assms unfolding derived_def by blast

definition demoUser :: "ident \<Rightarrow> Role \<Rightarrow> User" where
  "demoUser i r = \<lparr>usr_id = i, usr_email = i @ ''@x'', usr_passwordHash = ''pw'', usr_role = r, usr_firstName = None,
     usr_lastName = None, usr_refreshToken = None, usr_failedLoginAttempts = 0, usr_lockedUntil = None, usr_createdAt = 0\<rparr>"

text \<open>A token library that keeps the laws: a token is its \<^verbatim>\<open>jti\<close>, a password its own hash.\<close>

definition plainTokens :: tokenLib where
  "plainTokens = \<lparr>tl_bcryptHash = (\<lambda>salt p. p), tl_bcryptCompare = (=), tl_sign = (\<lambda>sec e t c. jwp_jti c),
     tl_verify = (\<lambda>sec t tok. Some \<lparr>jwp_sub = ''x'', jwp_email = [], jwp_role = PARENT, jwp_jti = tok\<rparr>), tl_sha256 = id\<rparr>"

definition demoConfig :: authConfig where
  "demoConfig = \<lparr>acf_jwtSecret = ''a'', acf_jwtRefreshSecret = ''b'', acf_jwtExpiresIn = ''15m'', acf_jwtRefreshExpiresIn = ''7d''\<rparr>"

definition loginStore :: "Role \<Rightarrow> store" where
  "loginStore r = (emptyStore (\<lambda>n. replicate (n + 1) (CHR ''x'')))\<lparr>users := [demoUser ''u'' r]\<rparr>"

theorem no_privilege_escalation_witness:
  "\<exists>u \<in> set (users (loginStore ADMIN)). usr_id u = ''u'' \<and> usr_role u = ADMIN"
proof -
  have "demoUser ''u'' ADMIN \<in> set (users (auth_exec_all plainTokens demoConfig [(0, ALogout ''v'')] (loginStore ADMIN)))"
    by (simp add: loginStore_def logout_def demoUser_def)
  from no_privilege_escalation [OF this] show ?thesis by (simp add: demoUser_def)
qed

lemma digest_spent:
  assumes laws: "token_laws L" "inj (db_uuid s0)" and d0: "derived L cfg s0 s" "users s0 = []"
    and u: "u \<in> set (users s)" "usr_refreshToken u = Some h"
    and c: "refreshCommit L cfg t u h s = (Inr T, s1)" and d2: "derived L cfg s1 s2"
    and v: "v \<in> set (users s2)" "usr_id v = usr_id u"
  shows "usr_refreshToken v \<noteq> Some h"
proof
  assume holds: "usr_refreshToken v = Some h"
  obtain k where k: "k < db_next s" "signedAt L cfg s0 k h"
    using d0 u unfolding derived_def by force
  have uuid: "db_uuid s = db_uuid s0" "db_uuid s1 = db_uuid s0" "db_next s \<le> db_next s1"
    using d0(1) refreshCommit_state(2,3) [of L cfg t u h s] by (simp_all add: c derived_def)
  have other: "\<not> signedAt L cfg s0 j h" if "db_next s \<le> j" for j
    using signedAt_unique [OF laws k(2)] k(1) that by fastforce
  let ?new = "hashToken L (ard_refreshToken (fst (generateTokens L cfg t (usr_id u) (usr_email u) (usr_role u) s)))"
  have "signedAt L cfg s0 (db_next s + 1) ?new"
    using generateTokens_signed signedAt_uuid [OF uuid(1)] by metis
  with other [of "db_next s + 1"] have "?new \<noteq> h" by force
  with refreshCommit_state(1) [of L cfg t u h s]
  have gone: "usr_refreshToken w \<noteq> Some h" if "w \<in> set (users s1)" "usr_id w = usr_id u" for w
    using that by (auto simp: c in_updateMany_iff)
  from d2 v holds consider w where "w \<in> set (users s1)" "usr_id w = usr_id v" "usr_refreshToken w = Some h"
    | j where "db_next s1 \<le> j" "signedAt L cfg s1 j h" unfolding derived_def by blast
  then show False
  proof cases
    case 1
    with gone v(2) show ?thesis by metis
  next
    case 2
    with other [of j] uuid(3) show ?thesis unfolding signedAt_uuid [OF uuid(2)] by simp
  qed
qed

text \<open>C14: A refresh token works once. In a deployment that started without accounts, once a refresh with a
  token has succeeded, no later refresh with that token succeeds, after any sequence of further
  requests; nor does the commit of a concurrent refresh that had read the account before the first one
  swapped the digest.\<close>
theorem refresh_single_use:
  assumes laws: "token_laws L" and "inj (db_uuid s0)" "users s0 = []"
    and s: "s = auth_exec_all L cfg ops s0" and ok: "refresh L cfg t tok s = (Inr T, s1)"
  shows "(\<exists>e. fst (refresh L cfg t' tok (auth_exec_all L cfg ops' s1)) = Inl e) \<and>
         (\<forall>u. refreshPrepare L cfg t tok s = Inr u \<longrightarrow>
            (\<exists>e. fst (refreshCommit L cfg t' u (hashToken L tok) (auth_exec_all L cfg ops' s1)) = Inl e))"
proof -
  let ?h = "hashToken L tok" and ?s2 = "auth_exec_all L cfg ops' s1"
  obtain u where u: "refreshPrepare L cfg t tok s = Inr u" and c: "refreshCommit L cfg t u ?h s = (Inr T, s1)"
    using ok by (auto simp: refresh_def split: sum.splits)
  obtain p where p: "tl_verify L (acf_jwtRefreshSecret cfg) t tok = Some p" "findUser s (jwp_sub p) = Some u"
    "usr_refreshToken u = Some ?h"
    using u by (auto simp: refreshPrepare_def split: option.splits if_splits)
  have us: "u \<in> set (users s)" "usr_id u = jwp_sub p" using p(2) findUnique_Some_iff by fastforce+
  have d0: "derived L cfg s0 s" unfolding s by (rule derived_exec_all)
  have "usr_refreshToken v \<noteq> Some ?h" if "v \<in> set (users ?s2)" "usr_id v = usr_id u" for v
    using that by (rule digest_spent [OF laws assms(2) d0 assms(3) us(1) p(3) c derived_exec_all])
  then have commit: "\<exists>e. fst (refreshCommit L cfg t' v ?h ?s2) = Inl e" if "usr_id v = usr_id u" for v
    using that by (auto simp: refreshCommit_def generateTokens_def Let_def list_ex_iff drawId_def)
  have "\<exists>e. fst (refresh L cfg t' tok ?s2) = Inl e"
  proof (cases "refreshPrepare L cfg t' tok ?s2")
    case (Inr v)
    then obtain p' where "tl_verify L (acf_jwtRefreshSecret cfg) t' tok = Some p'" "findUser ?s2 (jwp_sub p') = Some v"
      by (auto simp: refreshPrepare_def split: option.splits if_splits)
    moreover have "p' = p" using laws p(1) calculation(1) by (auto simp: token_laws_def)
    ultimately have "usr_id v = usr_id u" using us(2) findUnique_Some_iff by fastforce
    with commit Inr show ?thesis by (simp add: refresh_def)
  qed (simp add: refresh_def)
  with commit u show ?thesis by auto
qed

definition demoDto :: RegisterDto where
  "demoDto = \<lparr>rdt_email = ''a@b'', rdt_password = ''pw'', rdt_firstName = None, rdt_lastName = None\<rparr>"

definition freshStore :: store where
  "freshStore = emptyStore (\<lambda>n. replicate (n + 1) (CHR ''x''))"

lemma plain_laws: "token_laws plainTokens"
  by (simp add: token_laws_def plainTokens_def)

theorem refresh_single_use_witness:
  "\<exists>T s1 e. refresh plainTokens demoConfig 5 ''xxx'' (auth_exec_all plainTokens demoConfig [(0, ARegister [] demoDto)] freshStore) = (Inr T, s1) \<and>
     fst (refresh plainTokens demoConfig 6 ''xxx'' (auth_exec_all plainTokens demoConfig [(5, ALogout ''y'')] s1)) = Inl e"
proof -
  let ?s = "auth_exec_all plainTokens demoConfig [(0, ARegister [] demoDto)] freshStore"
  have "\<exists>T s1. refresh plainTokens demoConfig 5 ''xxx'' ?s = (Inr T, s1)"
    by (simp add: refresh_def refreshPrepare_def refreshCommit_def register_def issueTokens_def generateTokens_def Let_def
        freshStore_def emptyStore_def plainTokens_def demoConfig_def demoDto_def hashToken_def updateUser_def newId_def drawId_def
        numeral_3_eq_3)
  then obtain T s1 where ok: "refresh plainTokens demoConfig 5 ''xxx'' ?s = (Inr T, s1)" by blast
  have "inj (db_uuid freshStore)" "users freshStore = []"
    by (auto simp: freshStore_def emptyStore_def inj_def)
  from refresh_single_use [OF plain_laws this refl ok, of 6 "[(5, ALogout ''y'')]"] ok show ?thesis by blast
qed

text \<open>C26: Brute force is locked out. After five wrong passwords in a row on an account (the fifth at \<open>t\<close>),
  every login before \<open>t\<close> plus 15 minutes is refused with 403, the right password included, and changes
  nothing. The counter is not reset when the lock ends: from then on a single wrong password locks the
  account for another 15 minutes.\<close>
theorem lockout:
  assumes "account em s = Some u" and "usr_failedLoginAttempts u = 0" "usr_lockedUntil u = None"
    and "length as = 4" and "\<And>t pw. (t, pw) \<in> set (as @ [(t5, pw5)]) \<Longrightarrow> \<not> tl_bcryptCompare L pw (usr_passwordHash u)"
    and "s5 = attempts L cfg em (as @ [(t5, pw5)]) s"
  shows "(\<forall>t pw. t < t5 + 900000 \<longrightarrow>
            (\<exists>m. login L cfg t \<lparr>ldt_email = em, ldt_password = pw\<rparr> s5 = (Inl (ForbiddenException m), s5))) \<and>
         (\<forall>t pw t' pw'. t5 + 900000 \<le> t \<and> \<not> tl_bcryptCompare L pw (usr_passwordHash u) \<and> t' < t + 900000 \<longrightarrow>
            (\<exists>m. fst (login L cfg t' \<lparr>ldt_email = em, ldt_password = pw'\<rparr>
                    (snd (login L cfg t \<lparr>ldt_email = em, ldt_password = pw\<rparr> s5))) = Inl (ForbiddenException m)))"
proof -
  have app: "attempts L cfg em (as @ bs) s = attempts L cfg em bs (attempts L cfg em as s)" for bs
    by (induction L cfg em as s rule: attempts.induct) simp_all
  let ?u4 = "u\<lparr>usr_failedLoginAttempts := 4\<rparr>"
  have "account em (attempts L cfg em as s) = Some ?u4"
  proof -
    have "\<not> isLocked t u \<and> \<not> tl_bcryptCompare L pw (usr_passwordHash u)" if "(t, pw) \<in> set as" for t pw
      using assms(3) assms(5) [of t pw] that by (simp add: isLocked_def)
    from few_failures [OF assms(1) _ this] show ?thesis using assms(2,4) by simp
  qed
  then have u5: "account em s5 = Some (failed t5 ?u4)"
    using login_wrong(2) [of em _ ?u4 t5 L pw5 cfg] assms(3) assms(5) [of t5 pw5] by (simp add: assms(6) app isLocked_def)
  have l5: "isLocked t (failed t5 ?u4) \<longleftrightarrow> t < t5 + 900000" for t by (simp add: failed_def isLocked_def)
  have "account em (snd (login L cfg t \<lparr>ldt_email = em, ldt_password = pw\<rparr> s5)) = Some (failed t (failed t5 ?u4))"
    if "t5 + 900000 \<le> t" "\<not> tl_bcryptCompare L pw (usr_passwordHash u)" for t pw
    using login_wrong(2) [OF u5] l5 that by (simp add: failed_def)
  moreover have "isLocked t' (failed t (failed t5 ?u4)) \<longleftrightarrow> t' < t + 900000" for t t' by (simp add: failed_def isLocked_def)
  ultimately have "\<exists>m. fst (login L cfg t' \<lparr>ldt_email = em, ldt_password = pw'\<rparr>
      (snd (login L cfg t \<lparr>ldt_email = em, ldt_password = pw\<rparr> s5))) = Inl (ForbiddenException m)"
    if "t5 + 900000 \<le> t" "\<not> tl_bcryptCompare L pw (usr_passwordHash u)" "t' < t + 900000" for t pw t' pw'
    using login_locked that by (metis fst_conv)
  then show ?thesis using login_locked [OF u5] l5 by blast
qed

theorem lockout_witness:
  "\<exists>m. fst (login plainTokens demoConfig 100 \<lparr>ldt_email = ''u@x'', ldt_password = ''pw''\<rparr>
     (attempts plainTokens demoConfig ''u@x'' [(1, ''a''), (2, ''b''), (3, ''c''), (4, ''d''), (5, ''e'')] (loginStore PARENT))) =
       Inl (ForbiddenException m)"
proof -
  have a: "account ''u@x'' (loginStore PARENT) = Some (demoUser ''u'' PARENT)"
    by (simp add: account_def loginStore_def demoUser_def toLowerCase_def lowerChar_def trim_def isBlank_def)
  have w: "\<not> tl_bcryptCompare plainTokens pw (usr_passwordHash (demoUser ''u'' PARENT))"
    if "(t, pw) \<in> set ([(1, ''a''), (2, ''b''), (3, ''c''), (4, ''d'')] @ [(5, ''e'')])" for t :: time and pw
    using that by (auto simp: plainTokens_def demoUser_def)
  have "\<exists>m. login plainTokens demoConfig 100 \<lparr>ldt_email = ''u@x'', ldt_password = ''pw''\<rparr>
      (attempts plainTokens demoConfig ''u@x'' ([(1, ''a''), (2, ''b''), (3, ''c''), (4, ''d'')] @ [(5, ''e'')]) (loginStore PARENT)) =
      (Inl (ForbiddenException m),
       attempts plainTokens demoConfig ''u@x'' ([(1, ''a''), (2, ''b''), (3, ''c''), (4, ''d'')] @ [(5, ''e'')]) (loginStore PARENT))"
    by (rule lockout [OF a _ _ _ w refl, THEN conjunct1, rule_format]) (simp_all add: demoUser_def)
  then show ?thesis by (simp only: append.simps) (metis fst_conv)
qed

end
