(* ===== verification/Dto.thy ===== *)
theory Dto
  imports Usage Catalog Family Protection Pairing Router_Commands Sessions Auth
begin

text \<open>
  The validation of request bodies (\<^verbatim>\<open>dto/*.dto.ts\<close>): what the global validation pipe accepts of each
  class, beyond the types that the records already have. The format checks of the package
  \<^verbatim>\<open>class-validator\<close> (UUIDs, addresses, emails) are the parameter record \<open>validators\<close>.
\<close>

record validators =
  vl_isUUID :: "string \<Rightarrow> bool"
  vl_isIP :: "string \<Rightarrow> bool"
  vl_isMACAddress :: "string \<Rightarrow> bool"
  vl_isEmail :: "string \<Rightarrow> bool"

text \<open>\<^verbatim>\<open>@IsOptional()\<close> and the bounds.\<close>

definition optionally :: "('a \<Rightarrow> bool) \<Rightarrow> 'a option \<Rightarrow> bool" where
  "optionally P v = (case v of None \<Rightarrow> True | Some x \<Rightarrow> P x)"

definition lengthIn :: "nat \<Rightarrow> nat \<Rightarrow> string \<Rightarrow> bool" where
  "lengthIn lo hi t \<longleftrightarrow> lo \<le> length t \<and> length t \<le> hi"

lemma optionally_simps [simp]: "optionally P None" "optionally P (Some x) = P x"
  by (simp_all add: optionally_def)

section \<open>Accounts\<close>

definition RegisterDto_ok :: "validators \<Rightarrow> RegisterDto \<Rightarrow> bool" where
  "RegisterDto_ok V dto \<longleftrightarrow> vl_isEmail V (rdt_email dto) \<and> lengthIn 0 254 (rdt_email dto) \<and> lengthIn 8 128 (rdt_password dto) \<and>
     optionally (lengthIn 0 100) (rdt_firstName dto) \<and> optionally (lengthIn 0 100) (rdt_lastName dto)"

definition LoginDto_ok :: "validators \<Rightarrow> LoginDto \<Rightarrow> bool" where
  "LoginDto_ok V dto \<longleftrightarrow> vl_isEmail V (ldt_email dto)"

section \<open>Children and devices\<close>

definition CreateChildDto_ok :: "CreateChildDto \<Rightarrow> bool" where
  "CreateChildDto_ok dto \<longleftrightarrow> optionally (\<lambda>n. 0 \<le> n) (ccd_age dto) \<and> optionally (\<lambda>n. 0 \<le> n) (ccd_defaultLimitMinutes dto)"

definition UpdateChildDto_ok :: "UpdateChildDto \<Rightarrow> bool" where
  "UpdateChildDto_ok dto \<longleftrightarrow> optionally (\<lambda>n. 0 \<le> n) (ucd_age dto) \<and> optionally (\<lambda>n. 0 \<le> n) (ucd_defaultLimitMinutes dto)"

definition CreateDeviceDto_ok :: "validators \<Rightarrow> CreateDeviceDto \<Rightarrow> bool" where
  "CreateDeviceDto_ok V dto \<longleftrightarrow>
     vl_isUUID V (cdd_childId dto) \<and> lengthIn 1 80 (cdd_name dto) \<and> optionally (lengthIn 0 60) (cdd_platform dto) \<and>
     optionally (vl_isMACAddress V) (cdd_macAddress dto) \<and> optionally (vl_isIP V) (cdd_ipAddress dto) \<and>
     optionally (vl_isUUID V) (cdd_gatewayId dto)"

definition UpdateDeviceDto_ok :: "validators \<Rightarrow> UpdateDeviceDto \<Rightarrow> bool" where
  "UpdateDeviceDto_ok V dto \<longleftrightarrow>
     optionally (lengthIn 1 80) (udd_name dto) \<and> optionally (vl_isUUID V) (udd_childId dto) \<and>
     optionally (vl_isMACAddress V) (udd_macAddress dto) \<and> optionally (vl_isIP V) (udd_ipAddress dto) \<and>
     optionally (vl_isUUID V) (udd_gatewayId dto)"

definition RegisterDeviceDto_ok :: "validators \<Rightarrow> RegisterDeviceDto \<Rightarrow> bool" where
  "RegisterDeviceDto_ok V dto \<longleftrightarrow> vl_isUUID V (rdd_childId dto)"

section \<open>Sessions, rules and limits\<close>

definition StartSessionDto_ok :: "validators \<Rightarrow> StartSessionDto \<Rightarrow> bool" where
  "StartSessionDto_ok V dto \<longleftrightarrow> vl_isUUID V (ssd_deviceId dto) \<and> 1 \<le> ssd_durationMinutes dto"

definition ExtendSessionDto_ok :: "ExtendSessionDto \<Rightarrow> bool" where
  "ExtendSessionDto_ok dto \<longleftrightarrow> 1 \<le> esd_extraMinutes dto"

definition CreateRuleDto_ok :: "validators \<Rightarrow> CreateRuleDto \<Rightarrow> bool" where
  "CreateRuleDto_ok V dto \<longleftrightarrow> vl_isUUID V (crd_childId dto)"

definition CreateBandwidthLimitDto_ok :: "validators \<Rightarrow> CreateBandwidthLimitDto \<Rightarrow> bool" where
  "CreateBandwidthLimitDto_ok V dto \<longleftrightarrow>
     optionally (vl_isUUID V) (cbd_childId dto) \<and> optionally (vl_isUUID V) (cbd_deviceId dto) \<and>
     optionally (\<lambda>n. 1 \<le> n) (cbd_downloadKbps dto) \<and> optionally (\<lambda>n. 1 \<le> n) (cbd_uploadKbps dto)"

definition UpdateBandwidthLimitDto_ok :: "UpdateBandwidthLimitDto \<Rightarrow> bool" where
  "UpdateBandwidthLimitDto_ok dto \<longleftrightarrow>
     optionally (\<lambda>n. 1 \<le> n) (ubd_downloadKbps dto) \<and> optionally (\<lambda>n. 1 \<le> n) (ubd_uploadKbps dto)"

section \<open>Agents\<close>

definition CommandAckDto_ok :: "validators \<Rightarrow> CommandAckDto \<Rightarrow> bool" where
  "CommandAckDto_ok V dto \<longleftrightarrow> vl_isUUID V (cad_commandId dto)"

definition UsageLogFromAgentDto_ok :: "validators \<Rightarrow> CreateUsageLogDto \<Rightarrow> bool" where
  "UsageLogFromAgentDto_ok V dto \<longleftrightarrow> vl_isUUID V (cul_deviceId dto) \<and> vl_isUUID V (cul_childId dto) \<and> 1 \<le> cul_durationSeconds dto"

definition RequestMoreTimeDto_ok :: "validators \<Rightarrow> RequestMoreTimeDto \<Rightarrow> bool" where
  "RequestMoreTimeDto_ok V dto \<longleftrightarrow> vl_isUUID V (rmt_sessionId dto) \<and> 1 \<le> rmt_requestedMinutes dto"

definition ChildStatusDto_ok :: "validators \<Rightarrow> ChildStatusDto \<Rightarrow> bool" where
  "ChildStatusDto_ok V dto \<longleftrightarrow> vl_isUUID V (csd_deviceId dto)"

definition ConfirmPairingDto_ok :: "validators \<Rightarrow> ConfirmPairingDto \<Rightarrow> bool" where
  "ConfirmPairingDto_ok V dto \<longleftrightarrow> vl_isUUID V (cpd_token dto) \<and> vl_isIP V (cpd_sourceIp dto)"

section \<open>Gateways\<close>

record RegisterGatewayDto =
  rgd_name :: string
  rgd_endpoint :: "string option"
  rgd_gatewayType :: "GatewayType option"
  rgd_description :: "string option"

record RenameGatewayDto =
  rnd_name :: "string option"
  rnd_description :: "string option"

record PairGatewayDto =
  pgd_gatewayId :: ident

definition PairGatewayDto_ok :: "validators \<Rightarrow> PairGatewayDto \<Rightarrow> bool" where
  "PairGatewayDto_ok V dto \<longleftrightarrow> vl_isUUID V (pgd_gatewayId dto)"

section \<open>Blocklists\<close>

text \<open>The categories that \<^verbatim>\<open>@IsEnum\<close> lists are all the categories there are, so that these bodies have no further
  condition.\<close>

record AddDomainDto =
  add_domain :: string
  add_category :: BlockCategory
  add_wildcard :: "bool option"

record BulkImportItemDto =
  bii_domain :: string
  bii_category :: BlockCategory
  bii_wildcard :: "bool option"

record BulkImportDto =
  bid_items :: "BulkImportItemDto list"

record SetCategoryBlockDto =
  scb_category :: BlockCategory
  scb_active :: bool
  scb_reason :: "string option"

record ClassifyDomainDto =
  cld_domain :: string
  cld_category :: BlockCategory
  cld_wildcard :: "bool option"

section \<open>Push tokens\<close>

definition PUSH_PLATFORMS :: "string list" where "PUSH_PLATFORMS = [''ios'', ''android'', ''web'']"

definition RegisterPushTokenDto_ok :: "string \<Rightarrow> string \<Rightarrow> bool" where
  "RegisterPushTokenDto_ok token platform \<longleftrightarrow> lengthIn 10 4096 token \<and> platform \<in> set PUSH_PLATFORMS"

definition UnregisterPushTokenDto_ok :: "string \<Rightarrow> bool" where
  "UnregisterPushTokenDto_ok token \<longleftrightarrow> lengthIn 10 4096 token"

end
