(* ===== verification/Js_Number.thy ===== *)
theory Js_Number
  imports Complex_Main Js_Runtime
begin

text \<open>
  Numbers of the language: rounding to double precision, \<^verbatim>\<open>Math.round((a / b) * 100)\<close> as the code computes
  percentages, and the coercion \<^verbatim>\<open>Number(text)\<close>. A finite double is the rational it denotes; fractions
  are rounded to 53 significant bits, ties to even, with the subnormal range down to \<open>2^-1074\<close> and overflow
  from \<open>2^1024 - 2^970\<close> on.
\<close>

section \<open>Rounding\<close>

text \<open>Round the quotient \<open>n / b\<close> to the nearest natural, ties to even.\<close>

definition halfEven :: "nat \<Rightarrow> nat \<Rightarrow> nat" where
  "halfEven n b =
     (let q = n div b; r = n mod b in
      if 2 * r < b then q else if b < 2 * r then q + 1 else if even q then q else q + 1)"

text \<open>The binary scale at which a positive fraction below \<open>2^53\<close> has 53 significant bits.\<close>

function scaleOf :: "nat \<Rightarrow> nat \<Rightarrow> nat \<Rightarrow> nat" where
  "scaleOf a b k = (if a = 0 \<or> 2 ^ 52 * b \<le> a * 2 ^ k then k else scaleOf a b (k + 1))"
  by pat_completeness auto

termination scaleOf
  by (relation "measure (\<lambda>(a, b, k). 2 ^ 52 * b - a * 2 ^ k)") (auto intro!: diff_less_mono2)

declare scaleOf.simps [simp del]

text \<open>The least \<open>j\<close> from a start on with \<open>a / b < 2^(53 + j)\<close>.\<close>

function downScale :: "nat \<Rightarrow> nat \<Rightarrow> nat \<Rightarrow> nat" where
  "downScale a b j = (if b = 0 \<or> a < 2 ^ (53 + j) * b then j else downScale a b (j + 1))"
  by pat_completeness auto

termination downScale
  by (relation "measure (\<lambda>(a, b, j). a + 1 - 2 ^ (53 + j) * b)") (auto intro!: diff_less_mono2)

declare downScale.simps [simp del]

text \<open>The double nearest to \<open>a / b < 2^53\<close>, as a mantissa and a scale, and the one nearest to any fraction.\<close>

definition toDouble :: "nat \<Rightarrow> nat \<Rightarrow> nat \<times> nat" where
  "toDouble a b = (let k = min 1074 (scaleOf a b 0) in (halfEven (a * 2 ^ k) b, k))"

definition doubleOf :: "nat \<Rightarrow> nat \<Rightarrow> rat option" where
  "doubleOf a b =
     (if a < 2 ^ 53 * b then (case toDouble a b of (m, k) \<Rightarrow> Some (of_nat m / 2 ^ k))
      else
        let j = downScale a b 0; v = halfEven a (b * 2 ^ j) * 2 ^ j in
        if 2 ^ 1024 \<le> v then None else Some (of_nat v))"

section \<open>Percentages\<close>

definition percentOf :: "nat \<Rightarrow> nat \<Rightarrow> nat" where
  "percentOf a b =
     (let (m, k) = toDouble a b; (m', k') = toDouble (m * 100) (2 ^ k) in (2 * m' + 2 ^ k') div (2 * 2 ^ k'))"

lemma halfEven_le: "0 < b \<Longrightarrow> n \<le> m * b \<Longrightarrow> halfEven n b \<le> m"
proof -
  assume b: "0 < b" and n: "n \<le> m * b"
  have q: "n div b \<le> m" using div_le_mono [OF n, of b] b by simp
  show ?thesis
  proof (cases "n div b = m")
    case True
    then have "n mod b = 0" using n div_mult_mod_eq [of n b] by simp
    then show ?thesis using b q by (simp add: halfEven_def)
  next
    case False
    then show ?thesis using q by (simp add: halfEven_def Let_def)
  qed
qed

lemma halfEven_exact: "0 < b \<Longrightarrow> halfEven (m * b) b = m"
  by (simp add: halfEven_def)

lemma toDouble_le: "0 < b \<Longrightarrow> a \<le> m * b \<Longrightarrow> toDouble a b = (x, k) \<Longrightarrow> x \<le> m * 2 ^ k"
  unfolding toDouble_def Let_def by (auto intro!: halfEven_le)

lemma toDouble_exact: "0 < b \<Longrightarrow> toDouble (m * b) b = (x, k) \<Longrightarrow> x = m * 2 ^ k"
  using halfEven_exact [of b "m * 2 ^ k"] by (auto simp: toDouble_def Let_def ac_simps)

lemma round_le: "m \<le> n * d \<Longrightarrow> 0 < d \<Longrightarrow> (2 * m + d) div (2 * d) \<le> (n :: nat)"
proof -
  assume m: "m \<le> n * d" and d: "0 < d"
  have "(2 * m + d) div (2 * d) \<le> (2 * (n * d) + d) div (2 * d)" using m by (intro div_le_mono) simp
  also have "2 * (n * d) + d = d + n * (2 * d)" by simp
  also have "(d + n * (2 * d)) div (2 * d) = n" using d by (simp add: div_mult_self3)
  finally show ?thesis .
qed

lemma percentOf_le: "0 < b \<Longrightarrow> a \<le> b \<Longrightarrow> percentOf a b \<le> 100"
proof -
  assume b: "0 < b" "a \<le> b"
  obtain m k where mk: "toDouble a b = (m, k)" by fastforce
  obtain m' k' where mk': "toDouble (m * 100) (2 ^ k) = (m', k')" by fastforce
  have "m \<le> 1 * 2 ^ k" by (rule toDouble_le [OF b(1) _ mk]) (use b in simp)
  then have "m' \<le> 100 * 2 ^ k'" by (intro toDouble_le [OF _ _ mk']) simp_all
  then show ?thesis by (simp add: percentOf_def mk mk' round_le del: power_Suc)
qed

lemma percentOf_full: "0 < b \<Longrightarrow> percentOf b b = 100"
proof -
  assume b: "0 < b"
  obtain m k where mk: "toDouble b b = (m, k)" by fastforce
  then have m: "m = 2 ^ k" using toDouble_exact [OF b, of 1] by simp
  obtain m' k' where mk': "toDouble (100 * 2 ^ k) (2 ^ k) = (m', k')" by fastforce
  then have "m' = 100 * 2 ^ k'" by (intro toDouble_exact) simp_all
  then show ?thesis using mk mk' m by (simp add: percentOf_def div_mult_self3 mult.commute)
qed

lemma percentOf_none: "0 < b \<Longrightarrow> percentOf 0 b = 0"
proof -
  assume "0 < b"
  moreover have "scaleOf 0 d 0 = 0" for d by (subst scaleOf.simps) simp
  ultimately show ?thesis by (simp add: percentOf_def toDouble_def halfEven_def)
qed

text \<open>Small integers are doubles.\<close>

lemma doubleOf_int: "n < 2 ^ 53 \<Longrightarrow> doubleOf n 1 = Some (of_nat n)"
proof -
  assume n: "n < 2 ^ 53"
  obtain m k where mk: "toDouble n 1 = (m, k)" by fastforce
  have "toDouble (n * 1) 1 = (m, k)" using mk by simp
  then have "m = n * 2 ^ k" by (rule toDouble_exact [rotated]) simp
  then show ?thesis using n mk by (simp add: doubleOf_def)
qed

section \<open>Number(text)\<close>

text \<open>An unsigned decimal literal: digits, a fraction, an exponent; at least one digit before the exponent.
  The result is the fraction it denotes.\<close>

definition splitExp :: "string \<Rightarrow> string \<times> string option" where
  "splitExp s =
     (let m = takeWhile (\<lambda>c. c \<noteq> CHR ''e'' \<and> c \<noteq> CHR ''E'') s in
      (m, if length m < length s then Some (drop (length m + 1) s) else None))"

definition exponentOf :: "string option \<Rightarrow> int option" where
  "exponentOf e =
     (case e of
        None \<Rightarrow> Some 0
      | Some t \<Rightarrow>
          let neg = (t \<noteq> [] \<and> hd t = CHR ''-''); ds = (if t \<noteq> [] \<and> hd t \<in> {CHR ''-'', CHR ''+''} then tl t else t)
          in if ds = [] \<or> \<not> list_all isDigit ds then None else Some (if neg then - digitsVal ds else digitsVal ds))"

definition decimalLiteral :: "string \<Rightarrow> (nat \<times> nat) option" where
  "decimalLiteral s =
     (case splitExp s of
        (m, e) \<Rightarrow>
          let whole = takeWhile isDigit m; rest = drop (length whole) m;
              frac = (if rest \<noteq> [] \<and> hd rest = CHR ''.'' then tl rest else rest)
          in
          if whole @ frac = [] \<or> \<not> list_all isDigit frac \<or> (rest \<noteq> [] \<and> hd rest \<noteq> CHR ''.'') then None
          else
            (case exponentOf e of
               None \<Rightarrow> None
             | Some x \<Rightarrow>
                 let digits = nat (digitsVal (whole @ frac)); shift = x - int (length frac)
                 in Some (if 0 \<le> shift then (digits * 10 ^ nat shift, 1) else (digits, 10 ^ nat (- shift)))))"

definition radixDigit :: "char \<Rightarrow> nat option" where
  "radixDigit c =
     (if isDigit c then Some (nat (digitVal c))
      else let l = (of_char (lowerChar c) :: nat) in if 97 \<le> l \<and> l \<le> 102 then Some (l - 87) else None)"

definition radixLiteral :: "nat \<Rightarrow> string \<Rightarrow> nat option" where
  "radixLiteral r ds =
     (if ds = [] \<or> \<not> list_all (\<lambda>c. case radixDigit c of None \<Rightarrow> False | Some d \<Rightarrow> d < r) ds then None
      else Some (foldl (\<lambda>acc c. acc * r + (case radixDigit c of None \<Rightarrow> 0 | Some d \<Rightarrow> d)) 0 ds))"

definition radixPrefix :: "string \<Rightarrow> nat option" where
  "radixPrefix s =
     (let p = toLowerCase (take 2 s) in
      if p = ''0x'' then Some 16 else if p = ''0o'' then Some 8 else if p = ''0b'' then Some 2 else None)"

text \<open>\<^verbatim>\<open>Number(text)\<close>: \<open>None\<close> when the result is not finite.\<close>

definition jsNumber :: "string \<Rightarrow> rat option" where
  "jsNumber text =
     (let s = trim text in
      if s = [] then Some 0
      else
        case radixPrefix s of
          Some r \<Rightarrow> (case radixLiteral r (drop 2 s) of None \<Rightarrow> None | Some n \<Rightarrow> doubleOf n 1)
        | None \<Rightarrow>
            let neg = (hd s = CHR ''-''); u = (if hd s \<in> {CHR ''-'', CHR ''+''} then tl s else s)
            in (case decimalLiteral u of
                  None \<Rightarrow> None
                | Some (a, b) \<Rightarrow> map_option (\<lambda>v. if neg then - v else v) (doubleOf a b)))"

end
