(* ===== verification/Gateway.thy ===== *)
theory Gateway
  imports Js_Number Router_Commands Devices
begin

text \<open>
  Gateways (\<^verbatim>\<open>gateway.service.ts\<close>), device fingerprints (\<^verbatim>\<open>device-fingerprint.util.ts\<close>,
  \<^verbatim>\<open>device-fingerprint.service.ts\<close>) and the token guard of the gateway endpoints
  (\<^verbatim>\<open>gateway-token.guard.ts\<close>): registration, pairing, token rotation with a grace period, the policies that
  an agent polls, discovery, VPN and DoH detections.

  The hash functions of Node's \<^verbatim>\<open>crypto\<close> are the parameter record \<open>hashes\<close>, and the resolver addresses come
  from the environment. The column \<^verbatim>\<open>updatedAt\<close> of the policies is left out.
\<close>

record hashes =
  sha256 :: "string \<Rightarrow> string"
  hmac256 :: "string \<Rightarrow> string \<Rightarrow> string"

section \<open>Fingerprints\<close>

definition normalize :: "string option \<Rightarrow> string" where
  "normalize v = (if truthy v then toLowerCase (trim (patch v [])) else [])"

definition computeFingerprintHash ::
  "hashes \<Rightarrow> string option \<Rightarrow> string option \<Rightarrow> string option \<Rightarrow> string option \<Rightarrow> string" where
  "computeFingerprintHash H macAddress hostname dhcpClientId vendorOui =
     sha256 H (joinWith ''|'' [normalize macAddress, normalize hostname, normalize dhcpClientId, normalize vendorOui])"

definition backfillFingerprints :: "hashes \<Rightarrow> time \<Rightarrow> 'z store_scheme \<Rightarrow> 'z store_scheme" where
  "backfillFingerprints H now s =
     s\<lparr>devices := updateMany (\<lambda>d. dev_fingerprintHash d = None \<and> dev_macAddress d \<noteq> None)
        (\<lambda>d. d\<lparr>dev_fingerprintHash := Some (computeFingerprintHash H (dev_macAddress d) (dev_hostname d)
                   (dev_dhcpClientId d) (dev_vendorOui d)),
               dev_fingerprintUpdatedAt := Some now\<rparr>) (devices s)\<rparr>"

section \<open>Registry\<close>

definition ownGateway :: "ident \<Rightarrow> ident \<Rightarrow> 'z store_scheme \<Rightarrow> Gateway result" where
  "ownGateway parentId gatewayId s =
     owned gwy_parentId ''Gateway not found'' ''Not your gateway'' parentId (findGateway s gatewayId)"

definition ONLINE_THRESHOLD_MS :: int where "ONLINE_THRESHOLD_MS = 60 * 1000"

record GatewayCard =
  gc_gateway :: Gateway
  gc_online :: bool
  gc_deviceCount :: nat
  gc_router :: "(string option \<times> string option \<times> RouterIntegrationStatus \<times> string option) option"
  gc_vpnDetectionCount24h :: nat
  gc_dohDetectionCount24h :: nat

definition gatewayCard :: "time \<Rightarrow> 'z store_scheme \<Rightarrow> Gateway \<Rightarrow> GatewayCard" where
  "gatewayCard now s g =
     (let deviceIds = map dev_id (findMany (\<lambda>d. dev_gatewayId d = Some (gwy_id g)) (devices s));
          since24h = now - 24 * 60 * 60 * 1000
      in \<lparr>gc_gateway = g\<lparr>gwy_token := [], gwy_previousToken := None, gwy_previousTokenExpiresAt := None\<rparr>,
          gc_online = (case gwy_lastSeen g of None \<Rightarrow> False | Some t \<Rightarrow> now - t \<le> ONLINE_THRESHOLD_MS),
          gc_deviceCount = length deviceIds,
          gc_router = map_option (\<lambda>r. (rtr_vendor r, rtr_model r, rtr_integrationStatus r, rtr_pluginId r))
                        (findRouter s (gwy_id g)),
          gc_vpnDetectionCount24h =
            length (findMany (\<lambda>v. vpn_gatewayId v = gwy_id g \<and> since24h \<le> vpn_detectedAt v) (vpnDetections s)),
          gc_dohDetectionCount24h =
            length (findMany (\<lambda>a. aud_action a = ''doh_dot_detected'' \<and> aud_entityId a \<in> Some ` set deviceIds \<and>
                                  since24h \<le> aud_createdAt a) (auditLogs s))\<rparr>)"

definition listGateways :: "time \<Rightarrow> ident \<Rightarrow> 'z store_scheme \<Rightarrow> GatewayCard list" where
  "listGateways now parentId s =
     map (gatewayCard now s) (orderByAsc gwy_createdAt (findMany (\<lambda>g. gwy_parentId g = parentId) (gateways s)))"

definition renameGateway ::
  "ident \<Rightarrow> ident \<Rightarrow> string option \<Rightarrow> string option \<Rightarrow> 'z store_scheme \<Rightarrow> Gateway result \<times> 'z store_scheme" where
  "renameGateway parentId gatewayId name description s =
     (case ownGateway parentId gatewayId s of
        Inl e \<Rightarrow> (Inl e, s)
      | Inr g \<Rightarrow>
          (let f = (\<lambda>g. g\<lparr>gwy_name := patch name (gwy_name g), gwy_description := patchOpt description (gwy_description g)\<rparr>)
           in (Inr (f g), updateGateway gatewayId f s)))"

definition deleteGateway :: "ident \<Rightarrow> ident \<Rightarrow> 'z store_scheme \<Rightarrow> unit result \<times> 'z store_scheme" where
  "deleteGateway parentId gatewayId s =
     (case ownGateway parentId gatewayId s of
        Inl e \<Rightarrow> (Inl e, s)
      | Inr _ \<Rightarrow>
          (Inr (),
           s\<lparr>devices := updateMany (\<lambda>d. dev_gatewayId d = Some gatewayId) (\<lambda>d. d\<lparr>dev_gatewayId := None\<rparr>) (devices s),
             detectedRouters := deleteMany (\<lambda>r. rtr_gatewayId r = gatewayId) (detectedRouters s),
             routerCommands := deleteMany (\<lambda>c. rcm_gatewayId c = gatewayId) (routerCommands s),
             vpnDetections := deleteMany (\<lambda>v. vpn_gatewayId v = gatewayId) (vpnDetections s),
             gateways := deleteMany (\<lambda>g. gwy_id g = gatewayId) (gateways s)\<rparr>))"

text \<open>The token is drawn before the row's identifier.\<close>

definition register_Gateway ::
  "time \<Rightarrow> ident \<Rightarrow> string \<Rightarrow> string option \<Rightarrow> GatewayType \<Rightarrow> string option \<Rightarrow> 'z store_scheme \<Rightarrow>
   Gateway \<times> 'z store_scheme" where
  "register_Gateway now parentId name endpoint gatewayType description s =
     (let token = newId s; s1 = drawId s;
          g = \<lparr>gwy_id = newId s1, gwy_parentId = parentId, gwy_name = name, gwy_description = description,
               gwy_gatewayType = gatewayType, gwy_token = token, gwy_endpoint = endpoint, gwy_paired = True,
               gwy_pairedAt = Some now, gwy_lastSeen = None, gwy_agentVersion = None, gwy_createdAt = now,
               gwy_previousToken = None, gwy_previousTokenExpiresAt = None\<rparr>
      in (g, drawId (s1\<lparr>gateways := gateways s1 @ [g]\<rparr>)))"

definition pair :: "time \<Rightarrow> ident \<Rightarrow> ident \<Rightarrow> 'z store_scheme \<Rightarrow> Gateway result \<times> 'z store_scheme" where
  "pair now gatewayId parentId s =
     (case ownGateway parentId gatewayId s of
        Inl e \<Rightarrow> (Inl e, s)
      | Inr g \<Rightarrow>
          (let f = (\<lambda>g. g\<lparr>gwy_paired := True, gwy_pairedAt := Some now\<rparr>) in (Inr (f g), updateGateway gatewayId f s)))"

definition rotateToken ::
  "time \<Rightarrow> ident \<Rightarrow> ident \<Rightarrow> int \<Rightarrow> 'z store_scheme \<Rightarrow> (ident \<times> string \<times> time) result \<times> 'z store_scheme" where
  "rotateToken now parentId gatewayId gracePeriodMs s =
     (case ownGateway parentId gatewayId s of
        Inl e \<Rightarrow> (Inl e, s)
      | Inr g \<Rightarrow>
          (let newToken = newId s;
               expires = now + gracePeriodMs;
               s1 = updateGateway gatewayId (\<lambda>x. x\<lparr>gwy_token := newToken, gwy_previousToken := Some (gwy_token g),
                                                  gwy_previousTokenExpiresAt := Some expires\<rparr>) (drawId s)
           in (Inr (gwy_id g, newToken, expires),
               auditLog now \<lparr>ad_userId = Some parentId, ad_action = ''gateway.token_rotated'', ad_entity = ''gateway'',
                 ad_entityId = Some gatewayId,
                 ad_details = Some (stringify (JObj [(''previousTokenExpiresAt'', JStr (toISOString expires))])),
                 ad_ipAddress = None\<rparr> s1)))"

section \<open>What an agent does\<close>

definition gatewayDevices :: "ident \<Rightarrow> 'z store_scheme \<Rightarrow> Device list" where
  "gatewayDevices gatewayId s = findMany (\<lambda>d. dev_gatewayId d = Some gatewayId) (devices s)"

definition getDiscoveredDevices :: "ident \<Rightarrow> 'z store_scheme \<Rightarrow> Device list result" where
  "getDiscoveredDevices gatewayId s =
     (case findGateway s gatewayId of
        None \<Rightarrow> Inl (NotFoundException ''Gateway not found'') | Some _ \<Rightarrow> Inr (gatewayDevices gatewayId s))"

definition setStatusByMac ::
  "ident \<Rightarrow> string \<Rightarrow> DeviceStatus \<Rightarrow> string \<Rightarrow> 'z store_scheme \<Rightarrow> string result \<times> 'z store_scheme" where
  "setStatusByMac gatewayId deviceMac status verb s =
     (case findGateway s gatewayId of
        None \<Rightarrow> (Inl (NotFoundException ''Gateway not found''), s)
      | Some _ \<Rightarrow>
          (case findFirst (\<lambda>d. dev_macAddress d = Some deviceMac \<and> dev_gatewayId d = Some gatewayId) (devices s) of
             None \<Rightarrow> (Inl (NotFoundException ''Device not found on this gateway''), s)
           | Some d \<Rightarrow> (Inr (''Device '' @ deviceMac @ '' '' @ verb @ '' via gateway''),
                       updateDevice (dev_id d) (\<lambda>d. d\<lparr>dev_status := status\<rparr>) s)))"

definition blockDevice_Gateway :: "ident \<Rightarrow> string \<Rightarrow> 'z store_scheme \<Rightarrow> string result \<times> 'z store_scheme" where
  "blockDevice_Gateway gatewayId deviceMac s = setStatusByMac gatewayId deviceMac DEV_BLOCKED ''blocked'' s"

definition unblockDevice_Gateway :: "ident \<Rightarrow> string \<Rightarrow> 'z store_scheme \<Rightarrow> string result \<times> 'z store_scheme" where
  "unblockDevice_Gateway gatewayId deviceMac s = setStatusByMac gatewayId deviceMac DEV_ONLINE ''unblocked'' s"

record GatewayStatus =
  gs_id :: ident
  gs_name :: string
  gs_paired :: bool
  gs_lastSeen :: "time option"
  gs_deviceCount :: nat
  gs_devices :: "(ident \<times> string \<times> string option \<times> DeviceStatus) list"

definition getStatus_Gateway :: "ident \<Rightarrow> 'z store_scheme \<Rightarrow> GatewayStatus result" where
  "getStatus_Gateway gatewayId s =
     (case findGateway s gatewayId of
        None \<Rightarrow> Inl (NotFoundException ''Gateway not found'')
      | Some g \<Rightarrow>
          (let ds = gatewayDevices gatewayId s in
           Inr \<lparr>gs_id = gwy_id g, gs_name = gwy_name g, gs_paired = gwy_paired g, gs_lastSeen = gwy_lastSeen g,
                gs_deviceCount = length ds,
                gs_devices = map (\<lambda>d. (dev_id d, dev_name d, dev_macAddress d, dev_status d)) ds\<rparr>))"

definition updateLastSeen :: "time \<Rightarrow> ident \<Rightarrow> string option \<Rightarrow> 'z store_scheme \<Rightarrow> 'z store_scheme" where
  "updateLastSeen now gatewayId agentVersion s =
     updateGateway gatewayId
       (\<lambda>g. g\<lparr>gwy_lastSeen := Some now,
              gwy_agentVersion := (if truthy agentVersion then agentVersion else gwy_agentVersion g)\<rparr>) s"

definition loadBandwidthLimits :: "Device list \<Rightarrow> 'z store_scheme \<Rightarrow> BandwidthLimit list" where
  "loadBandwidthLimits ds s =
     (let deviceIds = map dev_id ds;
          childIds = [c. Some c \<leftarrow> map dev_childId ds, c \<noteq> []]
      in if deviceIds = [] \<and> childIds = [] then []
         else findMany (\<lambda>b. bwl_enabled b \<and>
                ((\<exists>i \<in> set_option (bwl_deviceId b). i \<in> set deviceIds) \<or>
                 (\<exists>c \<in> set_option (bwl_childId b). c \<in> set childIds))) (bandwidthLimits s))"

text \<open>A JavaScript \<^verbatim>\<open>Map\<close>: setting an existing key keeps its place. \<open>None\<close> is the key \<^verbatim>\<open>__default__\<close>.\<close>

fun mapSet :: "'k \<Rightarrow> 'v \<Rightarrow> ('k \<times> 'v) list \<Rightarrow> ('k \<times> 'v) list" where
  "mapSet k v [] = [(k, v)]"
| "mapSet k v ((k', w) # m) = (if k = k' then (k, v) # m else (k', w) # mapSet k v m)"

definition setAll ::
  "(BandwidthLimit \<Rightarrow> bool) \<Rightarrow> BandwidthLimit list \<Rightarrow> (BlockCategory option \<times> BandwidthLimit) list \<Rightarrow>
   (BlockCategory option \<times> BandwidthLimit) list" where
  "setAll P limits m = foldl (\<lambda>m l. if P l then mapSet (bwl_category l) l m else m) m limits"

definition childLimit :: "Device \<Rightarrow> BandwidthLimit \<Rightarrow> bool" where
  "childLimit device l \<longleftrightarrow> truthy (bwl_childId l) \<and> \<not> truthy (bwl_deviceId l) \<and> bwl_childId l = dev_childId device"

definition deviceLimit :: "Device \<Rightarrow> BandwidthLimit \<Rightarrow> bool" where
  "deviceLimit device l \<longleftrightarrow> bwl_deviceId l = Some (dev_id device)"

definition limitsByCategory :: "Device \<Rightarrow> BandwidthLimit list \<Rightarrow> (BlockCategory option \<times> BandwidthLimit) list" where
  "limitsByCategory device allLimits =
     setAll (deviceLimit device) allLimits (setAll (childLimit device) allLimits [])"

definition resolveBandwidthLimits ::
  "Device \<Rightarrow> BandwidthLimit list \<Rightarrow> (BlockCategory option \<times> int option \<times> int option) list" where
  "resolveBandwidthLimits device allLimits =
     map (\<lambda>(k, l). (bwl_category l, bwl_downloadKbps l, bwl_uploadKbps l)) (limitsByCategory device allLimits)"

datatype PolicyAction = PA_BLOCK | PA_THROTTLE | PA_ALLOW

record DevicePolicy =
  dp_deviceId :: ident
  dp_name :: string
  dp_macAddress :: "string option"
  dp_ipAddress :: "string option"
  dp_ipv6Address :: "string option"
  dp_dnsSourceIp :: "string option"
  dp_action :: PolicyAction
  dp_reason :: "string option"
  dp_internetLocked :: bool
  dp_internetLockedAt :: "time option"
  dp_blockingMode :: BlockingMode
  dp_vpnBlock :: bool
  dp_quicBlock :: bool
  dp_bandwidthLimits :: "(BlockCategory option \<times> int option \<times> int option) list"

definition devicePolicy :: "BandwidthLimit list \<Rightarrow> Device \<Rightarrow> DevicePolicy" where
  "devicePolicy limits device =
     (let shouldBlock = (dev_internetLocked device \<or> dev_status device = DEV_BLOCKED);
          shouldThrottle = (\<not> shouldBlock \<and> dev_status device = DEV_PAUSED)
      in \<lparr>dp_deviceId = dev_id device, dp_name = dev_name device, dp_macAddress = dev_macAddress device,
          dp_ipAddress = dev_ipAddress device, dp_ipv6Address = dev_ipv6Address device,
          dp_dnsSourceIp = dev_dnsSourceIp device,
          dp_action = (if shouldBlock then PA_BLOCK else if shouldThrottle then PA_THROTTLE else PA_ALLOW),
          dp_reason = (if shouldBlock
                       then patchOpt (dev_internetLockedReason device)
                              (Some (if dev_status device = DEV_BLOCKED then ''MANUAL_BLOCK'' else ''FULL_INTERNET_LOCK''))
                       else if shouldThrottle then Some ''SOFT_PAUSE'' else None),
          dp_internetLocked = dev_internetLocked device, dp_internetLockedAt = dev_internetLockedAt device,
          dp_blockingMode = dev_blockingMode device, dp_vpnBlock = dev_vpnBlockEnabled device,
          dp_quicBlock = dev_quicBlockEnabled device,
          dp_bandwidthLimits = resolveBandwidthLimits device limits\<rparr>)"

record GatewayPolicies =
  gp_gatewayId :: ident
  gp_generatedAt :: string
  gp_rotatedToken :: "string option"
  gp_resolverIp :: "string option"
  gp_resolverIpv6 :: "string option"
  gp_devices :: "DevicePolicy list"

text \<open>\<^verbatim>\<open>a || b || null\<close> on environment variables.\<close>

fun firstTruthy :: "string option list \<Rightarrow> string option" where
  "firstTruthy [] = None"
| "firstTruthy (v # vs) = (if truthy v then v else firstTruthy vs)"

definition getPolicies ::
  "(string \<Rightarrow> string option) \<Rightarrow> time \<Rightarrow> ident \<Rightarrow> bool \<Rightarrow> string option \<Rightarrow> 'z store_scheme \<Rightarrow>
   GatewayPolicies result \<times> 'z store_scheme" where
  "getPolicies env now gatewayId usedPreviousToken agentVersion s =
     (case findGateway s gatewayId of
        None \<Rightarrow> (Inl (NotFoundException ''Gateway not found''), s)
      | Some g \<Rightarrow>
          (let ds = gatewayDevices gatewayId s;
               s1 = updateLastSeen now gatewayId agentVersion s;
               limits = loadBandwidthLimits ds s1
           in (Inr \<lparr>gp_gatewayId = gwy_id g, gp_generatedAt = toISOString now,
                    gp_rotatedToken = (if usedPreviousToken then Some (gwy_token g) else None),
                    gp_resolverIp = firstTruthy [env ''CONTROLLED_DNS_IP'', env ''DNS_SERVICE_IP''],
                    gp_resolverIpv6 = firstTruthy [env ''CONTROLLED_DNS_IPV6''],
                    gp_devices = map (devicePolicy limits) ds\<rparr>, s1)))"

record DiscoveredDevice =
  dd_ipAddress :: string
  dd_macAddress :: string
  dd_hostname :: "string option"
  dd_dhcpClientId :: "string option"
  dd_vendorOui :: "string option"
  dd_osHint :: "string option"

text \<open>The device that a discovered one is: by hardware address, else by host name and DHCP client.\<close>

definition matchDiscovered :: "ident \<Rightarrow> DiscoveredDevice \<Rightarrow> 'z store_scheme \<Rightarrow> Device option" where
  "matchDiscovered gatewayId x s =
     (case findFirst (\<lambda>d. dev_gatewayId d = Some gatewayId \<and> dev_macAddress d = Some (toLowerCase (dd_macAddress x))) (devices s) of
        Some d \<Rightarrow> Some d
      | None \<Rightarrow>
          if truthy (dd_hostname x) \<and> truthy (dd_dhcpClientId x)
          then findFirst (\<lambda>d. dev_gatewayId d = Some gatewayId \<and> dev_hostname d = dd_hostname x \<and>
                              dev_dhcpClientId d = dd_dhcpClientId x) (devices s)
          else None)"

definition applyDiscovered :: "hashes \<Rightarrow> time \<Rightarrow> DiscoveredDevice \<Rightarrow> Device \<Rightarrow> Device \<Rightarrow> Device" where
  "applyDiscovered H now x device d =
     (let macAddress = toLowerCase (dd_macAddress x);
          hostname = patchOpt (dd_hostname x) (dev_hostname device);
          dhcpClientId = patchOpt (dd_dhcpClientId x) (dev_dhcpClientId device);
          vendorOui = patchOpt (dd_vendorOui x) (dev_vendorOui device)
      in d\<lparr>dev_macAddress := Some macAddress, dev_ipAddress := Some (dd_ipAddress x),
           dev_dnsSourceIp := Some (dd_ipAddress x), dev_lastSeen := Some now, dev_hostname := hostname,
           dev_dhcpClientId := dhcpClientId, dev_vendorOui := vendorOui,
           dev_osHint := patchOpt (dd_osHint x) (dev_osHint device),
           dev_fingerprintHash := Some (computeFingerprintHash H (Some macAddress) hostname dhcpClientId vendorOui),
           dev_fingerprintUpdatedAt := Some now\<rparr>)"

fun discoverAll :: "hashes \<Rightarrow> time \<Rightarrow> ident \<Rightarrow> DiscoveredDevice list \<Rightarrow> 'z store_scheme \<Rightarrow> nat \<times> 'z store_scheme" where
  "discoverAll H now gatewayId [] s = (0, s)"
| "discoverAll H now gatewayId (x # xs) s =
     (case matchDiscovered gatewayId x s of
        None \<Rightarrow> discoverAll H now gatewayId xs s
      | Some device \<Rightarrow>
          (case discoverAll H now gatewayId xs (updateDevice (dev_id device) (applyDiscovered H now x device) s) of
             (n, s1) \<Rightarrow> (n + 1, s1)))"

definition updateDiscoveredDevices ::
  "hashes \<Rightarrow> time \<Rightarrow> ident \<Rightarrow> DiscoveredDevice list \<Rightarrow> 'z store_scheme \<Rightarrow> nat result \<times> 'z store_scheme" where
  "updateDiscoveredDevices H now gatewayId xs s =
     (case findGateway s gatewayId of
        None \<Rightarrow> (Inl (NotFoundException ''Gateway not found''), s)
      | Some _ \<Rightarrow> (case discoverAll H now gatewayId xs s of (n, s1) \<Rightarrow> (Inr n, updateLastSeen now gatewayId None s1)))"

record Detection =
  det_deviceId :: ident
  det_provider :: string
  det_method :: string
  det_detail :: "string option"
  det_confidence :: "int option"
  det_overallConfidence :: "int option"

definition validDetections :: "ident \<Rightarrow> Detection list \<Rightarrow> 'z store_scheme \<Rightarrow> Detection list" where
  "validDetections gatewayId detections s =
     (let known = map dev_id (findMany (\<lambda>d. dev_gatewayId d = Some gatewayId \<and>
                    dev_id d \<in> set (map det_deviceId detections)) (devices s))
      in filter (\<lambda>x. det_deviceId x \<in> set known) detections)"

definition recordVpnDetections ::
  "time \<Rightarrow> ident \<Rightarrow> Detection list \<Rightarrow> 'z store_scheme \<Rightarrow> nat result \<times> 'z store_scheme" where
  "recordVpnDetections now gatewayId detections s =
     (if detections = [] then (Inr 0, s)
      else
        (case findGateway s gatewayId of
           None \<Rightarrow> (Inl (NotFoundException ''Gateway not found''), s)
         | Some _ \<Rightarrow>
             (let valid = validDetections gatewayId detections s in
              (Inr (length valid),
               s\<lparr>vpnDetections := vpnDetections s @
                   map (\<lambda>x. \<lparr>vpn_gatewayId = gatewayId, vpn_deviceId = det_deviceId x, vpn_provider = det_provider x,
                             vpn_method = det_method x, vpn_detail = det_detail x, vpn_confidence = det_confidence x,
                             vpn_overallConfidence = det_overallConfidence x, vpn_detectedAt = now\<rparr>) valid\<rparr>))))"

definition recordDohDetections ::
  "time \<Rightarrow> ident \<Rightarrow> Detection list \<Rightarrow> 'z store_scheme \<Rightarrow> nat result \<times> 'z store_scheme" where
  "recordDohDetections now gatewayId detections s =
     (if detections = [] then (Inr 0, s)
      else
        (case findGateway s gatewayId of
           None \<Rightarrow> (Inl (NotFoundException ''Gateway not found''), s)
         | Some _ \<Rightarrow>
             (let valid = validDetections gatewayId detections s in
              (Inr (length valid),
               foldl (\<lambda>s x. auditLog now
                   \<lparr>ad_userId = None, ad_action = ''doh_dot_detected'', ad_entity = ''device'',
                    ad_entityId = Some (det_deviceId x),
                    ad_details = Some (stringify (JObj ([(''provider'', JStr (det_provider x)), (''method'', JStr (det_method x))]
                      @ optField ''detail'' JStr (det_detail x) @ optField ''confidence'' JNum (det_confidence x)))),
                    ad_ipAddress = None\<rparr> s) s valid))))"

definition validateToken :: "string \<Rightarrow> 'z store_scheme \<Rightarrow> Gateway option" where
  "validateToken token s = findUnique gwy_token token (gateways s)"

section \<open>The token guard\<close>

definition SIGNATURE_WINDOW_MS :: int where "SIGNATURE_WINDOW_MS = 5 * 60 * 1000"

text \<open>What the guard reads of a request; \<open>rq_body\<close> is the JSON text of a body with at least one property,
  and empty otherwise.\<close>

record gatewayRequest =
  rq_token :: "string option"
  rq_signature :: "string option"
  rq_timestamp :: "string option"
  rq_method :: string
  rq_url :: string
  rq_body :: string

definition signedString :: "hashes \<Rightarrow> gatewayRequest \<Rightarrow> string \<Rightarrow> string" where
  "signedString H q timestamp =
     rq_method q @ [CHR 0x0A] @ rq_url q @ [CHR 0x0A] @ timestamp @ [CHR 0x0A] @ sha256 H (rq_body q)"

definition verifySignature ::
  "hashes \<Rightarrow> time \<Rightarrow> gatewayRequest \<Rightarrow> string \<Rightarrow> unit result" where
  "verifySignature H now q gatewayToken =
     (if \<not> truthy (rq_signature q) \<or> \<not> truthy (rq_timestamp q)
      then Inl (UnauthorizedException
        ''Partial request signature (both x-gateway-signature and x-gateway-timestamp are required together)'')
      else
        (let signature = patch (rq_signature q) []; timestamp = patch (rq_timestamp q) [] in
         if (case jsNumber timestamp of None \<Rightarrow> True | Some t \<Rightarrow> \<bar>of_int now - t\<bar> > of_int SIGNATURE_WINDOW_MS)
         then Inl (UnauthorizedException ''Request signature timestamp is missing, malformed, or outside the allowed window'')
         else if fromHex (hmac256 H gatewayToken (signedString H q timestamp)) \<noteq> fromHex signature
         then Inl (UnauthorizedException ''Invalid request signature'')
         else Inr ()))"

definition lookupToken :: "time \<Rightarrow> string \<Rightarrow> 'z store_scheme \<Rightarrow> (Gateway \<times> bool) option" where
  "lookupToken now token s =
     (case findUnique gwy_token token (gateways s) of
        Some g \<Rightarrow> Some (g, False)
      | None \<Rightarrow>
          (case findFirst (\<lambda>g. gwy_previousToken g = Some token \<and> (\<exists>t \<in> set_option (gwy_previousTokenExpiresAt g). now < t))
                  (gateways s) of
             Some g \<Rightarrow> Some (g, True) | None \<Rightarrow> None))"

text \<open>The guard admits a request with the gateway and whether the previous token was used, or throws.\<close>

definition canActivate ::
  "hashes \<Rightarrow> time \<Rightarrow> gatewayRequest \<Rightarrow> 'z store_scheme \<Rightarrow> (Gateway \<times> bool) result" where
  "canActivate H now q s =
     (if \<not> truthy (rq_token q) then Inl (UnauthorizedException ''Missing gateway token'')
      else
        (case lookupToken now (patch (rq_token q) []) s of
           None \<Rightarrow> Inl (UnauthorizedException ''Invalid or unpaired gateway token'')
         | Some (g, usedPreviousToken) \<Rightarrow>
             if \<not> gwy_paired g then Inl (UnauthorizedException ''Invalid or unpaired gateway token'')
             else
               (let signingToken = (if usedPreviousToken then patch (gwy_previousToken g) [] else gwy_token g) in
                if truthy (rq_signature q) \<or> truthy (rq_timestamp q)
                then (case verifySignature H now q signingToken of
                        Inl e \<Rightarrow> Inl e | Inr _ \<Rightarrow> Inr (g, usedPreviousToken))
                else Inr (g, usedPreviousToken))))"

interpretation rename_guard: owner_guarded findGateway gwy_parentId "''Gateway not found''" "''Not your gateway''"
  "\<lambda>i p. renameGateway p i name description" for name description
  by unfold_locales (simp add: renameGateway_def ownGateway_def)

interpretation delete_gateway_guard: owner_guarded findGateway gwy_parentId "''Gateway not found''" "''Not your gateway''"
  "\<lambda>i p. deleteGateway p i"
  by unfold_locales (simp add: deleteGateway_def ownGateway_def)

interpretation pair_guard: owner_guarded findGateway gwy_parentId "''Gateway not found''" "''Not your gateway''"
  "\<lambda>i p. pair now i p" for now
  by unfold_locales (simp add: pair_def ownGateway_def)

interpretation rotate_guard: owner_guarded findGateway gwy_parentId "''Gateway not found''" "''Not your gateway''"
  "\<lambda>i p. rotateToken now p i grace" for now grace
  by unfold_locales (simp add: rotateToken_def ownGateway_def)

section \<open>Bandwidth limits per category\<close>

lemma map_of_mapSet: "map_of (mapSet k v m) = (map_of m)(k \<mapsto> v)"
  by (induction k v m rule: mapSet.induct) (auto simp: fun_eq_iff)

lemma keys_mapSet: "set (map fst (mapSet k v m)) = insert k (set (map fst m))"
  by (induction k v m rule: mapSet.induct) auto

lemma distinct_mapSet: "distinct (map fst m) \<Longrightarrow> distinct (map fst (mapSet k v m))"
proof (induction k v m rule: mapSet.induct)
  case (2 k v k' w m)
  then show ?case using keys_mapSet [of k v m] by auto
qed simp

lemma map_of_setAll:
  "map_of (setAll P limits m) k =
     (case findFirst (\<lambda>l. P l \<and> bwl_category l = k) (rev limits) of Some l \<Rightarrow> Some l | None \<Rightarrow> map_of m k)"
  by (induction limits rule: rev_induct) (auto simp: setAll_def map_of_mapSet)

lemma distinct_setAll: "distinct (map fst m) \<Longrightarrow> distinct (map fst (setAll P limits m))"
  by (induction limits rule: rev_induct) (auto simp: setAll_def intro: distinct_mapSet)

section \<open>Tokens\<close>

lemma findFirst_unique:
  "r \<in> set rows \<Longrightarrow> P r \<Longrightarrow> (\<And>q. q \<in> set rows \<Longrightarrow> P q \<Longrightarrow> q = r) \<Longrightarrow> findFirst P rows = Some r"
proof (cases "findFirst P rows")
  case None
  assume "r \<in> set rows" "P r"
  with None show ?thesis by (simp add: findFirst_None_iff)
next
  case (Some q)
  assume "\<And>q. q \<in> set rows \<Longrightarrow> P q \<Longrightarrow> q = r"
  with findFirst_SomeD [OF Some] Some show ?thesis by simp
qed

text \<open>Current tokens are unique, and a drawn token was never used.\<close>

definition tokens_ok :: "'z store_scheme \<Rightarrow> bool" where
  "tokens_ok s \<longleftrightarrow> distinct (map gwy_id (gateways s)) \<and> distinct (map gwy_token (gateways s)) \<and>
     (\<forall>g \<in> set (gateways s). gwy_token g \<noteq> newId s \<and> gwy_previousToken g \<noteq> Some (newId s)) \<and>
     (\<forall>g \<in> set (gateways s). \<forall>h \<in> set (gateways s). gwy_previousToken h \<noteq> Some (gwy_token g))"

definition rotated :: "time \<Rightarrow> int \<Rightarrow> string \<Rightarrow> Gateway \<Rightarrow> Gateway" where
  "rotated now grace newToken g =
     g\<lparr>gwy_token := newToken, gwy_previousToken := Some (gwy_token g), gwy_previousTokenExpiresAt := Some (now + grace)\<rparr>"

lemma distinct_map_inj: "distinct (map f xs) \<Longrightarrow> x \<in> set xs \<Longrightarrow> y \<in> set xs \<Longrightarrow> f x = f y \<Longrightarrow> x = y"
  by (auto simp: distinct_map dest: inj_onD)

lemma rotated_row:
  assumes ok: "tokens_ok s" and g: "findGateway s i = Some g" "gwy_parentId g = p"
  shows "x \<in> set (gateways (snd (rotateToken t p i grace s))) \<longleftrightarrow>
           x = rotated t grace (newId s) g \<or> x \<in> set (gateways s) \<and> x \<noteq> g"
proof -
  have gi: "g \<in> set (gateways s)" "gwy_id g = i" using findUnique_Some_iff [OF g(1)] by auto
  have u: "y = g" if "y \<in> set (gateways s)" "gwy_id y = i" for y
    using distinct_map_inj [of gwy_id "gateways s" y g] ok that gi by (simp add: tokens_ok_def)
  have "gateways (snd (rotateToken t p i grace s)) =
      updateMany (\<lambda>x. gwy_id x = i) (\<lambda>x. x\<lparr>gwy_token := newId s, gwy_previousToken := Some (gwy_token g),
                                        gwy_previousTokenExpiresAt := Some (t + grace)\<rparr>) (gateways s)"
    using g by (simp add: rotateToken_def ownGateway_def owned_def Let_def updateGateway_def)
  moreover have "(\<exists>q \<in> set (gateways s). gwy_id q = i \<and> x = h q) \<longleftrightarrow> x = h g" for h :: "Gateway \<Rightarrow> Gateway"
    using u gi by blast
  moreover have "x \<in> set (gateways s) \<and> gwy_id x \<noteq> i \<longleftrightarrow> x \<in> set (gateways s) \<and> x \<noteq> g" using u gi by blast
  ultimately show ?thesis by (simp only: in_updateMany_iff rotated_def)
qed

lemma lookup_new:
  assumes ok: "tokens_ok s" and g: "findGateway s i = Some g" "gwy_parentId g = p"
  shows "lookupToken now (newId s) (snd (rotateToken t p i grace s)) = Some (rotated t grace (newId s) g, False)"
proof -
  have "findFirst (\<lambda>x. gwy_token x = newId s) (gateways (snd (rotateToken t p i grace s))) = Some (rotated t grace (newId s) g)"
    by (rule findFirst_unique) (use ok in \<open>auto simp: rotated_row [OF ok g] rotated_def tokens_ok_def\<close>)
  then show ?thesis by (simp add: lookupToken_def findUnique_def findFirst_def)
qed

lemma lookup_old:
  assumes ok: "tokens_ok s" and g: "findGateway s i = Some g" "gwy_parentId g = p"
  shows "lookupToken now (gwy_token g) (snd (rotateToken t p i grace s)) =
           (if now < t + grace then Some (rotated t grace (newId s) g, True) else None)"
proof -
  have gi: "g \<in> set (gateways s)" using findUnique_Some_iff [OF g(1)] by auto
  let ?gs = "gateways (snd (rotateToken t p i grace s))"
  have "gwy_token x \<noteq> gwy_token g" if "x \<in> set ?gs" for x
    using that ok gi distinct_map_inj [of gwy_token "gateways s" x g]
    by (auto simp: rotated_row [OF ok g] rotated_def tokens_ok_def)
  then have none: "findUnique gwy_token (gwy_token g) ?gs = None"
    unfolding findUnique_None_iff by (metis imageE)
  let ?P = "\<lambda>x. gwy_previousToken x = Some (gwy_token g) \<and> (\<exists>e \<in> set_option (gwy_previousTokenExpiresAt x). now < e)"
  have only: "x = rotated t grace (newId s) g" if "x \<in> set ?gs" "?P x" for x
    using that ok gi by (auto simp: rotated_row [OF ok g] tokens_ok_def)
  show ?thesis
  proof (cases "now < t + grace")
    case True
    have "findFirst ?P ?gs = Some (rotated t grace (newId s) g)"
    proof (rule findFirst_unique)
      show "rotated t grace (newId s) g \<in> set ?gs" by (simp add: rotated_row [OF ok g])
      show "?P (rotated t grace (newId s) g)" using True by (simp add: rotated_def)
    qed (rule only)
    with none True show ?thesis by (simp add: lookupToken_def)
  next
    case False
    then have "\<not> ?P (rotated t grace (newId s) g)" by (simp add: rotated_def)
    then have "findFirst ?P ?gs = None" unfolding findFirst_None_iff using only by blast
    with none False show ?thesis by (simp add: lookupToken_def)
  qed
qed

definition unsignedRequest :: "string \<Rightarrow> gatewayRequest" where
  "unsignedRequest token =
     \<lparr>rq_token = Some token, rq_signature = None, rq_timestamp = None, rq_method = ''GET'', rq_url = ''/gateway/policies'',
      rq_body = []\<rparr>"

section \<open>Discovery\<close>

text \<open>The part of a device that discovery never touches.\<close>

definition authority :: "Device \<Rightarrow> ident \<times> ident \<times> ident option \<times> ident option \<times> DeviceStatus \<times> bool \<times> BlockingMode" where
  "authority d = (dev_id d, dev_parentId d, dev_childId d, dev_gatewayId d, dev_status d, dev_internetLocked d, dev_blockingMode d)"

lemma authority_applyDiscovered [simp]: "authority (applyDiscovered H now x device d) = authority d"
  by (simp add: authority_def applyDiscovered_def Let_def)

lemma matchDiscovered_gateway: "matchDiscovered g x s = Some d \<Longrightarrow> d \<in> set (devices s) \<and> dev_gatewayId d = Some g"
  by (auto simp: matchDiscovered_def split: option.splits if_splits dest: findFirst_SomeD)

lemma discoverAll_authority:
  "map authority (devices (snd (discoverAll H now g xs s))) = map authority (devices s)"
  by (induction H now g xs s rule: discoverAll.induct)
    (auto simp: case_prod_beta updateDevice_def split: option.split)

lemma discoverAll_other_gateways:
  "distinct (map dev_id (devices s)) \<Longrightarrow>
   filter (\<lambda>d. dev_gatewayId d \<noteq> Some g) (devices (snd (discoverAll H now g xs s))) =
     filter (\<lambda>d. dev_gatewayId d \<noteq> Some g) (devices s)"
proof (induction H now g xs s rule: discoverAll.induct)
  case (2 H now g x xs s)
  show ?case
  proof (cases "matchDiscovered g x s")
    case None
    with 2 show ?thesis by simp
  next
    case (Some device)
    let ?s = "updateDevice (dev_id device) (applyDiscovered H now x device) s"
    have k: "dev_id (applyDiscovered H now x device d) = dev_id d" "dev_gatewayId (applyDiscovered H now x device d) = dev_gatewayId d" for d
      using authority_applyDiscovered [of H now x device d] by (simp_all add: authority_def)
    have "distinct (map dev_id (devices ?s))" using 2(3) by (simp add: updateDevice_def k)
    then have "filter (\<lambda>d. dev_gatewayId d \<noteq> Some g) (devices (snd (discoverAll H now g xs ?s))) =
        filter (\<lambda>d. dev_gatewayId d \<noteq> Some g) (devices ?s)" using 2(2) [OF Some] by simp
    also have "\<dots> = findMany (\<lambda>d. dev_gatewayId d \<noteq> Some g) (devices s)"
      unfolding updateDevice_def
      using matchDiscovered_gateway [OF Some] distinct_map_inj [OF 2(3)] k
      by (simp add: findMany_def [symmetric], intro findMany_updateMany_irrelevant) metis
    finally show ?thesis using Some by (simp add: case_prod_beta findMany_def)
  qed
qed simp

section \<open>An example deployment\<close>

definition demoGateway :: Gateway where
  "demoGateway = \<lparr>gwy_id = ''g'', gwy_parentId = ''p'', gwy_name = ''Pi'', gwy_description = None,
     gwy_gatewayType = SOFTWARE_AGENT, gwy_token = ''tok'', gwy_endpoint = None, gwy_paired = True,
     gwy_pairedAt = None, gwy_lastSeen = None, gwy_agentVersion = None, gwy_createdAt = 0,
     gwy_previousToken = None, gwy_previousTokenExpiresAt = None\<rparr>"

definition blockedBehind :: Device where
  "blockedBehind = (bareDevice ''d'' ''p'' ''c'')\<lparr>dev_gatewayId := Some ''g'', dev_status := DEV_BLOCKED\<rparr>"

definition gatewayStore :: store where
  "gatewayStore = demoStore\<lparr>gateways := [demoGateway], devices := [blockedBehind]\<rparr>"

definition demoHashes :: hashes where
  "demoHashes = \<lparr>sha256 = (\<lambda>m. ''00''), hmac256 = (\<lambda>k m. ''0aff'')\<rparr>"

lemma gatewayStore_tables:
  "gateways gatewayStore = [demoGateway]" "devices gatewayStore = [blockedBehind]" "newId gatewayStore = ''x''"
  "bandwidthLimits gatewayStore = []"
  by (simp_all add: gatewayStore_def demoStore_def emptyStore_def newId_def)

lemma demo_tokens: "tokens_ok gatewayStore"
  by (simp add: tokens_ok_def gatewayStore_tables demoGateway_def)

section \<open>Properties\<close>

text \<open>C15: The guard admits paired gateways only, by a valid token, and checks every signature it is given.
  When \<open>canActivate\<close> returns a gateway, the gateway is stored and paired and the request's token is its
  current token, or its previous token before the end of the grace period while no gateway has it as
  current one; and when the request carries a signature or a timestamp header, it carries both, the
  timestamp is within five minutes, and the signature is the HMAC of method, path, timestamp and body
  hash under that token.\<close>
theorem canActivate_sound:
  assumes "canActivate H now q s = Inr (g, prev)"
  shows "g \<in> set (gateways s) \<and> gwy_paired g \<and>
     (if prev then gwy_previousToken g = rq_token q \<and> (\<exists>e. gwy_previousTokenExpiresAt g = Some e \<and> now < e) \<and>
                   (\<forall>h \<in> set (gateways s). Some (gwy_token h) \<noteq> rq_token q)
      else rq_token q = Some (gwy_token g)) \<and>
     (truthy (rq_signature q) \<or> truthy (rq_timestamp q) \<longrightarrow>
        (\<exists>sig ts n tok. rq_signature q = Some sig \<and> rq_timestamp q = Some ts \<and> rq_token q = Some tok \<and>
           jsNumber ts = Some n \<and> \<bar>of_int now - n\<bar> \<le> of_int SIGNATURE_WINDOW_MS \<and>
           fromHex sig = fromHex (hmac256 H tok (signedString H q ts))))"
proof -
  obtain tok where tok: "rq_token q = Some tok" "tok \<noteq> []"
    using assms by (cases "rq_token q") (auto simp: canActivate_def split: if_splits)
  with assms have l: "lookupToken now tok s = Some (g, prev)" and paired: "gwy_paired g"
    by (auto simp: canActivate_def Let_def split: option.splits prod.splits if_splits sum.splits)
  have m: "g \<in> set (gateways s) \<and>
     (if prev then gwy_previousToken g = Some tok \<and> (\<exists>e. gwy_previousTokenExpiresAt g = Some e \<and> now < e) \<and>
                   (\<forall>h \<in> set (gateways s). gwy_token h \<noteq> tok)
      else gwy_token g = tok)"
    using l by (auto simp: lookupToken_def tbl_simps split: option.splits dest!: findFirst_SomeD findUnique_Some_iff)
  have "verifySignature H now q tok = Inr ()" if "truthy (rq_signature q) \<or> truthy (rq_timestamp q)"
    using assms tok l m that by (auto simp: canActivate_def Let_def split: if_splits sum.splits)
  then have "\<exists>sig ts n. rq_signature q = Some sig \<and> rq_timestamp q = Some ts \<and> jsNumber ts = Some n \<and>
       \<bar>of_int now - n\<bar> \<le> of_int SIGNATURE_WINDOW_MS \<and> fromHex sig = fromHex (hmac256 H tok (signedString H q ts))"
    if "truthy (rq_signature q) \<or> truthy (rq_timestamp q)"
    using that by (cases "rq_signature q"; cases "rq_timestamp q")
      (auto simp: verifySignature_def Let_def not_less split: if_splits option.splits)
  with m paired tok show ?thesis by auto
qed

theorem canActivate_sound_witness:
  "\<exists>g prev. canActivate demoHashes 2000
      \<lparr>rq_token = Some ''tok'', rq_signature = Some ''0AFF'', rq_timestamp = Some ''1000'', rq_method = ''GET'',
       rq_url = ''/'', rq_body = []\<rparr> gatewayStore = Inr (g, prev) \<and> gwy_paired g \<and> g \<in> set (gateways gatewayStore)"
proof -
  have h: "fromHex ''0AFF'' = [10, 255]" "fromHex ''0aff'' = [10, 255]" by code_simp+
  have n: "jsNumber ''1000'' = Some 1000"
    using doubleOf_int [of 1000] by (simp add: jsNumber_def radixPrefix_def decimalLiteral_def splitExp_def exponentOf_def trim_def isBlank_def
        toLowerCase_def lowerChar_def isDigit_def digitsVal_def digitVal_def Let_def)
  have c: "canActivate demoHashes 2000
      \<lparr>rq_token = Some ''tok'', rq_signature = Some ''0AFF'', rq_timestamp = Some ''1000'', rq_method = ''GET'',
       rq_url = ''/'', rq_body = []\<rparr> gatewayStore = Inr (demoGateway, False)"
    by (simp add: canActivate_def lookupToken_def gatewayStore_tables demoGateway_def verifySignature_def
        demoHashes_def SIGNATURE_WINDOW_MS_def Let_def h n del: fromHex.simps)
  from canActivate_sound [OF c] c show ?thesis by blast
qed

text \<open>Token rotation keeps a deployed agent alive and then cuts the old token off. After a rotation at
  \<open>t\<close>, the new token admits the gateway at any time; the old one admits it until \<open>t\<close> plus the grace
  period, flagged so that the next poll returns the new token, and is refused from then on.\<close>
theorem rotation_grace:
  assumes "tokens_ok s" and "findGateway s i = Some g" "gwy_parentId g = p" "gwy_paired g"
    and "gwy_token g \<noteq> []" "newId s \<noteq> []"
  shows "let s' = snd (rotateToken t p i grace s); g' = rotated t grace (newId s) g in
     canActivate H now (unsignedRequest (newId s)) s' = Inr (g', False) \<and>
     canActivate H now (unsignedRequest (gwy_token g)) s' =
       (if now < t + grace then Inr (g', True)
        else Inl (UnauthorizedException ''Invalid or unpaired gateway token'')) \<and>
     (\<exists>P. fst (getPolicies env now i True v s') = Inr P \<and> gp_rotatedToken P = Some (newId s))"
proof -
  let ?s' = "snd (rotateToken t p i grace s)"
  have "gateways ?s' = updateMany (\<lambda>x. gwy_id x = i) (\<lambda>x. x\<lparr>gwy_token := newId s, gwy_previousToken := Some (gwy_token g),
             gwy_previousTokenExpiresAt := Some (t + grace)\<rparr>) (gateways s)"
    using assms(2,3) by (simp add: rotateToken_def ownGateway_def owned_def Let_def updateGateway_def)
  then obtain g2 where "findGateway ?s' i = Some g2" "gwy_token g2 = newId s" using assms(2) by simp
  then have "\<exists>P. fst (getPolicies env now i True v ?s') = Inr P \<and> gp_rotatedToken P = Some (newId s)"
    by (simp add: getPolicies_def Let_def)
  moreover have "gwy_paired (rotated t grace (newId s) g)" using assms(4) by (simp add: rotated_def)
  ultimately show ?thesis
    using assms(5,6) lookup_new [OF assms(1-3), of now t grace] lookup_old [OF assms(1-3), of now t grace]
    by (simp add: canActivate_def unsignedRequest_def Let_def)
qed

theorem rotation_grace_witness:
  "canActivate demoHashes 5 (unsignedRequest ''tok'') (snd (rotateToken 0 ''p'' ''g'' 10 gatewayStore)) =
     Inr (rotated 0 10 ''x'' demoGateway, True) \<and>
   canActivate demoHashes 15 (unsignedRequest ''tok'') (snd (rotateToken 0 ''p'' ''g'' 10 gatewayStore)) =
     Inl (UnauthorizedException ''Invalid or unpaired gateway token'')"
proof -
  have g: "findGateway gatewayStore ''g'' = Some demoGateway" "gwy_parentId demoGateway = ''p''" "gwy_paired demoGateway"
    "gwy_token demoGateway \<noteq> []" "newId gatewayStore \<noteq> []" "gwy_token demoGateway = ''tok''"
    by (simp_all add: gatewayStore_tables) (simp_all add: demoGateway_def)
  show ?thesis
    using rotation_grace [OF demo_tokens g(1-5), of 0 10 demoHashes 5]
      rotation_grace [OF demo_tokens g(1-5), of 0 10 demoHashes 15]
    by (simp add: Let_def g(6) gatewayStore_tables(3))
qed

text \<open>For every category the bandwidth policy of a device is its own limit when it has one (the last),
  and otherwise its child's (the last); each category appears once.\<close>
theorem limits_device_overrides_child:
  "map_of (limitsByCategory d limits) k =
     (case findFirst (\<lambda>l. deviceLimit d l \<and> bwl_category l = k) (rev limits) of
        Some l \<Rightarrow> Some l
      | None \<Rightarrow> findFirst (\<lambda>l. childLimit d l \<and> bwl_category l = k) (rev limits)) \<and>
   distinct (map fst (limitsByCategory d limits))"
  by (auto simp: limitsByCategory_def map_of_setAll distinct_setAll split: option.split)

text \<open>Discovery moves addresses, not authority. A discovery report of a gateway changes no device's
  identity, owner, child, gateway, status or lock, and no device that is not behind that gateway.\<close>
theorem discovery_keeps_authority:
  assumes "distinct (map dev_id (devices s))"
  shows "map authority (devices (snd (updateDiscoveredDevices H now g xs s))) = map authority (devices s) \<and>
         filter (\<lambda>d. dev_gatewayId d \<noteq> Some g) (devices (snd (updateDiscoveredDevices H now g xs s))) =
           filter (\<lambda>d. dev_gatewayId d \<noteq> Some g) (devices s)"
  using discoverAll_authority [of H now g xs s] discoverAll_other_gateways [OF assms, of g H now xs]
  by (simp add: updateDiscoveredDevices_def updateLastSeen_def updateGateway_def case_prod_beta split: option.split)

theorem discovery_keeps_authority_witness:
  "map authority (devices (snd (updateDiscoveredDevices demoHashes 9 ''g''
      [\<lparr>dd_ipAddress = ''10.0.0.7'', dd_macAddress = ''AA:BB'', dd_hostname = None, dd_dhcpClientId = None,
        dd_vendorOui = None, dd_osHint = None\<rparr>] gatewayStore))) = map authority (devices gatewayStore)"
  by (rule discovery_keeps_authority [THEN conjunct1]) (simp add: gatewayStore_tables)



end
