(* ===== verification/Gateway_Api.thy ===== *)
theory Gateway_Api
  imports Gateway
begin

text \<open>
  The endpoints that gateway agents call: \<^verbatim>\<open>gateway.controller.ts\<close> behind \<^verbatim>\<open>GatewayTokenGuard\<close>,
  \<^verbatim>\<open>router-command.controller.ts\<close> and the reporting half of \<^verbatim>\<open>router-detection.controller.ts\<close>, with the validation of their
  bodies. A request passes the token guard, then the validation of its body, then its handler; each of them
  may end it with an exception. Some handlers act for the gateway of the token, others for the gateway
  that the query string names.
\<close>

section \<open>Bodies\<close>

definition percent :: "int option \<Rightarrow> bool" where
  "percent v = (case v of None \<Rightarrow> True | Some n \<Rightarrow> 0 \<le> n \<and> n \<le> 100)"

definition VpnDetectionDto_ok :: "Detection \<Rightarrow> bool" where
  "VpnDetectionDto_ok x \<longleftrightarrow> percent (det_confidence x) \<and> percent (det_overallConfidence x)"

text \<open>The body of a DoH report has no \<^verbatim>\<open>overallConfidence\<close>, and unknown properties are refused.\<close>

definition DohDetectionDto_ok :: "Detection \<Rightarrow> bool" where
  "DohDetectionDto_ok x \<longleftrightarrow> percent (det_confidence x) \<and> det_overallConfidence x = None"

definition RouterDetectionReportDto_ok :: "RouterDetectionReport \<Rightarrow> bool" where
  "RouterDetectionReportDto_ok dto \<longleftrightarrow> percent (rdr_confidence dto)"

section \<open>Requests and answers\<close>

datatype agentRequest =
    AG_getDevices "ident option"
  | AG_block "ident option" string
  | AG_unblock "ident option" string
  | AG_getStatus "ident option"
  | AG_getPolicies "string option"
  | AG_reportDiscovery "DiscoveredDevice list"
  | AG_reportVpnDetections "Detection list"
  | AG_reportDohDetections "Detection list"
  | AG_getPending
  | AG_ack ident bool "json option"
  | AG_reportDetection RouterDetectionReport

record RouterConnection =
  rcn_pluginId :: "string option"
  rcn_ipAddress :: "string option"
  rcn_hostname :: "string option"
  rcn_credentials :: "json option"

datatype agentValue =
    AV_devices "Device list"
  | AV_message string
  | AV_status GatewayStatus
  | AV_policies GatewayPolicies
  | AV_count nat
  | AV_pending "RouterCommand list" "RouterConnection option"
  | AV_command RouterCommand
  | AV_router DetectedRouter

text \<open>What the handlers are given besides the request: hashes, environment, the cipher with its key, and
  \<^verbatim>\<open>JSON.parse\<close> of the host.\<close>

record agentEnv =
  ae_hashes :: hashes
  ae_env :: "string \<Rightarrow> string option"
  ae_crypto :: crypto
  ae_key :: bytes
  ae_parseJson :: "string \<Rightarrow> json option"

definition getRouterConnectionInfo :: "agentEnv \<Rightarrow> ident \<Rightarrow> 'z store_scheme \<Rightarrow> RouterConnection option" where
  "getRouterConnectionInfo E gatewayId s =
     (case findRouter s gatewayId of
        None \<Rightarrow> None
      | Some router \<Rightarrow>
          let credentials =
                (if truthy (rtr_adminCredentialsEncrypted router)
                 then (case decrypt (ae_crypto E) (ae_key E) (patch (rtr_adminCredentialsEncrypted router) []) of
                         Inl _ \<Rightarrow> None | Inr t \<Rightarrow> ae_parseJson E t)
                 else None)
          in Some \<lparr>rcn_pluginId = rtr_pluginId router, rcn_ipAddress = rtr_ipAddress router,
                   rcn_hostname = rtr_hostname router, rcn_credentials = credentials\<rparr>)"

definition validated :: "bool \<Rightarrow> 'b result \<times> 's \<Rightarrow> 's \<Rightarrow> 'b result \<times> 's" where
  "validated valid rs s = (if valid then rs else (Inl (BadRequestException ''Bad Request''), s))"

text \<open>A missing query parameter reaches Prisma as \<^verbatim>\<open>undefined\<close>, which the unique lookup refuses.\<close>

definition withQuery :: "ident option \<Rightarrow> (ident \<Rightarrow> 'b result \<times> 's) \<Rightarrow> 's \<Rightarrow> 'b result \<times> 's" where
  "withQuery v f s =
     (case v of None \<Rightarrow> (Inl (JsError ''Argument where needs at least one of id or token''), s) | Some i \<Rightarrow> f i)"

section \<open>Handlers\<close>

text \<open>The two controllers of the router integration.\<close>

definition getPending_RouterCommandController ::
  "agentEnv \<Rightarrow> time \<Rightarrow> ident \<Rightarrow> 'z store_scheme \<Rightarrow> agentValue result \<times> 'z store_scheme" where
  "getPending_RouterCommandController E now gw s =
     (case getPendingCommands now gw s of
        (pending, s1) \<Rightarrow> (Inr (AV_pending pending (getRouterConnectionInfo E gw s)), s1))"

definition ack_RouterCommandController ::
  "time \<Rightarrow> ident \<Rightarrow> ident \<Rightarrow> bool \<Rightarrow> json option \<Rightarrow> 'z store_scheme \<Rightarrow> agentValue result \<times> 'z store_scheme" where
  "ack_RouterCommandController now gw commandId success resultData s =
     mapResult AV_command (acknowledgeCommand_Router now gw commandId success resultData s)"

definition reportDetection_RouterDetectionController ::
  "time \<Rightarrow> ident \<Rightarrow> RouterDetectionReport \<Rightarrow> 'z store_scheme \<Rightarrow> agentValue result \<times> 'z store_scheme" where
  "reportDetection_RouterDetectionController now gw report s =
     validated (RouterDetectionReportDto_ok report) (mapResult AV_router (recordDetection now gw report s)) s"

fun handleAgent ::
  "agentEnv \<Rightarrow> time \<Rightarrow> ident \<Rightarrow> bool \<Rightarrow> agentRequest \<Rightarrow> 'z store_scheme \<Rightarrow> agentValue result \<times> 'z store_scheme" where
  "handleAgent E now gw prev (AG_getDevices gatewayId) s =
     withQuery gatewayId (\<lambda>i. mapResult AV_devices (getDiscoveredDevices i s, s)) s"
| "handleAgent E now gw prev (AG_block gatewayId deviceMac) s =
     withQuery gatewayId (\<lambda>i. mapResult AV_message (blockDevice_Gateway i deviceMac s)) s"
| "handleAgent E now gw prev (AG_unblock gatewayId deviceMac) s =
     withQuery gatewayId (\<lambda>i. mapResult AV_message (unblockDevice_Gateway i deviceMac s)) s"
| "handleAgent E now gw prev (AG_getStatus gatewayId) s =
     withQuery gatewayId (\<lambda>i. mapResult AV_status (getStatus_Gateway i s, s)) s"
| "handleAgent E now gw prev (AG_getPolicies agentVersion) s =
     mapResult AV_policies (getPolicies (ae_env E) now gw prev agentVersion s)"
| "handleAgent E now gw prev (AG_reportDiscovery ds) s =
     mapResult AV_count (updateDiscoveredDevices (ae_hashes E) now gw ds s)"
| "handleAgent E now gw prev (AG_reportVpnDetections xs) s =
     validated (list_all VpnDetectionDto_ok xs) (mapResult AV_count (recordVpnDetections now gw xs s)) s"
| "handleAgent E now gw prev (AG_reportDohDetections xs) s =
     validated (list_all DohDetectionDto_ok xs) (mapResult AV_count (recordDohDetections now gw xs s)) s"
| "handleAgent E now gw prev AG_getPending s = getPending_RouterCommandController E now gw s"
| "handleAgent E now gw prev (AG_ack commandId success resultData) s =
     ack_RouterCommandController now gw commandId success resultData s"
| "handleAgent E now gw prev (AG_reportDetection report) s = reportDetection_RouterDetectionController now gw report s"

definition serveAgent ::
  "agentEnv \<Rightarrow> time \<Rightarrow> gatewayRequest \<Rightarrow> agentRequest \<Rightarrow> 'z store_scheme \<Rightarrow> agentValue result \<times> 'z store_scheme" where
  "serveAgent E now q req s =
     (case canActivate (ae_hashes E) now q s of
        Inl e \<Rightarrow> (Inl e, s)
      | Inr (g, usedPreviousToken) \<Rightarrow> handleAgent E now (gwy_id g) usedPreviousToken req s)"

text \<open>The requests whose handler takes the gateway from the query string.\<close>

fun byQuery :: "agentRequest \<Rightarrow> bool" where
  "byQuery (AG_getDevices _) = True"
| "byQuery (AG_block _ _) = True"
| "byQuery (AG_unblock _ _) = True"
| "byQuery (AG_getStatus _) = True"
| "byQuery _ = False"

section \<open>Confinement\<close>

text \<open>The rows of every other gateway, and all rows that belong to no gateway, are as before; logs of
  detections and audit entries are only added.\<close>

definition confined :: "ident \<Rightarrow> 'z store_scheme \<Rightarrow> 'z store_scheme \<Rightarrow> bool" where
  "confined g s s' \<longleftrightarrow>
     findMany (\<lambda>d. dev_gatewayId d \<noteq> Some g) (devices s') = findMany (\<lambda>d. dev_gatewayId d \<noteq> Some g) (devices s) \<and>
     findMany (\<lambda>x. gwy_id x \<noteq> g) (gateways s') = findMany (\<lambda>x. gwy_id x \<noteq> g) (gateways s) \<and>
     findMany (\<lambda>c. rcm_gatewayId c \<noteq> g) (routerCommands s') = findMany (\<lambda>c. rcm_gatewayId c \<noteq> g) (routerCommands s) \<and>
     findMany (\<lambda>r. rtr_gatewayId r \<noteq> g) (detectedRouters s') = findMany (\<lambda>r. rtr_gatewayId r \<noteq> g) (detectedRouters s) \<and>
     findMany (\<lambda>v. vpn_gatewayId v \<noteq> g) (vpnDetections s') = findMany (\<lambda>v. vpn_gatewayId v \<noteq> g) (vpnDetections s) \<and>
     (users s', children s', sessions s', rules s', commands s', notifications s', bandwidthLimits s', categoryBlocks s') =
       (users s, children s, sessions s, rules s, commands s, notifications s, bandwidthLimits s, categoryBlocks s)"

lemma confined_refl: "confined g s s"
  by (simp add: confined_def)

lemma snd_validated: "snd (validated b rs s) = (if b then snd rs else s)"
  by (simp add: validated_def)

lemma findMany_none: "(\<And>r. r \<in> set rows \<Longrightarrow> \<not> P r) \<Longrightarrow> findMany P rows = []"
  by (simp add: findMany_def filter_empty_conv)

lemma auditLog_agent_tables:
  "devices (auditLog now a s) = devices s" "gateways (auditLog now a s) = gateways s"
  "routerCommands (auditLog now a s) = routerCommands s" "detectedRouters (auditLog now a s) = detectedRouters s"
  "vpnDetections (auditLog now a s) = vpnDetections s" "users (auditLog now a s) = users s"
  "children (auditLog now a s) = children s" "sessions (auditLog now a s) = sessions s" "rules (auditLog now a s) = rules s"
  "commands (auditLog now a s) = commands s" "notifications (auditLog now a s) = notifications s"
  "bandwidthLimits (auditLog now a s) = bandwidthLimits s" "categoryBlocks (auditLog now a s) = categoryBlocks s"
  by (simp_all add: auditLog_def)

lemma confined_audits: "confined g s (foldl (\<lambda>s x. auditLog now (f x) s) s xs)"
proof (induction xs arbitrary: s)
  case (Cons x xs)
  then show ?case using Cons [of "auditLog now (f x) s"] by (simp add: confined_def auditLog_agent_tables)
qed (simp add: confined_refl)

lemma confined_updateLastSeen: "confined g s (updateLastSeen now g v s)"
  by (auto simp: confined_def updateLastSeen_def updateGateway_def intro!: findMany_updateMany_irrelevant)

text \<open>Primary keys, as the database keeps them.\<close>

definition agent_keys :: "'z store_scheme \<Rightarrow> bool" where
  "agent_keys s \<longleftrightarrow> distinct (map dev_id (devices s)) \<and> distinct (map rcm_id (routerCommands s))"

lemma discoverAll_frame:
  "(gateways s', routerCommands s', detectedRouters s', vpnDetections s') = (gateways s, routerCommands s, detectedRouters s, vpnDetections s) \<and>
   (users s', children s', sessions s', rules s', commands s', notifications s', bandwidthLimits s', categoryBlocks s') =
     (users s, children s, sessions s, rules s, commands s, notifications s, bandwidthLimits s, categoryBlocks s)"
  if "s' = snd (discoverAll H now g xs s)"
  using that
  by (induction H now g xs s arbitrary: s' rule: discoverAll.induct) (auto simp: case_prod_beta updateDevice_def split: option.splits)

lemma confined_trans: "confined g s s' \<Longrightarrow> confined g s' s'' \<Longrightarrow> confined g s s''"
  by (simp add: confined_def)

lemma confined_discovery:
  assumes "distinct (map dev_id (devices s))"
  shows "confined g s (snd (updateDiscoveredDevices H now g xs s))"
proof -
  have "confined g s (snd (discoverAll H now g xs s))"
    using discoverAll_other_gateways [OF assms, of g H now xs] discoverAll_frame [OF refl, of H now g xs s]
    by (simp add: confined_def findMany_def)
  then show ?thesis
    using confined_updateLastSeen confined_trans
    by (fastforce simp: updateDiscoveredDevices_def case_prod_beta confined_refl split: option.split)
qed

lemma confined_vpn: "confined g s (snd (recordVpnDetections now g xs s))"
  by (auto simp: recordVpnDetections_def confined_def Let_def intro!: findMany_none split: option.split)

lemma confined_doh: "confined g s (snd (recordDohDetections now g xs s))"
  unfolding recordDohDetections_def Let_def using confined_audits by (auto simp: confined_refl split: option.split)

lemma confined_getPending:
  assumes "distinct (map rcm_id (routerCommands s))"
  shows "confined g s (snd (getPendingCommands now g s))"
proof -
  have "findMany (\<lambda>c. rcm_gatewayId c \<noteq> g) (updateMany (\<lambda>c. rcm_id c \<in> set (map rcm_id
       (orderByAsc rcm_createdAt (findMany (\<lambda>c. rcm_gatewayId c = g \<and> rcm_status c = CMD_PENDING) (routerCommands s))))) f (routerCommands s)) =
      findMany (\<lambda>c. rcm_gatewayId c \<noteq> g) (routerCommands s)" if "\<And>c. rcm_gatewayId (f c) = rcm_gatewayId c" for f
    using distinct_map_inj [OF assms] that by (intro findMany_updateMany_irrelevant) auto
  then show ?thesis by (simp add: getPendingCommands_def confined_def Let_def)
qed

lemma confined_ack:
  assumes "distinct (map rcm_id (routerCommands s))"
  shows "confined g s (snd (acknowledgeCommand_Router now g i ok res s))"
proof (cases "owned rcm_gatewayId ''Router command not found'' ''Not your command'' g (findUnique rcm_id i (routerCommands s))")
  case (Inr c)
  then have c: "c \<in> set (routerCommands s)" "rcm_id c = i" "rcm_gatewayId c = g"
    by (auto simp: tbl_simps dest: findUnique_Some_iff)
  have "findMany (\<lambda>c. rcm_gatewayId c \<noteq> g) (updateMany (\<lambda>c. rcm_id c = i) f (routerCommands s)) =
      findMany (\<lambda>c. rcm_gatewayId c \<noteq> g) (routerCommands s)" if "\<And>c. rcm_gatewayId (f c) = rcm_gatewayId c" for f
    using distinct_map_inj [OF assms] c that by (intro findMany_updateMany_irrelevant) metis
  with Inr show ?thesis by (simp add: acknowledgeCommand_Router_def confined_def Let_def)
qed (simp add: acknowledgeCommand_Router_def confined_refl)

lemma confined_detection: "confined g s (snd (recordDetection now g report s))"
  by (auto simp: recordDetection_def upsertRouter_def Let_def confined_def applyReport_def blankRouter_def
      intro!: findMany_updateMany_irrelevant split: option.split)

lemma confined_policies: "confined g s (snd (getPolicies env now g prev v s))"
  by (simp add: getPolicies_def Let_def confined_refl confined_updateLastSeen split: option.split)

lemma confined_handle:
  assumes "agent_keys s" "\<not> byQuery req"
  shows "confined g s (snd (handleAgent E now g prev req s))"
  using assms confined_getPending [of s g now]
  by (cases req) (auto simp: agent_keys_def snd_validated confined_refl case_prod_beta
      getPending_RouterCommandController_def ack_RouterCommandController_def reportDetection_RouterDetectionController_def
      intro: confined_policies confined_discovery confined_vpn confined_doh confined_ack confined_detection)

section \<open>Properties\<close>

text \<open>C10: An agent acts for the gateway of its token. A request that the guard refuses changes nothing; a
  request that it admits for gateway \<open>g\<close>, other than the four that name a gateway in their query string,
  changes no device, router, command or detection of another gateway, no other gateway, and no account,
  child, session, rule, limit, notification or category block.\<close>
theorem agent_confined:
  assumes "agent_keys s" and "\<not> byQuery req"
  shows "case canActivate (ae_hashes E) now q s of
           Inl e \<Rightarrow> serveAgent E now q req s = (Inl e, s)
         | Inr (g, prev) \<Rightarrow> confined (gwy_id g) s (snd (serveAgent E now q req s))"
  using confined_handle [OF assms] by (auto simp: serveAgent_def split: sum.split)

text \<open>C36: A gateway token unblocks the devices of any gateway. The unblock endpoint takes the gateway from
  the query string and not from the token: with the token of any paired gateway, an agent that names another
  gateway and the hardware address of a device behind it sets that device to online, whoever owns it.\<close>
theorem gateway_token_crosses:
  assumes "canActivate (ae_hashes E) now q s = Inr (g, prev)"
    and "findGateway s h \<noteq> None"
    and "findFirst (\<lambda>d. dev_macAddress d = Some mac \<and> dev_gatewayId d = Some h) (devices s) = Some d"
  shows "is_ok (fst (serveAgent E now q (AG_unblock (Some h) mac) s)) \<and>
    (\<exists>d'. findDevice (snd (serveAgent E now q (AG_unblock (Some h) mac) s)) (dev_id d) = Some d' \<and> dev_status d' = DEV_ONLINE)"
proof -
  have "d \<in> set (devices s)" using assms(3) by (auto dest: findFirst_SomeD)
  then obtain d0 where "findDevice s (dev_id d) = Some d0"
    by (cases "findDevice s (dev_id d)") (auto simp: tbl_simps)
  then show ?thesis
    using assms by (auto simp: serveAgent_def withQuery_def unblockDevice_Gateway_def setStatusByMac_def mapResult_def)
qed

definition otherGateway :: Gateway where
  "otherGateway = demoGateway\<lparr>gwy_id := ''h'', gwy_parentId := ''q'', gwy_token := ''tok2''\<rparr>"

definition theirDevice :: Device where
  "theirDevice = (bareDevice ''e'' ''q'' ''k'')\<lparr>dev_gatewayId := Some ''h'', dev_status := DEV_BLOCKED, dev_macAddress := Some ''AA''\<rparr>"

definition twoGateways :: store where
  "twoGateways = gatewayStore\<lparr>gateways := [demoGateway, otherGateway], devices := [blockedBehind, theirDevice]\<rparr>"

definition demoAgent :: agentEnv where
  "demoAgent = \<lparr>ae_hashes = demoHashes, ae_env = (\<lambda>_. None), ae_crypto = hexCipher, ae_key = [1], ae_parseJson = (\<lambda>_. None)\<rparr>"

lemma twoGateways_tables:
  "gateways twoGateways = [demoGateway, otherGateway]" "devices twoGateways = [blockedBehind, theirDevice]"
  "routerCommands twoGateways = []"
  by (simp_all add: twoGateways_def gatewayStore_def demoStore_def emptyStore_def)

lemma demo_admitted: "canActivate (ae_hashes demoAgent) 0 (unsignedRequest ''tok'') twoGateways = Inr (demoGateway, False)"
  by (simp add: canActivate_def unsignedRequest_def lookupToken_def twoGateways_tables demoGateway_def)

theorem agent_confined_witness:
  "confined ''g'' twoGateways (snd (serveAgent demoAgent 0 (unsignedRequest ''tok'') AG_getPending twoGateways))"
proof -
  have k: "agent_keys twoGateways"
    by (simp add: agent_keys_def twoGateways_tables blockedBehind_def theirDevice_def bareDevice_def)
  show ?thesis
    using agent_confined [OF k, of AG_getPending demoAgent 0 "unsignedRequest ''tok''"] demo_admitted
    by (simp add: demoGateway_def)
qed

theorem gateway_token_crosses_witness:
  "gwy_parentId demoGateway = ''p'' \<and> dev_parentId theirDevice = ''q'' \<and> dev_status theirDevice = DEV_BLOCKED \<and>
   (\<exists>d'. findDevice (snd (serveAgent demoAgent 0 (unsignedRequest ''tok'') (AG_unblock (Some ''h'') ''AA'') twoGateways)) ''e'' = Some d' \<and>
      dev_status d' = DEV_ONLINE)"
proof -
  have d: "findFirst (\<lambda>d. dev_macAddress d = Some ''AA'' \<and> dev_gatewayId d = Some ''h'') (devices twoGateways) = Some theirDevice"
    "dev_id theirDevice = ''e''" "findGateway twoGateways ''h'' \<noteq> None"
    by (simp_all add: twoGateways_tables blockedBehind_def theirDevice_def bareDevice_def demoGateway_def otherGateway_def)
  show ?thesis
    using gateway_token_crosses [OF demo_admitted d(3) d(1)] d(2)
    by (simp add: demoGateway_def theirDevice_def bareDevice_def)
qed

end
