(* ===== verification/Legal.thy ===== *)
theory Legal
  imports Dto Gateway_Api "HOL-Library.Sublist"
begin

text \<open>
  The public legal pages (\<^verbatim>\<open>legal-pages.ts\<close>, \<^verbatim>\<open>legal.controller.ts\<close>): the privacy policy, the form for privacy and
  deletion requests and its submission. A page is its HTML text; the address of the server in it comes from the
  headers of the request.
\<close>

section \<open>Pages\<close>

definition appName :: string where "appName = ''GuardTime Parent''"
definition developerName :: string where "developerName = ''Smart Family Systems''"

definition lines :: "string list \<Rightarrow> string" where
  "lines ls = joinWith [CHR 0x0A] ls"

definition pageStyle :: "string list" where
  "pageStyle =
     [''    <style>'',
      ''      :root {'',
      ''        color-scheme: light;'',
      ''        --bg: #09111f;'',
      ''        --card: rgba(18, 32, 57, 0.9);'',
      ''        --border: rgba(160, 194, 255, 0.2);'',
      ''        --text: #f6f8ff;'',
      ''        --muted: #b2bfdc;'',
      ''        --accent: #4da3ff;'',
      ''        --accent-2: #8fe1ff;'',
      ''      }'',
      [],
      ''      * {'',
      ''        box-sizing: border-box;'',
      ''      }'',
      [],
      ''      body {'',
      ''        margin: 0;'',
      ''        font-family: Arial, Helvetica, sans-serif;'',
      ''        background:'',
      ''          radial-gradient(circle at top left, rgba(77, 163, 255, 0.18), transparent 32%),'',
      ''          radial-gradient(circle at bottom right, rgba(143, 225, 255, 0.14), transparent 24%),'',
      ''          var(--bg);'',
      ''        color: var(--text);'',
      ''      }'',
      [],
      ''      main {'',
      ''        width: min(860px, calc(100% - 32px));'',
      ''        margin: 40px auto;'',
      ''      }'',
      [],
      ''      .card {'',
      ''        background: var(--card);'',
      ''        border: 1px solid var(--border);'',
      ''        border-radius: 24px;'',
      ''        padding: 28px;'',
      ''        box-shadow: 0 20px 60px rgba(3, 10, 24, 0.35);'',
      ''        backdrop-filter: blur(16px);'',
      ''      }'',
      [],
      ''      h1,'',
      ''      h2 {'',
      ''        margin-top: 0;'',
      ''      }'',
      [],
      ''      h1 {'',
      ''        font-size: 32px;'',
      ''        margin-bottom: 12px;'',
      ''      }'',
      [],
      ''      h2 {'',
      ''        font-size: 20px;'',
      ''        margin-top: 28px;'',
      ''        margin-bottom: 10px;'',
      ''      }'',
      [],
      ''      p,'',
      ''      li,'',
      ''      label,'',
      ''      input,'',
      ''      select,'',
      ''      textarea,'',
      ''      button {'',
      ''        font-size: 15px;'',
      ''        line-height: 1.6;'',
      ''      }'',
      [],
      ''      p,'',
      ''      li {'',
      ''        color: var(--muted);'',
      ''      }'',
      [],
      ''      ul {'',
      ''        padding-left: 20px;'',
      ''      }'',
      [],
      ''      a {'',
      ''        color: var(--accent-2);'',
      ''      }'',
      [],
      ''      .pill {'',
      ''        display: inline-flex;'',
      ''        align-items: center;'',
      ''        gap: 8px;'',
      ''        padding: 8px 12px;'',
      ''        border-radius: 999px;'',
      ''        background: rgba(77, 163, 255, 0.12);'',
      ''        color: var(--accent-2);'',
      ''        font-size: 13px;'',
      ''        font-weight: 700;'',
      ''        letter-spacing: 0.02em;'',
      ''        text-transform: uppercase;'',
      ''      }'',
      [],
      ''      .notice {'',
      ''        margin-top: 18px;'',
      ''        padding: 14px 16px;'',
      ''        border-radius: 16px;'',
      ''        border: 1px solid rgba(143, 225, 255, 0.24);'',
      ''        background: rgba(143, 225, 255, 0.08);'',
      ''      }'',
      [],
      ''      .notice strong {'',
      ''        color: var(--text);'',
      ''      }'',
      [],
      ''      form {'',
      ''        margin-top: 22px;'',
      ''      }'',
      [],
      ''      .field {'',
      ''        margin-bottom: 16px;'',
      ''      }'',
      [],
      ''      .field label {'',
      ''        display: block;'',
      ''        margin-bottom: 8px;'',
      ''        color: var(--text);'',
      ''        font-weight: 700;'',
      ''      }'',
      [],
      ''      .field input,'',
      ''      .field select,'',
      ''      .field textarea {'',
      ''        width: 100%;'',
      ''        border: 1px solid var(--border);'',
      ''        border-radius: 16px;'',
      ''        padding: 14px 16px;'',
      ''        color: var(--text);'',
      ''        background: rgba(6, 15, 32, 0.66);'',
      ''      }'',
      [],
      ''      .field textarea {'',
      ''        min-height: 120px;'',
      ''        resize: vertical;'',
      ''      }'',
      [],
      ''      button {'',
      ''        border: 0;'',
      ''        border-radius: 16px;'',
      ''        padding: 14px 20px;'',
      ''        background: linear-gradient(135deg, var(--accent), #65b8ff);'',
      ''        color: #08111f;'',
      ''        font-weight: 800;'',
      ''        cursor: pointer;'',
      ''      }'',
      [],
      ''      footer {'',
      ''        margin-top: 18px;'',
      ''        color: var(--muted);'',
      ''        font-size: 13px;'',
      ''      }'',
      ''    </style>'']"

definition pageTemplate :: "string \<Rightarrow> string \<Rightarrow> string" where
  "pageTemplate title body = lines (
     [''<!doctype html>'',
      ''<html lang='' @ [CHR 0x22] @ ''en'' @ [CHR 0x22] @ ''>'',
      ''  <head>'',
      ''    <meta charset='' @ [CHR 0x22] @ ''utf-8'' @ [CHR 0x22] @ '' />'',
      ''    <meta name='' @ [CHR 0x22] @ ''viewport'' @ [CHR 0x22] @ '' content='' @ [CHR 0x22] @
        ''width=device-width, initial-scale=1'' @ [CHR 0x22] @ '' />'',
      ''    <title>'' @ title @ ''</title>''] @
     pageStyle @
     [''  </head>'',
      ''  <body>'',
      ''    <main>'',
      ''      <section class='' @ [CHR 0x22] @ ''card'' @ [CHR 0x22] @ ''>'',
      ''        '' @ body,
      ''      </section>'',
      ''    </main>'',
      ''  </body>'',
      ''</html>''])"

definition renderPrivacyPolicyHtml :: "string \<Rightarrow> string" where
  "renderPrivacyPolicyHtml origin =
     (let requestUrl = origin @ ''/legal/privacy-request'' in
      pageTemplate (appName @ '' Privacy Policy'') (lines
     [[],
      ''      <div class='' @ [CHR 0x22] @ ''pill'' @ [CHR 0x22] @ ''>Privacy Policy</div>'',
      ''      <h1>'' @ appName @ ''</h1>'',
      ''      <p>'',
      ''        This privacy policy applies to '' @ appName @ '', published by '' @ developerName @ ''. It explains'',
      ''        how GuardTime collects, uses, protects, retains, and deletes data needed to provide'',
      ''        parental-control features for families.'',
      ''      </p>'',
      [],
      ''      <h2>What GuardTime collects</h2>'',
      ''      <ul>'',
      ''        <li>Account information such as email address, password hash, and parent profile details.</li>'',
      ''        <li>Child profile information that a parent chooses to add, including names and age ranges.</li>'',
      ''        <li>Device setup details such as device names, device type, DNS source IP, DNS status, and network status.</li>'',
      ''        <li>Session and control data such as gaming sessions, internet lock actions, schedules, '' @
        ''alerts, and notifications.</li>'',
      ''        <li>Protection and troubleshooting data such as last DNS activity, bypass attempts, '' @
        ''offline-control checklist data, and related service logs.</li>'',
      ''      </ul>'',
      [],
      ''      <h2>How GuardTime uses data</h2>'',
      ''      <ul>'',
      ''        <li>To authenticate parents and keep the service secure.</li>'',
      ''        <li>To display children, devices, sessions, schedules, protection score, insights, and '' @
        ''notifications in the app.</li>'',
      ''        <li>To apply DNS-based controls, internet lock and unlock actions, and device-level control requests.</li>'',
      ''        <li>To troubleshoot service reliability, investigate abuse, and improve parental-control support.</li>'',
      ''      </ul>'',
      [],
      ''      <h2>How data is shared</h2>'',
      ''      <p>'',
      ''        GuardTime does not sell personal data. Data may be processed by infrastructure or service'',
      ''        providers that host, secure, and operate the service on GuardTime'' @ [CHR 0x27] @ ''s behalf. Data may also'',
      ''        be retained or disclosed when required for security, fraud prevention, or legal compliance.'',
      ''      </p>'',
      [],
      ''      <h2>Security</h2>'',
      ''      <p>'',
      ''        GuardTime uses authenticated access controls and transmits data over HTTPS or other modern'',
      ''        encrypted transport where supported. Access is limited to the app and service functionality'',
      ''        reasonably expected by parents using the product.'',
      ''      </p>'',
      [],
      ''      <h2>Retention and deletion</h2>'',
      ''      <p>'',
      ''        GuardTime keeps account data while an account remains active. When a validated account'',
      ''        deletion request is completed, GuardTime deletes the user account and associated children,'',
      ''        devices, sessions, and notifications, except for limited records that may need to be retained'',
      ''        for security, fraud prevention, dispute handling, or legal compliance.'',
      ''      </p>'',
      [],
      ''      <h2>Privacy questions and deletion requests</h2>'',
      ''      <p>'',
      ''        Use the public privacy and account request form at'',
      ''        <a href='' @ [CHR 0x22] @ requestUrl @ [CHR 0x22] @ ''>'' @ requestUrl @ ''</a>'',
      ''        to ask privacy questions or request account deletion if you cannot access the app.'',
      ''      </p>'',
      [],
      ''      <footer>'',
      ''        '' @ developerName @ '' is the operator of '' @ appName @ ''. This page is intended for Google Play'',
      ''        disclosure and in-app legal access requirements.'',
      ''      </footer>'',
      ''    '']))"

definition renderPrivacyRequestHtml :: "string \<Rightarrow> string option \<Rightarrow> string" where
  "renderPrivacyRequestHtml origin confirmationMessage =
     (let policyUrl = origin @ ''/legal/privacy-policy'' in
      pageTemplate (appName @ '' Privacy and Account Requests'') (lines
     [[],
      ''      <div class='' @ [CHR 0x22] @ ''pill'' @ [CHR 0x22] @ ''>Privacy and Account Requests</div>'',
      ''      <h1>'' @ appName @ ''</h1>'',
      ''      <p>'',
      ''        Use this page if you no longer have access to the app and need to request account deletion'',
      ''        or ask a privacy-related question. If you are still signed in, you can also delete your'',
      ''        account directly from the app under Settings > Privacy and Account.'',
      ''      </p>'',
      [],
      ''      '' @ (if truthy confirmationMessage then ''<div class='' @ [CHR 0x22] @ ''notice'' @ [CHR 0x22] @
        ''><strong>'' @ patch confirmationMessage [] @
        ''</strong><br />If your request needs manual verification, GuardTime will review it before '' @
        ''completing account deletion.</div>'' else []),
      [],
      ''      <form method='' @ [CHR 0x22] @ ''post'' @ [CHR 0x22] @ '' action='' @ [CHR 0x22] @ origin @
        ''/legal/privacy-request'' @ [CHR 0x22] @ ''>'',
      ''        <div class='' @ [CHR 0x22] @ ''field'' @ [CHR 0x22] @ ''>'',
      ''          <label for='' @ [CHR 0x22] @ ''email'' @ [CHR 0x22] @ ''>Account email</label>'',
      ''          <input id='' @ [CHR 0x22] @ ''email'' @ [CHR 0x22] @ '' name='' @ [CHR 0x22] @ ''email'' @ [CHR 0x22] @
        '' type='' @ [CHR 0x22] @ ''email'' @ [CHR 0x22] @ '' autocomplete='' @ [CHR 0x22] @ ''email'' @ [CHR 0x22] @
        '' required />'',
      ''        </div>'',
      [],
      ''        <div class='' @ [CHR 0x22] @ ''field'' @ [CHR 0x22] @ ''>'',
      ''          <label for='' @ [CHR 0x22] @ ''requestType'' @ [CHR 0x22] @ ''>Request type</label>'',
      ''          <select id='' @ [CHR 0x22] @ ''requestType'' @ [CHR 0x22] @ '' name='' @ [CHR 0x22] @ ''requestType'' @
        [CHR 0x22] @ ''>'',
      ''            <option value='' @ [CHR 0x22] @ ''delete_account'' @ [CHR 0x22] @
        ''>Delete my account and associated data</option>'',
      ''            <option value='' @ [CHR 0x22] @ ''privacy_question'' @ [CHR 0x22] @
        ''>Privacy question or data request</option>'',
      ''          </select>'',
      ''        </div>'',
      [],
      ''        <div class='' @ [CHR 0x22] @ ''field'' @ [CHR 0x22] @ ''>'',
      ''          <label for='' @ [CHR 0x22] @ ''message'' @ [CHR 0x22] @ ''>Extra details (optional)</label>'',
      ''          <textarea id='' @ [CHR 0x22] @ ''message'' @ [CHR 0x22] @ '' name='' @ [CHR 0x22] @ ''message'' @ [CHR
        0x22] @ '' placeholder='' @ [CHR 0x22] @
        ''Add device names, the reason for your request, or any privacy question you want GuardTime to review.'' @ [CHR 0x22]
        @ ''></textarea>'',
      ''        </div>'',
      [],
      ''        <button type='' @ [CHR 0x22] @ ''submit'' @ [CHR 0x22] @ ''>Submit request</button>'',
      ''      </form>'',
      [],
      ''      <h2>What happens next</h2>'',
      ''      <ul>'',
      ''        <li>Deletion requests submitted here are recorded for review.</li>'',
      ''        <li>Validated deletion requests remove the app account and associated app data, except '' @
        ''records retained for security, fraud prevention, or legal compliance.</li>'',
      ''        <li>Temporary deactivation is not treated as deletion.</li>'',
      ''      </ul>'',
      [],
      ''      <p>'',
      ''        You can review the current privacy policy at'',
      ''        <a href='' @ [CHR 0x22] @ policyUrl @ [CHR 0x22] @ ''>'' @ policyUrl @ ''</a>.'',
      ''      </p>'',
      [],
      ''      <footer>'',
      ''        '' @ developerName @
        '' provides this web resource to support Google Play account deletion and privacy-contact requirements.'',
      ''      </footer>'',
      ''    '']))"

section \<open>Controller\<close>

text \<open>What the controller reads of a request: the header \<^verbatim>\<open>x-forwarded-proto\<close> (absent, one value, or several), the
  protocol and the host that Express reports, and the address of the client.\<close>

datatype headerValue = Absent | Single string | Several "string list"

record pageRequest =
  pgr_forwardedProto :: headerValue
  pgr_protocol :: "string option"
  pgr_host :: "string option"
  pgr_ip :: string

primrec firstValue :: "headerValue \<Rightarrow> string option" where
  "firstValue Absent = None"
| "firstValue (Single v) = Some v"
| "firstValue (Several vs) = (case vs of [] \<Rightarrow> None | v # _ \<Rightarrow> Some v)"

definition orElse :: "string option \<Rightarrow> string \<Rightarrow> string" where
  "orElse v fallback = (if truthy v then patch v [] else fallback)"

definition getBaseUrl :: "pageRequest \<Rightarrow> string" where
  "getBaseUrl request =
     (let protocol = orElse (firstValue (pgr_forwardedProto request)) (orElse (pgr_protocol request) ''https'');
          host = orElse (pgr_host request) ''api.waqti.pro''
      in protocol @ ''://'' @ host)"

record SubmitPrivacyRequestDto =
  spr_email :: string
  spr_requestType :: "string option"
  spr_message :: "string option"

definition SubmitPrivacyRequestDto_ok :: "validators \<Rightarrow> SubmitPrivacyRequestDto \<Rightarrow> bool" where
  "SubmitPrivacyRequestDto_ok V dto \<longleftrightarrow> vl_isEmail V (spr_email dto) \<and>
     optionally (\<lambda>t. t \<in> {''delete_account'', ''privacy_question''}) (spr_requestType dto) \<and>
     optionally (lengthIn 0 1000) (spr_message dto)"

datatype legalRoute = LG_privacyPolicy | LG_privacyRequest | LG_submit SubmitPrivacyRequestDto

fun LegalController ::
  "validators \<Rightarrow> time \<Rightarrow> pageRequest \<Rightarrow> legalRoute \<Rightarrow> 'z store_scheme \<Rightarrow> string result \<times> 'z store_scheme" where
  "LegalController V now request LG_privacyPolicy s = (Inr (renderPrivacyPolicyHtml (getBaseUrl request)), s)"
| "LegalController V now request LG_privacyRequest s = (Inr (renderPrivacyRequestHtml (getBaseUrl request) None), s)"
| "LegalController V now request (LG_submit dto) s =
     validated (SubmitPrivacyRequestDto_ok V dto)
       (Inr (renderPrivacyRequestHtml (getBaseUrl request) (Some ''Your request has been received.'')),
        submitPrivacyRequest now
          \<lparr>prq_email = spr_email dto, prq_requestType = spr_requestType dto, prq_message = spr_message dto,
           prq_ipAddress = Some (pgr_ip request)\<rparr> s) s"

section \<open>What a page repeats of its request\<close>

lemma sublist_mid: "sublist x y \<Longrightarrow> sublist x (a @ y @ b)"
  by (meson sublist_appendI sublist_order.order_trans)

lemma sublist_lines: "x \<in> set xs \<Longrightarrow> sublist y x \<Longrightarrow> sublist y (lines xs)"
  unfolding lines_def
proof (induction xs rule: induct_list012)
  case (3 w v ws)
  then show ?case
    using sublist_mid [of y w "[]"] sublist_mid [of y "joinWith [CHR 0x0A] (v # ws)" "w @ [CHR 0x0A]" "[]"] by auto
qed auto

lemma sublist_page: "sublist x body \<Longrightarrow> sublist x (pageTemplate title body)"
  unfolding pageTemplate_def
  by (rule sublist_lines [of "''        '' @ body"]) (simp, use sublist_mid [of x body "''        ''" "[]"] in simp)

text \<open>The form's address is taken from the request without escaping: any text in \<^verbatim>\<open>x-forwarded-proto\<close> comes
  back inside the attribute of the form, quotation marks included.\<close>

lemma page_reflects_request:
  assumes "pgr_forwardedProto request = Single proto" "proto \<noteq> []" "pgr_host request = Some host" "host \<noteq> []"
  shows "\<exists>page. fst (LegalController V now request LG_privacyRequest s) = Inr page \<and>
    sublist (''action='' @ [CHR 0x22] @ proto @ ''://'' @ host @ ''/legal/privacy-request'' @ [CHR 0x22]) page"
proof -
  let ?x = "''action='' @ [CHR 0x22] @ proto @ ''://'' @ host @ ''/legal/privacy-request'' @ [CHR 0x22]"
  let ?l = "''      <form method='' @ [CHR 0x22] @ ''post'' @ [CHR 0x22] @ '' '' @ ?x @ ''>''"
  have "sublist ?x ?l"
    using sublist_mid [of ?x ?x "''      <form method='' @ [CHR 0x22] @ ''post'' @ [CHR 0x22] @ '' ''" "''>''"] by simp
  moreover have "getBaseUrl request = proto @ ''://'' @ host"
    using assms by (simp add: getBaseUrl_def orElse_def)
  ultimately show ?thesis
    by (simp add: renderPrivacyRequestHtml_def) (rule sublist_page, rule sublist_lines [of ?l], simp_all)
qed

end
