(* ===== verification/OAuth.thy ===== *)
theory OAuth
  imports Schema Encryption
begin

text \<open>
  Linking a Microsoft account (\<^verbatim>\<open>oauth.service.ts\<close>): the authorisation URL, the exchange of a code for
  tokens, their storage encrypted, reading an access token back and refreshing it. The token endpoint
  is the parameter \<open>fetch\<close>: what a POST of the form fields answers (an exception, or whether the status was
  a success and the fields of the JSON body). The environment is the record \<open>oauthEnv\<close>; the two random
  vectors of the encryptions are arguments.
\<close>

section \<open>Data\<close>

record oauthEnv =
  env_MICROSOFT_OAUTH_CLIENT_ID :: "string option"
  env_MICROSOFT_OAUTH_CLIENT_SECRET :: "string option"
  env_MICROSOFT_OAUTH_REDIRECT_URI :: "string option"

record tokenData =
  td_access_token :: "string option"
  td_refresh_token :: "string option"
  td_expires_in :: "int option"
  td_sub :: "string option"
  td_scope :: "string option"

type_synonym tokenEndpoint = "(string \<times> string) list \<Rightarrow> (bool \<times> tokenData) result"

section \<open>The authorisation URL\<close>

definition unreserved :: "char \<Rightarrow> bool" where
  "unreserved c =
     (let n = (of_char c :: nat) in
      48 \<le> n \<and> n \<le> 57 \<or> 65 \<le> n \<and> n \<le> 90 \<or> 97 \<le> n \<and> n \<le> 122 \<or> c \<in> set ''-_.!~*()'' \<or> n = 39)"

definition upperHex :: "nat \<Rightarrow> char" where
  "upperHex n = (if n < 10 then char_of (48 + n) else char_of (55 + n))"

definition encodeURIComponent :: "string \<Rightarrow> string" where
  "encodeURIComponent s =
     concat (map (\<lambda>c. if unreserved c then [c]
        else [CHR ''%'', upperHex ((of_char c :: nat) div 16), upperHex ((of_char c :: nat) mod 16)]) s)"

definition getMicrosoftAuthUrl :: "oauthEnv \<Rightarrow> string option \<times> string option" where
  "getMicrosoftAuthUrl env =
     (if \<not> truthy (env_MICROSOFT_OAUTH_CLIENT_ID env) \<or> \<not> truthy (env_MICROSOFT_OAUTH_REDIRECT_URI env)
      then (None, Some (''Microsoft OAuth not configured. Set MICROSOFT_OAUTH_CLIENT_ID and redirect URI.''))
      else
        (Some (''https://login.microsoftonline.com/common/oauth2/v2.0/authorize'' @
           ''?client_id='' @ encodeURIComponent (patch (env_MICROSOFT_OAUTH_CLIENT_ID env) []) @
           ''&response_type=code'' @
           ''&redirect_uri='' @ encodeURIComponent (patch (env_MICROSOFT_OAUTH_REDIRECT_URI env) []) @
           ''&scope='' @ encodeURIComponent ''offline_access User.Read'' @
           ''&response_mode=query''), None))"

section \<open>Linking\<close>

text \<open>\<^verbatim>\<open>encrypt\<close> of a field that may be missing: the cipher throws on \<^verbatim>\<open>undefined\<close>.\<close>

definition encryptField :: "crypto \<Rightarrow> bytes \<Rightarrow> bytes \<Rightarrow> string option \<Rightarrow> string result" where
  "encryptField K key iv v =
     (case v of None \<Rightarrow> Inl (JsError ''The data argument must be of type string'') | Some t \<Rightarrow> Inr (encrypt K key iv t))"

text \<open>The three values both flows store: encrypted tokens and the expiry.\<close>

definition sealTokens :: "crypto \<Rightarrow> bytes \<Rightarrow> bytes \<times> bytes \<Rightarrow> time \<Rightarrow> tokenData \<Rightarrow> (string \<times> string \<times> time) result" where
  "sealTokens K key ivs now data =
     (case encryptField K key (fst ivs) (td_access_token data) of
        Inl e \<Rightarrow> Inl e
      | Inr access \<Rightarrow>
          (case encryptField K key (snd ivs) (td_refresh_token data) of
             Inl e \<Rightarrow> Inl e
           | Inr refresh \<Rightarrow>
               (case td_expires_in data of
                  None \<Rightarrow> Inl (JsError ''Invalid Date'')
                | Some n \<Rightarrow> Inr (access, refresh, now + n * 1000))))"

definition orElseText :: "string option \<Rightarrow> string \<Rightarrow> string" where
  "orElseText v dflt = (if truthy v then patch v [] else dflt)"

definition upsertAccount ::
  "ident \<Rightarrow> string \<Rightarrow> string \<Rightarrow> string \<times> string \<times> time \<Rightarrow> string \<Rightarrow> 'z store_scheme \<Rightarrow> unit result \<times> 'z store_scheme" where
  "upsertAccount userId provider providerUserId sealed scope s =
     (case sealed of (access, refresh, expiresAt) \<Rightarrow>
        let same = (\<lambda>a. oac_provider a = provider \<and> oac_providerUserId a = providerUserId) in
        if list_ex same (oauthAccounts s)
        then (Inr (), s\<lparr>oauthAccounts := updateMany same
                (\<lambda>a. a\<lparr>oac_accessToken := access, oac_refreshToken := refresh, oac_tokenExpiresAt := expiresAt,
                       oac_scope := Some scope\<rparr>) (oauthAccounts s)\<rparr>)
        else if findUser s userId = None then (Inl PrismaForeignKeyViolation, s)
        else (Inr (), drawId (s\<lparr>oauthAccounts := oauthAccounts s @
               [\<lparr>oac_id = newId s, oac_userId = userId, oac_provider = provider, oac_providerUserId = providerUserId,
                 oac_accessToken = access, oac_refreshToken = refresh, oac_tokenExpiresAt = expiresAt,
                 oac_scope = Some scope\<rparr>]\<rparr>)))"

text \<open>The form fields of the two requests.\<close>

definition codeFields :: "oauthEnv \<Rightarrow> string \<Rightarrow> (string \<times> string) list" where
  "codeFields env code =
     [(''client_id'', patch (env_MICROSOFT_OAUTH_CLIENT_ID env) []),
      (''client_secret'', patch (env_MICROSOFT_OAUTH_CLIENT_SECRET env) []), (''code'', code),
      (''redirect_uri'', patch (env_MICROSOFT_OAUTH_REDIRECT_URI env) []), (''grant_type'', ''authorization_code'')]"

definition refreshFields :: "oauthEnv \<Rightarrow> string \<Rightarrow> (string \<times> string) list" where
  "refreshFields env decryptedRefresh =
     [(''client_id'', patch (env_MICROSOFT_OAUTH_CLIENT_ID env) []),
      (''client_secret'', patch (env_MICROSOFT_OAUTH_CLIENT_SECRET env) []),
      (''refresh_token'', decryptedRefresh), (''grant_type'', ''refresh_token'')]"

definition handleMicrosoftCallback ::
  "crypto \<Rightarrow> bytes \<Rightarrow> oauthEnv \<Rightarrow> tokenEndpoint \<Rightarrow> bytes \<times> bytes \<Rightarrow> time \<Rightarrow> ident \<Rightarrow> string \<Rightarrow> 'z store_scheme \<Rightarrow>
   (bool \<times> string) result \<times> 'z store_scheme" where
  "handleMicrosoftCallback K key env fetch ivs now userId code s =
     (if \<not> truthy (env_MICROSOFT_OAUTH_CLIENT_ID env) \<or> \<not> truthy (env_MICROSOFT_OAUTH_CLIENT_SECRET env) \<or>
         \<not> truthy (env_MICROSOFT_OAUTH_REDIRECT_URI env)
      then (Inl (JsError ''Microsoft OAuth not configured''), s)
      else
        (case fetch (codeFields env code) of
           Inl e \<Rightarrow> (Inl e, s)
         | Inr (ok, data) \<Rightarrow>
             if \<not> ok then (Inr (False, ''Token exchange failed''), s)
             else
               (case sealTokens K key ivs now data of
                  Inl e \<Rightarrow> (Inl e, s)
                | Inr sealed \<Rightarrow>
                    (case upsertAccount userId ''microsoft'' (orElseText (td_sub data) ''unknown'') sealed
                            (orElseText (td_scope data) []) s of
                       (Inl e, s') \<Rightarrow> (Inl e, s')
                     | (Inr _, s') \<Rightarrow> (Inr (True, ''Microsoft account linked''), s')))))"

definition getDecryptedAccessToken ::
  "crypto \<Rightarrow> bytes \<Rightarrow> ident \<Rightarrow> string \<Rightarrow> 'z store_scheme \<Rightarrow> string option result" where
  "getDecryptedAccessToken K key userId provider s =
     (case findFirst (\<lambda>a. oac_userId a = userId \<and> oac_provider a = provider) (oauthAccounts s) of
        None \<Rightarrow> Inr None
      | Some account \<Rightarrow>
          (case decrypt K key (oac_accessToken account) of Inl e \<Rightarrow> Inl e | Inr t \<Rightarrow> Inr (Some t)))"

definition refreshMicrosoftToken ::
  "crypto \<Rightarrow> bytes \<Rightarrow> oauthEnv \<Rightarrow> tokenEndpoint \<Rightarrow> bytes \<times> bytes \<Rightarrow> time \<Rightarrow> ident \<Rightarrow> 'z store_scheme \<Rightarrow>
   (bool \<times> string) result \<times> 'z store_scheme" where
  "refreshMicrosoftToken K key env fetch ivs now userId s =
     (case findFirst (\<lambda>a. oac_userId a = userId \<and> oac_provider a = ''microsoft'') (oauthAccounts s) of
        None \<Rightarrow> (Inr (False, ''No Microsoft account linked''), s)
      | Some account \<Rightarrow>
          if \<not> truthy (env_MICROSOFT_OAUTH_CLIENT_ID env) \<or> \<not> truthy (env_MICROSOFT_OAUTH_CLIENT_SECRET env)
          then (Inr (False, ''Microsoft OAuth not configured''), s)
          else
            (case decrypt K key (oac_refreshToken account) of
               Inl e \<Rightarrow> (Inl e, s)
             | Inr decryptedRefresh \<Rightarrow>
                 (case fetch (refreshFields env decryptedRefresh) of
                    Inl e \<Rightarrow> (Inl e, s)
                  | Inr (ok, data) \<Rightarrow>
                      if \<not> ok then (Inr (False, ''Token refresh failed''), s)
                      else
                        (case sealTokens K key ivs now data of
                           Inl e \<Rightarrow> (Inl e, s)
                         | Inr (access, refresh, expiresAt) \<Rightarrow>
                             (Inr (True, ''Token refreshed''),
                              s\<lparr>oauthAccounts := updateMany (\<lambda>a. oac_id a = oac_id account)
                                   (\<lambda>a. a\<lparr>oac_accessToken := access, oac_refreshToken := refresh,
                                          oac_tokenExpiresAt := expiresAt\<rparr>) (oauthAccounts s)\<rparr>)))))"

section \<open>Stored tokens\<close>

definition configured :: "oauthEnv \<Rightarrow> bool" where
  "configured env \<longleftrightarrow> truthy (env_MICROSOFT_OAUTH_CLIENT_ID env) \<and> truthy (env_MICROSOFT_OAUTH_CLIENT_SECRET env) \<and>
     truthy (env_MICROSOFT_OAUTH_REDIRECT_URI env)"

text \<open>The endpoint answers a request with a complete set of tokens.\<close>

definition grants :: "tokenEndpoint \<Rightarrow> (string \<times> string) list \<Rightarrow> string option \<Rightarrow> string \<Rightarrow> string \<Rightarrow> bool" where
  "grants fetch form sub access refresh \<longleftrightarrow>
     (case fetch form of
        Inr (True, data) \<Rightarrow> td_access_token data = Some access \<and> td_refresh_token data = Some refresh \<and>
          td_expires_in data \<noteq> None \<and> td_sub data = sub
      | _ \<Rightarrow> False)"

lemma grantsE:
  assumes "grants fetch form sub access refresh"
  obtains data n where "fetch form = Inr (True, data)" "td_access_token data = Some access"
    "td_refresh_token data = Some refresh" "td_expires_in data = Some n" "td_sub data = sub"
  using assms by (auto simp: grants_def split: sum.splits prod.splits bool.splits)

definition vectors_ok :: "bytes \<times> bytes \<Rightarrow> bool" where
  "vectors_ok ivs \<longleftrightarrow> list_all (\<lambda>iv. length iv = 16 \<and> list_all (\<lambda>b. b < 256) iv) [fst ivs, snd ivs]"

lemma decrypt_stored:
  assumes "cbc K" "vectors_ok ivs"
  shows "decrypt K key (encrypt K key (fst ivs) t) = Inr t" "decrypt K key (encrypt K key (snd ivs) t) = Inr t"
proof -
  have "length iv = 16 \<and> list_all (\<lambda>b. b < 256) iv \<Longrightarrow> decrypt K key (encrypt K key iv t) = Inr t" for iv
    by (rule decrypt_encrypted [OF assms(1)]) (auto simp: list_all_iff)
  with assms(2) show "decrypt K key (encrypt K key (fst ivs) t) = Inr t" "decrypt K key (encrypt K key (snd ivs) t) = Inr t"
    by (auto simp: vectors_ok_def)
qed

definition holds :: "crypto \<Rightarrow> bytes \<Rightarrow> OAuthAccount \<Rightarrow> string \<Rightarrow> string \<Rightarrow> bool" where
  "holds K key row access refresh \<longleftrightarrow>
     oac_provider row = ''microsoft'' \<and>
     decrypt K key (oac_accessToken row) = Inr access \<and> decrypt K key (oac_refreshToken row) = Inr refresh"

text \<open>A granted exchange for a subject that no row has appends a row that holds the granted tokens.\<close>

lemma callback_creates:
  assumes K: "cbc K" "vectors_ok ivs" and env: "configured env" and user: "findUser s u \<noteq> None"
    and g: "grants fetch (codeFields env code) sub access refresh"
    and fresh: "\<And>a. a \<in> set (oauthAccounts s) \<Longrightarrow> oac_providerUserId a \<noteq> orElseText sub ''unknown''"
  shows "\<exists>s' row. handleMicrosoftCallback K key env fetch ivs now u code s = (Inr (True, ''Microsoft account linked''), s') \<and>
     oauthAccounts s' = oauthAccounts s @ [row] \<and> users s' = users s \<and> holds K key row access refresh \<and>
     oac_userId row = u \<and> oac_providerUserId row = orElseText sub ''unknown''"
proof -
  from g obtain data n where d: "fetch (codeFields env code) = Inr (True, data)" "td_access_token data = Some access"
    "td_refresh_token data = Some refresh" "td_expires_in data = Some n" "td_sub data = sub" by (rule grantsE)
  have new: "\<not> list_ex (\<lambda>a. oac_provider a = ''microsoft'' \<and> oac_providerUserId a = orElseText sub ''unknown'') (oauthAccounts s)"
    using fresh by (auto simp: list_ex_iff)
  show ?thesis
    using env user new
    by (simp add: handleMicrosoftCallback_def configured_def d sealTokens_def encryptField_def upsertAccount_def Let_def
        drawId_def holds_def decrypt_stored [OF K])
qed

text \<open>A granted exchange for a subject that a row has already rewrites that row, whoever owns it.\<close>

lemma callback_updates:
  assumes K: "cbc K" "vectors_ok ivs" and env: "configured env"
    and g: "grants fetch (codeFields env code) sub access refresh"
    and one: "oauthAccounts s = [row]" "oac_provider row = ''microsoft''" "oac_providerUserId row = orElseText sub ''unknown''"
  shows "\<exists>s' row'. handleMicrosoftCallback K key env fetch ivs now u code s = (Inr (True, ''Microsoft account linked''), s') \<and>
     oauthAccounts s' = [row'] \<and> holds K key row' access refresh \<and> oac_userId row' = oac_userId row"
proof -
  from g obtain data n where d: "fetch (codeFields env code) = Inr (True, data)" "td_access_token data = Some access"
    "td_refresh_token data = Some refresh" "td_expires_in data = Some n" "td_sub data = sub" by (rule grantsE)
  show ?thesis
    using env one
    by (simp add: handleMicrosoftCallback_def configured_def d sealTokens_def encryptField_def upsertAccount_def Let_def
        holds_def decrypt_stored [OF K])
qed

lemma findFirst_updateMany:
  assumes "\<And>x. P (g x) = P x"
  shows "findFirst P (updateMany Q g xs) = map_option (\<lambda>x. if Q x then g x else x) (findFirst P xs)"
  using assms by (induction xs) auto

text \<open>A refresh sends the refresh token that the user's row holds, and the row then holds what was granted.\<close>

lemma refresh_replaces:
  assumes K: "cbc K" "vectors_ok ivs" and env: "configured env"
    and find: "findFirst (\<lambda>a. oac_userId a = u \<and> oac_provider a = ''microsoft'') (oauthAccounts s) = Some row"
    and row: "holds K key row access refresh"
    and g: "grants fetch (refreshFields env refresh) sub access2 refresh2"
  shows "\<exists>s' row'. refreshMicrosoftToken K key env fetch ivs now u s = (Inr (True, ''Token refreshed''), s') \<and>
     findFirst (\<lambda>a. oac_userId a = u \<and> oac_provider a = ''microsoft'') (oauthAccounts s') = Some row' \<and>
     holds K key row' access2 refresh2"
proof -
  from g obtain data n where d: "fetch (refreshFields env refresh) = Inr (True, data)" "td_access_token data = Some access2"
    "td_refresh_token data = Some refresh2" "td_expires_in data = Some n" by (rule grantsE)
  show ?thesis
    using env row
    by (simp add: refreshMicrosoftToken_def find configured_def d sealTokens_def encryptField_def
        findFirst_updateMany holds_def decrypt_stored [OF K])
qed

lemma token_of_row:
  assumes "findFirst (\<lambda>a. oac_userId a = u \<and> oac_provider a = ''microsoft'') (oauthAccounts s) = Some row"
    and "holds K key row access refresh"
  shows "getDecryptedAccessToken K key u ''microsoft'' s = Inr (Some access)"
  using assms by (simp add: getDecryptedAccessToken_def holds_def)

section \<open>Properties\<close>

text \<open>C29: A linked account gives its own tokens back. When the server is configured and the token endpoint
  grants tokens for the code, linking succeeds for a user without a Microsoft account whose subject nobody
  else has linked, and reading the access token then gives the granted one. A later refresh sends the refresh
  token of that grant; when the endpoint answers it with new tokens, the refresh succeeds and the access
  token read is the new one.\<close>
theorem oauth_token_roundtrip:
  assumes K: "cbc K" "vectors_ok ivs" "vectors_ok ivs2" and env: "configured env" and user: "findUser s u \<noteq> None"
    and g: "grants fetch (codeFields env code) sub access refresh"
    and g2: "grants fetch2 (refreshFields env refresh) sub2 access2 refresh2"
    and new: "\<And>a. a \<in> set (oauthAccounts s) \<Longrightarrow> oac_userId a \<noteq> u \<and> oac_providerUserId a \<noteq> orElseText sub ''unknown''"
  shows "\<exists>s' s''. handleMicrosoftCallback K key env fetch ivs now u code s = (Inr (True, ''Microsoft account linked''), s') \<and>
     getDecryptedAccessToken K key u ''microsoft'' s' = Inr (Some access) \<and>
     refreshMicrosoftToken K key env fetch2 ivs2 now2 u s' = (Inr (True, ''Token refreshed''), s'') \<and>
     getDecryptedAccessToken K key u ''microsoft'' s'' = Inr (Some access2)"
proof -
  obtain s' row where link: "handleMicrosoftCallback K key env fetch ivs now u code s = (Inr (True, ''Microsoft account linked''), s')"
    and rows: "oauthAccounts s' = oauthAccounts s @ [row]" and row: "holds K key row access refresh" "oac_userId row = u"
    using callback_creates [OF K(1,2) env user g] new by blast
  have "findFirst (\<lambda>a. oac_userId a = u \<and> oac_provider a = ''microsoft'') (oauthAccounts s) = None"
    using new by (auto simp: findFirst_None_iff)
  then have find: "findFirst (\<lambda>a. oac_userId a = u \<and> oac_provider a = ''microsoft'') (oauthAccounts s') = Some row"
    using row by (simp add: rows findFirst_append holds_def)
  obtain s'' row' where "refreshMicrosoftToken K key env fetch2 ivs2 now2 u s' = (Inr (True, ''Token refreshed''), s'')"
    "findFirst (\<lambda>a. oac_userId a = u \<and> oac_provider a = ''microsoft'') (oauthAccounts s'') = Some row'"
    "holds K key row' access2 refresh2"
    using refresh_replaces [OF K(1,3) env find row(1) g2] by blast
  with link token_of_row [OF find row(1)] token_of_row [of u s'' row'] show ?thesis by blast
qed

definition msEnv :: oauthEnv where
  "msEnv = \<lparr>env_MICROSOFT_OAUTH_CLIENT_ID = Some ''id'', env_MICROSOFT_OAUTH_CLIENT_SECRET = Some ''secret'',
     env_MICROSOFT_OAUTH_REDIRECT_URI = Some ''https://x/cb''\<rparr>"

definition msFetch :: "string \<Rightarrow> string option \<Rightarrow> tokenEndpoint" where
  "msFetch t sub form = Inr (True, \<lparr>td_access_token = Some t, td_refresh_token = Some (''r'' @ t), td_expires_in = Some 3600,
     td_sub = sub, td_scope = None\<rparr>)"

lemma msFetch_grants: "grants (msFetch t sub) form sub t (''r'' @ t)"
  by (simp add: grants_def msFetch_def)

definition sampleIvs :: "bytes \<times> bytes" where "sampleIvs = (replicate 16 0, replicate 16 1)"

definition msUser :: "ident \<Rightarrow> User" where
  "msUser i = \<lparr>usr_id = i, usr_email = i, usr_passwordHash = [], usr_role = PARENT, usr_firstName = None, usr_lastName = None,
     usr_refreshToken = None, usr_failedLoginAttempts = 0, usr_lockedUntil = None, usr_createdAt = 0\<rparr>"

definition msStore :: store where
  "msStore = (emptyStore (\<lambda>n. replicate (n + 1) (CHR ''x'')))\<lparr>users := [msUser ''a'', msUser ''b'']\<rparr>"

lemma ms_sample:
  "oauthAccounts msStore = []" "findUser msStore ''a'' \<noteq> None" "findUser msStore ''b'' \<noteq> None"
  "configured msEnv" "vectors_ok sampleIvs"
  by (simp_all add: msStore_def emptyStore_def msUser_def configured_def msEnv_def vectors_ok_def sampleIvs_def list_all_iff)

theorem oauth_token_roundtrip_witness:
  "\<exists>s' s''. handleMicrosoftCallback hexCipher [1] msEnv (msFetch ''tok'' (Some ''sub'')) sampleIvs 0 ''a'' ''c'' msStore =
       (Inr (True, ''Microsoft account linked''), s') \<and>
     getDecryptedAccessToken hexCipher [1] ''a'' ''microsoft'' s' = Inr (Some ''tok'') \<and>
     refreshMicrosoftToken hexCipher [1] msEnv (msFetch ''new'' None) sampleIvs 9 ''a'' s' = (Inr (True, ''Token refreshed''), s'') \<and>
     getDecryptedAccessToken hexCipher [1] ''a'' ''microsoft'' s'' = Inr (Some ''new'')"
  by (rule oauth_token_roundtrip [OF hexCipher_cbc ms_sample(5,5,4,2) msFetch_grants msFetch_grants]) (simp add: ms_sample(1))

text \<open>Accounts without a subject are mixed up. When the token answers carry no subject, as those of an
  exchange without the openid scope (the scope the authorisation URL asks for), every account is stored under
  the subject "unknown": when two users link one after the other, both are told that it worked, the first
  user's stored token is then the second user's, and the second user has none.\<close>
theorem oauth_unknown_shared:
  assumes K: "cbc K" "vectors_ok ivsA" "vectors_ok ivsB" and env: "configured env"
    and empty: "oauthAccounts s = []" and "a \<noteq> b" "findUser s a \<noteq> None"
    and gA: "grants fetchA (codeFields env codeA) None accessA refreshA"
    and gB: "grants fetchB (codeFields env codeB) None accessB refreshB"
  shows "\<exists>s1 s2. handleMicrosoftCallback K key env fetchA ivsA now a codeA s = (Inr (True, ''Microsoft account linked''), s1) \<and>
     handleMicrosoftCallback K key env fetchB ivsB now2 b codeB s1 = (Inr (True, ''Microsoft account linked''), s2) \<and>
     getDecryptedAccessToken K key a ''microsoft'' s2 = Inr (Some accessB) \<and>
     getDecryptedAccessToken K key b ''microsoft'' s2 = Inr None"
proof -
  obtain s1 row where s1: "handleMicrosoftCallback K key env fetchA ivsA now a codeA s = (Inr (True, ''Microsoft account linked''), s1)"
    "oauthAccounts s1 = [row]" "holds K key row accessA refreshA" "oac_userId row = a" "oac_providerUserId row = orElseText None ''unknown''"
    using callback_creates [OF K(1,2) env assms(7) gA, of key now] empty by auto
  obtain s2 row' where s2: "handleMicrosoftCallback K key env fetchB ivsB now2 b codeB s1 = (Inr (True, ''Microsoft account linked''), s2)"
    "oauthAccounts s2 = [row']" "holds K key row' accessB refreshB" "oac_userId row' = a"
    using callback_updates [OF K(1,3) env gB s1(2) _ s1(5), of key now2 b] s1(3,4) by (auto simp: holds_def)
  have "getDecryptedAccessToken K key a ''microsoft'' s2 = Inr (Some accessB)" "getDecryptedAccessToken K key b ''microsoft'' s2 = Inr None"
    using s2(2-4) assms(6) by (simp_all add: getDecryptedAccessToken_def holds_def)
  with s1(1) s2(1) show ?thesis by blast
qed

theorem oauth_unknown_shared_witness:
  "\<exists>s1 s2. handleMicrosoftCallback hexCipher [1] msEnv (msFetch ''one'' None) sampleIvs 0 ''a'' ''c'' msStore =
       (Inr (True, ''Microsoft account linked''), s1) \<and>
     handleMicrosoftCallback hexCipher [1] msEnv (msFetch ''two'' None) sampleIvs 5 ''b'' ''d'' s1 =
       (Inr (True, ''Microsoft account linked''), s2) \<and>
     getDecryptedAccessToken hexCipher [1] ''a'' ''microsoft'' s2 = Inr (Some ''two'') \<and>
     getDecryptedAccessToken hexCipher [1] ''b'' ''microsoft'' s2 = Inr None"
  by (rule oauth_unknown_shared [OF hexCipher_cbc ms_sample(5,5,4,1) _ ms_sample(2) msFetch_grants msFetch_grants]) simp

end
