(* ===== verification/Api.thy ===== *)
theory Api
  imports Legal OAuth Enforcement
begin

text \<open>
  The HTTP interface for parents, administrators and the public (\<^verbatim>\<open>*.controller.ts\<close>): one type of requests and
  one handler per controller, as the controller passes its arguments on, and the guards in front of them.
  A parent request carries an \<^verbatim>\<open>Authorization\<close> header; the guard turns it into the claims of the token, and
  the handlers get the account \<^verbatim>\<open>sub\<close> of these claims. Bodies pass the validation of theory \<open>Dto\<close> after the
  guards. The reports and the device health change no row and keep a cache of their own; their controllers are in
  the theories \<open>Reports\<close> and \<open>Health\<close>.
\<close>

record 'c apiEnv =
  en_cache :: "'c cacheOps"
  en_strict :: bool
  en_tz :: int
  en_tokens :: tokenLib
  en_auth :: authConfig
  en_salt :: string
  en_fcm :: fcm
  en_crypto :: crypto
  en_key :: bytes
  en_iv :: bytes
  en_ivs :: "bytes \<times> bytes"
  en_oauth :: oauthEnv
  en_fetch :: tokenEndpoint
  en_pair :: pairEnv
  en_byDomain :: "BlockedDomain list \<Rightarrow> BlockedDomain list"
  en_ruleJson :: "Rule \<Rightarrow> json"
  en_valid :: validators

datatype (plugins only: code) apiValue =
    V_unit | V_child Child | V_children "Child list" | V_device Device | V_deviceView DeviceView
  | V_deviceViews "DeviceView list" | V_network NetworkStatus | V_session Session | V_sessions "Session list"
  | V_rule Rule | V_rules "Rule list" | V_daily DailyUsage | V_weekly WeeklyUsage | V_usage "int \<times> UsageLog list"
  | V_control ControlResult | V_limit BandwidthLimit | V_limits "BandwidthLimit list" | V_blocks "CategoryBlock list"
  | V_notification NotificationEvent | V_notifications "NotificationEvent list" | V_authUrl "string option \<times> string option"
  | V_outcome "bool \<times> string" | V_offline OfflineStatus | V_checklist OfflineControlChecklist | V_profile Profile
  | V_user User | V_subscription Subscription | V_features RouterFeatures | V_commandId ident
  | V_diagnostics "DetectedRouter option \<times> RouterCommand list \<times> RouterCapabilityScore" | V_strategy StrategyOutcome
  | V_router "DetectedRouter option" | V_score ProtectionScoreResult | V_insights Insights | V_schedule Schedule
  | V_gateway Gateway | V_gateways "GatewayCard list" | V_rotated "ident \<times> string \<times> time"
  | V_pairStart StartPairingResponse | V_pairStatus PairingStatusResponse | V_pairStats ConnectionStatsResponse
  | V_domain BlockedDomain | V_domains "BlockedDomain list" | V_imported "nat \<times> nat" | V_unknown "UnknownDomainLog list" | V_tokens AuthResponseDto
  | V_commands "Command list" | V_ack CommandAck | V_usageLog UsageLog | V_policy DnsPolicyResponse | V_deviceId ident
  | V_html string | V_platforms "PlatformSupport list" | V_platform "PlatformSupport property" | V_guides "SetupGuideData list"
  | V_guide SetupGuideData | V_offlineGuide "OfflineGuide property"

section \<open>Families and devices\<close>

datatype childrenRoute = CH_create CreateChildDto | CH_findAll | CH_findOne ident | CH_update ident UpdateChildDto | CH_remove ident

fun ChildrenController :: "ident \<Rightarrow> childrenRoute \<Rightarrow> 'z store_scheme \<Rightarrow> apiValue result \<times> 'z store_scheme" where
  "ChildrenController p (CH_create dto) s =
     validated (CreateChildDto_ok dto) (case create_Child p dto s of (c, s1) \<Rightarrow> (Inr (V_child c), s1)) s"
| "ChildrenController p CH_findAll s = (Inr (V_children (findAll_Children p s)), s)"
| "ChildrenController p (CH_findOne i) s = mapResult V_child (findOne_Child p i s, s)"
| "ChildrenController p (CH_update i dto) s = validated (UpdateChildDto_ok dto) (mapResult V_child (update_Child p i dto s)) s"
| "ChildrenController p (CH_remove i) s = mapResult (\<lambda>_. V_unit) (remove_Child p i s)"

datatype devicesRoute =
    DV_create CreateDeviceDto | DV_findAll | DV_findOne ident | DV_update ident UpdateDeviceDto | DV_remove ident
  | DV_lockInternet ident "string option" | DV_unlockInternet ident | DV_networkStatus ident

fun DevicesController ::
  "'c apiEnv \<Rightarrow> time \<Rightarrow> ident \<Rightarrow> devicesRoute \<Rightarrow> ('c, 'z) gstore_scheme \<Rightarrow> apiValue result \<times> ('c, 'z) gstore_scheme" where
  "DevicesController E now p (DV_create dto) s =
     validated (CreateDeviceDto_ok (en_valid E) dto) (mapResult V_device (create_Device p dto s)) s"
| "DevicesController E now p DV_findAll s = (Inr (V_deviceViews (findAll_Devices p s)), s)"
| "DevicesController E now p (DV_findOne i) s = mapResult V_deviceView (findOne_Device p i s, s)"
| "DevicesController E now p (DV_update i dto) s =
     validated (UpdateDeviceDto_ok (en_valid E) dto) (mapResult V_device (update_Device p i dto s)) s"
| "DevicesController E now p (DV_remove i) s = mapResult (\<lambda>_. V_unit) (remove_Device p i s)"
| "DevicesController E now p (DV_lockInternet i reason) s = mapResult V_deviceView (lockInternet (en_cache E) now p i reason s)"
| "DevicesController E now p (DV_unlockInternet i) s = mapResult V_deviceView (unlockInternet (en_cache E) now p i s)"
| "DevicesController E now p (DV_networkStatus i) s = mapResult V_network (getNetworkStatus p i s, s)"

datatype enforcementRoute = EN_block ident string | EN_unblock ident | EN_sync ident

fun EnforcementController ::
  "'c apiEnv \<Rightarrow> time \<Rightarrow> ident \<Rightarrow> enforcementRoute \<Rightarrow> ('c, 'z) gstore_scheme \<Rightarrow> apiValue result \<times> ('c, 'z) gstore_scheme" where
  "EnforcementController E now p (EN_block d reason) s =
     validated (vl_isUUID (en_valid E) d) (mapResult V_control (blockDevice (en_cache E) now d reason (Some p) s)) s"
| "EnforcementController E now p (EN_unblock d) s =
     validated (vl_isUUID (en_valid E) d) (mapResult V_control (unblockDevice (en_cache E) now d (Some p) s)) s"
| "EnforcementController E now p (EN_sync d) s =
     validated (vl_isUUID (en_valid E) d) (mapResult V_control (syncRules (en_ruleJson E) now d (Some p) s)) s"

datatype protectionRoute = PT_score ident | PT_insights ident | PT_getSchedule ident | PT_upsertSchedule ident UpsertScheduleDto

fun ProtectionController ::
  "time \<Rightarrow> ident \<Rightarrow> protectionRoute \<Rightarrow> 'z store_scheme \<Rightarrow> apiValue result \<times> 'z store_scheme" where
  "ProtectionController now p (PT_score i) s = mapResult V_score (getProtectionScore now p i s)"
| "ProtectionController now p (PT_insights i) s = mapResult V_insights (getInsights now p i s)"
| "ProtectionController now p (PT_getSchedule i) s = mapResult V_schedule (getSchedule p i s, s)"
| "ProtectionController now p (PT_upsertSchedule i dto) s =
     validated (validSchedule dto) (mapResult V_device (upsertSchedule p i dto s)) s"

datatype offlineRoute = OF_setSetupStatus ident SetSetupStatusDto | OF_status ident | OF_checklist ident ChecklistDto

fun OfflineControlController ::
  "time \<Rightarrow> ident \<Rightarrow> offlineRoute \<Rightarrow> 'z store_scheme \<Rightarrow> apiValue result \<times> 'z store_scheme" where
  "OfflineControlController now p (OF_setSetupStatus i dto) s = mapResult V_device (setSetupStatus now p i dto s)"
| "OfflineControlController now p (OF_status i) s = mapResult V_offline (getStatus_Offline p i s, s)"
| "OfflineControlController now p (OF_checklist i dto) s = mapResult V_checklist (upsertChecklist p i dto s)"

datatype pairingRoute = PA_start ident | PA_status ident | PA_stats ident | PA_cancel ident

fun PairingController ::
  "'c apiEnv \<Rightarrow> time \<Rightarrow> ident \<Rightarrow> pairingRoute \<Rightarrow> 'z store_scheme \<Rightarrow> apiValue result \<times> 'z store_scheme" where
  "PairingController E now p (PA_start d) s =
     validated (vl_isUUID (en_valid E) d) (mapResult V_pairStart (startPairing (en_pair E) now d p s)) s"
| "PairingController E now p (PA_status d) s =
     validated (vl_isUUID (en_valid E) d) (mapResult V_pairStatus (getStatus_Pairing now d p s, s)) s"
| "PairingController E now p (PA_stats d) s =
     validated (vl_isUUID (en_valid E) d) (mapResult V_pairStats (getConnectionStats now d p s, s)) s"
| "PairingController E now p (PA_cancel d) s =
     validated (vl_isUUID (en_valid E) d) (mapResult (\<lambda>_. V_unit) (cancelPairing now d p s)) s"

section \<open>Sessions, rules, limits and usage\<close>

datatype sessionsRoute =
  SS_start StartSessionDto | SS_pause ident | SS_resume ident | SS_extend ident ExtendSessionDto | SS_stop ident | SS_active | SS_history

fun SessionsController ::
  "'c apiEnv \<Rightarrow> time \<Rightarrow> ident \<Rightarrow> sessionsRoute \<Rightarrow> 'z store_scheme \<Rightarrow> apiValue result \<times> 'z store_scheme" where
  "SessionsController E now p (SS_start dto) s =
     validated (StartSessionDto_ok (en_valid E) dto) (mapResult V_session (start (en_tz E) now p dto s)) s"
| "SessionsController E now p (SS_pause i) s = mapResult V_session (pause now i p s)"
| "SessionsController E now p (SS_resume i) s = mapResult V_session (resume now i p s)"
| "SessionsController E now p (SS_extend i dto) s =
     validated (ExtendSessionDto_ok dto) (mapResult V_session (extend_Session i p dto s)) s"
| "SessionsController E now p (SS_stop i) s = mapResult V_session (stop now i p s)"
| "SessionsController E now p SS_active s = (Inr (V_sessions (getActiveSessions p s)), s)"
| "SessionsController E now p SS_history s = (Inr (V_sessions (getHistory p s)), s)"

datatype rulesRoute = RU_create CreateRuleDto | RU_findAll | RU_update ident UpdateRuleDto | RU_remove ident

fun RulesController ::
  "'c apiEnv \<Rightarrow> ident \<Rightarrow> rulesRoute \<Rightarrow> 'z store_scheme \<Rightarrow> apiValue result \<times> 'z store_scheme" where
  "RulesController E p (RU_create dto) s = validated (CreateRuleDto_ok (en_valid E) dto) (mapResult V_rule (create_Rule p dto s)) s"
| "RulesController E p RU_findAll s = (Inr (V_rules (findAll_Rules p s)), s)"
| "RulesController E p (RU_update i dto) s = mapResult V_rule (update_Rule p i dto s)"
| "RulesController E p (RU_remove i) s = mapResult (\<lambda>_. V_unit) (remove_Rule p i s)"

datatype bandwidthRoute =
  BW_create CreateBandwidthLimitDto | BW_findAll | BW_findOne ident | BW_update ident UpdateBandwidthLimitDto | BW_remove ident

fun BandwidthController ::
  "'c apiEnv \<Rightarrow> time \<Rightarrow> ident \<Rightarrow> bandwidthRoute \<Rightarrow> 'z store_scheme \<Rightarrow> apiValue result \<times> 'z store_scheme" where
  "BandwidthController E now p (BW_create dto) s =
     validated (CreateBandwidthLimitDto_ok (en_valid E) dto) (mapResult V_limit (create_Bandwidth now p dto s)) s"
| "BandwidthController E now p BW_findAll s = (Inr (V_limits (findAll_Bandwidth p s)), s)"
| "BandwidthController E now p (BW_findOne i) s = mapResult V_limit (findOne_Bandwidth p i s, s)"
| "BandwidthController E now p (BW_update i dto) s =
     validated (UpdateBandwidthLimitDto_ok dto) (mapResult V_limit (update_Bandwidth p i dto s)) s"
| "BandwidthController E now p (BW_remove i) s = mapResult (\<lambda>_. V_unit) (remove_Bandwidth p i s)"

text \<open>The date of the daily report is the parsed query parameter.\<close>

datatype usageRoute = US_daily ident "time option" | US_weekly ident | US_device ident

fun UsageLogsController ::
  "'c apiEnv \<Rightarrow> time \<Rightarrow> ident \<Rightarrow> usageRoute \<Rightarrow> 'z store_scheme \<Rightarrow> apiValue result \<times> 'z store_scheme" where
  "UsageLogsController E now p (US_daily c date) s = mapResult V_daily (getDailyUsage (en_tz E) now p c date s, s)"
| "UsageLogsController E now p (US_weekly c) s = mapResult V_weekly (getWeeklyUsage (en_tz E) now p c s, s)"
| "UsageLogsController E now p (US_device d) s = mapResult V_usage (getDeviceUsage p d s, s)"

section \<open>Accounts, notifications and linked services\<close>

datatype parentsRoute = PR_getProfile | PR_updateProfile "string option" "string option" | PR_deleteProfile | PR_getSubscription

fun ParentsController ::
  "time \<Rightarrow> ident \<Rightarrow> parentsRoute \<Rightarrow> 'z store_scheme \<Rightarrow> apiValue result \<times> 'z store_scheme" where
  "ParentsController now p PR_getProfile s = mapResult V_profile (getProfile p s, s)"
| "ParentsController now p (PR_updateProfile firstName lastName) s = mapResult V_user (updateProfile p firstName lastName s)"
| "ParentsController now p PR_deleteProfile s = mapResult (\<lambda>_. V_unit) (deleteAccount now p s)"
| "ParentsController now p PR_getSubscription s = mapResult V_subscription (getSubscription p s, s)"

datatype notificationsRoute = NO_findAll | NO_markRead ident

fun NotificationsController :: "ident \<Rightarrow> notificationsRoute \<Rightarrow> 'z store_scheme \<Rightarrow> apiValue result \<times> 'z store_scheme" where
  "NotificationsController p NO_findAll s = (Inr (V_notifications (findByUser_Notifications p s)), s)"
| "NotificationsController p (NO_markRead i) s = mapResult V_notification (markReadForUser p i s)"

datatype pushRoute = PU_register string string | PU_unregister string

fun PushController :: "time \<Rightarrow> ident \<Rightarrow> pushRoute \<Rightarrow> 'z store_scheme \<Rightarrow> apiValue result \<times> 'z store_scheme" where
  "PushController now p (PU_register token platform) s =
     validated (RegisterPushTokenDto_ok token platform) (Inr V_unit, registerToken now p token platform s) s"
| "PushController now p (PU_unregister token) s =
     validated (UnregisterPushTokenDto_ok token) (Inr V_unit, removeToken p token s) s"

datatype oauthRoute = OA_getMicrosoftUrl | OA_refreshMicrosoft

fun OAuthController ::
  "'c apiEnv \<Rightarrow> time \<Rightarrow> ident \<Rightarrow> oauthRoute \<Rightarrow> 'z store_scheme \<Rightarrow> apiValue result \<times> 'z store_scheme" where
  "OAuthController E now p OA_getMicrosoftUrl s = (Inr (V_authUrl (getMicrosoftAuthUrl (en_oauth E))), s)"
| "OAuthController E now p OA_refreshMicrosoft s =
     mapResult V_outcome (refreshMicrosoftToken (en_crypto E) (en_key E) (en_oauth E) (en_fetch E) (en_ivs E) now p s)"

section \<open>Gateways and routers\<close>

datatype gatewayRoute =
    GW_list | GW_register RegisterGatewayDto | GW_rename ident RenameGatewayDto
  | GW_remove ident | GW_pair PairGatewayDto | GW_rotateToken ident

fun GatewayController ::
  "'c apiEnv \<Rightarrow> time \<Rightarrow> ident \<Rightarrow> gatewayRoute \<Rightarrow> 'z store_scheme \<Rightarrow> apiValue result \<times> 'z store_scheme" where
  "GatewayController E now p GW_list s = (Inr (V_gateways (listGateways now p s)), s)"
| "GatewayController E now p (GW_register dto) s =
     (case register_Gateway now p (rgd_name dto) (rgd_endpoint dto) (patch (rgd_gatewayType dto) SOFTWARE_AGENT) (rgd_description dto) s of
        (g, s1) \<Rightarrow> (Inr (V_gateway g), s1))"
| "GatewayController E now p (GW_rename i dto) s =
     mapResult V_gateway (renameGateway p i (rnd_name dto) (rnd_description dto) s)"
| "GatewayController E now p (GW_remove i) s = mapResult (\<lambda>_. V_unit) (deleteGateway p i s)"
| "GatewayController E now p (GW_pair dto) s =
     validated (PairGatewayDto_ok (en_valid E) dto) (mapResult V_gateway (pair now (pgd_gatewayId dto) p s)) s"
| "GatewayController E now p (GW_rotateToken i) s = mapResult V_rotated (rotateToken now p i (24 * 60 * 60 * 1000) s)"

datatype routerRoute =
    RI_getFeatures ident | RI_setup ident RouterSetupDto | RI_testConnection ident | RI_triggerDetection ident
  | RI_getDiagnostics ident | RI_endGamingSession ident ident | RI_changeDns ident string | RI_blockMac ident string
  | RI_unblockMac ident string | RI_getDetected ident

fun RouterIntegrationController ::
  "'c apiEnv \<Rightarrow> time \<Rightarrow> ident \<Rightarrow> routerRoute \<Rightarrow> 'z store_scheme \<Rightarrow> apiValue result \<times> 'z store_scheme" where
  "RouterIntegrationController E now p (RI_getFeatures g) s = mapResult V_features (getFeatures p g s, s)"
| "RouterIntegrationController E now p (RI_setup g dto) s =
     mapResult V_commandId (setup_Router (en_crypto E) (en_key E) (en_iv E) now p g dto s)"
| "RouterIntegrationController E now p (RI_testConnection g) s = mapResult V_commandId (testConnection now p g s)"
| "RouterIntegrationController E now p (RI_triggerDetection g) s = mapResult V_commandId (triggerDetection now p g s)"
| "RouterIntegrationController E now p (RI_getDiagnostics g) s = mapResult V_diagnostics (getDiagnostics p g s, s)"
| "RouterIntegrationController E now p (RI_endGamingSession g d) s =
     validated (vl_isUUID (en_valid E) d) (mapResult V_strategy (endGamingSession now p g d s)) s"
| "RouterIntegrationController E now p (RI_changeDns g dns) s =
     validated (vl_isIP (en_valid E) dns) (mapResult V_commandId (changeDns now p g dns s)) s"
| "RouterIntegrationController E now p (RI_blockMac g mac) s =
     validated (vl_isMACAddress (en_valid E) mac) (mapResult V_commandId (blockMac now p g mac s)) s"
| "RouterIntegrationController E now p (RI_unblockMac g mac) s =
     validated (vl_isMACAddress (en_valid E) mac) (mapResult V_commandId (unblockMac now p g mac s)) s"
| "RouterIntegrationController E now p (RI_getDetected g) s = mapResult V_router (getDetectedRouter p g s, s)"

section \<open>Blocklists\<close>

datatype categoriesRoute =
    CA_list "BlockCategory option" | CA_add AddDomainDto | CA_bulk BulkImportDto | CA_remove ident
  | CA_setBlock ident SetCategoryBlockDto | CA_listBlocks ident

fun CategoriesController :: "'c apiEnv \<Rightarrow> ident \<Rightarrow> categoriesRoute \<Rightarrow> 'z store_scheme \<Rightarrow> apiValue result \<times> 'z store_scheme" where
  "CategoriesController E p (CA_list category) s =
     (Inr (V_domains (case category of None \<Rightarrow> listAll (en_byDomain E) s | Some c \<Rightarrow> listByCategory (en_byDomain E) c s)), s)"
| "CategoriesController E p (CA_add dto) s =
     (case addDomain (add_domain dto) (add_category dto) (patch (add_wildcard dto) True) s of (b, s1) \<Rightarrow> (Inr (V_domain b), s1))"
| "CategoriesController E p (CA_bulk dto) s =
     (case bulkImport (map (\<lambda>i. (bii_domain i, bii_category i, bii_wildcard i)) (bid_items dto)) s of
        (n, s1) \<Rightarrow> (Inr (V_imported n), s1))"
| "CategoriesController E p (CA_remove i) s = mapResult V_domain (deleteDomain i s)"
| "CategoriesController E p (CA_setBlock c dto) s =
     mapResult (\<lambda>_. V_unit) (setCategoryBlock p c (scb_category dto) (scb_active dto) (scb_reason dto) s)"
| "CategoriesController E p (CA_listBlocks c) s = mapResult V_blocks (listCategoryBlocks p c s, s)"

datatype adminRoute = AD_unknown "string option" "string option" | AD_classify ClassifyDomainDto

fun AdminDomainsController :: "adminRoute \<Rightarrow> 'z store_scheme \<Rightarrow> apiValue result \<times> 'z store_scheme" where
  "AdminDomainsController (AD_unknown limit classified) s =
     (Inr (V_unknown (listUnknownDomains (if truthy limit then parseInt10 (patch limit []) else None)
        (if classified = Some ''true'' then Some True else if classified = Some ''false'' then Some False else None) s)), s)"
| "AdminDomainsController (AD_classify dto) s =
     (case classifyUnknownDomain (cld_domain dto) (cld_category dto) (patch (cld_wildcard dto) True) s of (b, s1) \<Rightarrow> (Inr (V_domain b), s1))"

section \<open>Routing and guards\<close>

datatype parentRoute =
    R_children childrenRoute | R_devices devicesRoute | R_enforcement enforcementRoute | R_protection protectionRoute
  | R_offline offlineRoute | R_pairing pairingRoute | R_sessions sessionsRoute | R_rules rulesRoute | R_bandwidth bandwidthRoute
  | R_usage usageRoute | R_parents parentsRoute | R_notifications notificationsRoute | R_push pushRoute | R_oauth oauthRoute
  | R_gateway gatewayRoute | R_router routerRoute | R_categories categoriesRoute | R_admin adminRoute
  | R_registerDevice RegisterDeviceDto | R_logout

fun route ::
  "'c apiEnv \<Rightarrow> time \<Rightarrow> ident \<Rightarrow> parentRoute \<Rightarrow> ('c, 'z) gstore_scheme \<Rightarrow> apiValue result \<times> ('c, 'z) gstore_scheme" where
  "route E now p (R_children r) s = ChildrenController p r s"
| "route E now p (R_devices r) s = DevicesController E now p r s"
| "route E now p (R_enforcement r) s = EnforcementController E now p r s"
| "route E now p (R_protection r) s = ProtectionController now p r s"
| "route E now p (R_offline r) s = OfflineControlController now p r s"
| "route E now p (R_pairing r) s = PairingController E now p r s"
| "route E now p (R_sessions r) s = SessionsController E now p r s"
| "route E now p (R_rules r) s = RulesController E p r s"
| "route E now p (R_bandwidth r) s = BandwidthController E now p r s"
| "route E now p (R_usage r) s = UsageLogsController E now p r s"
| "route E now p (R_parents r) s = ParentsController now p r s"
| "route E now p (R_notifications r) s = NotificationsController p r s"
| "route E now p (R_push r) s = PushController now p r s"
| "route E now p (R_oauth r) s = OAuthController E now p r s"
| "route E now p (R_gateway r) s = GatewayController E now p r s"
| "route E now p (R_router r) s = RouterIntegrationController E now p r s"
| "route E now p (R_categories r) s = CategoriesController E p r s"
| "route E now p (R_admin r) s = AdminDomainsController r s"
| "route E now p (R_registerDevice dto) s =
     validated (RegisterDeviceDto_ok (en_valid E) dto) (mapResult V_device (registerDevice now p dto s)) s"
| "route E now p R_logout s = mapResult (\<lambda>_. V_unit) (logout p s)"

text \<open>The roles that a route is annotated with: \<^verbatim>\<open>@Roles(Role.ADMIN)\<close> on the handlers that change the global
  blocklist and on the administration controller, none elsewhere.\<close>

fun requiredRoles :: "parentRoute \<Rightarrow> Role list option" where
  "requiredRoles (R_categories (CA_add _)) = Some [ADMIN]"
| "requiredRoles (R_categories (CA_bulk _)) = Some [ADMIN]"
| "requiredRoles (R_categories (CA_remove _)) = Some [ADMIN]"
| "requiredRoles (R_admin _) = Some [ADMIN]"
| "requiredRoles _ = None"

definition serve ::
  "'c apiEnv \<Rightarrow> time \<Rightarrow> string option \<Rightarrow> parentRoute \<Rightarrow> ('c, 'z) gstore_scheme \<Rightarrow> apiValue result \<times> ('c, 'z) gstore_scheme" where
  "serve E now authorization r s =
     (case canActivate_Jwt (en_tokens E) (en_auth E) now authorization of
        Inl e \<Rightarrow> (Inl e, s)
      | Inr user \<Rightarrow>
          (case canActivate_Roles (requiredRoles r) (Some user) of
             Inl e \<Rightarrow> (Inl e, s)
           | Inr _ \<Rightarrow> route E now (jwp_sub user) r s))"

section \<open>Requests without an account\<close>

datatype authRoute = AU_register RegisterDto | AU_login LoginDto | AU_refresh string

fun AuthController ::
  "'c apiEnv \<Rightarrow> time \<Rightarrow> authRoute \<Rightarrow> 'z store_scheme \<Rightarrow> apiValue result \<times> 'z store_scheme" where
  "AuthController E now (AU_register dto) s =
     validated (RegisterDto_ok (en_valid E) dto) (mapResult V_tokens (register (en_tokens E) (en_auth E) (en_salt E) now dto s)) s"
| "AuthController E now (AU_login dto) s =
     validated (LoginDto_ok (en_valid E) dto) (mapResult V_tokens (login (en_tokens E) (en_auth E) now dto s)) s"
| "AuthController E now (AU_refresh token) s = mapResult V_tokens (refresh (en_tokens E) (en_auth E) now token s)"

datatype childAgentRoute =
    CG_getRules ident | CG_getCommands ident | CG_acknowledgeCommand CommandAckDto | CG_reportUsage CreateUsageLogDto
  | CG_requestMoreTime RequestMoreTimeDto | CG_reportStatus ChildStatusDto

fun ChildAgentController ::
  "'c apiEnv \<Rightarrow> time \<Rightarrow> childAgentRoute \<Rightarrow> 'z store_scheme \<Rightarrow> apiValue result \<times> 'z store_scheme" where
  "ChildAgentController E now (CG_getRules c) s = (Inr (V_rules (getRules_Agent c s)), s)"
| "ChildAgentController E now (CG_getCommands d) s = (case getCommands now d s of (cs, s1) \<Rightarrow> (Inr (V_commands cs), s1))"
| "ChildAgentController E now (CG_acknowledgeCommand dto) s =
     validated (CommandAckDto_ok (en_valid E) dto) (mapResult V_ack (acknowledgeCommand_Agent now dto s)) s"
| "ChildAgentController E now (CG_reportUsage dto) s =
     validated (UsageLogFromAgentDto_ok (en_valid E) dto) (mapResult V_usageLog (reportUsage now dto s)) s"
| "ChildAgentController E now (CG_requestMoreTime dto) s =
     validated (RequestMoreTimeDto_ok (en_valid E) dto) (mapResult (\<lambda>_. V_unit) (requestMoreTime (en_fcm E) now dto s)) s"
| "ChildAgentController E now (CG_reportStatus dto) s =
     validated (ChildStatusDto_ok (en_valid E) dto) (mapResult (\<lambda>_. V_unit) (reportStatus now dto s)) s"

text \<open>The OAuth callback takes the account from the query parameter \<open>state\<close>.\<close>

definition microsoftCallback ::
  "'c apiEnv \<Rightarrow> time \<Rightarrow> string \<Rightarrow> ident \<Rightarrow> 'z store_scheme \<Rightarrow> apiValue result \<times> 'z store_scheme" where
  "microsoftCallback E now code state s =
     mapResult V_outcome (handleMicrosoftCallback (en_crypto E) (en_key E) (en_oauth E) (en_fetch E) (en_ivs E) now state code s)"

definition DnsPolicyController ::
  "'c apiEnv \<Rightarrow> time \<Rightarrow> string \<Rightarrow> string \<Rightarrow> ('c, 'z) gstore_scheme \<Rightarrow> apiValue result \<times> ('c, 'z) gstore_scheme" where
  "DnsPolicyController E now sourceIp domain s =
     (case checkPolicy (en_cache E) (en_strict E) now sourceIp domain s of (d, s1) \<Rightarrow> (Inr (V_policy d), s1))"

definition DnsPairController ::
  "'c apiEnv \<Rightarrow> time \<Rightarrow> ConfirmPairingDto \<Rightarrow> 'z store_scheme \<Rightarrow> apiValue result \<times> 'z store_scheme" where
  "DnsPairController E now dto s =
     validated (ConfirmPairingDto_ok (en_valid E) dto) (mapResult V_deviceId (confirmProbe now dto s)) s"

text \<open>The platform matrix and the guides are static and need no account.\<close>

datatype guideRoute = GU_matrix | GU_one string | GU_guides | GU_guide string | GU_offlineGuide string

fun PlatformSupportController :: "guideRoute \<Rightarrow> apiValue result" where
  "PlatformSupportController GU_matrix = Inr (V_platforms matrix_Platform)"
| "PlatformSupportController (GU_one deviceType) = map_sum id V_platform (one_Platform deviceType)"
| "PlatformSupportController GU_guides = Inr (V_guides SETUP_GUIDES)"
| "PlatformSupportController (GU_guide platform) = map_sum id V_guide (guide_Platform platform)"
| "PlatformSupportController (GU_offlineGuide deviceType) = map_sum id V_offlineGuide (getGuide deviceType)"

datatype publicRoute =
    P_auth authRoute | P_child childAgentRoute | P_microsoftCallback string ident | P_checkDns string string
  | P_confirmPairing ConfirmPairingDto | P_guides guideRoute | P_legal pageRequest legalRoute

fun servePublic ::
  "'c apiEnv \<Rightarrow> time \<Rightarrow> publicRoute \<Rightarrow> ('c, 'z) gstore_scheme \<Rightarrow> apiValue result \<times> ('c, 'z) gstore_scheme" where
  "servePublic E now (P_auth r) s = AuthController E now r s"
| "servePublic E now (P_child r) s = ChildAgentController E now r s"
| "servePublic E now (P_microsoftCallback code state) s = microsoftCallback E now code state s"
| "servePublic E now (P_checkDns sourceIp domain) s = DnsPolicyController E now sourceIp domain s"
| "servePublic E now (P_confirmPairing dto) s = DnsPairController E now dto s"
| "servePublic E now (P_guides r) s = (PlatformSupportController r, s)"
| "servePublic E now (P_legal request r) s = mapResult V_html (LegalController (en_valid E) now request r s)"

section \<open>An example deployment\<close>

definition demoApi :: "mapStore apiEnv" where
  "demoApi = \<lparr>en_cache = mapCache, en_strict = False, en_tz = 0, en_tokens = plainTokens, en_auth = demoConfig, en_salt = [],
     en_fcm = flakyFcm, en_crypto = hexCipher, en_key = [1], en_iv = replicate 16 0, en_ivs = sampleIvs, en_oauth = msEnv,
     en_fetch = msFetch ''tok'' None, en_pair = noEnv, en_byDomain = id, en_ruleJson = (\<lambda>_. JNull),
     en_valid = \<lparr>vl_isUUID = (\<lambda>_. True), vl_isIP = (\<lambda>_. True), vl_isMACAddress = (\<lambda>_. True), vl_isEmail = (\<lambda>_. True)\<rparr>\<rparr>"

definition apiStore :: "mapStore gstore" where
  "apiStore = dnsStore\<lparr>users := [msUser ''x'', msUser ''b''], devices := [bareDevice ''d'' ''x'' ''c'', bareDevice ''e'' ''b'' ''k'']\<rparr>"

lemma apiStore_tables:
  "users apiStore = [msUser ''x'', msUser ''b'']" "devices apiStore = [bareDevice ''d'' ''x'' ''c'', bareDevice ''e'' ''b'' ''k'']"
  "oauthAccounts apiStore = []" "gateways apiStore = []" "bandwidthLimits apiStore = []" "notifications apiStore = []"
  "distinct (map chd_id (children apiStore))"
  by (simp_all add: apiStore_def dnsStore_def store.defs demoStore_def emptyStore_def)

end
