(* ===== verification/Isolation.thy ===== *)
theory Isolation
  imports Api
begin

text \<open>
  Tenant isolation over the whole parent interface: whatever a parent asks for, the accounts, children,
  devices, gateways, limits and notifications of every other parent stay as they are. Two columns of a foreign
  device are excepted, its child and its gateway: a device may refer to a child or a gateway of another
  parent, since device registration does not check who owns them, and loses the reference when that row goes.
\<close>

section \<open>Rows of other parents\<close>

definition unlinked :: "Device \<Rightarrow> Device" where
  "unlinked d = d\<lparr>dev_childId := None, dev_gatewayId := None\<rparr>"

type_synonym tenantRows =
  "User list \<times> Child list \<times> Device list \<times> Gateway list \<times> BandwidthLimit list \<times> NotificationEvent list \<times> BlockedDomain list"

definition tables :: "'z store_scheme \<Rightarrow> tenantRows" where
  "tables s = (users s, children s, devices s, gateways s, bandwidthLimits s, notifications s, blockedDomains s)"

definition foreignRows :: "ident \<Rightarrow> 'z store_scheme \<Rightarrow> tenantRows" where
  "foreignRows p s =
     (findMany (\<lambda>u. usr_id u \<noteq> p) (users s), findMany (\<lambda>c. chd_parentId c \<noteq> p) (children s),
      map unlinked (findMany (\<lambda>d. dev_parentId d \<noteq> p) (devices s)), findMany (\<lambda>g. gwy_parentId g \<noteq> p) (gateways s),
      findMany (\<lambda>b. bwl_parentId b \<noteq> p) (bandwidthLimits s), findMany (\<lambda>n. nev_userId n \<noteq> p) (notifications s), blockedDomains s)"

definition api_keys :: "'z store_scheme \<Rightarrow> bool" where
  "api_keys s \<longleftrightarrow>
     distinct (map chd_id (children s)) \<and> distinct (map dev_id (devices s)) \<and> distinct (map gwy_id (gateways s)) \<and>
     distinct (map bwl_id (bandwidthLimits s)) \<and> distinct (map nev_id (notifications s))"

lemma foreign_tables: "tables s' = tables s \<Longrightarrow> foreignRows p s' = foreignRows p s"
  by (simp add: tables_def foreignRows_def)

text \<open>A write to the row found under a key, when that row is the parent's own.\<close>

lemma findMany_own_update:
  assumes "distinct (map key rows)" "findUnique key i rows = Some r" "owner r = p" "\<And>x. owner (f x) = owner x"
  shows "findMany (\<lambda>x. owner x \<noteq> p) (updateMany (\<lambda>x. key x = i) f rows) = findMany (\<lambda>x. owner x \<noteq> p) rows"
proof (rule findMany_updateMany_irrelevant)
  fix x assume "x \<in> set rows" "key x = i"
  moreover have "r \<in> set rows" "key r = i" using findUnique_Some_iff [OF assms(2)] by simp_all
  ultimately have "x = r" using distinct_map_inj [OF assms(1)] by auto
  with assms(3,4) show "\<not> owner x \<noteq> p \<and> \<not> owner (f x) \<noteq> p" by simp
qed

lemma findMany_own_delete:
  assumes "distinct (map key rows)" "findUnique key i rows = Some r" "owner r = p"
  shows "findMany (\<lambda>x. owner x \<noteq> p) (deleteMany (\<lambda>x. key x = i) rows) = findMany (\<lambda>x. owner x \<noteq> p) rows"
proof -
  have "owner x = p" if "x \<in> set rows" "key x = i" for x
    using findUnique_Some_iff [OF assms(2)] distinct_map_inj [OF assms(1)] that assms(3) by auto
  then show ?thesis by (auto simp: findMany_def deleteMany_def intro: filter_cong)
qed

lemma findMany_deleteMany_own: "(\<And>x. P x \<Longrightarrow> \<not> Q x) \<Longrightarrow> findMany Q (deleteMany P rows) = findMany Q rows"
  by (auto simp: findMany_def deleteMany_def intro: filter_cong)

lemma foreign_updateDevice:
  assumes "api_keys s" "ownDevice p i s = Inr d" "\<And>x. dev_parentId (f x) = dev_parentId x"
  shows "foreignRows p (updateDevice i f s) = foreignRows p s"
  using assms findMany_own_update [of dev_id "devices s" i d dev_parentId p f]
  by (simp add: foreignRows_def api_keys_def ownDevice_def tbl_simps updateDevice_def)

lemma foreign_append_device: "dev_parentId d = p \<Longrightarrow> foreignRows p (s\<lparr>devices := devices s @ [d]\<rparr>) = foreignRows p s"
  by (simp add: foreignRows_def)

lemma foreign_drawId [simp]: "foreignRows p (drawId s) = foreignRows p s"
  by (simp add: foreignRows_def drawId_def)

lemma drawId_limits [simp]: "bandwidthLimits (drawId s) = bandwidthLimits s" "pushTokens (drawId s) = pushTokens s"
  by (simp_all add: drawId_def)

lemma tables_write [simp]:
  "tables (s\<lparr>unknownDomains := x1\<rparr>) = tables s"
  "tables (s\<lparr>sessions := x2\<rparr>) = tables s"
  "tables (s\<lparr>rules := x3\<rparr>) = tables s"
  "tables (s\<lparr>commands := x4\<rparr>) = tables s"
  "tables (s\<lparr>commandAcks := x5\<rparr>) = tables s"
  "tables (s\<lparr>pushTokens := x6\<rparr>) = tables s"
  "tables (s\<lparr>oauthAccounts := x7\<rparr>) = tables s"
  "tables (s\<lparr>checklists := x8\<rparr>) = tables s"
  "tables (s\<lparr>pairingSessions := x9\<rparr>) = tables s"
  "tables (s\<lparr>ipHistory := x10\<rparr>) = tables s"
  "tables (s\<lparr>connectionEvents := x11\<rparr>) = tables s"
  "tables (s\<lparr>routerCommands := x12\<rparr>) = tables s"
  "tables (s\<lparr>detectedRouters := x13\<rparr>) = tables s"
  "tables (s\<lparr>vpnDetections := x14\<rparr>) = tables s"
  "tables (s\<lparr>categoryBlocks := x15\<rparr>) = tables s"
  "tables (s\<lparr>usageLogs := x16\<rparr>) = tables s"
  "tables (s\<lparr>subscriptions := x17\<rparr>) = tables s"
  "tables (s\<lparr>auditLogs := x18\<rparr>) = tables s"
  "tables (s\<lparr>jobs := x19\<rparr>) = tables s"
  by (simp_all add: tables_def)

lemma tables_drawId [simp]: "tables (drawId s) = tables s"
  by (simp add: tables_def drawId_def)

lemma foreign_auditLog [simp]: "foreignRows p (auditLog now a s) = foreignRows p s"
  by (simp add: foreignRows_def auditLog_def)

lemma tables_auditLog [simp]: "tables (auditLog now a s) = tables s"
  by (simp add: tables_def auditLog_def)

lemma tables_bumpVersion [simp]: "tables (bumpVersion C now ip s) = tables s"
  by (simp add: tables_def bumpVersion_def cset_def)

lemma tables_invalidate [simp]: "tables (invalidateSourceIps C now ips s) = tables s"
  by (induction ips arbitrary: s) (simp_all split: option.split)

section \<open>Operations that write none of these tables\<close>

lemma tables_queues: "queues_for d s s' \<Longrightarrow> tables s' = tables s"
  by (auto simp: queues_for_def tables_def)

lemma tables_enqueueRouter [simp]: "tables (snd (enqueueCommand_Router now g ty payload d s)) = tables s"
  by (simp add: enqueueCommand_Router_def Let_def tables_def)

lemma tables_strategy [simp]: "tables (snd (enqueueStrategyCommand now g d ty pr s)) = tables s"
  using tables_enqueueRouter [of now g ty _ "Some d" s]
  by (simp add: enqueueStrategyCommand_def Let_def logFallbackAudit_def case_prod_beta)

lemma tables_sync [simp]: "tables (snd (syncToRouter now d b s)) = tables s"
  by (simp add: syncToRouter_def Let_def syncBlockToRouter_def syncUnblockToRouter_def)

lemma tables_upsertRouter [simp]: "tables (snd (upsertRouter g new upd s)) = tables s"
  by (simp add: upsertRouter_def tables_def split: option.split)

lemma tables_enqueueOwned [simp]: "tables (snd (enqueueOwned now p g ty payload s)) = tables s"
  by (simp add: enqueueOwned_def case_prod_beta split: sum.split)

lemma tables_router: "tables (snd (RouterIntegrationController E now p r s)) = tables s"
  by (cases r) (simp_all add: snd_validated setup_Router_def endGamingSession_def testConnection_def triggerDetection_def
      changeDns_def blockMac_def unblockMac_def Let_def case_prod_beta split: sum.split)

lemma tables_updateSession [simp]: "tables (updateSession i f s) = tables s"
  by (simp add: tables_def updateSession_def)

lemma tables_sessions: "tables (snd (SessionsController E now p r s)) = tables s"
proof (cases r)
  case (SS_start dto)
  have "tables (snd (start (en_tz E) now p dto s)) = tables s"
    by (simp add: start_def Let_def tables_def split: sum.split option.split)
  with SS_start show ?thesis by (simp add: snd_validated)
qed (auto simp: snd_validated pause_def resume_def extend_Session_def stop_def writeSession_def Let_def split: sum.split)

lemma tables_rules: "tables (snd (RulesController E p r s)) = tables s"
  by (cases r) (auto simp: snd_validated create_Rule_def update_Rule_def remove_Rule_def tables_def Let_def split: sum.split)

lemma tables_oauth: "tables (snd (OAuthController E now p r s)) = tables s"
  by (cases r) (auto simp: refreshMicrosoftToken_def tables_def split: sum.split option.split prod.split)

lemma tables_push: "tables (snd (PushController now p r s)) = tables s"
  by (cases r) (simp_all add: snd_validated registerToken_def removeToken_def tables_def)

lemma tables_upsertCategory [simp]: "tables (upsertCategoryBlock c cat act r s) = tables s"
  by (simp add: upsertCategoryBlock_def tables_def)

lemma tables_categories: "requiredRoles (R_categories r) = None \<Longrightarrow> tables (snd (CategoriesController E p r s)) = tables s"
  by (cases r) (auto simp: setCategoryBlock_def split: sum.split)

text \<open>The operations of administrators write the blocklist and the log of unknown domains only.\<close>

definition tenantTables :: "'z store_scheme \<Rightarrow> User list \<times> Child list \<times> Device list \<times> Gateway list \<times> BandwidthLimit list \<times> NotificationEvent list" where
  "tenantTables s = (users s, children s, devices s, gateways s, bandwidthLimits s, notifications s)"

lemma tenantTables_write [simp]:
  "tenantTables (s\<lparr>blockedDomains := x\<rparr>) = tenantTables s" "tenantTables (s\<lparr>unknownDomains := y\<rparr>) = tenantTables s"
  "tenantTables (drawId s) = tenantTables s"
  by (simp_all add: tenantTables_def)

lemma tenantTables_addDomain [simp]: "tenantTables (snd (addDomain d c w s)) = tenantTables s"
  by (simp add: addDomain_def Let_def split: option.split)

lemma tenantTables_createMany [simp]: "tenantTables (snd (createManyDomains ds s)) = tenantTables s"
  by (induction ds s rule: createManyDomains.induct) (simp_all add: case_prod_beta)

lemma tenantTables_domains: "tenantTables (snd (AdminDomainsController r s)) = tenantTables s"
  by (cases r) (simp_all add: case_prod_beta classifyUnknownDomain_def Let_def)

lemma tenantTables_admin: "requiredRoles r \<noteq> None \<Longrightarrow> tenantTables (snd (route E now p r s)) = tenantTables s"
  by (cases r rule: requiredRoles.cases)
    (simp_all add: case_prod_beta bulkImport_def deleteDomain_def tenantTables_domains split: option.split)

section \<open>Operations on the parent's own rows\<close>

lemma unlinked_child: "map unlinked (findMany (\<lambda>d. dev_parentId d \<noteq> p) (updateMany P (\<lambda>d. d\<lparr>dev_childId := None\<rparr>) ds)) =
    map unlinked (findMany (\<lambda>d. dev_parentId d \<noteq> p) ds)"
  by (induction ds) (auto simp: unlinked_def)

lemma unlinked_gateway: "map unlinked (findMany (\<lambda>d. dev_parentId d \<noteq> p) (updateMany P (\<lambda>d. d\<lparr>dev_gatewayId := None\<rparr>) ds)) =
    map unlinked (findMany (\<lambda>d. dev_parentId d \<noteq> p) ds)"
  by (induction ds) (auto simp: unlinked_def)

lemma foreign_children:
  assumes "api_keys s"
  shows "foreignRows p (snd (ChildrenController p r s)) = foreignRows p s"
proof -
  have own: "findUnique chd_id i (children s) = Some c \<and> chd_parentId c = p" if "findOne_Child p i s = Inr c" for i c
    using that by (simp add: findOne_Child_def tbl_simps)
  have k: "distinct (map chd_id (children s))" using assms by (simp add: api_keys_def)
  note upd = findMany_own_update [of chd_id "children s" _ _ chd_parentId, OF k] and del = findMany_own_delete [of chd_id "children s" _ _ chd_parentId, OF k]
  show ?thesis
  proof (cases r)
    case (CH_update i dto)
    then show ?thesis using upd [where f = "applyUpdateChild dto"]
      by (auto simp: snd_validated update_Child_def foreignRows_def applyUpdateChild_def dest!: own split: sum.split)
  next
    case (CH_remove i)
    then show ?thesis using del
      by (auto simp: remove_Child_def deleteChildren_def Let_def foreignRows_def unlinked_child dest!: own split: sum.split)
  qed (simp_all add: snd_validated create_Child_def Let_def foreignRows_def)
qed

lemma foreign_deleteDevices:
  assumes "\<And>d. d \<in> set (devices s) \<Longrightarrow> P d \<Longrightarrow> dev_parentId d = p"
  shows "foreignRows p (deleteDevices P s) = foreignRows p s"
proof -
  have "findMany (\<lambda>d. dev_parentId d \<noteq> p) (deleteMany P (devices s)) = findMany (\<lambda>d. dev_parentId d \<noteq> p) (devices s)"
    using assms by (auto simp: findMany_def deleteMany_def intro: filter_cong)
  then show ?thesis by (simp add: deleteDevices_def deleteCommands_def Let_def foreignRows_def)
qed

lemma foreign_invalidate [simp]: "foreignRows p (invalidateSourceIps C now ips s) = foreignRows p s"
  by (rule foreign_tables) simp

lemma foreign_invalidateDevice [simp]: "foreignRows p (invalidateDnsCacheForDevice C now d s) = foreignRows p s"
  unfolding invalidateDnsCacheForDevice_def by (rule foreign_invalidate)

lemma foreign_devices:
  assumes "api_keys s"
  shows "foreignRows p (snd (DevicesController E now p r s)) = foreignRows p s"
proof -
  note upd = foreign_updateDevice [OF assms]
  have rm: "dev_parentId d' = p" if "ownDevice p i s = Inr d" "d' \<in> set (devices s)" "dev_id d' = i" for i d d'
    using that assms distinct_map_inj [of dev_id "devices s"]
    by (auto simp: ownDevice_def tbl_simps api_keys_def dest!: findUnique_Some_iff)
  show ?thesis
  proof (cases r)
    case (DV_create dto)
    then show ?thesis
      by (simp add: snd_validated create_Device_def Let_def foreignRows_def defaultDevice_def)
  next
    case (DV_update i dto)
    then show ?thesis
      by (auto simp: snd_validated update_Device_def applyUpdateDevice_def intro!: upd split: sum.split)
  next
    case (DV_remove i)
    then show ?thesis
      using rm by (auto simp: remove_Device_def intro!: foreign_deleteDevices split: sum.split)
  qed (auto simp: lockInternet_def unlockInternet_def Let_def intro!: upd split: sum.split)
qed

lemma foreign_protection:
  assumes "api_keys s"
  shows "foreignRows p (snd (ProtectionController now p r s)) = foreignRows p s"
proof -
  note upd = foreign_updateDevice [OF assms]
  have calc: "foreignRows p (snd (calculateProtectionScore now i s)) = foreignRows p s" if "ownDevice p i s = Inr d" for i d
    using upd [OF that] by (simp add: calculateProtectionScore_def Let_def split: option.split)
  show ?thesis
  proof (cases r)
    case (PT_score i)
    then show ?thesis by (cases "ownDevice p i s") (simp_all add: getProtectionScore_def calc)
  next
    case (PT_insights i)
    then show ?thesis
      using calc by (auto simp: getInsights_def Let_def split: sum.split prod.split) (metis snd_conv)+
  qed (auto simp: snd_validated upsertSchedule_def applySchedule_def intro!: upd split: sum.split)
qed

lemma foreign_offline:
  assumes "api_keys s"
  shows "foreignRows p (snd (OfflineControlController now p r s)) = foreignRows p s"
proof (cases r)
  case (OF_checklist i dto)
  have "tables (snd (upsertChecklist p i dto s)) = tables s" by (simp add: upsertChecklist_def split: sum.split option.split)
  from foreign_tables [OF this, of p] OF_checklist show ?thesis by simp
qed (auto simp: setSetupStatus_def Let_def intro!: foreign_updateDevice [OF assms] split: sum.split)

lemma foreign_limits:
  assumes "api_keys s"
  shows "foreignRows p (snd (BandwidthController E now p r s)) = foreignRows p s"
proof -
  have own: "findUnique bwl_id i (bandwidthLimits s) = Some b \<and> bwl_parentId b = p" if "findOne_Bandwidth p i s = Inr b" for i b
    using that by (simp add: findOne_Bandwidth_def findBandwidth_def tbl_simps)
  have k: "distinct (map bwl_id (bandwidthLimits s))" using assms by (simp add: api_keys_def)
  note upd = findMany_own_update [of bwl_id "bandwidthLimits s" _ _ bwl_parentId, OF k]
    and del = findMany_own_delete [of bwl_id "bandwidthLimits s" _ _ bwl_parentId, OF k]
  show ?thesis
  proof (cases r)
    case (BW_create dto)
    then show ?thesis
      by (simp add: snd_validated create_Bandwidth_def Let_def foreignRows_def split: sum.split)
  next
    case (BW_update i dto)
    then show ?thesis using upd [where f = "applyUpdateBandwidth dto"]
      by (auto simp: snd_validated update_Bandwidth_def foreignRows_def applyUpdateBandwidth_def dest!: own split: sum.split)
  next
    case (BW_remove i)
    then show ?thesis using del by (auto simp: remove_Bandwidth_def foreignRows_def dest!: own split: sum.split)
  qed simp_all
qed

lemma authorise_own: "authorise i (Some p) s = Inr d \<Longrightarrow> p \<noteq> [] \<Longrightarrow> ownDevice p i s = Inr d \<and> dev_id d = i"
  by (auto simp: authorise_def ownDevice_def owned_def split: option.splits if_splits dest: findUnique_Some_iff)

lemma foreign_applyStatus:
  assumes "api_keys s" "ownDevice p (dev_id d) s = Inr d"
  shows "foreignRows p (snd (applyStatus C now b d q x r s)) = foreignRows p s"
proof -
  let ?s1 = "updateDevice (dev_id d) (\<lambda>d. d\<lparr>dev_status := (if b then DEV_BLOCKED else DEV_ONLINE)\<rparr>) s"
  have "tables (snd (applyStatus C now b d q x r s)) = tables ?s1"
    by (simp add: applyStatus_def Let_def case_prod_beta invalidateDnsCache_def del: invalidateSourceIps.simps)
  then have "foreignRows p (snd (applyStatus C now b d q x r s)) = foreignRows p ?s1" by (rule foreign_tables)
  also have "\<dots> = foreignRows p s" by (rule foreign_updateDevice [OF assms]) simp
  finally show ?thesis .
qed

lemma queues_keep:
  assumes "queues_for d s s'"
  shows "foreignRows p s' = foreignRows p s" "api_keys s' = api_keys s" "ownDevice p i s' = ownDevice p i s"
  using foreign_tables [OF tables_queues [OF assms]] tables_queues [OF assms]
  by (simp_all add: tables_def api_keys_def ownDevice_def)

lemma foreign_adapter_block:
  assumes "api_keys s" "ownDevice p (dev_id d) s = Inr d" "queues_for d s s1"
  shows "foreignRows p (if ok then snd (applyStatus C now b d q x r s1) else s1) = foreignRows p s"
  using foreign_applyStatus [of s1 p d C now b q x r] assms queues_keep [OF assms(3)] by simp

lemma foreign_enforcement:
  assumes "api_keys s" "p \<noteq> []"
  shows "foreignRows p (snd (EnforcementController E now p r s)) = foreignRows p s"
proof -
  have b: "foreignRows p (snd (blockDevice C now i reason (Some p) s)) = foreignRows p s" for C i reason
  proof (cases "authorise i (Some p) s")
    case (Inr d)
    then have "ownDevice p (dev_id d) s = Inr d" using authorise_own [OF Inr assms(2)] by simp
    from foreign_adapter_block [OF assms(1) this adapter_queues(3)] Inr show ?thesis
      by (simp add: blockDevice_def case_prod_beta if_distrib cong: if_cong)
  qed (simp add: blockDevice_def)
  have u: "foreignRows p (snd (unblockDevice C now i (Some p) s)) = foreignRows p s" for C i
  proof (cases "authorise i (Some p) s")
    case (Inr d)
    then have "ownDevice p (dev_id d) s = Inr d" using authorise_own [OF Inr assms(2)] by simp
    from foreign_adapter_block [OF assms(1) this adapter_queues(4)] Inr show ?thesis
      by (simp add: unblockDevice_def case_prod_beta if_distrib cong: if_cong)
  qed (simp add: unblockDevice_def)
  have y: "foreignRows p (snd (syncRules js now i (Some p) s)) = foreignRows p s" for js i
    by (simp add: syncRules_def Let_def case_prod_beta queues_keep(1) [OF adapter_queues(1)] split: sum.split)
  show ?thesis by (cases r) (simp_all add: snd_validated b u y)
qed

lemma foreign_pairing:
  assumes "api_keys s"
  shows "foreignRows p (snd (PairingController E now p r s)) = foreignRows p s"
proof -
  have st: "foreignRows p (snd (startPairing env now i p s)) = foreignRows p s" for env i
  proof (cases "ownedForPairing i p s")
    case (Inr d)
    have k: "tables (deleteWaitingSessionsForDevice i s) = tables s" by (simp add: deleteWaitingSessionsForDevice_def)
    let ?s = "snd (createSession now i p (newId (deleteWaitingSessionsForDevice i s)) (now + PAIR_TOKEN_TTL_MS) (drawId (deleteWaitingSessionsForDevice i s)))"
    have t: "tables ?s = tables s" using k by (simp add: createSession_def Let_def)
    have own: "api_keys ?s" "ownDevice p i ?s = Inr d"
      using Inr assms t by (simp_all add: api_keys_def ownDevice_def ownedForPairing_def findDeviceForOwner_def tables_def tbl_simps)
    have w: "foreignRows p (snd (setDevicePairStatus i st ?s)) = foreignRows p ?s" for st
      using foreign_updateDevice [OF own] by (simp add: setDevicePairStatus_def writeDevice_def split: option.split)
    show ?thesis
      by (simp add: startPairing_def Inr Let_def case_prod_beta w foreign_tables [OF t] split: sum.split)
  qed (simp add: startPairing_def)
  have "tables (snd (cancelPairing now i p s)) = tables s" for i
    by (simp add: cancelPairing_def deleteWaitingSessionsForDevice_def split: sum.split)
  note ca = foreign_tables [OF this]
  show ?thesis by (cases r) (simp_all add: snd_validated st ca)
qed

lemma foreign_gateways:
  assumes "api_keys s"
  shows "foreignRows p (snd (GatewayController E now p r s)) = foreignRows p s"
proof -
  have k: "distinct (map gwy_id (gateways s))" using assms by (simp add: api_keys_def)
  have own: "findUnique gwy_id i (gateways s) = Some g \<and> gwy_parentId g = p" if "ownGateway p i s = Inr g" for i g
    using that by (simp add: ownGateway_def tbl_simps)
  have upd: "foreignRows p (updateGateway i f s) = foreignRows p s"
    if "ownGateway p i s = Inr g" "\<And>x. gwy_parentId (f x) = gwy_parentId x" for i g f
    using findMany_own_update [of gwy_id "gateways s" i g gwy_parentId p f, OF k] own [OF that(1)] that(2)
    by (simp add: foreignRows_def updateGateway_def)
  have del: "findMany (\<lambda>x. gwy_parentId x \<noteq> p) (deleteMany (\<lambda>x. gwy_id x = i) (gateways s)) = findMany (\<lambda>x. gwy_parentId x \<noteq> p) (gateways s)"
    if "ownGateway p i s = Inr g" for i g
    using findMany_own_delete [of gwy_id "gateways s" i g gwy_parentId p, OF k] own [OF that] by simp
  have draw: "updateGateway i f (drawId s) = drawId (updateGateway i f s)" for i f
    by (simp add: updateGateway_def drawId_def)
  show ?thesis
  proof (cases r)
    case (GW_remove i)
    then show ?thesis by (cases "ownGateway p i s") (simp_all add: deleteGateway_def foreignRows_def unlinked_gateway del)
  next
    case (GW_register dto)
    then show ?thesis by (simp add: register_Gateway_def Let_def foreignRows_def)
  next
    case (GW_rotateToken i)
    then show ?thesis by (cases "ownGateway p i s") (simp_all add: rotateToken_def Let_def draw upd)
  next
    case (GW_rename i dto)
    then show ?thesis by (cases "ownGateway p i s") (simp_all add: renameGateway_def Let_def upd)
  next
    case (GW_pair dto)
    then show ?thesis by (cases "ownGateway p (pgd_gatewayId dto) s") (simp_all add: snd_validated pair_def Let_def upd)
  qed simp
qed

lemma foreign_users: "foreignRows p (updateUser p f s) = foreignRows p s" if "\<And>u. usr_id (f u) = usr_id u"
  using that by (auto simp: foreignRows_def updateUser_def intro!: findMany_updateMany_irrelevant)

lemma foreign_deleteUser: "foreignRows p (deleteUser p s) = foreignRows p s"
proof -
  have "foreignRows p (deleteDevices (\<lambda>d. dev_parentId d = p) s) = foreignRows p s" by (rule foreign_deleteDevices) simp
  then show ?thesis
    by (simp add: deleteUser_def deleteChildren_def deleteGateways_def Let_def foreignRows_def unlinked_child unlinked_gateway
        findMany_deleteMany_own)
qed

lemma foreign_parents: "foreignRows p (snd (ParentsController now p r s)) = foreignRows p s"
proof (cases r)
  case PR_deleteProfile
  have "usr_id u = p" if "findUser s p = Some u" for u using that by (auto dest: findUnique_Some_iff)
  then show ?thesis using PR_deleteProfile by (auto simp: deleteAccount_def foreign_deleteUser split: option.split)
qed (simp_all add: updateProfile_def Let_def foreign_users split: option.split)

lemma foreign_notifications:
  assumes "api_keys s"
  shows "foreignRows p (snd (NotificationsController p r s)) = foreignRows p s"
proof (cases r)
  case (NO_markRead i)
  have k: "distinct (map nev_id (notifications s))" using assms by (simp add: api_keys_def)
  have "nev_userId n = p" if "n \<in> set (notifications s)" "nev_id n = i"
      "findFirst (\<lambda>n. nev_id n = i \<and> nev_userId n = p) (notifications s) = Some m" for n m
    using that distinct_map_inj [OF k] by (auto dest!: findFirst_SomeD)
  then show ?thesis
    using NO_markRead
    by (auto simp: markReadForUser_def markRead_def foreignRows_def intro!: findMany_updateMany_irrelevant split: option.split)
qed simp

lemma foreign_route:
  assumes "api_keys s" "p \<noteq> []" "requiredRoles r = None"
  shows "foreignRows p (snd (route E now p r s)) = foreignRows p s"
proof (cases r)
  case (R_registerDevice dto)
  then show ?thesis by (simp add: snd_validated registerDevice_def Let_def foreignRows_def defaultDevice_def)
next
  case R_logout
  then show ?thesis by (simp add: logout_def foreign_users split: option.split)
next
  case (R_usage u)
  then show ?thesis by (cases u) simp_all
next
  case (R_admin a)
  then show ?thesis using assms(3) by simp
next
  case (R_categories c)
  then show ?thesis using assms(3) foreign_tables [OF tables_categories] by simp
qed (simp_all add: foreign_children foreign_devices foreign_protection foreign_offline foreign_limits foreign_enforcement
    foreign_pairing foreign_gateways foreign_parents foreign_notifications foreign_tables [OF tables_sessions]
    foreign_tables [OF tables_rules] foreign_tables [OF tables_push] foreign_tables [OF tables_oauth]
    foreign_tables [OF tables_router] assms)

section \<open>The rows of one parent\<close>

definition rowsOf :: "ident \<Rightarrow> 'z store_scheme \<Rightarrow> User list \<times> Child list \<times> Device list \<times> Gateway list \<times> BandwidthLimit list \<times> NotificationEvent list" where
  "rowsOf v s =
     (findMany (\<lambda>u. usr_id u = v) (users s), findMany (\<lambda>c. chd_parentId c = v) (children s),
      map unlinked (findMany (\<lambda>d. dev_parentId d = v) (devices s)), findMany (\<lambda>g. gwy_parentId g = v) (gateways s),
      findMany (\<lambda>b. bwl_parentId b = v) (bandwidthLimits s), findMany (\<lambda>n. nev_userId n = v) (notifications s))"

lemma findMany_within: "v \<noteq> p \<Longrightarrow> findMany (\<lambda>x. owner x = v) (findMany (\<lambda>x. owner x \<noteq> p) rows) = findMany (\<lambda>x. owner x = v) rows"
  by (auto simp: findMany_def intro: filter_cong)

lemma findMany_unlinked: "findMany (\<lambda>d. dev_parentId d = v) (map unlinked ds) = map unlinked (findMany (\<lambda>d. dev_parentId d = v) ds)"
  by (induction ds) (auto simp: unlinked_def)

lemma rowsOf_via:
  "v \<noteq> p \<Longrightarrow> rowsOf v t = (case foreignRows p t of (us, cs, ds, gs, bs, ns, _) \<Rightarrow>
      (findMany (\<lambda>u. usr_id u = v) us, findMany (\<lambda>c. chd_parentId c = v) cs, findMany (\<lambda>d. dev_parentId d = v) ds,
       findMany (\<lambda>g. gwy_parentId g = v) gs, findMany (\<lambda>b. bwl_parentId b = v) bs, findMany (\<lambda>n. nev_userId n = v) ns))"
  by (simp add: rowsOf_def foreignRows_def findMany_unlinked findMany_within)

lemma rowsOf_foreign: "foreignRows p s' = foreignRows p s \<Longrightarrow> v \<noteq> p \<Longrightarrow> rowsOf v s' = rowsOf v s"
  by (simp add: rowsOf_via [of v p])

text \<open>The guards and the handlers together: a refused request changes nothing, an admitted one only what belongs
  to its subject.\<close>

lemma serve_isolated:
  assumes "api_keys s"
  shows "case canActivate_Jwt (en_tokens E) (en_auth E) now authorization of
      Inl e \<Rightarrow> serve E now authorization r s = (Inl e, s)
    | Inr user \<Rightarrow> jwp_sub user \<noteq> [] \<longrightarrow>
        (\<forall>v. v \<noteq> jwp_sub user \<longrightarrow> rowsOf v (snd (serve E now authorization r s)) = rowsOf v s) \<and>
        (jwp_role user \<noteq> ADMIN \<longrightarrow> blockedDomains (snd (serve E now authorization r s)) = blockedDomains s)"
proof (cases "canActivate_Jwt (en_tokens E) (en_auth E) now authorization")
  case (Inr user)
  note guard = this
  let ?s = "snd (serve E now authorization r s)"
  have "?thesis" if p: "jwp_sub user \<noteq> []"
  proof (cases "requiredRoles r")
    case None
    then have f: "foreignRows (jwp_sub user) ?s = foreignRows (jwp_sub user) s"
      using guard foreign_route [OF assms p None] by (simp add: serve_def canActivate_Roles_def)
    then have "blockedDomains ?s = blockedDomains s" by (simp add: foreignRows_def)
    with guard rowsOf_foreign [OF f] show ?thesis by simp
  next
    case (Some rs)
    then have roles: "rs = [ADMIN]" by (cases r rule: requiredRoles.cases) auto
    have "rowsOf v ?s = rowsOf v s" for v
      using tenantTables_admin [of r E now "jwp_sub user" s] guard Some roles
      by (simp add: serve_def canActivate_Roles_def rowsOf_def tenantTables_def)
    with guard Some roles show ?thesis by (auto simp: serve_def canActivate_Roles_def)
  qed
  with guard show ?thesis by simp
qed (simp add: serve_def)

end
