(* ===== verification/Exposure.thy ===== *)
theory Exposure
  imports Api
begin

text \<open>
  What can be done without an account: the requests of \<open>servePublic\<close> carry no token. None of them weakens
  the protection of a family; but two endpoints act on the rows of anyone who is named in the request, the
  OAuth callback and the command poll of the child agent.
\<close>

section \<open>The policy of a store\<close>

text \<open>Who a device belongs to and every column that decides what is blocked on it.\<close>

definition policyOf :: "Device \<Rightarrow> (ident \<times> ident \<times> ident option \<times> ident option) \<times> (DeviceStatus \<times> bool \<times> string option \<times> BlockingMode) \<times>
    (int option \<times> string option \<times> string option \<times> bool) \<times> (bool \<times> bool) \<times> (string option \<times> string option)" where
  "policyOf d = ((dev_id d, dev_parentId d, dev_childId d, dev_gatewayId d), (dev_status d, dev_internetLocked d, dev_internetLockedReason d, dev_blockingMode d),
     (dev_dailyLimitMinutes d, dev_bedtimeStart d, dev_bedtimeEnd d, dev_autoBlockEnabled d), (dev_vpnBlockEnabled d, dev_quicBlockEnabled d),
     (dev_ipAddress d, dev_ipv6Address d))"

definition timeOf :: "Session \<Rightarrow> Session" where
  "timeOf x = x\<lparr>ses_activeApp := None\<rparr>"

definition policyRows :: "'z store_scheme \<Rightarrow> Child list \<times> Rule list \<times> Gateway list \<times> BandwidthLimit list \<times> CategoryBlock list \<times>
    BlockedDomain list \<times> _ list \<times> Session list" where
  "policyRows s = (children s, rules s, gateways s, bandwidthLimits s, categoryBlocks s, blockedDomains s,
     map policyOf (devices s), map timeOf (sessions s))"

lemma map_policy_update: "(\<And>d. policyOf (f d) = policyOf d) \<Longrightarrow> map policyOf (updateMany P f ds) = map policyOf ds"
  by (induction ds) auto

lemma map_time_update: "(\<And>x. timeOf (f x) = timeOf x) \<Longrightarrow> map timeOf (updateMany P f xs) = map timeOf xs"
  by (induction xs) auto

lemma policy_updateDevice: "(\<And>d. policyOf (f d) = policyOf d) \<Longrightarrow> policyRows (updateDevice i f s) = policyRows s"
  by (simp add: policyRows_def updateDevice_def map_policy_update)

lemma policy_write [simp]:
  "policyRows (s\<lparr>users := x0\<rparr>) = policyRows s" "policyRows (s\<lparr>subscriptions := x1\<rparr>) = policyRows s"
  "policyRows (s\<lparr>commands := x2\<rparr>) = policyRows s" "policyRows (s\<lparr>commandAcks := x3\<rparr>) = policyRows s"
  "policyRows (s\<lparr>usageLogs := x4\<rparr>) = policyRows s" "policyRows (s\<lparr>oauthAccounts := x5\<rparr>) = policyRows s"
  "policyRows (s\<lparr>dnsQueryLogs := x6\<rparr>) = policyRows s" "policyRows (s\<lparr>unknownDomains := x7\<rparr>) = policyRows s"
  "policyRows (s\<lparr>pairingSessions := x8\<rparr>) = policyRows s" "policyRows (s\<lparr>ipHistory := x9\<rparr>) = policyRows s"
  "policyRows (s\<lparr>connectionEvents := y0\<rparr>) = policyRows s" "policyRows (s\<lparr>notifications := y1\<rparr>) = policyRows s"
  "policyRows (s\<lparr>pushTokens := y2\<rparr>) = policyRows s" "policyRows (s\<lparr>auditLogs := y3\<rparr>) = policyRows s"
  "policyRows (s\<lparr>db_next := y4\<rparr>) = policyRows s"
  by (simp_all add: policyRows_def)

lemma policy_helpers [simp]:
  "policyRows (drawId s) = policyRows s" "policyRows (auditLog now a s) = policyRows s"
  "policyRows (updateUser i f s) = policyRows s"
  by (simp_all add: drawId_def auditLog_def updateUser_def)

section \<open>Every public operation keeps the policy\<close>

lemma policy_auth:
  "policyRows (snd (register L cfg salt now dto s)) = policyRows s"
  "policyRows (snd (login L cfg now ldto s)) = policyRows s"
  "policyRows (snd (refresh L cfg now token s)) = policyRows s"
  by (simp_all add: register_def login_def refresh_def refreshCommit_def issueTokens_def generateTokens_def Let_def
      split: option.split sum.split)

lemma policy_agent:
  "policyRows (snd (getCommands now d s)) = policyRows s"
  "policyRows (snd (acknowledgeCommand_Agent now adto s)) = policyRows s"
  by (simp_all add: getCommands_def acknowledgeCommand_Agent_def Let_def split: option.split)

lemma policy_seen [simp]:
  "policyRows (updateDevice i (\<lambda>d. d\<lparr>dev_lastSeen := v\<rparr>) s) = policyRows s"
  "policyRows (updateDevice i (\<lambda>d. d\<lparr>dev_lastDnsSeenAt := v\<rparr>) s) = policyRows s"
  "policyRows (updateDevice i (\<lambda>d. d\<lparr>dev_pairStatus := st\<rparr>) s) = policyRows s"
  by (simp_all add: policy_updateDevice policyOf_def)

lemma policy_usage: "policyRows (snd (reportUsage now dto s)) = policyRows s"
  by (simp add: reportUsage_def createLog_def Let_def split: option.split)

lemma policy_status: "policyRows (snd (reportStatus now dto s)) = policyRows s"
proof -
  have "policyRows (updateSession i (\<lambda>x. x\<lparr>ses_activeApp := v\<rparr>) t) = policyRows t" for i v and t :: "'a store_scheme"
    by (simp add: policyRows_def updateSession_def map_time_update timeOf_def)
  then show ?thesis by (simp add: reportStatus_def Let_def split: option.split)
qed

lemma policy_moreTime: "policyRows (snd (requestMoreTime F now dto s)) = policyRows s"
  by (simp add: requestMoreTime_def create_Notification_def deliver_def sendToUser_def Let_def split: option.split)

lemma policy_oauth: "policyRows (snd (handleMicrosoftCallback K key env fetch ivs now u code s)) = policyRows s"
  by (auto simp: handleMicrosoftCallback_def upsertAccount_def Let_def split: sum.split prod.split)

lemma policy_cset [simp]: "policyRows (cset C now k v ttl s) = policyRows s"
  by (simp add: policyRows_def cset_def)

lemma policy_dns_helpers [simp]:
  "policyRows (logQuery now d ip a s) = policyRows s" "policyRows (recordUnknownDomain now d ip i s) = policyRows s"
  "policyRows (touchHeartbeat C now i s) = policyRows s"
  by (simp_all add: logQuery_def recordUnknownDomain_def touchHeartbeat_def updateDnsSeen_def Let_def split: option.split)

lemma policy_block [simp]: "policyRows (snd (blockWith C now key d ip i r s)) = policyRows s"
  by (simp add: blockWith_def)

lemma policy_evaluate: "policyRows (snd (evaluatePolicy C strict now ip d key s)) = policyRows s"
  unfolding evaluatePolicy_def Let_def
  by (cases "findDeviceByIp ip s"; cases "findBlockedDomain d (cset C now (deviceIdKey ip) (CDeviceId (dev_id (the (findDeviceByIp ip s)))) 30000 s)")
    (simp_all split: option.split)

lemma policy_dns: "policyRows (snd (checkPolicy C strict now ip d s)) = policyRows s"
  by (simp add: checkPolicy_def policy_evaluate Let_def split: option.split CacheVal.split)

text \<open>A pairing probe writes the pairing columns, the DNS address and the time of the last query.\<close>

lemma policy_writeDevice: "(\<And>d. policyOf (f d) = policyOf d) \<Longrightarrow> policyRows (snd (writeDevice i f s)) = policyRows s"
  by (simp add: writeDevice_def policy_updateDevice split: option.split)

lemma policyOf_pairing [simp]: "policyOf (pairedDevice ip region now beacon d) = policyOf d" "policyOf (movedDevice ip now d) = policyOf d"
  by (simp_all add: policyOf_def pairedDevice_def movedDevice_def)

lemma policy_pairing_helpers [simp]:
  "policyRows (snd (setDevicePairStatus i st s)) = policyRows s"
  "policyRows (snd (markDevicePaired i ip region now beacon s)) = policyRows s"
  "policyRows (snd (applyIpChange i ip now s)) = policyRows s"
  "policyRows (snd (touchLastSeen i now s)) = policyRows s"
  by (simp_all add: setDevicePairStatus_def markDevicePaired_def applyIpChange_def touchLastSeen_def
      policy_writeDevice policy_updateDevice)

lemma policy_pairing_rows [simp]:
  "policyRows (upsertIpHistory i ip now s) = policyRows s" "policyRows (recordConnectionEvent now i ty ipo js s) = policyRows s"
  "policyRows (incrementSessionAttempts k s) = policyRows s" "policyRows (deleteSession k s) = policyRows s"
  by (simp_all add: upsertIpHistory_def recordConnectionEvent_def incrementSessionAttempts_def updatePairing_def deleteSession_def)

lemma policy_giveUp: "policyRows (snd (snd (giveUpSession session st msg s))) = policyRows s"
  using policy_pairing_helpers(1) [of "pse_deviceId session" st s]
  by (simp add: giveUpSession_def case_prod_beta split: sum.split)

lemma policy_giveUp_pending: "policyRows (fst (snd (giveUpSession session st msg s)) t) = policyRows t"
  by (simp add: giveUpSession_def markSessionStatus_def updatePairing_def case_prod_beta split: sum.split)

lemma policy_confirmBody:
  "policyRows (snd (snd (confirmBody now dto s))) = policyRows s" "policyRows (fst (snd (confirmBody now dto s)) t) = policyRows t"
  by (simp_all add: confirmBody_def policy_giveUp policy_giveUp_pending confirmWrites_def Let_def split: option.split sum.split)

lemma policy_confirm: "policyRows (snd (tryConfirmPairingSession now dto s)) = policyRows s"
  using policy_confirmBody [of now dto s]
  by (simp add: tryConfirmPairingSession_def runInTransaction_def case_prod_beta split: sum.split)

lemma policy_heartbeat: "policyRows (recordHeartbeat now i ip s) = policyRows s"
  by (simp add: recordHeartbeat_def runInTransaction_def split: option.split)

lemma policy_probe: "policyRows (snd (confirmProbe now dto s)) = policyRows s"
  using policy_confirm [of now dto s]
  by (simp add: confirmProbe_def policy_heartbeat case_prod_beta split: sum.split option.split)

lemma policy_AuthController: "policyRows (snd (AuthController E now r s)) = policyRows s"
  by (cases r) (simp_all add: snd_validated policy_auth)

lemma policy_ChildAgentController: "policyRows (snd (ChildAgentController E now r s)) = policyRows s"
  by (cases r) (simp_all add: snd_validated case_prod_beta policy_agent policy_usage policy_status policy_moreTime)

lemma policy_LegalController: "policyRows (snd (LegalController V now request r s)) = policyRows s"
  by (cases r) (simp_all add: snd_validated submitPrivacyRequest_def Let_def)

lemma policy_servePublic: "policyRows (snd (servePublic E now r s)) = policyRows s"
  by (cases r) (simp_all add: policy_AuthController policy_ChildAgentController microsoftCallback_def DnsPolicyController_def
      DnsPairController_def snd_validated case_prod_beta policy_oauth policy_dns policy_probe policy_LegalController)

section \<open>Properties\<close>


text \<open>C37: Anyone can poll a device's commands. The poll endpoint of the child agent asks for no credential
  and marks what it returns as delivered: after a poll by anyone who knows the identifier of a device, the
  agent on that device is given none of the commands that were pending.\<close>
theorem agent_poll_unauthenticated:
  "\<exists>cs. fst (servePublic E now (P_child (CG_getCommands d)) s) = Inr (V_commands cs) \<and>
     set cs = {c \<in> set (commands s). cmd_deviceId c = d \<and> cmd_status c = CMD_PENDING} \<and>
     fst (getCommands now' d (snd (servePublic E now (P_child (CG_getCommands d)) s))) = []"
proof -
  let ?P = "\<lambda>c. cmd_deviceId c = d \<and> cmd_status c = CMD_PENDING"
  let ?s = "snd (getCommands now d s)"
  have "\<not> ?P c" if c: "c \<in> set (commands ?s)" for c
  proof (cases "length (findMany ?P (commands s)) = 0")
    case True
    with c show ?thesis by (auto simp: getCommands_def Let_def findMany_empty_iff split: if_splits)
  next
    case False
    with c show ?thesis by (auto simp: getCommands_def Let_def in_updateMany_iff split: if_splits)
  qed
  then have "fst (getCommands now' d ?s) = []" by (simp add: getCommands_def [of now'] Let_def findMany_empty_iff)
  moreover have "set (fst (getCommands now d s)) = {c \<in> set (commands s). ?P c}" by (simp add: getCommands_def Let_def)
  ultimately show ?thesis by (simp add: case_prod_beta)
qed



end
