(* ===== verification/Server_Frame.thy ===== *)
theory Server_Frame
  imports Isolation Exposure Gateway_Api Scheduler
begin

text \<open>
  What every operation of the server keeps, whoever calls it: primary keys stay unique and drawn from the
  identifier tape, a terminated session stays terminated, no account gains the administrator role, and the
  cache only changes by queries of the resolver and by invalidations. One lemma per operation; the conditional
  rewrite rules compose them along the calls of the code.
\<close>

named_theorems safe_simps \<open>operations that keep the server invariant\<close>

section \<open>The invariant\<close>

definition drawnIds :: "'z store_scheme \<Rightarrow> ident set" where
  "drawnIds s = db_uuid s ` {..<db_next s}"

definition keyed :: "'z store_scheme \<Rightarrow> ident list \<Rightarrow> bool" where
  "keyed s ids \<longleftrightarrow> distinct ids \<and> set ids \<subseteq> drawnIds s"

definition server_keys :: "'z store_scheme \<Rightarrow> bool" where
  "server_keys s \<longleftrightarrow> inj (db_uuid s) \<and>
     keyed s (map usr_id (users s)) \<and> keyed s (map chd_id (children s)) \<and> keyed s (map dev_id (devices s)) \<and>
     keyed s (map ses_id (sessions s)) \<and> keyed s (map rul_id (rules s)) \<and> keyed s (map gwy_id (gateways s)) \<and>
     keyed s (map bwl_id (bandwidthLimits s)) \<and> keyed s (map nev_id (notifications s)) \<and>
     keyed s (map rcm_id (routerCommands s)) \<and> keyed s (map pse_id (pairingSessions s))"

text \<open>What a run is watched for: the contents of the cache, the sessions that are over and the accounts that may be
  administrators.\<close>

record 'c watch =
  w_cache :: "'c cacheOps"
  w_now :: time
  w_caches :: "'c set"
  w_over :: "ident set"
  w_admins :: "ident set"

definition over :: "ident set \<Rightarrow> 'z store_scheme \<Rightarrow> bool" where
  "over F s \<longleftrightarrow> F \<subseteq> drawnIds s \<and> (\<forall>x \<in> set (sessions s). ses_id x \<in> F \<longrightarrow> terminated (ses_status x))"

text \<open>The services other than the resolver write to the cache only to invalidate the decisions of addresses.\<close>

definition keeps_invalidations :: "'c watch \<Rightarrow> bool" where
  "keeps_invalidations W \<longleftrightarrow> (\<forall>(s :: 'c gstore) ips. dnsCache s \<in> w_caches W \<longrightarrow>
     dnsCache (invalidateSourceIps (w_cache W) (w_now W) ips s) \<in> w_caches W)"

definition rows_safe :: "'c watch \<Rightarrow> 'z store_scheme \<Rightarrow> bool" where
  "rows_safe W s \<longleftrightarrow> server_keys s \<and> over (w_over W) s \<and>
     (\<forall>u \<in> set (users s). usr_role u = ADMIN \<longrightarrow> usr_id u \<in> w_admins W)"

definition safe :: "'c watch \<Rightarrow> 'c gstore \<Rightarrow> bool" where
  "safe W s \<longleftrightarrow> rows_safe W s \<and> dnsCache s \<in> w_caches W \<and> keeps_invalidations W"

section \<open>Writes to one table\<close>

lemma newId_not_drawnIds: "inj (db_uuid s) \<Longrightarrow> newId s \<notin> drawnIds s"
  by (auto simp: drawnIds_def newId_def dest: injD)

lemma drawnIds_drawId: "drawnIds (drawId s) = insert (newId s) (drawnIds s)"
  by (auto simp: drawnIds_def newId_def drawId_def lessThan_Suc)

lemma drawId_cache [simp]: "dnsCache (drawId s) = dnsCache s"
  by (simp add: drawId_def)

lemma drawnIds_mono: "db_uuid s' = db_uuid s \<Longrightarrow> db_next s \<le> db_next s' \<Longrightarrow> drawnIds s \<subseteq> drawnIds s'"
  by (auto simp: drawnIds_def)

lemma drawnIds_write [simp]:
  "drawnIds (s\<lparr>users := x1\<rparr>) = drawnIds s" "drawnIds (s\<lparr>children := x2\<rparr>) = drawnIds s"
  "drawnIds (s\<lparr>devices := x3\<rparr>) = drawnIds s" "drawnIds (s\<lparr>sessions := x4\<rparr>) = drawnIds s"
  "drawnIds (s\<lparr>rules := x5\<rparr>) = drawnIds s" "drawnIds (s\<lparr>gateways := x6\<rparr>) = drawnIds s"
  "drawnIds (s\<lparr>bandwidthLimits := x7\<rparr>) = drawnIds s" "drawnIds (s\<lparr>notifications := x8\<rparr>) = drawnIds s"
  "drawnIds (s\<lparr>routerCommands := x9\<rparr>) = drawnIds s" "drawnIds (s\<lparr>pairingSessions := x10\<rparr>) = drawnIds s"
  by (simp_all add: drawnIds_def)

lemma keyed_write [simp]:
  "keyed (s\<lparr>users := x1\<rparr>) = keyed s" "keyed (s\<lparr>children := x2\<rparr>) = keyed s"
  "keyed (s\<lparr>devices := x3\<rparr>) = keyed s" "keyed (s\<lparr>sessions := x4\<rparr>) = keyed s"
  "keyed (s\<lparr>rules := x5\<rparr>) = keyed s" "keyed (s\<lparr>gateways := x6\<rparr>) = keyed s"
  "keyed (s\<lparr>bandwidthLimits := x7\<rparr>) = keyed s" "keyed (s\<lparr>notifications := x8\<rparr>) = keyed s"
  "keyed (s\<lparr>routerCommands := x9\<rparr>) = keyed s" "keyed (s\<lparr>pairingSessions := x10\<rparr>) = keyed s"
  by (simp_all add: keyed_def drawnIds_def fun_eq_iff)

lemma safe_other [simp]:
  "safe W (s\<lparr>pushTokens := y1\<rparr>) = safe W s" "safe W (s\<lparr>ipHistory := y2\<rparr>) = safe W s"
  "safe W (s\<lparr>connectionEvents := y3\<rparr>) = safe W s" "safe W (s\<lparr>unknownDomains := y4\<rparr>) = safe W s"
  "safe W (s\<lparr>vpnDetections := y5\<rparr>) = safe W s" "safe W (s\<lparr>checklists := y6\<rparr>) = safe W s"
  "safe W (s\<lparr>usageLogs := y7\<rparr>) = safe W s" "safe W (s\<lparr>commands := y8\<rparr>) = safe W s"
  "safe W (s\<lparr>commandAcks := y9\<rparr>) = safe W s" "safe W (s\<lparr>detectedRouters := y10\<rparr>) = safe W s"
  "safe W (s\<lparr>oauthAccounts := y11\<rparr>) = safe W s" "safe W (s\<lparr>auditLogs := y12\<rparr>) = safe W s"
  "safe W (s\<lparr>blockedDomains := y13\<rparr>) = safe W s" "safe W (s\<lparr>categoryBlocks := y14\<rparr>) = safe W s"
  "safe W (s\<lparr>dnsQueryLogs := y15\<rparr>) = safe W s" "safe W (s\<lparr>subscriptions := y16\<rparr>) = safe W s"
  "safe W (s\<lparr>jobs := y17\<rparr>) = safe W s"
  by (simp_all add: safe_def rows_safe_def server_keys_def keyed_def over_def drawnIds_def)

lemma safe_draw: "safe W s \<Longrightarrow> n \<ge> db_next s \<Longrightarrow> safe W (s\<lparr>db_next := n\<rparr>)"
  using drawnIds_mono [of "s\<lparr>db_next := n\<rparr>" s]
  by (auto simp: safe_def rows_safe_def server_keys_def keyed_def over_def)

lemma safe_drawId [safe_simps]: "safe W s \<Longrightarrow> safe W (drawId s)"
  by (simp add: drawId_def safe_draw)

definition among :: "ident list \<Rightarrow> ident list \<Rightarrow> bool" where
  "among ids' ids \<longleftrightarrow> (distinct ids \<longrightarrow> distinct ids') \<and> set ids' \<subseteq> set ids"

lemma among_refl [simp]: "among ids ids"
  by (simp add: among_def)

lemma among_delete [simp]: "among (map k xs) (map k ys) \<Longrightarrow> among (map k (deleteMany P xs)) (map k ys)"
  by (auto simp: among_def deleteMany_def distinct_map_filter)

lemma map_key_update [simp]: "(\<And>x. k (f x) = k x) \<Longrightarrow> map k (updateMany P f xs) = map k xs"
  by (induction xs) simp_all

lemma in_deleteMany_iff: "x \<in> set (deleteMany P rows) \<longleftrightarrow> x \<in> set rows \<and> \<not> P x"
  by (auto simp: deleteMany_def)

lemma keyed_among: "keyed s ids \<Longrightarrow> among ids' ids \<Longrightarrow> keyed s ids'"
  by (auto simp: keyed_def among_def)

lemmas safe_defs = safe_def rows_safe_def server_keys_def over_def

lemma safe_children [safe_simps]: "safe W s \<Longrightarrow> among (map chd_id xs) (map chd_id (children s)) \<Longrightarrow> safe W (s\<lparr>children := xs\<rparr>)"
  and safe_devices [safe_simps]: "safe W s \<Longrightarrow> among (map dev_id ds) (map dev_id (devices s)) \<Longrightarrow> safe W (s\<lparr>devices := ds\<rparr>)"
  and safe_rules [safe_simps]: "safe W s \<Longrightarrow> among (map rul_id rs) (map rul_id (rules s)) \<Longrightarrow> safe W (s\<lparr>rules := rs\<rparr>)"
  and safe_gateways [safe_simps]: "safe W s \<Longrightarrow> among (map gwy_id gs) (map gwy_id (gateways s)) \<Longrightarrow> safe W (s\<lparr>gateways := gs\<rparr>)"
  and safe_limits [safe_simps]: "safe W s \<Longrightarrow> among (map bwl_id bs) (map bwl_id (bandwidthLimits s)) \<Longrightarrow> safe W (s\<lparr>bandwidthLimits := bs\<rparr>)"
  and safe_notifications [safe_simps]: "safe W s \<Longrightarrow> among (map nev_id ns) (map nev_id (notifications s)) \<Longrightarrow> safe W (s\<lparr>notifications := ns\<rparr>)"
  and safe_routerCommands [safe_simps]: "safe W s \<Longrightarrow> among (map rcm_id cs) (map rcm_id (routerCommands s)) \<Longrightarrow> safe W (s\<lparr>routerCommands := cs\<rparr>)"
  and safe_pairingSessions [safe_simps]: "safe W s \<Longrightarrow> among (map pse_id ps) (map pse_id (pairingSessions s)) \<Longrightarrow> safe W (s\<lparr>pairingSessions := ps\<rparr>)"
  by (auto simp: safe_defs intro: keyed_among)

lemma safe_sessions:
  "safe W s \<Longrightarrow> among (map ses_id xs) (map ses_id (sessions s)) \<Longrightarrow>
   (\<And>x. x \<in> set xs \<Longrightarrow> ses_id x \<in> w_over W \<Longrightarrow> terminated (ses_status x)) \<Longrightarrow> safe W (s\<lparr>sessions := xs\<rparr>)"
  by (auto simp: safe_defs intro: keyed_among)

lemma safe_users:
  "safe W s \<Longrightarrow> among (map usr_id us) (map usr_id (users s)) \<Longrightarrow>
   (\<And>u. u \<in> set us \<Longrightarrow> usr_role u = ADMIN \<Longrightarrow> usr_id u \<in> w_admins W) \<Longrightarrow> safe W (s\<lparr>users := us\<rparr>)"
  by (auto simp: safe_defs intro: keyed_among)

lemma safe_over: "safe W s \<Longrightarrow> x \<in> set (sessions s) \<Longrightarrow> ses_id x \<in> w_over W \<Longrightarrow> terminated (ses_status x)"
  by (simp add: safe_defs)

lemma safe_admins: "safe W s \<Longrightarrow> u \<in> set (users s) \<Longrightarrow> usr_role u = ADMIN \<Longrightarrow> usr_id u \<in> w_admins W"
  by (simp add: safe_defs)

lemma safe_deleteSessions [safe_simps]: "safe W s \<Longrightarrow> xs = sessions s \<Longrightarrow> safe W (s\<lparr>sessions := deleteMany P xs\<rparr>)"
  using safe_over [of W s] by (auto simp: in_deleteMany_iff intro!: safe_sessions)

lemma safe_deleteUsers [safe_simps]: "safe W s \<Longrightarrow> us = users s \<Longrightarrow> safe W (s\<lparr>users := deleteMany P us\<rparr>)"
  using safe_admins [of W s] by (auto simp: in_deleteMany_iff intro!: safe_users)

text \<open>A created row has the next identifier of the tape.\<close>

lemma keyed_snoc: "inj (db_uuid s) \<Longrightarrow> keyed s ids \<Longrightarrow> keyed (drawId s') (ids @ [newId s])"
  if "db_uuid s' = db_uuid s" "db_next s' = db_next s"
  using that newId_not_drawnIds [of s] by (auto simp: keyed_def drawnIds_drawId drawnIds_def newId_def)

lemma keyed_draw: "keyed s ids \<Longrightarrow> keyed (drawId s') ids" if "db_uuid s' = db_uuid s" "db_next s' = db_next s"
  using that by (auto simp: keyed_def drawnIds_drawId drawnIds_def)

lemma safe_create_child [safe_simps]:
    "safe W s \<Longrightarrow> xs = children s \<Longrightarrow> chd_id c = newId s \<Longrightarrow> safe W (drawId (s\<lparr>children := xs @ [c]\<rparr>))"
  and safe_create_device [safe_simps]:
    "safe W s \<Longrightarrow> ds = devices s \<Longrightarrow> dev_id d = newId s \<Longrightarrow> safe W (drawId (s\<lparr>devices := ds @ [d]\<rparr>))"
  and safe_create_rule [safe_simps]:
    "safe W s \<Longrightarrow> rs = rules s \<Longrightarrow> rul_id r = newId s \<Longrightarrow> safe W (drawId (s\<lparr>rules := rs @ [r]\<rparr>))"
  and safe_create_gateway [safe_simps]:
    "safe W s \<Longrightarrow> gs = gateways s \<Longrightarrow> gwy_id g = newId s \<Longrightarrow> safe W (drawId (s\<lparr>gateways := gs @ [g]\<rparr>))"
  and safe_create_limit [safe_simps]:
    "safe W s \<Longrightarrow> bs = bandwidthLimits s \<Longrightarrow> bwl_id b = newId s \<Longrightarrow> safe W (drawId (s\<lparr>bandwidthLimits := bs @ [b]\<rparr>))"
  and safe_create_notification [safe_simps]:
    "safe W s \<Longrightarrow> ns = notifications s \<Longrightarrow> nev_id n = newId s \<Longrightarrow> safe W (drawId (s\<lparr>notifications := ns @ [n]\<rparr>))"
  and safe_create_routerCommand [safe_simps]:
    "safe W s \<Longrightarrow> cs = routerCommands s \<Longrightarrow> rcm_id e = newId s \<Longrightarrow> safe W (drawId (s\<lparr>routerCommands := cs @ [e]\<rparr>))"
  and safe_create_pairing [safe_simps]:
    "safe W s \<Longrightarrow> ps = pairingSessions s \<Longrightarrow> pse_id q = newId s \<Longrightarrow> safe W (drawId (s\<lparr>pairingSessions := ps @ [q]\<rparr>))"
  by (auto simp: safe_defs drawnIds_drawId intro: keyed_snoc keyed_draw)

lemma safe_create_session [safe_simps]:
  "safe W s \<Longrightarrow> xs = sessions s \<Longrightarrow> ses_id x = newId s \<Longrightarrow> safe W (drawId (s\<lparr>sessions := xs @ [x]\<rparr>))"
  using newId_not_drawnIds [of s] by (auto simp: safe_defs drawnIds_drawId intro: keyed_snoc keyed_draw)

lemma safe_create_user [safe_simps]:
  "safe W s \<Longrightarrow> us = users s \<Longrightarrow> usr_id u = newId s \<Longrightarrow> usr_role u \<noteq> ADMIN \<Longrightarrow> safe W (drawId (s\<lparr>users := us @ [u]\<rparr>))"
  by (auto simp: safe_defs drawnIds_drawId intro: keyed_snoc keyed_draw)

section \<open>Shared operations\<close>

lemma safe_updateDevice [safe_simps]:
  "safe W s \<Longrightarrow> (\<And>d. dev_id (f d) = dev_id d) \<Longrightarrow> safe W (updateDevice i f s)"
  by (simp add: updateDevice_def safe_simps)

lemma safe_updateGateway [safe_simps]:
  "safe W s \<Longrightarrow> (\<And>g. gwy_id (f g) = gwy_id g) \<Longrightarrow> safe W (updateGateway i f s)"
  by (simp add: updateGateway_def safe_simps)

lemma safe_updateUser [safe_simps]:
  assumes "safe W s" "\<And>u. usr_id (f u) = usr_id u" "\<And>u. usr_role (f u) = usr_role u"
  shows "safe W (updateUser i f s)"
  unfolding updateUser_def
  by (rule safe_users) (use assms safe_admins in \<open>auto simp: in_updateMany_iff\<close>)

lemma safe_updateSession [safe_simps]:
  assumes "safe W s" "\<And>x. ses_id (f x) = ses_id x"
    "\<And>x. x \<in> set (sessions s) \<Longrightarrow> ses_id x = i \<Longrightarrow> terminated (ses_status x) \<Longrightarrow> terminated (ses_status (f x))"
  shows "safe W (updateSession i f s)"
  unfolding updateSession_def
  by (rule safe_sessions) (use assms safe_over [OF assms(1)] in \<open>auto simp: in_updateMany_iff\<close>)

lemma safe_auditLog [safe_simps]: "safe W s \<Longrightarrow> safe W (auditLog now a s)"
  by (simp add: auditLog_def)

lemma safe_upsertCategory [safe_simps]: "safe W s \<Longrightarrow> safe W (upsertCategoryBlock c cat b r s)"
  by (simp add: upsertCategoryBlock_def)

lemma safe_notify [safe_simps]: "safe W s \<Longrightarrow> safe W (snd (create_Notification F now d s))"
  by (simp add: create_Notification_def Let_def deliver_def sendToUser_def safe_simps case_prod_beta)

text \<open>Writes to the cache, and the writes of a query: the query log, the heartbeat and the unknown domains.\<close>

definition keysOf :: "'z store_scheme \<Rightarrow> _" where
  "keysOf s = (users s, map chd_id (children s), map dev_id (devices s), sessions s, map rul_id (rules s), map gwy_id (gateways s),
     map bwl_id (bandwidthLimits s), map nev_id (notifications s), map rcm_id (routerCommands s), map pse_id (pairingSessions s),
     db_uuid s, db_next s)"

lemma rows_safe_keysOf: "keysOf s' = keysOf s \<Longrightarrow> rows_safe W s' = rows_safe W s"
  by (simp add: keysOf_def rows_safe_def server_keys_def keyed_def over_def drawnIds_def)

lemma keysOf_dns [simp]:
  "keysOf (cset C now k v ttl s) = keysOf s" "keysOf (logQuery now d ip a s) = keysOf s"
  "keysOf (recordUnknownDomain now d ip i s) = keysOf s" "keysOf (updateDnsSeen now i s) = keysOf s"
  by (simp_all add: keysOf_def cset_def logQuery_def recordUnknownDomain_def updateDnsSeen_def updateDevice_def Let_def)

lemma keysOf_heartbeat [simp]: "keysOf (touchHeartbeat C now i s) = keysOf s"
  by (simp add: touchHeartbeat_def split: option.split)

lemma keysOf_block [simp]: "keysOf (snd (blockWith C now key d ip i r s)) = keysOf s"
  by (simp add: blockWith_def)

lemma keysOf_invalidate [simp]: "keysOf (invalidateSourceIps C now ips s) = keysOf s"
  by (induction ips arbitrary: s) (simp_all add: bumpVersion_def split: option.split)

lemma keysOf_evaluate: "keysOf (snd (evaluatePolicy C strict now ip d key s)) = keysOf s"
proof (cases "findDeviceByIp ip s")
  case None
  then show ?thesis by (simp add: evaluatePolicy_def)
next
  case (Some dev)
  then show ?thesis by (rule evaluatePolicy_cases) simp_all
qed

lemma keysOf_checkPolicy: "keysOf (snd (checkPolicy C strict now ip d s)) = keysOf s"
  by (simp add: checkPolicy_def keysOf_evaluate Let_def split: option.split CacheVal.split)

lemma safe_invalidate [safe_simps]:
  assumes "safe W s" "C = w_cache W" "now = w_now W"
  shows "safe W (invalidateSourceIps C now ips s)"
  using assms rows_safe_keysOf [OF keysOf_invalidate, of W C now ips s] by (simp add: safe_def keeps_invalidations_def)

lemma safe_checkPolicy:
  assumes "safe W s" "dnsCache (snd (checkPolicy C strict now ip d s)) \<in> w_caches W"
  shows "safe W (snd (checkPolicy C strict now ip d s))"
  using assms rows_safe_keysOf [OF keysOf_checkPolicy, of W C strict now ip d s] by (simp add: safe_def)

lemma safe_queues: "queues_for d s s' \<Longrightarrow> safe W s \<Longrightarrow> safe W s'"
  by (auto simp: queues_for_def intro: safe_draw)

lemma safe_enqueueRouter [safe_simps]: "safe W s \<Longrightarrow> safe W (snd (enqueueCommand_Router now g ty pl d s))"
  by (simp add: enqueueCommand_Router_def Let_def safe_simps)

lemma safe_strategy [safe_simps]: "safe W s \<Longrightarrow> safe W (snd (enqueueStrategyCommand now g d ty pr s))"
  by (simp add: enqueueStrategyCommand_def Let_def logFallbackAudit_def case_prod_beta safe_simps)

lemma safe_sync [safe_simps]: "safe W s \<Longrightarrow> safe W (snd (syncToRouter now d b s))"
  by (simp add: syncToRouter_def Let_def syncBlockToRouter_def syncUnblockToRouter_def safe_simps)

lemma safe_deleteDevices [safe_simps]: "safe W s \<Longrightarrow> safe W (deleteDevices P s)"
  by (simp add: deleteDevices_def deleteCommands_def Let_def safe_simps)

lemma safe_deleteChildren [safe_simps]: "safe W s \<Longrightarrow> safe W (deleteChildren P s)"
  by (simp add: deleteChildren_def Let_def safe_simps)

lemma safe_deleteGateways [safe_simps]: "safe W s \<Longrightarrow> safe W (deleteGateways P s)"
  by (simp add: deleteGateways_def Let_def safe_simps)

lemma safe_deleteUser [safe_simps]: "safe W s \<Longrightarrow> safe W (deleteUser u s)"
  by (simp add: deleteUser_def Let_def safe_simps)

lemma safe_forEach:
  "(\<And>x s. safe W s \<Longrightarrow> safe W (snd (body x s))) \<Longrightarrow> safe W s \<Longrightarrow> safe W (forEachCatch body xs s)"
  by (induction xs arbitrary: s) simp_all

section \<open>Requests of parents\<close>

lemma safe_children_route: "safe W s \<Longrightarrow> safe W (snd (ChildrenController p r s))"
  by (cases r) (auto simp: snd_validated create_Child_def update_Child_def remove_Child_def applyUpdateChild_def Let_def safe_simps split: sum.split)

lemma safe_devices_route: 
  "safe W s \<Longrightarrow> en_cache E = w_cache W \<Longrightarrow> now = w_now W \<Longrightarrow> safe W (snd (DevicesController E now p r s))"
  by (cases r) (auto simp: snd_validated create_Device_def update_Device_def applyUpdateDevice_def remove_Device_def lockInternet_def
      unlockInternet_def invalidateDnsCacheForDevice_def defaultDevice_def Let_def safe_simps split: sum.split
      simp del: invalidateSourceIps.simps)

lemma safe_applyStatus [safe_simps]:
  "safe W s \<Longrightarrow> C = w_cache W \<Longrightarrow> now = w_now W \<Longrightarrow> safe W (snd (applyStatus C now b d q x r s))"
  by (simp add: applyStatus_def Let_def case_prod_beta invalidateDnsCache_def safe_simps del: invalidateSourceIps.simps)

lemmas safe_adapter [safe_simps] = adapter_queues [THEN safe_queues]

lemma safe_blockDevice [safe_simps]:
  "safe W s \<Longrightarrow> C = w_cache W \<Longrightarrow> now = w_now W \<Longrightarrow> safe W (snd (blockDevice C now i reason q s))"
  by (auto simp: blockDevice_def case_prod_beta safe_simps split: sum.split)

lemma safe_unblockDevice [safe_simps]:
  "safe W s \<Longrightarrow> C = w_cache W \<Longrightarrow> now = w_now W \<Longrightarrow> safe W (snd (unblockDevice C now i q s))"
  by (auto simp: unblockDevice_def case_prod_beta safe_simps split: sum.split)

lemma safe_syncRules [safe_simps]: "safe W s \<Longrightarrow> safe W (snd (syncRules js now i q s))"
  by (auto simp: syncRules_def Let_def case_prod_beta safe_simps split: sum.split)

lemma safe_enforcement_route:
  "safe W s \<Longrightarrow> en_cache E = w_cache W \<Longrightarrow> now = w_now W \<Longrightarrow> safe W (snd (EnforcementController E now p r s))"
  by (cases r) (simp_all add: snd_validated safe_simps)

lemma safe_score [safe_simps]: "safe W s \<Longrightarrow> safe W (snd (calculateProtectionScore now i s))"
  by (simp add: calculateProtectionScore_def Let_def safe_simps split: option.split)

lemma safe_protection_route: "safe W s \<Longrightarrow> safe W (snd (ProtectionController now p r s))"
  by (cases r) (auto simp: snd_validated getProtectionScore_def getInsights_def upsertSchedule_def applySchedule_def Let_def case_prod_beta
      safe_simps split: sum.split)

lemma safe_offline_route: "safe W s \<Longrightarrow> safe W (snd (OfflineControlController now p r s))"
  by (cases r) (auto simp: setSetupStatus_def upsertChecklist_def Let_def safe_simps split: sum.split option.split)

lemma safe_writeDevice [safe_simps]: "safe W s \<Longrightarrow> (\<And>d. dev_id (f d) = dev_id d) \<Longrightarrow> safe W (snd (writeDevice i f s))"
  by (simp add: writeDevice_def safe_simps split: option.split)

lemma safe_createSession [safe_simps]: "safe W s \<Longrightarrow> safe W (snd (createSession now i p tok e s))"
  by (simp add: createSession_def Let_def safe_simps)

lemma safe_pairing_route: "safe W s \<Longrightarrow> safe W (snd (PairingController E now p r s))"
  by (cases r) (auto simp: snd_validated startPairing_def cancelPairing_def deleteWaitingSessionsForDevice_def setDevicePairStatus_def Let_def
      case_prod_beta safe_simps split: sum.split)

lemma safe_liveSession:
  assumes "safe W s" "findSession s i = Some x" "\<not> terminated (ses_status x)" "\<And>x. ses_id (f x) = ses_id x"
  shows "safe W (updateSession i f s)"
proof (rule safe_updateSession [OF assms(1,4)])
  fix y assume y: "y \<in> set (sessions s)" "ses_id y = i" "terminated (ses_status y)"
  have "distinct (map ses_id (sessions s))" using assms(1) by (simp add: safe_defs keyed_def)
  from unique_session [OF this assms(2) y(1,2)] y(3) assms(3) show "terminated (ses_status (f y))" by simp
qed

lemma safe_sessions_route: "safe W s \<Longrightarrow> safe W (snd (SessionsController E now p r s))"
proof (cases r)
  case (SS_start dto)
  assume "safe W s"
  then have "safe W (snd (start (en_tz E) now p dto s))"
    by (simp add: start_def Let_def newSession_def safe_simps split: sum.split option.split)
  with SS_start \<open>safe W s\<close> show ?thesis by (simp add: snd_validated)
next
  case (SS_extend i dto)
  then show "safe W s \<Longrightarrow> ?thesis"
    by (auto simp: snd_validated extend_Session_def writeSession_def intro!: safe_updateSession split: sum.split)
next
  case (SS_stop i)
  then show "safe W s \<Longrightarrow> ?thesis"
    by (auto simp: stop_def writeSession_def terminated_def intro!: safe_updateSession split: sum.split)
qed (auto simp: pause_def resume_def writeSession_def Let_def getAndValidate_Inr terminated_def intro!: safe_liveSession split: sum.split)

lemma safe_rules_route: "safe W s \<Longrightarrow> safe W (snd (RulesController E p r s))"
  by (cases r) (auto simp: snd_validated create_Rule_def update_Rule_def remove_Rule_def Let_def safe_simps split: sum.split)

lemma safe_bandwidth_route: "safe W s \<Longrightarrow> safe W (snd (BandwidthController E now p r s))"
  by (cases r) (auto simp: snd_validated create_Bandwidth_def update_Bandwidth_def remove_Bandwidth_def applyUpdateBandwidth_def Let_def
      safe_simps split: sum.split)

lemma safe_parents_route: "safe W s \<Longrightarrow> safe W (snd (ParentsController now p r s))"
  by (cases r) (auto simp: deleteAccount_def updateProfile_def Let_def safe_simps split: option.split)

lemma safe_notifications_route: "safe W s \<Longrightarrow> safe W (snd (NotificationsController p r s))"
  by (cases r) (auto simp: markReadForUser_def markRead_def safe_simps split: option.split)

lemma safe_push_route: "safe W s \<Longrightarrow> safe W (snd (PushController now p r s))"
  by (cases r) (simp_all add: snd_validated registerToken_def removeToken_def safe_simps)

lemma safe_oauth_route: "safe W s \<Longrightarrow> safe W (snd (OAuthController E now p r s))"
  by (cases r) (auto simp: refreshMicrosoftToken_def split: sum.split option.split prod.split)

lemma safe_gateway_route: "safe W s \<Longrightarrow> safe W (snd (GatewayController E now p r s))"
  by (cases r) (auto simp: snd_validated register_Gateway_def rotateToken_def renameGateway_def pair_def deleteGateway_def Let_def
      safe_simps split: sum.split)

lemma safe_upsertRouter [safe_simps]: "safe W s \<Longrightarrow> safe W (snd (upsertRouter g new upd s))"
  by (simp add: upsertRouter_def split: option.split)

lemma safe_router_route: "safe W s \<Longrightarrow> safe W (snd (RouterIntegrationController E now p r s))"
  by (cases r) (auto simp: snd_validated setup_Router_def endGamingSession_def testConnection_def triggerDetection_def enqueueOwned_def
      changeDns_def blockMac_def unblockMac_def syncBlockToRouter_def Let_def case_prod_beta safe_simps split: sum.split)

lemma safe_createMany [safe_simps]: "safe W s \<Longrightarrow> safe W (snd (createManyDomains ds s))"
  by (induction ds s rule: createManyDomains.induct) (simp_all add: case_prod_beta safe_simps)

lemma safe_addDomain [safe_simps]: "safe W s \<Longrightarrow> safe W (snd (addDomain d c w s))"
  by (simp add: addDomain_def Let_def safe_simps split: option.split)

lemma safe_categories_route: "safe W s \<Longrightarrow> safe W (snd (CategoriesController E p r s))"
  by (cases r) (auto simp: setCategoryBlock_def bulkImport_def deleteDomain_def case_prod_beta safe_simps split: sum.split option.split)

lemma safe_admin_route: "safe W s \<Longrightarrow> safe W (snd (AdminDomainsController r s))"
  by (cases r) (simp_all add: case_prod_beta classifyUnknownDomain_def Let_def safe_simps)

lemmas safe_routes = safe_children_route safe_devices_route safe_enforcement_route safe_protection_route safe_offline_route
  safe_pairing_route safe_sessions_route safe_rules_route safe_bandwidth_route safe_parents_route safe_notifications_route
  safe_push_route safe_oauth_route safe_gateway_route safe_router_route safe_categories_route safe_admin_route

lemma safe_route:
  assumes "safe W s" "en_cache E = w_cache W" "now = w_now W"
  shows "safe W (snd (route E now p r s))"
proof (cases r)
  case (R_usage u)
  with assms show ?thesis by (cases u) simp_all
next
  case (R_registerDevice dto)
  with assms show ?thesis by (simp add: snd_validated registerDevice_def Let_def defaultDevice_def safe_simps)
next
  case R_logout
  with assms show ?thesis by (simp add: logout_def safe_simps split: option.split)
qed (simp_all add: safe_routes assms)

lemma safe_serve:
  "safe W s \<Longrightarrow> en_cache E = w_cache W \<Longrightarrow> now = w_now W \<Longrightarrow> safe W (snd (serve E now authorization r s))"
  by (simp add: serve_def safe_route split: sum.split)

section \<open>Requests without an account\<close>

lemma safe_updateUsers [safe_simps]:
  assumes "safe W s" "us = users s" "\<And>u. usr_id (f u) = usr_id u" "\<And>u. usr_role (f u) = usr_role u"
  shows "safe W (s\<lparr>users := updateMany P f us\<rparr>)"
  by (rule safe_users) (use assms safe_admins [OF assms(1)] in \<open>auto simp: in_updateMany_iff\<close>)

lemma safe_register_rows [safe_simps]:
  assumes "safe W s" "us = users s" "usr_id u = newId s" "usr_role u \<noteq> ADMIN"
  shows "safe W (drawId (s\<lparr>users := us @ [u], subscriptions := x\<rparr>))"
proof -
  have "drawId (s\<lparr>users := us @ [u], subscriptions := x\<rparr>) = (drawId (s\<lparr>users := us @ [u]\<rparr>))\<lparr>subscriptions := x\<rparr>"
    by (simp add: drawId_def)
  with safe_create_user [OF assms] show ?thesis by simp
qed

lemma safe_generateTokens [safe_simps]: "safe W s \<Longrightarrow> safe W (snd (generateTokens L cfg now i em ro s))"
  by (simp add: generateTokens_def Let_def safe_simps)

lemma safe_issueTokens [safe_simps]: "safe W s \<Longrightarrow> safe W (snd (issueTokens L cfg now i em ro s))"
  by (simp add: issueTokens_def case_prod_beta safe_simps)

lemma safe_AuthController: "safe W s \<Longrightarrow> safe W (snd (AuthController E now r s))"
  by (cases r) (auto simp: snd_validated register_def login_def refresh_def refreshCommit_def Let_def case_prod_beta safe_simps
      split: option.split sum.split)

lemma safe_ChildAgentController: "safe W s \<Longrightarrow> safe W (snd (ChildAgentController E now r s))"
  by (cases r) (auto simp: snd_validated case_prod_beta getCommands_def acknowledgeCommand_Agent_def reportUsage_def requestMoreTime_def
      reportStatus_def createLog_def Let_def safe_simps split: option.split sum.split)

lemma safe_microsoftCallback: "safe W s \<Longrightarrow> safe W (snd (microsoftCallback E now code st s))"
  by (auto simp: microsoftCallback_def handleMicrosoftCallback_def upsertAccount_def Let_def safe_simps split: sum.split prod.split)

lemma safe_pairing_helpers [safe_simps]:
  "safe W s \<Longrightarrow> safe W (snd (setDevicePairStatus i st s))"
  "safe W s \<Longrightarrow> safe W (snd (markDevicePaired i ip region now beacon s))"
  "safe W s \<Longrightarrow> safe W (snd (applyIpChange i ip now s))"
  "safe W s \<Longrightarrow> safe W (snd (touchLastSeen i now s))"
  "safe W s \<Longrightarrow> safe W (upsertIpHistory i ip now s)"
  "safe W s \<Longrightarrow> safe W (recordConnectionEvent now i ty ipo js s)"
  "safe W s \<Longrightarrow> safe W (incrementSessionAttempts k s)" "safe W s \<Longrightarrow> safe W (deleteSession k s)"
  "safe W s \<Longrightarrow> safe W (markSessionStatus k st s)"
  by (simp_all add: setDevicePairStatus_def markDevicePaired_def applyIpChange_def touchLastSeen_def upsertIpHistory_def
      recordConnectionEvent_def incrementSessionAttempts_def updatePairing_def deleteSession_def markSessionStatus_def
      pairedDevice_def movedDevice_def safe_simps)

lemma safe_giveUp:
  "safe W s \<Longrightarrow> safe W (snd (snd (giveUpSession session st msg s)))"
  "safe W t \<Longrightarrow> safe W (fst (snd (giveUpSession session st msg s)) t)"
  using safe_pairing_helpers(1) [of W s "pse_deviceId session" st]
  by (simp_all add: giveUpSession_def case_prod_beta safe_simps split: sum.split)

lemma safe_confirmBody:
  "safe W s \<Longrightarrow> safe W (snd (snd (confirmBody now dto s)))" "safe W t \<Longrightarrow> safe W (fst (snd (confirmBody now dto s)) t)"
  by (simp_all add: confirmBody_def safe_giveUp confirmWrites_def Let_def safe_simps split: option.split sum.split)

lemma safe_probe: "safe W s \<Longrightarrow> safe W (snd (confirmProbe now dto s))"
proof -
  assume s: "safe W s"
  then have c: "safe W (snd (tryConfirmPairingSession now dto s))"
    using safe_confirmBody [of W _ now dto]
    by (simp add: tryConfirmPairingSession_def runInTransaction_def case_prod_beta split: sum.split)
  have "safe W (recordHeartbeat now i ip t)" if "safe W t" for i ip t
    using that by (simp add: recordHeartbeat_def runInTransaction_def safe_simps split: option.split)
  with c show ?thesis by (simp add: confirmProbe_def case_prod_beta split: sum.split option.split)
qed

lemma safe_LegalController: "safe W s \<Longrightarrow> safe W (snd (LegalController V now request r s))"
  by (cases r) (simp_all add: snd_validated submitPrivacyRequest_def Let_def safe_simps)

lemma safe_servePublic:
  assumes "safe W s"
    and "\<And>ip d. r = P_checkDns ip d \<Longrightarrow> dnsCache (snd (checkPolicy (en_cache E) (en_strict E) now ip d s)) \<in> w_caches W"
  shows "safe W (snd (servePublic E now r s))"
  using assms by (cases r) (simp_all add: safe_AuthController safe_ChildAgentController safe_microsoftCallback DnsPolicyController_def
      DnsPairController_def snd_validated safe_probe case_prod_beta safe_checkPolicy safe_LegalController)

section \<open>Requests of gateway agents\<close>

lemma safe_discoverAll: "safe W s \<Longrightarrow> safe W (snd (discoverAll H now g xs s))"
  by (induction H now g xs s rule: discoverAll.induct)
    (auto simp: Let_def case_prod_beta applyDiscovered_def safe_simps split: option.split)

lemma safe_foldl: "(\<And>x s. safe W s \<Longrightarrow> safe W (f s x)) \<Longrightarrow> safe W s \<Longrightarrow> safe W (foldl f s xs)"
  by (induction xs arbitrary: s) simp_all

lemma safe_handleAgent: "safe W s \<Longrightarrow> safe W (snd (handleAgent E now g prev req s))"
  by (cases req) (auto simp: snd_validated withQuery_def case_prod_beta getPending_RouterCommandController_def
      ack_RouterCommandController_def reportDetection_RouterDetectionController_def blockDevice_Gateway_def unblockDevice_Gateway_def
      setStatusByMac_def getPolicies_def updateLastSeen_def updateDiscoveredDevices_def safe_discoverAll recordVpnDetections_def
      recordDohDetections_def recordDetection_def acknowledgeCommand_Router_def getPendingCommands_def Let_def safe_simps safe_foldl
      split: option.split sum.split)

lemma safe_serveAgent: "safe W s \<Longrightarrow> safe W (snd (serveAgent E now q req s))"
  by (simp add: serveAgent_def safe_handleAgent split: sum.split)

section \<open>Jobs\<close>

lemma safe_expire [safe_simps]: "safe W s \<Longrightarrow> safe W (snd (expire now i s))"
  by (auto simp: expire_def writeSession_def terminated_def intro!: safe_updateSession split: option.split)

lemma safe_offlineViolation [safe_simps]:
  "safe W s \<Longrightarrow> C = w_cache W \<Longrightarrow> now = w_now W \<Longrightarrow> safe W (snd (handleOfflineViolation C now d i s))"
  by (simp add: handleOfflineViolation_def Let_def case_prod_beta safe_simps split: sum.split)

lemma safe_checkActiveSessions:
  "safe W s \<Longrightarrow> C = w_cache W \<Longrightarrow> now = w_now W \<Longrightarrow> safe W (checkActiveSessions C F now s)"
  unfolding checkActiveSessions_def
  by (rule safe_forEach) (auto simp: checkSession_def expireSession_def notifyTenMinutesLeft_def Let_def case_prod_beta safe_simps
      split: sum.split option.split)

lemma safe_checkRules:
  "safe W s \<Longrightarrow> C = w_cache W \<Longrightarrow> now = w_now W \<Longrightarrow> safe W (checkRulesAndSchedules C tz now s)"
  unfolding checkRulesAndSchedules_def Let_def
  by (rule safe_forEach) (auto simp: enforceBedtimeRule_def case_prod_beta safe_simps split: sum.split)

lemma safe_detectBypass: "safe W s \<Longrightarrow> safe W (detectDnsBypass F now s)"
  unfolding detectDnsBypass_def by (rule safe_forEach) (auto simp: reportBypass_def Let_def safe_simps)

lemma safe_monitor: "safe W s \<Longrightarrow> safe W (monitorDeviceHealth F now s)"
proof -
  have "safe W s \<Longrightarrow> safe W (healthLoop F now seen ds s)" for seen ds s
    by (induction ds arbitrary: seen s) (simp_all add: reportSilence_def Let_def safe_simps)
  then show "safe W s \<Longrightarrow> ?thesis" by (simp add: monitorDeviceHealth_def)
qed

lemma safe_schedules: "safe W s \<Longrightarrow> safe W (enforceDeviceSchedules tz now s)"
  unfolding enforceDeviceSchedules_def
  by (rule safe_forEach) (auto simp: enforceSchedule_def bedtimeAudit_def applyDailyLimit_def unlockAfterBedtime_def Let_def safe_simps
      split: option.split)

lemma safe_notifyLow: "safe W s \<Longrightarrow> safe W (notifyLowProtection F now s)"
  unfolding notifyLowProtection_def by (rule safe_forEach) (auto simp: notifyLow_def safe_simps)

lemma safe_processJob: "safe W s \<Longrightarrow> safe W (snd (processJob now job s))"
  by (simp add: processJob_def split: option.split)

lemma safe_seed: "safe W s \<Longrightarrow> safe W (seedDefaultDomainsIfEmpty s)"
  by (simp add: seedDefaultDomainsIfEmpty_def safe_simps)

lemma safe_backfill: "safe W s \<Longrightarrow> safe W (backfillFingerprints H now s)"
  by (simp add: backfillFingerprints_def safe_simps)

lemmas safe_jobs = safe_checkActiveSessions safe_checkRules safe_detectBypass safe_monitor safe_schedules safe_notifyLow safe_processJob
  safe_seed safe_backfill

end
