(* ===== verification/Server.thy ===== *)
theory Server
  imports Server_Frame
begin

text \<open>
  The whole server as one state machine: requests of parents, requests without an account, requests of
  gateway agents and the jobs, in any order, over one store. \<open>server_run\<close> holds of the states that a deployment
  reaches; what every operation keeps (theory \<open>Server_Frame\<close>) holds of all of them.
\<close>

section \<open>Events\<close>

text \<open>The methods that a timer, the queue or the boot sequence calls.\<close>

datatype job =
    J_checkActiveSessions | J_checkRulesAndSchedules | J_detectDnsBypass | J_monitorDeviceHealth | J_enforceDeviceSchedules
  | J_notifyLowProtection | J_processCommand CommandJobData | J_seedDefaultDomains | J_backfillFingerprints

fun runJob :: "'c apiEnv \<Rightarrow> agentEnv \<Rightarrow> time \<Rightarrow> job \<Rightarrow> ('c, 'z) gstore_scheme \<Rightarrow> ('c, 'z) gstore_scheme" where
  "runJob E G now J_checkActiveSessions s = checkActiveSessions (en_cache E) (en_fcm E) now s"
| "runJob E G now J_checkRulesAndSchedules s = checkRulesAndSchedules (en_cache E) (en_tz E) now s"
| "runJob E G now J_detectDnsBypass s = detectDnsBypass (en_fcm E) now s"
| "runJob E G now J_monitorDeviceHealth s = monitorDeviceHealth (en_fcm E) now s"
| "runJob E G now J_enforceDeviceSchedules s = enforceDeviceSchedules (en_tz E) now s"
| "runJob E G now J_notifyLowProtection s = notifyLowProtection (en_fcm E) now s"
| "runJob E G now (J_processCommand data) s = snd (processJob now data s)"
| "runJob E G now J_seedDefaultDomains s = seedDefaultDomainsIfEmpty s"
| "runJob E G now J_backfillFingerprints s = backfillFingerprints (ae_hashes G) now s"

datatype event =
    E_parent "string option" parentRoute | E_public publicRoute | E_agent gatewayRequest agentRequest | E_job job

fun server_step :: "'c apiEnv \<Rightarrow> agentEnv \<Rightarrow> time \<Rightarrow> event \<Rightarrow> ('c, 'z) gstore_scheme \<Rightarrow> ('c, 'z) gstore_scheme" where
  "server_step E G now (E_parent authorization r) s = snd (serve E now authorization r s)"
| "server_step E G now (E_public r) s = snd (servePublic E now r s)"
| "server_step E G now (E_agent q req) s = snd (serveAgent G now q req s)"
| "server_step E G now (E_job j) s = runJob E G now j s"

text \<open>The resolver asks about DNS names.\<close>

fun well_formed :: "event \<Rightarrow> bool" where
  "well_formed (E_public (P_checkDns ip d)) = dnsName d"
| "well_formed _ = True"

section \<open>Runs\<close>

text \<open>The states that events with the property \<open>Q\<close> lead to from \<open>s\<close> at time \<open>t\<close>, with a clock that does not go back.\<close>

inductive server_from ::
  "'c apiEnv \<Rightarrow> agentEnv \<Rightarrow> (time \<Rightarrow> event \<Rightarrow> bool) \<Rightarrow> time \<Rightarrow> 'c gstore \<Rightarrow> time \<Rightarrow> 'c gstore \<Rightarrow> bool"
  for E G Q t s where
  start: "server_from E G Q t s t s"
| step: "server_from E G Q t s t1 s1 \<Longrightarrow> t1 \<le> now \<Longrightarrow> well_formed ev \<Longrightarrow> Q now ev \<Longrightarrow>
     server_from E G Q t s now (server_step E G now ev s1)"

lemma server_from_mono:
  assumes "server_from E G Q t s t' s'" "\<And>now ev. Q now ev \<Longrightarrow> Q' now ev"
  shows "server_from E G Q' t s t' s'"
  using assms(1) by (induction rule: server_from.induct) (auto intro: server_from.intros assms(2))

text \<open>A deployment starts on a database with unique keys, with an empty cache.\<close>

definition booted :: "'c apiEnv \<Rightarrow> 'c gstore \<Rightarrow> bool" where
  "booted E s \<longleftrightarrow> server_keys s \<and> (\<forall>t k. c_get (en_cache E) t (dnsCache s) k = None)"

definition server_run :: "'c apiEnv \<Rightarrow> agentEnv \<Rightarrow> time \<Rightarrow> 'c gstore \<Rightarrow> time \<Rightarrow> 'c gstore \<Rightarrow> bool" where
  "server_run E G t0 s0 t s \<longleftrightarrow> booted E s0 \<and> server_from E G (\<lambda>_ _. True) t0 s0 t s"

text \<open>The states of the cache that runs of the DNS engine reach.\<close>

definition cacheRun :: "'c apiEnv \<Rightarrow> time \<Rightarrow> time \<Rightarrow> 'c set" where
  "cacheRun E t0 t = {dnsCache s | s :: 'c gstore. dns_run (en_cache E) (en_strict E) t0 t s}"

definition watchOf :: "'c apiEnv \<Rightarrow> time \<Rightarrow> time \<Rightarrow> ident set \<Rightarrow> ident set \<Rightarrow> 'c watch" where
  "watchOf E t0 t F A = \<lparr>w_cache = en_cache E, w_now = t, w_caches = cacheRun E t0 t, w_over = F, w_admins = A\<rparr>"

lemma watchOf_simps [simp]:
  "w_cache (watchOf E t0 t F A) = en_cache E" "w_caches (watchOf E t0 t F A) = cacheRun E t0 t"
  "w_now (watchOf E t0 t F A) = t" "w_over (watchOf E t0 t F A) = F" "w_admins (watchOf E t0 t F A) = A"
  by (simp_all add: watchOf_def)

lemma dns_run_iff:
  fixes s :: "'c gstore"
  shows "dnsCache s \<in> cacheRun E t0 t \<longleftrightarrow> dns_run (en_cache E) (en_strict E) t0 t s"
  unfolding cacheRun_def mem_Collect_eq by (metis dns_run.elsewhere order_refl)

lemma watchOf_keeps [simp]: "keeps_invalidations (watchOf E t0 t F A)"
  unfolding keeps_invalidations_def watchOf_simps dns_run_iff using dns_run.invalidate by blast

lemma safe_later: "safe (watchOf E t0 t F A) s \<Longrightarrow> t \<le> t' \<Longrightarrow> safe (watchOf E t0 t' F A) s"
  by (auto simp: safe_def rows_safe_def dns_run_iff intro: dns_run.elsewhere)

lemma safe_runJob: "safe W s \<Longrightarrow> w_cache W = en_cache E \<Longrightarrow> w_now W = now \<Longrightarrow> safe W (runJob E G now j s)"
  by (cases j) (simp_all add: safe_jobs)

lemma safe_event:
  assumes "safe W s" "w_cache W = en_cache E" "w_now W = now"
    and "\<And>ip d. ev = E_public (P_checkDns ip d) \<Longrightarrow> dnsCache (server_step E G now ev s) \<in> w_caches W"
  shows "safe W (server_step E G now ev s)"
proof (cases ev)
  case (E_public r)
  with assms(4) have "dnsCache (snd (checkPolicy (en_cache E) (en_strict E) now ip d s)) \<in> w_caches W" if "r = P_checkDns ip d" for ip d
    using that by (simp add: DnsPolicyController_def case_prod_beta)
  with assms(1) E_public show ?thesis by (simp add: safe_servePublic)
qed (use assms(1-3) in \<open>simp_all add: safe_serve safe_serveAgent safe_runJob\<close>)

lemma safe_step:
  assumes "safe (watchOf E t0 now F A) s" "well_formed ev"
  shows "safe (watchOf E t0 now F A) (server_step E G now ev s)"
proof (rule safe_event)
  fix ip d assume "ev = E_public (P_checkDns ip d)"
  with assms show "dnsCache (server_step E G now ev s) \<in> w_caches (watchOf E t0 now F A)"
    by (auto simp: safe_def dns_run_iff DnsPolicyController_def case_prod_beta intro: dns_run.query)
qed (simp_all add: assms(1))

lemma safe_from:
  assumes "server_from E G Q t s t' s'" "safe (watchOf E t0 t F A) s"
  shows "safe (watchOf E t0 t' F A) s'"
  using assms
proof (induction rule: server_from.induct)
  case (step t1 s1 now ev)
  then show ?case using safe_later safe_step by blast
qed simp

lemma booted_safe:
  assumes "booted E s"
  shows "safe (watchOf E t t {} {i. \<exists>u \<in> set (users s). usr_id u = i \<and> usr_role u = ADMIN}) s"
proof -
  have "dns_run (en_cache E) (en_strict E) t t s" by (rule dns_run.init) (use assms in \<open>simp add: booted_def\<close>)
  with assms show ?thesis by (auto simp: safe_def rows_safe_def booted_def over_def dns_run_iff)
qed

lemma server_run_safe:
  "server_run E G t0 s0 t s \<Longrightarrow> safe (watchOf E t0 t {} {i. \<exists>u \<in> set (users s0). usr_id u = i \<and> usr_role u = ADMIN}) s"
  using safe_from booted_safe unfolding server_run_def by blast

lemma server_run_keys: "server_run E G t0 s0 t s \<Longrightarrow> server_keys s"
  by (drule server_run_safe) (simp add: safe_def rows_safe_def)

lemma server_run_dns: "server_run E G t0 s0 t s \<Longrightarrow> dns_run (en_cache E) (en_strict E) t0 t s"
  using server_run_safe [of E G t0 s0 t s] unfolding safe_def watchOf_simps dns_run_iff by blast

lemma safe_watching:
  assumes "server_run E G t0 s0 t s" "F \<subseteq> ses_id ` {x \<in> set (sessions s). terminated (ses_status x)}"
  shows "safe (watchOf E t0 t F {i. \<exists>u \<in> set (users s0). usr_id u = i \<and> usr_role u = ADMIN}) s"
proof -
  note s = server_run_safe [OF assms(1)]
  have d: "distinct (map ses_id (sessions s))" "ses_id ` set (sessions s) \<subseteq> drawnIds s"
    using server_run_keys [OF assms(1)] by (simp_all add: server_keys_def keyed_def)
  have "terminated (ses_status x)" if x: "x \<in> set (sessions s)" "ses_id x \<in> F" for x
  proof -
    obtain y where y: "y \<in> set (sessions s)" "terminated (ses_status y)" "ses_id x = ses_id y" using assms(2) x(2) by blast
    with distinct_map_inj [OF d(1) x(1)] show ?thesis by blast
  qed
  moreover have "F \<subseteq> drawnIds s" using assms(2) d(2) by blast
  ultimately have "over F s" by (simp add: over_def)
  with s show ?thesis by (simp add: safe_def rows_safe_def)
qed

section \<open>Rows that only their owner's requests write\<close>

definition familyRows :: "ident \<Rightarrow> 'z store_scheme \<Rightarrow> Child list \<times> BandwidthLimit list" where
  "familyRows v s = (findMany (\<lambda>c. chd_parentId c = v) (children s), findMany (\<lambda>b. bwl_parentId b = v) (bandwidthLimits s))"

text \<open>An event that is not a request of the parent \<open>v\<close>; the subject of a token is an identifier.\<close>

fun not_by :: "'c apiEnv \<Rightarrow> ident \<Rightarrow> time \<Rightarrow> event \<Rightarrow> bool" where
  "not_by E v now (E_parent authorization r) =
     (case canActivate_Jwt (en_tokens E) (en_auth E) now authorization of
        Inl _ \<Rightarrow> True | Inr user \<Rightarrow> jwp_sub user \<noteq> v \<and> jwp_sub user \<noteq> [])"
| "not_by E v now _ = True"

text \<open>What neither anonymous clients nor gateway agents nor the jobs write, the bedtime job apart: a view of the
  database that ignores the tables they write to, and of the devices sees at most who owns them and whether
  they are locked.\<close>

definition lockOf :: "Device \<Rightarrow> ident \<times> ident \<times> bool \<times> string option" where
  "lockOf d = (dev_id d, dev_parentId d, dev_internetLocked d, dev_internetLockedReason d)"

lemma map_lock_update [simp]: "(\<And>d. lockOf (f d) = lockOf d) \<Longrightarrow> map lockOf (updateMany P f ds) = map lockOf ds"
  by (induction ds) simp_all

lemmas job_defs = checkActiveSessions_def checkSession_def expireSession_def expire_def writeSession_def notifyTenMinutesLeft_def
  checkRulesAndSchedules_def enforceBedtimeRule_def detectDnsBypass_def reportBypass_def monitorDeviceHealth_def
  enforceDeviceSchedules_def enforceSchedule_def bedtimeAudit_def applyDailyLimit_def notifyLowProtection_def notifyLow_def
  processJob_def seedDefaultDomainsIfEmpty_def backfillFingerprints_def

locale quiet_view =
  fixes view :: "'c gstore \<Rightarrow> 'v"
  assumes view_policy: "policyRows s' = policyRows s \<Longrightarrow> view s' = view s"
    and view_devices: "map lockOf ds = map lockOf (devices s) \<Longrightarrow> view (s\<lparr>devices := ds\<rparr>) = view s"
    and view_tables [simp]:
      "view (s\<lparr>sessions := y1\<rparr>) = view s" "view (s\<lparr>gateways := y2\<rparr>) = view s" "view (s\<lparr>categoryBlocks := y3\<rparr>) = view s"
      "view (s\<lparr>blockedDomains := y4\<rparr>) = view s" "view (s\<lparr>notifications := y5\<rparr>) = view s"
      "view (s\<lparr>routerCommands := y6\<rparr>) = view s" "view (s\<lparr>detectedRouters := y7\<rparr>) = view s" "view (s\<lparr>vpnDetections := y8\<rparr>) = view s"
      "view (s\<lparr>auditLogs := y9\<rparr>) = view s" "view (s\<lparr>pushTokens := y10\<rparr>) = view s" "view (s\<lparr>commands := y11\<rparr>) = view s"
      "view (s\<lparr>jobs := y12\<rparr>) = view s" "view (s\<lparr>db_next := y13\<rparr>) = view s" "view (s\<lparr>dnsCache := y14\<rparr>) = view s"
begin

lemma view_helpers [simp]:
  "view (drawId s) = view s" "view (auditLog now a s) = view s" "view (updateGateway i h s) = view s"
  "view (upsertCategoryBlock c cat b r s) = view s" "view (updateSession i g s) = view s"
  by (simp_all add: auditLog_def updateGateway_def upsertCategoryBlock_def updateSession_def drawId_def)

lemma view_updateDevice [simp]: "(\<And>d. lockOf (f d) = lockOf d) \<Longrightarrow> view (updateDevice i f s) = view s"
  by (simp add: updateDevice_def view_devices)

lemma view_notify [simp]: "view (snd (create_Notification F now d s)) = view s"
  by (simp add: create_Notification_def Let_def deliver_def sendToUser_def case_prod_beta)

lemma view_invalidate [simp]: "view (invalidateSourceIps C now ips s) = view s"
  by (induction ips arbitrary: s) (simp_all add: bumpVersion_def cset_def split: option.split)

lemma view_enqueueRouter [simp]: "view (snd (enqueueCommand_Router now g ty pl d s)) = view s"
  by (simp add: enqueueCommand_Router_def Let_def)

lemma view_sync [simp]: "view (snd (syncToRouter now d b s)) = view s"
  by (simp add: syncToRouter_def Let_def syncBlockToRouter_def syncUnblockToRouter_def enqueueStrategyCommand_def logFallbackAudit_def
      case_prod_beta)

lemma view_applyStatus [simp]: "view (snd (applyStatus C now b d q x r s)) = view s"
  by (simp add: applyStatus_def Let_def case_prod_beta invalidateDnsCache_def lockOf_def del: invalidateSourceIps.simps)

lemma view_queues: "queues_for d s s' \<Longrightarrow> view s' = view s"
  by (auto simp: queues_for_def)

lemmas view_adapter [simp] = adapter_queues [THEN view_queues]

lemma view_blockDevice [simp]: "view (snd (blockDevice C now i reason q s)) = view s"
  by (simp add: blockDevice_def case_prod_beta split: sum.split)

lemma view_offlineViolation [simp]: "view (snd (handleOfflineViolation C now d i s)) = view s"
  by (simp add: handleOfflineViolation_def Let_def case_prod_beta split: sum.split)

lemma view_foldl: "(\<And>x s. view (f s x) = view s) \<Longrightarrow> view (foldl f s xs) = view s"
  by (induction xs arbitrary: s) simp_all

lemma view_discoverAll [simp]: "view (snd (discoverAll H now g xs s)) = view s"
  by (induction H now g xs s rule: discoverAll.induct)
    (auto simp: Let_def case_prod_beta applyDiscovered_def lockOf_def split: option.split)

lemma view_agent: "view (snd (serveAgent G now q req s)) = view s"
proof -
  have "view (snd (handleAgent G now g prev req s)) = view s" for g prev
    by (cases req) (auto simp: snd_validated withQuery_def case_prod_beta getPending_RouterCommandController_def
      ack_RouterCommandController_def reportDetection_RouterDetectionController_def blockDevice_Gateway_def unblockDevice_Gateway_def
      setStatusByMac_def getPolicies_def updateLastSeen_def updateDiscoveredDevices_def recordVpnDetections_def upsertRouter_def
      recordDohDetections_def recordDetection_def acknowledgeCommand_Router_def getPendingCommands_def Let_def view_foldl lockOf_def
      split: option.split sum.split)
  then show ?thesis by (simp add: serveAgent_def split: sum.split)
qed

lemma view_public: "view (snd (servePublic E now r s)) = view s"
  by (rule view_policy) (rule policy_servePublic)

lemma view_forEach: "(\<And>x s. view (snd (body x s)) = view s) \<Longrightarrow> view (forEachCatch body xs s) = view s"
  by (induction xs arbitrary: s) simp_all

lemma view_createMany [simp]: "view (snd (createManyDomains ds s)) = view s"
  by (induction ds s rule: createManyDomains.induct) (simp_all add: case_prod_beta)

lemma view_healthLoop [simp]: "view (healthLoop F now seen ds s) = view s"
  by (induction ds arbitrary: seen s) (simp_all add: reportSilence_def Let_def)

lemma view_job:
  assumes "j \<noteq> J_enforceDeviceSchedules"
  shows "view (runJob E G now j s) = view s"
  using assms
  by (cases j) (auto simp: job_defs Let_def case_prod_beta lockOf_def view_devices intro!: view_forEach split: option.split sum.split)

lemma view_step:
  assumes "\<And>authorization r. ev \<noteq> E_parent authorization r" "ev \<noteq> E_job J_enforceDeviceSchedules"
  shows "view (server_step E G now ev s) = view s"
  using assms by (cases ev) (auto simp: view_agent view_public intro!: view_job)

end

definition families :: "'z store_scheme \<Rightarrow> Child list \<times> BandwidthLimit list" where
  "families s = (children s, bandwidthLimits s)"

interpretation family_view: quiet_view families
  by unfold_locales (simp_all add: families_def policyRows_def)

definition locks :: "'z store_scheme \<Rightarrow> (ident \<times> ident \<times> bool \<times> string option) list" where
  "locks s = map lockOf (devices s)"

lemma locks_policyOf: "locks s = map (\<lambda>((i, v, _), (_, locked, reason, _), _). (i, v, locked, reason)) (map policyOf (devices s))"
  by (simp add: locks_def lockOf_def policyOf_def)

lemma locks_policyRows: "policyRows s' = policyRows s \<Longrightarrow> locks s' = locks s"
  unfolding locks_policyOf policyRows_def prod.inject by metis

interpretation lock_view: quiet_view locks
  by (unfold_locales, rule locks_policyRows) (simp_all add: locks_def)

lemma families_updateDevice: "families (updateDevice i f s) = families s"
  by (simp add: families_def updateDevice_def)

lemma families_schedule:
  fixes s :: "'c gstore"
  shows "families (enforceDeviceSchedules tz now s) = families s"
  unfolding enforceDeviceSchedules_def
  by (rule family_view.view_forEach)
    (simp add: enforceSchedule_def bedtimeAudit_def applyDailyLimit_def Let_def families_updateDevice split: option.split)

lemma familyRows_same: "families s' = families s \<Longrightarrow> familyRows v s' = familyRows v s"
  by (simp add: families_def familyRows_def)

lemma server_keys_api: "server_keys s \<Longrightarrow> api_keys s \<and> agent_keys s \<and> distinct (map ses_id (sessions s))"
  by (simp add: server_keys_def keyed_def api_keys_def agent_keys_def)

lemma familyRows_rowsOf: "rowsOf v s' = rowsOf v s \<Longrightarrow> familyRows v s' = familyRows v s"
  by (simp add: rowsOf_def familyRows_def)

lemma familyRows_step:
  fixes s :: "'c gstore"
  assumes "server_keys s" "not_by E v now ev"
  shows "familyRows v (server_step E G now ev s) = familyRows v s"
proof (cases ev)
  case (E_parent authorization r)
  have k: "api_keys s" using assms(1) server_keys_api by blast
  show ?thesis
    using serve_isolated [OF k, of E now authorization r] assms(2)
    by (auto simp: E_parent intro: familyRows_rowsOf split: sum.splits)
next
  case (E_job j)
  then show ?thesis
    by (cases "j = J_enforceDeviceSchedules") (auto intro!: familyRows_same simp: families_schedule family_view.view_job)
qed (auto intro!: familyRows_same simp: family_view.view_agent family_view.view_public)

lemma familyRows_from:
  assumes "server_from E G (not_by E v) t s t' s'" "safe (watchOf E t0 t F A) s"
  shows "familyRows v s' = familyRows v s"
  using assms
proof (induction rule: server_from.induct)
  case (step t1 s1 now ev)
  have "server_keys s1" using safe_from [OF step(1) step.prems] by (simp add: safe_def rows_safe_def)
  from familyRows_step [OF this step(4)] step.IH [OF step.prems] show ?case by simp
qed simp

text \<open>A lock of the device \<open>i\<close> of the parent \<open>v\<close> for a reason that the bedtime job does not take for its own.\<close>

definition lockHeld :: "ident \<Rightarrow> ident \<Rightarrow> string option \<Rightarrow> 'z store_scheme \<Rightarrow> bool" where
  "lockHeld i v reason s \<longleftrightarrow> (i, v, True, reason) \<in> set (locks s)"

lemma lockHeld_device:
  "lockHeld i v reason s \<longleftrightarrow>
     (\<exists>d \<in> set (devices s). dev_id d = i \<and> dev_parentId d = v \<and> dev_internetLocked d \<and> dev_internetLockedReason d = reason)"
  by (auto simp: lockHeld_def locks_def lockOf_def)

lemma lockHeld_rowsOf:
  fixes s s' :: "'z store_scheme"
  assumes "rowsOf v s' = rowsOf v s" "lockHeld i v reason s"
  shows "lockHeld i v reason s'"
proof -
  have "map lockOf ds = map lockOf (map unlinked ds)" for ds by (simp add: lockOf_def unlinked_def)
  then have "map lockOf (findMany (\<lambda>d. dev_parentId d = v) (devices s')) = map lockOf (findMany (\<lambda>d. dev_parentId d = v) (devices s))"
    using assms(1) unfolding rowsOf_def prod.inject by metis
  moreover have "lockHeld i v reason s \<longleftrightarrow> (i, v, True, reason) \<in> set (map lockOf (findMany (\<lambda>d. dev_parentId d = v) (devices s)))"
    for s :: "'z store_scheme"
    by (auto simp: lockHeld_device findMany_def lockOf_def)
  ultimately show ?thesis using assms(2) by metis
qed

lemma lockHeld_schedule:
  assumes "server_keys s" "lockHeld i v reason s" "\<And>r. reason = Some r \<Longrightarrow> \<not> startsWith r ''Bedtime''"
  shows "lockHeld i v reason (enforceDeviceSchedules tz now s)"
proof -
  have k: "distinct (map dev_id (devices s))" using assms(1) by (simp add: server_keys_def keyed_def)
  obtain d where d: "d \<in> set (devices s)" "dev_id d = i" "dev_parentId d = v" "dev_internetLocked d" "dev_internetLockedReason d = reason"
    using assms(2) by (auto simp: lockHeld_device)
  then have "scheduled tz now d d = d" using assms(3) by (auto simp: scheduled_def bedtimeLocked_def split: option.splits)
  with d(1,2) enforceDeviceSchedules_devices [OF k, where i = i and tz = tz and now = now] findUnique_distinct [OF k d(1)]
  have "findDevice (enforceDeviceSchedules tz now s) i = Some d" by auto
  with d show ?thesis by (auto simp: lockHeld_device dest: findUnique_Some_iff)
qed

lemma lockHeld_step:
  fixes s :: "'c gstore"
  assumes "server_keys s" "not_by E v now ev" "lockHeld i v reason s" "\<And>r. reason = Some r \<Longrightarrow> \<not> startsWith r ''Bedtime''"
  shows "lockHeld i v reason (server_step E G now ev s)"
proof (cases ev)
  case (E_parent authorization r)
  have k: "api_keys s" using assms(1) server_keys_api by blast
  have "rowsOf v (snd (serve E now authorization r s)) = rowsOf v s"
    using serve_isolated [OF k, of E now authorization r] assms(2) by (auto simp: E_parent split: sum.splits)
  then have "lockHeld i v reason (snd (serve E now authorization r s))" by (rule lockHeld_rowsOf) (rule assms(3))
  then show ?thesis by (simp add: E_parent)
next
  case (E_job j)
  then show ?thesis
    using assms lock_view.view_job [of j E G now s]
    by (cases "j = J_enforceDeviceSchedules") (simp_all add: lockHeld_schedule, simp add: lockHeld_def)
qed (use assms(3) in \<open>simp_all add: lockHeld_def lock_view.view_agent lock_view.view_public\<close>)

lemma lockHeld_from:
  assumes "server_from E G (not_by E v) t s t' s'" "safe (watchOf E t0 t F A) s" "lockHeld i v reason s"
    and "\<And>r. reason = Some r \<Longrightarrow> \<not> startsWith r ''Bedtime''"
  shows "lockHeld i v reason s'"
  using assms(1-3)
proof (induction rule: server_from.induct)
  case (step t1 s1 now ev)
  have "server_keys s1" using safe_from [OF step(1) step.prems(1)] by (simp add: safe_def rows_safe_def)
  from lockHeld_step [OF this step(4) step.IH [OF step.prems] assms(4)] show ?case .
qed simp

lemma locked_from:
  assumes "server_run E G t0 s0 t s" "server_from E G (not_by E (dev_parentId d)) t s t' s'"
    and "d \<in> set (devices s)" "dev_internetLocked d" "\<not> bedtimeLocked d"
  shows "\<exists>d' \<in> set (devices s'). dev_id d' = dev_id d \<and> dev_parentId d' = dev_parentId d \<and> dev_internetLocked d' \<and>
    dev_internetLockedReason d' = dev_internetLockedReason d"
proof -
  have "lockHeld (dev_id d) (dev_parentId d) (dev_internetLockedReason d) s"
    using assms(3,4) by (auto simp: lockHeld_device)
  moreover have "\<not> startsWith r ''Bedtime''" if "dev_internetLockedReason d = Some r" for r
    using assms(4,5) that by (simp add: bedtimeLocked_def)
  ultimately have "lockHeld (dev_id d) (dev_parentId d) (dev_internetLockedReason d) s'"
    using lockHeld_from [OF assms(2) server_run_safe [OF assms(1)]] by blast
  then show ?thesis by (auto simp: lockHeld_device)
qed

section \<open>Properties\<close>

text \<open>C4: Keys stay unique. In every state that the server reaches, whatever parents, agents, anonymous clients
  and jobs do in whatever order, no two rows of a table have the same identifier: accounts, children,
  devices, sessions, rules, gateways, limits, notifications, router commands and pairing sessions.
  Account roles only go down: an administrator of a reached state was one when the server started.\<close>
theorem server_invariant:
  assumes "server_run E G t0 s0 t s"
  shows "distinct (map usr_id (users s)) \<and> distinct (map rul_id (rules s)) \<and> distinct (map pse_id (pairingSessions s)) \<and>
    distinct (map ses_id (sessions s)) \<and> api_keys s \<and> agent_keys s \<and>
    (\<forall>u \<in> set (users s). usr_role u = ADMIN \<longrightarrow> (\<exists>u0 \<in> set (users s0). usr_id u0 = usr_id u \<and> usr_role u0 = ADMIN))"
proof -
  have k: "server_keys s" by (rule server_run_keys [OF assms])
  then have "distinct (map usr_id (users s)) \<and> distinct (map rul_id (rules s)) \<and> distinct (map pse_id (pairingSessions s))"
    by (simp add: server_keys_def keyed_def)
  moreover have "usr_id u \<in> {i. \<exists>u0 \<in> set (users s0). usr_id u0 = i \<and> usr_role u0 = ADMIN}"
    if "u \<in> set (users s)" "usr_role u = ADMIN" for u
    using safe_admins [OF server_run_safe [OF assms] that] by simp
  ultimately show ?thesis using server_keys_api [OF k] by blast
qed

text \<open>C5: Tenants are isolated. In every state that the server reaches, a request of the parent interface that the
  token guard refuses changes nothing. One that it admits leaves the account, the children, the devices
  (up to their references to a child and a gateway), the gateways, the bandwidth limits and the
  notifications of every other account as they are; and unless the token's role is administrator, it
  leaves the global blocklist as it is.\<close>
theorem tenant_isolated:
  assumes "server_run E G t0 s0 t s"
  shows "case canActivate_Jwt (en_tokens E) (en_auth E) now authorization of
      Inl e \<Rightarrow> serve E now authorization r s = (Inl e, s)
    | Inr user \<Rightarrow> jwp_sub user \<noteq> [] \<longrightarrow>
        (\<forall>v. v \<noteq> jwp_sub user \<longrightarrow> rowsOf v (snd (serve E now authorization r s)) = rowsOf v s) \<and>
        (jwp_role user \<noteq> ADMIN \<longrightarrow> blockedDomains (snd (serve E now authorization r s)) = blockedDomains s)"
  using serve_isolated server_keys_api [OF server_run_keys [OF assms]] by blast

text \<open>C8: A family is its parent's alone. Over any run of the server in which no request is admitted for the parent
  \<open>v\<close>, whatever other parents, administrators, agents, anonymous clients and jobs do, the children and
  the bandwidth limits of \<open>v\<close> stay as they are.\<close>
theorem family_untouched:
  assumes "server_run E G t0 s0 t s" and "server_from E G (not_by E v) t s t' s'"
  shows "findMany (\<lambda>c. chd_parentId c = v) (children s') = findMany (\<lambda>c. chd_parentId c = v) (children s) \<and>
         findMany (\<lambda>b. bwl_parentId b = v) (bandwidthLimits s') = findMany (\<lambda>b. bwl_parentId b = v) (bandwidthLimits s)"
  using familyRows_from [OF assms(2) server_run_safe [OF assms(1)]] by (simp add: familyRows_def)

text \<open>C6: What is over stays over. Once a session is stopped, expired or violated in a state that the server
  reaches, no sequence of requests and jobs, by anyone, makes a session with its identifier active or paused
  again.\<close>
theorem session_stays_over:
  assumes "server_run E G t0 s0 t s" and "x \<in> set (sessions s)" "terminated (ses_status x)"
    and "server_from E G Q t s t' s'" and "y \<in> set (sessions s')" "ses_id y = ses_id x"
  shows "terminated (ses_status y)"
proof -
  have "safe (watchOf E t0 t {ses_id x} {i. \<exists>u \<in> set (users s0). usr_id u = i \<and> usr_role u = ADMIN}) s"
    by (rule safe_watching [OF assms(1)]) (use assms(2,3) in blast)
  from safe_over [OF safe_from [OF assms(4) this] assms(5)] assms(6) show ?thesis by simp
qed


text \<open>A lock holds until its parent lifts it. Once a device is locked (for a reason that does not begin with
  \<^verbatim>\<open>Bedtime\<close>), over any run of the server in which no request is admitted for its parent, whatever other parents,
  administrators, agents, anonymous clients and jobs do, the device exists, is locked for the same reason, and
  at every address under which it is found the policy blocks every name.\<close>
theorem lock_holds:
  assumes "server_run E G t0 s0 t s" and "server_from E G (not_by E (dev_parentId d)) t s t' s'"
    and "d \<in> set (devices s)" "dev_internetLocked d" "\<not> bedtimeLocked d"
  shows "\<exists>d' \<in> set (devices s'). dev_id d' = dev_id d \<and> dev_parentId d' = dev_parentId d \<and> dev_internetLocked d' \<and>
    dev_internetLockedReason d' = dev_internetLockedReason d \<and>
    (\<forall>ip now domain. findDeviceByIp ip s' = Some d' \<longrightarrow> dpr_action (policyDecision (en_strict E) now ip domain s') = BLOCK)"
proof -
  obtain d' where d': "d' \<in> set (devices s')" "dev_id d' = dev_id d" "dev_parentId d' = dev_parentId d" "dev_internetLocked d'"
      "dev_internetLockedReason d' = dev_internetLockedReason d"
    using locked_from [OF assms] by blast
  moreover have "dpr_action (policyDecision (en_strict E) now ip domain s') = BLOCK" if "findDeviceByIp ip s' = Some d'" for ip now domain
    using that d'(4) by (simp add: policyDecision_def blockResponse_def)
  ultimately show ?thesis by blast
qed

section \<open>An example deployment\<close>

definition bootStore :: "mapStore gstore" where
  "bootStore = store.extend ((emptyStore (\<lambda>n. replicate (n + 1) (CHR ''x'')))
     \<lparr>users := [msUser ''x'', msUser ''xx''], devices := [bareDevice ''xxx'' ''x'' ''c''],
      sessions := [(newSession 0 ''xxxx'' ''xxx'' ''c'' ''x'' 30)\<lparr>ses_status := STOPPED\<rparr>],
      children := [\<lparr>chd_id = ''xxxxx'', chd_parentId = ''xx'', chd_name = ''Ada'', chd_avatar = None, chd_age = None, chd_defaultLimit = None\<rparr>],
      db_next := 5\<rparr>) \<lparr>dnsCache = Map.empty\<rparr>"

lemma bootStore_tables:
  "users bootStore = [msUser ''x'', msUser ''xx'']" "devices bootStore = [bareDevice ''xxx'' ''x'' ''c'']"
  "map chd_id (children bootStore) = [''xxxxx'']" "map ses_id (sessions bootStore) = [''xxxx'']"
  "rules bootStore = []" "gateways bootStore = []" "bandwidthLimits bootStore = []" "notifications bootStore = []"
  "routerCommands bootStore = []" "pairingSessions bootStore = []" "dnsCache bootStore = Map.empty"
  "db_uuid bootStore = (\<lambda>n. replicate (n + 1) (CHR ''x''))" "db_next bootStore = 5"
  by (simp_all add: bootStore_def store.defs emptyStore_def newSession_def)

lemma bootStore_drawn: "drawnIds bootStore = {''x'', ''xx'', ''xxx'', ''xxxx'', ''xxxxx''}"
  by (auto simp: drawnIds_def bootStore_tables lessThan_nat_numeral lessThan_Suc numeral_eq_Suc)

lemma bootStore_run: "server_run demoApi demoAgent 0 bootStore 0 bootStore"
proof -
  have "inj (db_uuid bootStore)" by (auto simp: bootStore_tables inj_on_def dest: arg_cong [of _ _ length])
  then have "server_keys bootStore"
    by (simp add: server_keys_def keyed_def bootStore_drawn bootStore_tables(1-10) msUser_def bareDevice_def)
  then show ?thesis
    by (simp add: server_run_def booted_def server_from.start demoApi_def mapCache_def bootStore_tables(11))
qed

lemma demo_bearer: "canActivate_Jwt (en_tokens demoApi) (en_auth demoApi) 0 (Some ''Bearer t'') =
    Inr \<lparr>jwp_sub = ''x'', jwp_email = [], jwp_role = PARENT, jwp_jti = ''t''\<rparr>"
  by (simp add: canActivate_Jwt_def extractTokenFromHeader_def demoApi_def plainTokens_def)

theorem server_invariant_witness: "api_keys bootStore \<and> agent_keys bootStore"
  using server_invariant [OF bootStore_run] by blast

theorem tenant_isolated_witness:
  "rowsOf ''xx'' (snd (serve demoApi 0 (Some ''Bearer t'') (R_parents PR_deleteProfile) bootStore)) = rowsOf ''xx'' bootStore"
  using tenant_isolated [OF bootStore_run, of 0 "Some ''Bearer t''" "R_parents PR_deleteProfile"] demo_bearer by simp

theorem family_untouched_witness:
  "findMany (\<lambda>c. chd_parentId c = ''xx'')
     (children (server_step demoApi demoAgent 0 (E_parent (Some ''Bearer t'') (R_children (CH_remove ''xxxxx''))) bootStore)) =
   findMany (\<lambda>c. chd_parentId c = ''xx'') (children bootStore)"
proof -
  have "server_from demoApi demoAgent (not_by demoApi ''xx'') 0 bootStore 0
      (server_step demoApi demoAgent 0 (E_parent (Some ''Bearer t'') (R_children (CH_remove ''xxxxx''))) bootStore)"
    by (rule server_from.step [OF server_from.start]) (simp_all add: demo_bearer)
  from family_untouched [OF bootStore_run this] show ?thesis by blast
qed

theorem session_stays_over_witness:
  "filter (\<lambda>y. ses_id y = ''xxxx'' \<and> \<not> terminated (ses_status y))
     (sessions (server_step demoApi demoAgent 0 (E_parent (Some ''Bearer t'') (R_sessions (SS_resume ''xxxx''))) bootStore)) = []"
proof -
  let ?x = "(newSession 0 ''xxxx'' ''xxx'' ''c'' ''x'' 30)\<lparr>ses_status := STOPPED\<rparr>"
  have x: "?x \<in> set (sessions bootStore)" "terminated (ses_status ?x)" "ses_id ?x = ''xxxx''"
    by (simp_all add: bootStore_def store.defs terminated_def newSession_def)
  have r: "server_from demoApi demoAgent (\<lambda>_ _. True) 0 bootStore 0
      (server_step demoApi demoAgent 0 (E_parent (Some ''Bearer t'') (R_sessions (SS_resume ''xxxx''))) bootStore)"
    by (rule server_from.step [OF server_from.start]) simp_all
  show ?thesis using session_stays_over [OF bootStore_run x(1,2) r] x(3) by (auto simp: filter_empty_conv)
qed


text \<open>The device is locked, and then the schedule job runs.\<close>

definition lockedStore :: "mapStore gstore" where
  "lockedStore = server_step demoApi demoAgent 0 (E_parent (Some ''Bearer t'') (R_devices (DV_lockInternet ''xxx'' None))) bootStore"

definition lockedDevice :: Device where
  "lockedDevice = (bareDevice ''xxx'' ''x'' ''c'')\<lparr>dev_blockingMode := FULL_INTERNET_LOCK, dev_internetLocked := True,
     dev_internetLockedReason := Some ''Locked by parent'', dev_internetLockedAt := Some 0\<rparr>"

lemma lockedStore_devices: "devices lockedStore = [lockedDevice]"
proof -
  have "ownDevice ''x'' ''xxx'' bootStore = Inr (bareDevice ''xxx'' ''x'' ''c'')"
    by (simp add: bootStore_tables ownDevice_Inr bareDevice_def)
  then show ?thesis
    by (simp add: lockedStore_def lockedDevice_def serve_def demo_bearer canActivate_Roles_def lockInternet_def bootStore_tables Let_def
        bareDevice_def updateDevice_def invalidateDnsCacheForDevice_def del: invalidateSourceIps.simps)
qed

lemma lockedDevice_bedtime: "\<not> bedtimeLocked lockedDevice"
  by (simp add: lockedDevice_def bedtimeLocked_def startsWith_def)

lemma lockedStore_run: "server_run demoApi demoAgent 0 bootStore 0 lockedStore"
  using bootStore_run server_from.step [of demoApi demoAgent "\<lambda>_ _. True" 0 bootStore 0 bootStore 0
      "E_parent (Some ''Bearer t'') (R_devices (DV_lockInternet ''xxx'' None))"]
  by (simp add: server_run_def lockedStore_def)

theorem lock_holds_witness:
  "\<exists>d' \<in> set (devices (server_step demoApi demoAgent 0 (E_job J_enforceDeviceSchedules) lockedStore)).
     dev_id d' = ''xxx'' \<and> dev_internetLocked d'"
proof -
  have "server_from demoApi demoAgent (not_by demoApi (dev_parentId lockedDevice)) 0 lockedStore 0
      (server_step demoApi demoAgent 0 (E_job J_enforceDeviceSchedules) lockedStore)"
    by (rule server_from.step [OF server_from.start]) simp_all
  from lock_holds [OF lockedStore_run this _ _ lockedDevice_bedtime] show ?thesis
    by (auto simp: lockedStore_devices) (auto simp: lockedDevice_def bareDevice_def)
qed

end
