(* ===== verification/Addresses.thy ===== *)
theory Addresses
  imports Server
begin

text \<open>
  How a query finds its device. The resolver knows a device by the source address of its queries. Three services
  write that address: the registry (as the parent types it), the pairing handshake (as the resolver sees it) and
  the discovery report of the gateway agent (as the home network assigns it). The theorems show where the three
  disagree.
\<close>

definition addresses :: "Device \<Rightarrow> string set" where
  "addresses d = set_option (dev_ipAddress d) \<union> set_option (dev_dnsSourceIp d) \<union> set_option (dev_ipv6Address d)"

lemma findDeviceByIp_None: "findDeviceByIp ip s = None \<longleftrightarrow> (\<forall>d \<in> set (devices s). ip \<notin> addresses d)"
  by (auto simp: findDeviceByIp_def addresses_def findFirst_def find_None_iff)

lemma findFirst_updateMany_other:
  assumes "findFirst P rows = Some e" "\<not> R e" "\<And>x. x \<in> set rows \<Longrightarrow> P (f x) = P x"
  shows "findFirst P (updateMany R f rows) = Some e"
  using assms by (induction rows) (auto simp: findFirst_def split: if_splits)

section \<open>Properties\<close>

text \<open>C31: A discovery report undoes the pairing. When the agent of a gateway reports a device of that gateway under
  its address in the home network, the report replaces the address that the pairing handshake found the device
  at: if no other device has that address, queries from it belong to no device any more and every name is
  allowed, whatever is locked, blocked or used up.\<close>
theorem discovery_undoes_pairing:
  assumes "distinct (map dev_id (devices s))" and "canActivate (ae_hashes G) now q s = Inr (g, prev)"
    and "findGateway s (gwy_id g) \<noteq> None" "matchDiscovered (gwy_id g) x s = Some d"
    and "dd_ipAddress x \<noteq> ip" "dev_ipv6Address d \<noteq> Some ip"
    and "\<And>e. e \<in> set (devices s) \<Longrightarrow> dev_id e \<noteq> dev_id d \<Longrightarrow> ip \<notin> addresses e"
  shows "findDeviceByIp ip (snd (serveAgent G now q (AG_reportDiscovery [x]) s)) = None \<and>
    policyDecision strict now' ip domain (snd (serveAgent G now q (AG_reportDiscovery [x]) s)) = allowResponse"
proof -
  let ?s' = "snd (serveAgent G now q (AG_reportDiscovery [x]) s)"
  obtain gw where "findGateway s (gwy_id g) = Some gw" using assms(3) by blast
  then have dev: "devices ?s' = updateMany (\<lambda>e. dev_id e = dev_id d) (applyDiscovered (ae_hashes G) now x d) (devices s)"
    using assms(2,4) by (simp add: serveAgent_def updateDiscoveredDevices_def updateLastSeen_def updateGateway_def updateDevice_def)
  have d: "d \<in> set (devices s)"
    using assms(4) by (auto simp: matchDiscovered_def split: option.splits if_splits dest: findFirst_SomeD)
  have "ip \<notin> addresses e'" if e': "e' \<in> set (devices ?s')" for e'
  proof -
    from e' obtain e where e: "e \<in> set (devices s)"
        "e' = (if dev_id e = dev_id d then applyDiscovered (ae_hashes G) now x d e else e)"
      by (auto simp: dev in_updateMany_iff)
    show ?thesis
    proof (cases "dev_id e = dev_id d")
      case True
      then have "e = d" using distinct_map_inj [OF assms(1) e(1) d] by simp
      with True e assms(5,6) show ?thesis by (auto simp: addresses_def applyDiscovered_def Let_def)
    qed (use e assms(7) in simp)
  qed
  then have "findDeviceByIp ip ?s' = None" by (simp add: findDeviceByIp_None)
  then show ?thesis by (simp add: policyDecision_def)
qed

definition pairedAway :: Device where
  "pairedAway = (bareDevice ''d'' ''p'' ''c'')\<lparr>dev_gatewayId := Some ''g'', dev_macAddress := Some ''aa'', dev_ipAddress := None,
     dev_dnsSourceIp := Some ''203.0.113.7'', dev_internetLocked := True\<rparr>"

definition pairedStore :: store where
  "pairedStore = gatewayStore\<lparr>devices := [pairedAway]\<rparr>"

definition arpEntry :: DiscoveredDevice where
  "arpEntry = \<lparr>dd_ipAddress = ''192.168.1.45'', dd_macAddress = ''AA'', dd_hostname = None, dd_dhcpClientId = None,
     dd_vendorOui = None, dd_osHint = None\<rparr>"

theorem discovery_undoes_pairing_witness:
  "dpr_action (policyDecision False 0 ''203.0.113.7'' ''example.org'' pairedStore) = BLOCK \<and>
   policyDecision False 0 ''203.0.113.7'' ''example.org''
     (snd (serveAgent demoAgent 0 (unsignedRequest ''tok'') (AG_reportDiscovery [arpEntry]) pairedStore)) = allowResponse"
proof -
  have t: "gateways pairedStore = [demoGateway]" "devices pairedStore = [pairedAway]"
    by (simp_all add: pairedStore_def gatewayStore_tables)
  have aa: "toLowerCase ''AA'' = ''aa''" by code_simp
  have "canActivate (ae_hashes demoAgent) 0 (unsignedRequest ''tok'') pairedStore = Inr (demoGateway, False)"
    by (simp add: canActivate_def unsignedRequest_def lookupToken_def t demoGateway_def)
  moreover have "matchDiscovered (gwy_id demoGateway) arpEntry pairedStore = Some pairedAway"
    using aa by (simp add: matchDiscovered_def t) (simp add: arpEntry_def pairedAway_def demoGateway_def)
  moreover have "findDeviceByIp ''203.0.113.7'' pairedStore = Some pairedAway"
    by (simp add: findDeviceByIp_def t) (simp add: pairedAway_def)
  ultimately show ?thesis
    using discovery_undoes_pairing [of pairedStore demoAgent 0 "unsignedRequest ''tok''" demoGateway False arpEntry pairedAway "''203.0.113.7''"]
    by (simp add: t policyDecision_def) (simp add: arpEntry_def pairedAway_def bareDevice_def blockResponse_def)
qed


definition sharedStore :: "mapStore gstore" where
  "sharedStore = bootStore\<lparr>devices := [bareDevice ''e'' ''xx'' ''c'', bareDevice ''d'' ''x'' ''c'']\<rparr>"


end
