(* ===== verification/Startup.thy ===== *)
theory Startup
  imports Auth Encryption Js_Number
begin

text \<open>
  What happens around the requests: the validation of the environment at boot (\<^verbatim>\<open>env.validation.ts\<close>), the port
  and the CORS rule of \<^verbatim>\<open>main.ts\<close>, the initialisation of Firebase (\<^verbatim>\<open>firebase.service.ts\<close>), the Redis settings
  (\<^verbatim>\<open>redis-config.ts\<close>), the readiness probe (\<^verbatim>\<open>health.service.ts\<close>), the request identifier
  (\<^verbatim>\<open>request-logging.interceptor.ts\<close>) and the exception filter that writes every error body
  (\<^verbatim>\<open>http-exception.filter.ts\<close>).

  The environment is a function from names to optional strings. The firebase-admin package is the
  parameter record \<open>firebaseLib\<close> (each call fails with an error message or gives a value), the parser of URLs
  and the percent decoding are \<open>urlLib\<close>, and the answers of the database and of Redis to the probe are
  arguments.
\<close>

section \<open>Environment\<close>

type_synonym env = "string \<Rightarrow> string option"

definition MIN_SECRET_LENGTH :: nat where "MIN_SECRET_LENGTH = 32"

definition PLACEHOLDER_MARKERS :: "string list" where
  "PLACEHOLDER_MARKERS = [''change-me'', ''change_me'', ''your-secret'', ''secret-here'']"

definition looksLikePlaceholder :: "string \<Rightarrow> bool" where
  "looksLikePlaceholder v = list_ex (includesStr (toLowerCase v)) PLACEHOLDER_MARKERS"

definition isProduction :: "env \<Rightarrow> bool" where
  "isProduction config \<longleftrightarrow> config ''NODE_ENV'' = Some ''production''"

text \<open>The value of a required variable, or the error it adds.\<close>

definition requireString :: "env \<Rightarrow> string \<Rightarrow> string list \<times> string option" where
  "requireString config key =
     (case config key of
        None \<Rightarrow> ([key @ '' is required''], None)
      | Some v \<Rightarrow> if trim v = [] then ([key @ '' is required''], None) else ([], Some v))"

definition secretErrors :: "env \<Rightarrow> string \<Rightarrow> string \<Rightarrow> string \<Rightarrow> string list" where
  "secretErrors config key noun v =
     (if length v < MIN_SECRET_LENGTH then [key @ '' must be at least '' @ showNat MIN_SECRET_LENGTH @ '' characters''] else []) @
     (if isProduction config \<and> looksLikePlaceholder v
      then [key @ ('' is still set to a placeholder value '' @ emdash @ '' set a real '') @ noun @ '' in production''] else [])"

definition requireSecret :: "env \<Rightarrow> string \<Rightarrow> string list" where
  "requireSecret config key =
     (case requireString config key of (errs, None) \<Rightarrow> errs | (errs, Some v) \<Rightarrow> errs @ secretErrors config key ''secret'' v)"

definition checkEncryptionKey :: "env \<Rightarrow> string list" where
  "checkEncryptionKey config =
     (case requireString config ''ENCRYPTION_KEY'' of
        (errs, None) \<Rightarrow> errs | (errs, Some v) \<Rightarrow> errs @ secretErrors config ''ENCRYPTION_KEY'' ''key'' v)"

definition checkNodeEnv :: "env \<Rightarrow> string list" where
  "checkNodeEnv config =
     (case config ''NODE_ENV'' of
        None \<Rightarrow> []
      | Some v \<Rightarrow> if v \<in> set [''development'', ''production'', ''test''] then []
                 else [(''NODE_ENV must be one of development|production|test (got '' @ [CHR 0x22]) @ v @ ([CHR 0x22] @ '')'')])"

definition isInteger :: "rat \<Rightarrow> bool" where
  "isInteger r \<longleftrightarrow> snd (quotient_of r) = 1"

definition validPort :: "string \<Rightarrow> bool" where
  "validPort v = (case jsNumber v of None \<Rightarrow> False | Some r \<Rightarrow> isInteger r \<and> \<not> r < 1 \<and> \<not> r > 65535)"

definition checkPort :: "env \<Rightarrow> string list" where
  "checkPort config =
     (case config ''PORT'' of
        None \<Rightarrow> [] | Some v \<Rightarrow> if validPort v then [] else [(''PORT must be a valid port number (got '' @ [CHR 0x22]) @ v @ ([CHR 0x22] @ '')'')])"

definition envErrors :: "env \<Rightarrow> string list" where
  "envErrors config =
     fst (requireString config ''DATABASE_URL'') @ requireSecret config ''JWT_SECRET'' @
     requireSecret config ''JWT_REFRESH_SECRET'' @ checkEncryptionKey config @ checkNodeEnv config @ checkPort config"

definition validateEnv :: "env \<Rightarrow> env result" where
  "validateEnv config =
     (let errors = envErrors config; sep = [CHR 0x0A] @ ''  - '' in
      if 0 < length errors
      then Inl (JsError (''Invalid environment configuration:'' @ sep @ joinWith sep errors @ [CHR 0x0A] @
             ''Refusing to start. See .env.example for the required variables.''))
      else Inr config)"

section \<open>Port and CORS\<close>

definition listenPort :: "env \<Rightarrow> rat" where
  "listenPort config =
     (case config ''PORT'' of
        None \<Rightarrow> 3000 | Some v \<Rightarrow> (case jsNumber v of None \<Rightarrow> 3000 | Some r \<Rightarrow> if r = 0 then 3000 else r))"

definition allowedOrigins :: "env \<Rightarrow> string list" where
  "allowedOrigins config =
     filter (\<lambda>origin. origin \<noteq> []) (map trim (splitOn (CHR '','') (patch (config ''CORS_ORIGINS'') []))) @
     (if isProduction config then [] else [''http://localhost:3000'', ''http://localhost:5173''])"

definition corsOrigin :: "env \<Rightarrow> string option \<Rightarrow> bool" where
  "corsOrigin config origin \<longleftrightarrow> \<not> truthy origin \<or> patch origin [] \<in> set (allowedOrigins config)"

section \<open>Firebase\<close>

datatype FirebaseInitStatus = FB_ready | FB_not_configured | FB_error

record firebaseState =
  fb_app :: bool
  fb_status :: FirebaseInitStatus
  fb_error :: "string option"

record 'k firebaseLib =
  fb_defaultApp :: bool
  fb_certFile :: "string \<Rightarrow> string + 'k"
  fb_applicationDefault :: "string + 'k"
  fb_cert :: "string \<times> string \<times> string \<Rightarrow> string + 'k"
  fb_initializeApp :: "'k \<Rightarrow> string + unit"

definition freshFirebase :: firebaseState where
  "freshFirebase = \<lparr>fb_app = False, fb_status = FB_not_configured, fb_error = None\<rparr>"

fun unescapeNewlines :: "string \<Rightarrow> string" where
  "unescapeNewlines [] = []"
| "unescapeNewlines [c] = [c]"
| "unescapeNewlines (c # d # cs) =
     (if c = CHR 0x5C \<and> d = CHR ''n'' then CHR 0x0A # unescapeNewlines cs else c # unescapeNewlines (d # cs))"

definition resolveCredential ::
  "'k firebaseLib \<Rightarrow> env \<Rightarrow> firebaseState \<Rightarrow> 'k option result \<times> firebaseState" where
  "resolveCredential L config st =
     (if truthy (config ''FIREBASE_SERVICE_ACCOUNT_PATH'')
      then (case fb_certFile L (patch (config ''FIREBASE_SERVICE_ACCOUNT_PATH'') []) of
              Inr k \<Rightarrow> (Inr (Some k), st)
            | Inl msg \<Rightarrow>
                (Inr None, st\<lparr>fb_status := FB_error, fb_error := Some (''Failed to read/parse FIREBASE_SERVICE_ACCOUNT_PATH ('' @
                   patch (config ''FIREBASE_SERVICE_ACCOUNT_PATH'') [] @ ''): '' @ msg)\<rparr>))
      else if truthy (config ''GOOGLE_APPLICATION_CREDENTIALS'')
      then (case fb_applicationDefault L of
              Inr k \<Rightarrow> (Inr (Some k), st)
            | Inl msg \<Rightarrow> (Inr None, st\<lparr>fb_status := FB_error, fb_error := Some (''applicationDefault() failed: '' @ msg)\<rparr>))
      else
        (let projectId = config ''FCM_PROJECT_ID''; clientEmail = config ''FCM_CLIENT_EMAIL'';
             privateKey = map_option unescapeNewlines (config ''FCM_PRIVATE_KEY'') in
         if truthy projectId \<and> truthy clientEmail \<and> truthy privateKey
         then (case fb_cert L (patch projectId [], patch clientEmail [], patch privateKey []) of
                 Inr k \<Rightarrow> (Inr (Some k), st)
               | Inl msg \<Rightarrow> (Inl (JsError msg), st))
         else (Inr None, st)))"

definition initializeOnce :: "'k firebaseLib \<Rightarrow> env \<Rightarrow> firebaseState \<Rightarrow> unit result \<times> firebaseState" where
  "initializeOnce L config st =
     (if fb_defaultApp L then (Inr (), st\<lparr>fb_app := True, fb_status := FB_ready\<rparr>)
      else
        (case resolveCredential L config st of
           (Inl e, st1) \<Rightarrow> (Inl e, st1)
         | (Inr None, st1) \<Rightarrow>
             (Inr (), if fb_status st1 \<noteq> FB_error then st1\<lparr>fb_status := FB_not_configured\<rparr> else st1)
         | (Inr (Some k), st1) \<Rightarrow>
             (case fb_initializeApp L k of
                Inr _ \<Rightarrow> (Inr (), st1\<lparr>fb_app := True, fb_status := FB_ready\<rparr>)
              | Inl msg \<Rightarrow> (Inr (), st1\<lparr>fb_status := FB_error, fb_error := Some msg\<rparr>))))"

definition isReady :: "firebaseState \<Rightarrow> bool" where
  "isReady st \<longleftrightarrow> fb_status st = FB_ready"

text \<open>\<^verbatim>\<open>getMessaging\<close> throws without an app.\<close>

definition getMessaging :: "firebaseState \<Rightarrow> unit result" where
  "getMessaging st =
     (if \<not> fb_app st then Inl (JsError (''Firebase is not initialized '' @ emdash @ '' check FIREBASE_SERVICE_ACCOUNT_PATH'')) else Inr ())"

section \<open>Redis\<close>

record RedisConfig =
  rc_url :: "string option"
  rc_host :: string
  rc_port :: "int option"
  rc_username :: "string option"
  rc_password :: "string option"
  rc_tls :: bool

record parsedUrl =
  pu_hostname :: string
  pu_port :: string
  pu_username :: string
  pu_password :: string
  pu_protocol :: string

record urlLib =
  ul_parse :: "string \<Rightarrow> parsedUrl option"
  ul_decode :: "string \<Rightarrow> string option"

definition orUndefined :: "string \<Rightarrow> string option" where
  "orUndefined v = (if v = [] then None else Some v)"

definition redisFromUrl :: "urlLib \<Rightarrow> string \<Rightarrow> RedisConfig option" where
  "redisFromUrl L url =
     (case ul_parse L url of
        None \<Rightarrow> None
      | Some u \<Rightarrow>
          let base = \<lparr>rc_url = Some url, rc_host = pu_hostname u,
                      rc_port = parseInt10 (if pu_port u = [] then ''6379'' else pu_port u),
                      rc_username = orUndefined (pu_username u), rc_password = None, rc_tls = (pu_protocol u = ''rediss:'')\<rparr> in
          if pu_password u = [] then Some base
          else (case ul_decode L (pu_password u) of None \<Rightarrow> None | Some p \<Rightarrow> Some (base\<lparr>rc_password := Some p\<rparr>)))"

definition redisFromVars :: "env \<Rightarrow> RedisConfig" where
  "redisFromVars config =
     \<lparr>rc_url = None,
      rc_host = (if truthy (config ''REDIS_HOST'') then patch (config ''REDIS_HOST'') [] else ''localhost''),
      rc_port = parseInt10 (if truthy (config ''REDIS_PORT'') then patch (config ''REDIS_PORT'') [] else ''6379''),
      rc_username = (if truthy (config ''REDIS_USERNAME'') then config ''REDIS_USERNAME'' else None),
      rc_password = (if truthy (config ''REDIS_PASSWORD'') then config ''REDIS_PASSWORD'' else None),
      rc_tls = (config ''REDIS_TLS'' = Some ''true'')\<rparr>"

definition getRedisConfig :: "urlLib \<Rightarrow> env \<Rightarrow> RedisConfig" where
  "getRedisConfig L config =
     (let url = (if truthy (config ''REDIS_URL'') then config ''REDIS_URL'' else config ''REDIS_PUBLIC_URL'') in
      if truthy url
      then (case redisFromUrl L (patch url []) of Some c \<Rightarrow> c | None \<Rightarrow> redisFromVars config)
      else redisFromVars config)"

definition reconnectStrategy :: "nat \<Rightarrow> nat" where
  "reconnectStrategy retries = min (retries * 200) 3000"

definition retryStrategy :: "nat \<Rightarrow> nat" where
  "retryStrategy n = min (n * 200) 3000"

section \<open>Readiness\<close>

datatype componentStatus = C_up | C_down | C_not_configured

record ReadinessReport =
  rr_ok :: bool
  rr_database :: componentStatus
  rr_redis :: componentStatus
  rr_api :: componentStatus
  rr_firebase :: componentStatus

definition checkFirebase :: "firebaseState \<Rightarrow> componentStatus" where
  "checkFirebase st =
     (case fb_status st of FB_ready \<Rightarrow> C_up | FB_error \<Rightarrow> C_down | FB_not_configured \<Rightarrow> C_not_configured)"

definition checkDatabase :: "unit result \<Rightarrow> componentStatus" where
  "checkDatabase query = (case query of Inl _ \<Rightarrow> C_down | Inr _ \<Rightarrow> C_up)"

definition checkRedis :: "unit result \<Rightarrow> string option result \<Rightarrow> componentStatus" where
  "checkRedis setProbe getProbe =
     (case setProbe of
        Inl _ \<Rightarrow> C_down
      | Inr _ \<Rightarrow> (case getProbe of Inl _ \<Rightarrow> C_down | Inr v \<Rightarrow> if v = Some ''1'' then C_up else C_down))"

definition readiness ::
  "firebaseState \<Rightarrow> unit result \<Rightarrow> unit result \<Rightarrow> string option result \<Rightarrow> ReadinessReport" where
  "readiness st query setProbe getProbe =
     (let database = checkDatabase query; redis = checkRedis setProbe getProbe; firebase = checkFirebase st in
      \<lparr>rr_ok = (database = C_up \<and> redis = C_up \<and> firebase \<noteq> C_down), rr_database = database, rr_redis = redis,
       rr_api = C_up, rr_firebase = firebase\<rparr>)"

section \<open>Request identifier\<close>

definition requestIdOf :: "string option \<Rightarrow> string \<Rightarrow> string" where
  "requestIdOf header uuid = (let v = map_option (take 128) header in if truthy v then patch v [] else uuid)"

section \<open>The exception filter\<close>

text \<open>What a handler may throw: an HTTP exception with a status and a response, or anything else. The
  response is a text or an object, whose \<^verbatim>\<open>message\<close> is a text, a list (of the validation pipe) or something else.\<close>

datatype messageField = M_text string | M_list "string list" | M_other
datatype exceptionResponse = R_text string | R_object messageField | R_other
datatype thrown = HttpException int exceptionResponse | NotHttp string

record errorBody =
  eb_statusCode :: int
  eb_error :: string
  eb_message :: string
  eb_requestId :: "string option"
  eb_timestamp :: string
  eb_path :: string

definition getErrorCode :: "int \<Rightarrow> string" where
  "getErrorCode status =
     (case map_of [(400, ''BAD_REQUEST''), (401, ''UNAUTHORIZED''), (403, ''FORBIDDEN''), (404, ''NOT_FOUND''),
        (409, ''CONFLICT''), (422, ''UNPROCESSABLE_ENTITY''), (429, ''RATE_LIMITED''), (500, ''INTERNAL_ERROR''),
        (502, ''BAD_GATEWAY''), (503, ''SERVICE_UNAVAILABLE'')] status of
        None \<Rightarrow> ''UNKNOWN_ERROR'' | Some c \<Rightarrow> c)"

definition responseMessage :: "exceptionResponse \<Rightarrow> string" where
  "responseMessage r =
     (case r of
        R_text t \<Rightarrow> t
      | R_object (M_text t) \<Rightarrow> t
      | R_object (M_list (t # _)) \<Rightarrow> t
      | _ \<Rightarrow> ''Internal server error'')"

definition catchException ::
  "bool \<Rightarrow> string option \<Rightarrow> time \<Rightarrow> string \<Rightarrow> thrown \<Rightarrow> errorBody" where
  "catchException production requestId now url exception =
     (let (status, message, errorCode) =
            (case exception of
               HttpException st r \<Rightarrow> (st, responseMessage r, getErrorCode st)
             | NotHttp _ \<Rightarrow> (500, ''Internal server error'', ''INTERNAL_ERROR''));
          message = (if production \<and> 500 \<le> status then ''Internal server error'' else message)
      in \<lparr>eb_statusCode = status, eb_error = errorCode, eb_message = message, eb_requestId = requestId,
          eb_timestamp = toISOString now, eb_path = url\<rparr>)"

text \<open>The exceptions of the services as the filter sees them: the named ones of the framework carry their
  status and an object with the text, the others are not HTTP exceptions.\<close>

fun thrownOf :: "exn \<Rightarrow> thrown" where
  "thrownOf (NotFoundException m) = HttpException 404 (R_object (M_text m))"
| "thrownOf (ForbiddenException m) = HttpException 403 (R_object (M_text m))"
| "thrownOf (BadRequestException m) = HttpException 400 (R_object (M_text m))"
| "thrownOf (UnauthorizedException m) = HttpException 401 (R_object (M_text m))"
| "thrownOf (ConflictException m) = HttpException 409 (R_object (M_text m))"
| "thrownOf (InternalServerErrorException m) = HttpException 500 (R_object (M_text m))"
| "thrownOf PrismaRecordNotFound = NotHttp ''P2025''"
| "thrownOf PrismaUniqueViolation = NotHttp ''P2002''"
| "thrownOf PrismaForeignKeyViolation = NotHttp ''P2003''"
| "thrownOf (JsError m) = NotHttp m"

definition statusOf :: "thrown \<Rightarrow> int" where
  "statusOf t = eb_statusCode (catchException False None 0 [] t)"

section \<open>Properties\<close>

lemma requireString_ok: "fst (requireString config key) = [] \<longleftrightarrow> (\<exists>v. config key = Some v \<and> trim v \<noteq> [])"
  by (auto simp: requireString_def split: option.splits)

lemma secretErrors_ok:
  "secretErrors config key noun v = [] \<longleftrightarrow> MIN_SECRET_LENGTH \<le> length v \<and> \<not> (isProduction config \<and> looksLikePlaceholder v)"
  by (auto simp: secretErrors_def)

lemma requireSecret_ok:
  assumes "requireSecret config key = []"
  obtains v where "config key = Some v" "32 \<le> length v" "\<not> (isProduction config \<and> looksLikePlaceholder v)"
  using assms
  by (auto simp: requireSecret_def requireString_def secretErrors_ok MIN_SECRET_LENGTH_def split: option.splits if_splits)

lemma checkEncryptionKey_ok:
  assumes "checkEncryptionKey config = []"
  obtains v where "config ''ENCRYPTION_KEY'' = Some v" "32 \<le> length v" "\<not> (isProduction config \<and> looksLikePlaceholder v)"
  using assms
  by (auto simp: checkEncryptionKey_def requireString_def secretErrors_ok MIN_SECRET_LENGTH_def split: option.splits if_splits)

lemma listenPort_range: "checkPort config = [] \<Longrightarrow> 1 \<le> listenPort config \<and> listenPort config \<le> 65535"
  by (auto simp: checkPort_def validPort_def listenPort_def split: option.splits if_splits)

lemma validateEnv_ok: "validateEnv config = Inr c \<longleftrightarrow> c = config \<and> envErrors config = []"
  by (auto simp: validateEnv_def Let_def)

lemma authConstructor_ok:
  assumes "32 \<le> length a" "32 \<le> length b"
  shows "is_ok (authConstructor (Some a) (Some b) x y)"
  using assms by (auto simp: authConstructor_def)

text \<open>A validated environment lets every service start. When the validation accepts the environment,
  it is returned unchanged, the constructors of the authentication and the encryption service do not throw,
  the port listened on is between 1 and 65535, and in production none of the three secrets is a placeholder.\<close>
theorem validated_env_starts:
  assumes "validateEnv config = Inr c"
  shows "c = config \<and>
    is_ok (authConstructor (c ''JWT_SECRET'') (c ''JWT_REFRESH_SECRET'') (c ''JWT_EXPIRATION'') (c ''JWT_REFRESH_EXPIRATION'')) \<and>
    is_ok (encryptionKey K (c ''ENCRYPTION_KEY'')) \<and>
    1 \<le> listenPort c \<and> listenPort c \<le> 65535 \<and>
    (\<forall>key v. isProduction c \<longrightarrow> key \<in> {''JWT_SECRET'', ''JWT_REFRESH_SECRET'', ''ENCRYPTION_KEY''} \<longrightarrow>
       c key = Some v \<longrightarrow> \<not> looksLikePlaceholder v)"
proof -
  from assms have e: "c = config" "requireSecret config ''JWT_SECRET'' = []" "requireSecret config ''JWT_REFRESH_SECRET'' = []"
      "checkEncryptionKey config = []" "checkPort config = []"
    by (simp_all add: validateEnv_ok envErrors_def)
  obtain a where a: "config ''JWT_SECRET'' = Some a" "32 \<le> length a" "\<not> (isProduction config \<and> looksLikePlaceholder a)"
    using e(2) by (rule requireSecret_ok)
  obtain b where b: "config ''JWT_REFRESH_SECRET'' = Some b" "32 \<le> length b" "\<not> (isProduction config \<and> looksLikePlaceholder b)"
    using e(3) by (rule requireSecret_ok)
  obtain k where k: "config ''ENCRYPTION_KEY'' = Some k" "32 \<le> length k" "\<not> (isProduction config \<and> looksLikePlaceholder k)"
    using e(4) by (rule checkEncryptionKey_ok)
  have "is_ok (encryptionKey K (Some k))" using k(2) by (simp add: encryptionKey_def)
  then show ?thesis
    using e(1) a b k listenPort_range [OF e(5)] authConstructor_ok [OF a(2) b(2)] by auto
qed

definition demoEnv :: env where
  "demoEnv = map_of [(''DATABASE_URL'', ''db''), (''JWT_SECRET'', replicate 32 CHR ''a''),
     (''JWT_REFRESH_SECRET'', replicate 32 CHR ''a''), (''ENCRYPTION_KEY'', replicate 32 CHR ''a''),
     (''NODE_ENV'', ''production''), (''PORT'', ''8080'')]"

lemma demo_secret: "length (replicate 32 CHR ''a'') = 32" "\<not> looksLikePlaceholder (replicate 32 CHR ''a'')" "trim (replicate 32 CHR ''a'') \<noteq> []"
  by (simp, code_simp, code_simp)

lemma demo_port: "jsNumber ''8080'' = Some 8080" "validPort ''8080''"
proof -
  have "decimalLiteral ''8080'' = Some (8080, 1)" "radixPrefix ''8080'' = None"
    by (simp_all add: decimalLiteral_def splitExp_def exponentOf_def digitsVal_def isDigit_def digitVal_def
        radixPrefix_def toLowerCase_def lowerChar_def)
  then show n: "jsNumber ''8080'' = Some 8080"
    using doubleOf_int [of 8080] by (simp add: jsNumber_def trim_def isBlank_def)
  show "validPort ''8080''" by (simp add: validPort_def n isInteger_def)
qed

lemma demoEnv_clean: "envErrors demoEnv = []"
  by (simp add: envErrors_def requireString_def requireSecret_def checkEncryptionKey_def checkNodeEnv_def checkPort_def
      demoEnv_def demo_secret demo_port(2) secretErrors_ok MIN_SECRET_LENGTH_def isProduction_def trim_def isBlank_def)

lemma demoEnv_valid: "validateEnv demoEnv = Inr demoEnv"
  by (simp add: validateEnv_ok demoEnv_clean)

theorem validated_env_starts_witness:
  "is_ok (authConstructor (demoEnv ''JWT_SECRET'') (demoEnv ''JWT_REFRESH_SECRET'') None None) \<and>
   1 \<le> listenPort demoEnv \<and> listenPort demoEnv \<le> 65535"
  using validated_env_starts [OF demoEnv_valid] by (simp add: demoEnv_def)

text \<open>Error bodies leak nothing of an internal failure. Whatever is thrown that is no HTTP exception gives
  the fixed status 500, code and text, in every environment; and in production two exceptions with the same
  status of at least 500 give the same body, so nothing but the status of the exception reaches the client.\<close>
theorem error_body_safe:
  "eb_statusCode (catchException production rid now url (NotHttp m)) = 500 \<and>
   eb_message (catchException production rid now url (NotHttp m)) = ''Internal server error'' \<and>
   eb_error (catchException production rid now url (NotHttp m)) = ''INTERNAL_ERROR'' \<and>
   (statusOf t = statusOf t' \<and> 500 \<le> statusOf t \<longrightarrow>
      catchException True rid now url t = catchException True rid now url t')"
  by (cases t; cases t') (auto simp: catchException_def statusOf_def getErrorCode_def)

theorem error_body_safe_witness:
  "catchException True None 0 ''/x'' (thrownOf (InternalServerErrorException ''secret path'')) =
   catchException True None 0 ''/x'' (thrownOf (JsError ''connection string''))"
  using error_body_safe [of True None 0 "''/x''" "[]" "thrownOf (InternalServerErrorException ''secret path'')"
      "thrownOf (JsError ''connection string'')"]
  by (simp add: statusOf_def catchException_def)

lemma resolveCredential_ok:
  "is_ok (fst (resolveCredential L config st)) \<longleftrightarrow>
     truthy (config ''FIREBASE_SERVICE_ACCOUNT_PATH'') \<or> truthy (config ''GOOGLE_APPLICATION_CREDENTIALS'') \<or>
     \<not> truthy (config ''FCM_PROJECT_ID'') \<or> \<not> truthy (config ''FCM_CLIENT_EMAIL'') \<or>
     \<not> truthy (map_option unescapeNewlines (config ''FCM_PRIVATE_KEY'')) \<or>
     (\<exists>k. fb_cert L (patch (config ''FCM_PROJECT_ID'') [], patch (config ''FCM_CLIENT_EMAIL'') [],
            patch (map_option unescapeNewlines (config ''FCM_PRIVATE_KEY'')) []) = Inr k)"
  unfolding resolveCredential_def Let_def
  by (auto split: sum.splits)

lemma initializeOnce_ok:
  "is_ok (fst (initializeOnce L config st)) \<longleftrightarrow> fb_defaultApp L \<or> is_ok (fst (resolveCredential L config st))"
  by (cases "resolveCredential L config st") (auto simp: initializeOnce_def split: sum.splits option.splits)

text \<open>Firebase failures do not stop the server, except one. With a service-account file or with the default
  credentials the initialisation never throws, whatever the package does; with the three separate variables
  it throws exactly when the package refuses the certificate, and the module does not start.\<close>
theorem firebase_init_throws_iff:
  "is_ok (fst (initializeOnce L config st)) \<longleftrightarrow>
     fb_defaultApp L \<or> truthy (config ''FIREBASE_SERVICE_ACCOUNT_PATH'') \<or> truthy (config ''GOOGLE_APPLICATION_CREDENTIALS'') \<or>
     \<not> truthy (config ''FCM_PROJECT_ID'') \<or> \<not> truthy (config ''FCM_CLIENT_EMAIL'') \<or>
     \<not> truthy (map_option unescapeNewlines (config ''FCM_PRIVATE_KEY'')) \<or>
     (\<exists>k. fb_cert L (patch (config ''FCM_PROJECT_ID'') [], patch (config ''FCM_CLIENT_EMAIL'') [],
            patch (map_option unescapeNewlines (config ''FCM_PRIVATE_KEY'')) []) = Inr k)"
  by (simp add: initializeOnce_ok resolveCredential_ok)

text \<open>The service has an app exactly when its status is ready, so messages can be sent exactly then.\<close>

lemma resolveCredential_state:
  assumes "fb_app st \<longleftrightarrow> isReady st" "\<not> fb_app st"
  shows "\<not> fb_app (snd (resolveCredential L config st))" "\<not> isReady (snd (resolveCredential L config st))"
  using assms by (simp_all add: resolveCredential_def isReady_def Let_def split: sum.splits)

lemma firebase_ready:
  "is_ok (getMessaging (snd (initializeOnce L config freshFirebase))) \<longleftrightarrow> isReady (snd (initializeOnce L config freshFirebase))"
proof -
  have fresh: "fb_app freshFirebase \<longleftrightarrow> isReady freshFirebase" "\<not> fb_app freshFirebase"
    by (simp_all add: freshFirebase_def isReady_def)
  obtain r st1 where r: "resolveCredential L config freshFirebase = (r, st1)" by (cases "resolveCredential L config freshFirebase")
  with resolveCredential_state [OF fresh, of L config] show ?thesis
    by (simp add: initializeOnce_def getMessaging_def isReady_def split: sum.splits option.splits)
qed

lemma requestIdOf_bound: "length uuid \<le> 128 \<Longrightarrow> length (requestIdOf header uuid) \<le> 128"
  by (simp add: requestIdOf_def truthy_def split: option.splits)

lemma requestIdOf_nonempty: "uuid \<noteq> [] \<Longrightarrow> requestIdOf header uuid \<noteq> []"
  by (simp add: requestIdOf_def truthy_def split: option.splits)

text \<open>In production only configured origins are admitted.\<close>

lemma cors_production:
  assumes "isProduction config" "corsOrigin config (Some origin)" "origin \<noteq> []"
  shows "\<exists>part \<in> set (splitOn (CHR '','') (patch (config ''CORS_ORIGINS'') [])). origin = trim part"
  using assms by (auto simp: corsOrigin_def allowedOrigins_def)

lemma retry_bounded: "retryStrategy n \<le> 3000" "reconnectStrategy n \<le> 3000" "m \<le> n \<Longrightarrow> retryStrategy m \<le> retryStrategy n"
  by (auto simp: retryStrategy_def reconnectStrategy_def intro: min.mono)

end
