(* ===== verification/Observability.thy ===== *)
theory Observability
  imports Startup
begin

text \<open>
  What the server tells its operators: the access log and the metrics of requests
  (\<^verbatim>\<open>request-logging.interceptor.ts\<close>, \<^verbatim>\<open>metrics.service.ts\<close>), the timing of database queries (\<^verbatim>\<open>prisma.service.ts\<close>), the
  gauges of the command queue (\<^verbatim>\<open>command-queue.service.ts\<close>), the trace exporter (\<^verbatim>\<open>tracing.ts\<close>) and the health
  endpoints (\<^verbatim>\<open>health.controller.ts\<close>).

  The registry of the package \<^verbatim>\<open>prom-client\<close> is the parameter record \<open>promOps\<close> with the documented laws of its
  counters and histograms in the locale \<open>prometheus\<close>. Times of the monotonic clock are in nanoseconds; a difference
  below \<open>2^53\<close> (104 days) is exact as a number.
\<close>

section \<open>Registry\<close>

type_synonym labels = "(string \<times> string) list"

record 'm promOps =
  po_inc :: "string \<Rightarrow> labels \<Rightarrow> 'm \<Rightarrow> 'm"
  po_observe :: "string \<Rightarrow> labels \<Rightarrow> rat \<Rightarrow> 'm \<Rightarrow> 'm"
  po_value :: "string \<Rightarrow> labels \<Rightarrow> 'm \<Rightarrow> nat"
  po_count :: "string \<Rightarrow> labels \<Rightarrow> 'm \<Rightarrow> nat"
  po_bucket :: "string \<Rightarrow> labels \<Rightarrow> rat \<Rightarrow> 'm \<Rightarrow> nat"

locale prometheus =
  fixes P :: "'m promOps"
  assumes value_inc: "po_value P n l (po_inc P n' l' m) = po_value P n l m + (if n = n' \<and> l = l' then 1 else 0)"
    and value_observe: "po_value P n l (po_observe P n' l' v m) = po_value P n l m"
    and count_inc: "po_count P n l (po_inc P n' l' m) = po_count P n l m"
    and count_observe: "po_count P n l (po_observe P n' l' v m) = po_count P n l m + (if n = n' \<and> l = l' then 1 else 0)"
    and bucket_inc: "po_bucket P n l le (po_inc P n' l' m) = po_bucket P n l le m"
    and bucket_observe: "po_bucket P n l le (po_observe P n' l' v m) =
      po_bucket P n l le m + (if n = n' \<and> l = l' \<and> v \<le> le then 1 else 0)"

section \<open>Metrics\<close>

definition httpBuckets :: "rat list" where
  "httpBuckets = [5/1000, 1/100, 25/1000, 5/100, 1/10, 25/100, 5/10, 1, 25/10, 5, 10]"

definition dbBuckets :: "rat list" where
  "dbBuckets = [1/1000, 5/1000, 1/100, 25/1000, 5/100, 1/10, 25/100, 5/10, 1, 25/10]"

definition httpLabels :: "string \<Rightarrow> string \<Rightarrow> int \<Rightarrow> labels" where
  "httpLabels method route status = [(''method'', method), (''route'', route), (''status'', showInt status)]"

definition recordHttpRequest :: "'m promOps \<Rightarrow> string \<Rightarrow> string \<Rightarrow> int \<Rightarrow> rat \<Rightarrow> 'm \<Rightarrow> 'm" where
  "recordHttpRequest P method route status durationSeconds m =
     (let labels = httpLabels method route status in
      po_inc P ''http_requests_total'' labels (po_observe P ''http_request_duration_seconds'' labels durationSeconds m))"

section \<open>The interceptor\<close>

text \<open>Quotients of double-precision numbers and \<^verbatim>\<open>toFixed(1)\<close> of one that is not negative.\<close>

definition divDouble :: "rat \<Rightarrow> nat \<Rightarrow> rat" where
  "divDouble r n =
     (case quotient_of r of (p, q) \<Rightarrow> (case doubleOf (nat p) (nat q * n) of None \<Rightarrow> 0 | Some v \<Rightarrow> v))"

definition toFixed1 :: "rat \<Rightarrow> string" where
  "toFixed1 r = (let n = \<lfloor>10 * r + 1 / 2\<rfloor> in showInt (n div 10) @ ''.'' @ showInt (n mod 10))"

datatype logLevel = L_log | L_warn | L_error

text \<open>What the interceptor reads of a request and of the clock, with the identifier that \<^verbatim>\<open>randomUUID\<close> would give.\<close>

record exchange =
  ex_type :: string
  ex_method :: string
  ex_originalUrl :: string
  ex_requestId :: "string option"
  ex_routePath :: "string option"
  ex_uuid :: string
  ex_start :: nat
  ex_end :: nat

record accessLog =
  al_requestId :: string
  al_level :: logLevel
  al_line :: string

definition routeLabel :: "exchange \<Rightarrow> string" where
  "routeLabel ex = (if truthy (ex_routePath ex) then patch (ex_routePath ex) [] else ''unmatched'')"

definition durationMs :: "exchange \<Rightarrow> rat" where
  "durationMs ex = divDouble (of_nat (ex_end ex - ex_start ex)) 1000000"

definition recordExchange :: "'m promOps \<Rightarrow> exchange \<Rightarrow> int \<Rightarrow> 'm \<Rightarrow> accessLog \<times> 'm" where
  "recordExchange P ex status m =
     (let requestId = requestIdOf (ex_requestId ex) (ex_uuid ex);
          line = ex_method ex @ '' '' @ ex_originalUrl ex @ '' '' @ showInt status @ '' '' @ toFixed1 (durationMs ex) @ ''ms ['' @
            requestId @ '']''
      in (\<lparr>al_requestId = requestId, al_level = (if 500 \<le> status then L_error else if 400 \<le> status then L_warn else L_log),
           al_line = line\<rparr>,
          recordHttpRequest P (ex_method ex) (routeLabel ex) status (divDouble (durationMs ex) 1000) m))"

text \<open>The handler runs inside the interceptor; \<open>statusAt\<close> is the status of the response when the handler has
  returned or thrown, as the framework has set it by then.\<close>

definition intercept ::
  "'m promOps \<Rightarrow> exchange \<Rightarrow> ('a result \<Rightarrow> int) \<Rightarrow> ('s \<Rightarrow> 'a result \<times> 's) \<Rightarrow> 's \<Rightarrow> 'm \<Rightarrow>
   ('a result \<times> 's) \<times> accessLog option \<times> 'm" where
  "intercept P ex statusAt handler s m =
     (if ex_type ex \<noteq> ''http'' then (handler s, None, m)
      else
        (case handler s of
           (r, s1) \<Rightarrow> (case recordExchange P ex (statusAt r) m of (a, m1) \<Rightarrow> ((r, s1), Some a, m1))))"

section \<open>Database queries\<close>

text \<open>The middleware around every query: a query that fails is not timed.\<close>

definition dbMiddleware ::
  "'m promOps \<Rightarrow> string option \<Rightarrow> string \<Rightarrow> nat \<Rightarrow> nat \<Rightarrow> ('s \<Rightarrow> 'a result \<times> 's) \<Rightarrow> 's \<Rightarrow> 'm \<Rightarrow> ('a result \<times> 's) \<times> 'm" where
  "dbMiddleware P model action start end next s m =
     (case next s of
        (Inl e, s1) \<Rightarrow> ((Inl e, s1), m)
      | (Inr x, s1) \<Rightarrow>
          ((Inr x, s1),
           po_observe P ''db_query_duration_seconds'' [(''model'', patch model ''raw''), (''action'', action)]
             (divDouble (of_nat (end - start)) 1000000000) m))"

section \<open>The command queue\<close>

record queueCounts =
  qc_waiting :: nat
  qc_active :: nat
  qc_delayed :: nat
  qc_failed :: nat

definition queueGauges :: "(string \<times> string \<times> (queueCounts \<Rightarrow> nat)) list" where
  "queueGauges =
     [(''queue_jobs_waiting'', ''command-delivery queue: jobs waiting to be processed'', qc_waiting),
      (''queue_jobs_active'', ''command-delivery queue: jobs currently being processed'', qc_active),
      (''queue_jobs_delayed'', ''command-delivery queue: jobs scheduled for a retry'', qc_delayed),
      (''queue_jobs_failed'', ''command-delivery queue: jobs that exhausted all retry attempts'', qc_failed)]"

text \<open>The constructor registers the gauges that the registry has not; a registry of gauges is the list of
  their names and of how they are collected.\<close>

type_synonym gaugeRegistry = "(string \<times> (queueCounts \<Rightarrow> nat)) list"

fun addGauge :: "gaugeRegistry \<Rightarrow> string \<times> string \<times> (queueCounts \<Rightarrow> nat) \<Rightarrow> gaugeRegistry" where
  "addGauge reg (name, help, getValue) = (if map_of reg name \<noteq> None then reg else reg @ [(name, getValue)])"

definition registerGauges :: "gaugeRegistry \<Rightarrow> gaugeRegistry" where
  "registerGauges reg = foldl addGauge reg queueGauges"

definition getQueueStatus :: "queueCounts \<Rightarrow> nat \<times> nat \<times> nat \<times> nat" where
  "getQueueStatus q = (qc_waiting q, qc_active q, qc_delayed q, qc_failed q)"

section \<open>Tracing\<close>

record traceConfig =
  tc_serviceName :: string
  tc_serviceVersion :: string
  tc_url :: string
  tc_ignore :: "string option \<Rightarrow> bool"

definition stripSlash :: "string \<Rightarrow> string" where
  "stripSlash t = (if t \<noteq> [] \<and> last t = CHR ''/'' then butlast t else t)"

definition orText :: "string option \<Rightarrow> string \<Rightarrow> string" where
  "orText v fallback = (if truthy v then patch v [] else fallback)"

definition ignoreIncoming :: "string option \<Rightarrow> bool" where
  "ignoreIncoming url \<longleftrightarrow> url = Some ''/health'' \<or> url = Some ''/metrics'' \<or>
     (case url of None \<Rightarrow> False | Some u \<Rightarrow> startsWith u ''/health/'')"

definition tracing :: "env \<Rightarrow> traceConfig option" where
  "tracing config =
     (if truthy (config ''OTEL_EXPORTER_OTLP_ENDPOINT'')
      then Some \<lparr>tc_serviceName = orText (config ''OTEL_SERVICE_NAME'') ''guardtime-backend'',
                 tc_serviceVersion = orText (config ''npm_package_version'') ''1.0.0'',
                 tc_url = stripSlash (patch (config ''OTEL_EXPORTER_OTLP_ENDPOINT'') []) @ ''/v1/traces'',
                 tc_ignore = ignoreIncoming\<rparr>
      else None)"

section \<open>Health endpoints\<close>

datatype healthRoute = HE_root | HE_health | HE_ready

datatype healthAnswer = HA_ok | HA_ready ReadinessReport

fun HealthController :: "firebaseState \<Rightarrow> unit result \<Rightarrow> unit result \<Rightarrow> string option result \<Rightarrow> healthRoute \<Rightarrow> healthAnswer" where
  "HealthController st query setProbe getProbe HE_root = HA_ok"
| "HealthController st query setProbe getProbe HE_health = HA_ok"
| "HealthController st query setProbe getProbe HE_ready = HA_ready (readiness st query setProbe getProbe)"

section \<open>Sequences of requests\<close>

text \<open>The metrics after the interceptor has seen requests with the given statuses.\<close>

definition metricsAfter :: "'m promOps \<Rightarrow> (exchange \<times> int) list \<Rightarrow> 'm \<Rightarrow> 'm" where
  "metricsAfter P exs m = foldl (\<lambda>m (ex, status). snd (snd (intercept P ex (\<lambda>_. status) (\<lambda>s. (Inr (), s)) () m))) m exs"

definition labelled :: "labels \<Rightarrow> exchange \<times> int \<Rightarrow> bool" where
  "labelled l x \<longleftrightarrow> (case x of (ex, status) \<Rightarrow> ex_type ex = ''http'' \<and> httpLabels (ex_method ex) (routeLabel ex) status = l)"

definition seconds :: "exchange \<times> int \<Rightarrow> rat" where
  "seconds x = divDouble (durationMs (fst x)) 1000"

lemma metricsAfter_simps [simp]:
  "metricsAfter P [] m = m"
  "metricsAfter P (x # exs) m = metricsAfter P exs (snd (snd (intercept P (fst x) (\<lambda>_. snd x) (\<lambda>s. (Inr (), s)) () m)))"
  by (simp_all add: metricsAfter_def case_prod_beta)

context prometheus
begin

lemma intercept_metrics:
  "po_value P ''http_requests_total'' l (snd (snd (intercept P ex st h s m))) =
     po_value P ''http_requests_total'' l m + (if labelled l (ex, st (fst (h s))) then 1 else 0)"
  "po_count P ''http_request_duration_seconds'' l (snd (snd (intercept P ex st h s m))) =
     po_count P ''http_request_duration_seconds'' l m + (if labelled l (ex, st (fst (h s))) then 1 else 0)"
  "po_bucket P ''http_request_duration_seconds'' l le (snd (snd (intercept P ex st h s m))) =
     po_bucket P ''http_request_duration_seconds'' l le m +
     (if labelled l (ex, st (fst (h s))) \<and> seconds (ex, st (fst (h s))) \<le> le then 1 else 0)"
  by (auto simp: intercept_def recordExchange_def recordHttpRequest_def Let_def case_prod_beta labelled_def seconds_def
      value_inc value_observe count_inc count_observe bucket_inc bucket_observe)

lemma metricsAfter_counts:
  "po_value P ''http_requests_total'' l (metricsAfter P exs m) =
     po_value P ''http_requests_total'' l m + length (filter (labelled l) exs)"
  "po_count P ''http_request_duration_seconds'' l (metricsAfter P exs m) =
     po_count P ''http_request_duration_seconds'' l m + length (filter (labelled l) exs)"
  "po_bucket P ''http_request_duration_seconds'' l le (metricsAfter P exs m) =
     po_bucket P ''http_request_duration_seconds'' l le m + length (filter (\<lambda>x. labelled l x \<and> seconds x \<le> le) exs)"
  by (induction exs arbitrary: m) (simp_all add: intercept_metrics)

end

text \<open>A registry that keeps the list of what it was told.\<close>

datatype sample = Incremented string labels | Observed string labels rat

definition listMetrics :: "sample list promOps" where
  "listMetrics =
     \<lparr>po_inc = (\<lambda>n l m. Incremented n l # m), po_observe = (\<lambda>n l v m. Observed n l v # m),
      po_value = (\<lambda>n l m. length (filter (\<lambda>x. x = Incremented n l) m)),
      po_count = (\<lambda>n l m. length (filter (\<lambda>x. case x of Observed n' l' v \<Rightarrow> n = n' \<and> l = l' | _ \<Rightarrow> False) m)),
      po_bucket = (\<lambda>n l le m. length (filter (\<lambda>x. case x of Observed n' l' v \<Rightarrow> n = n' \<and> l = l' \<and> v \<le> le | _ \<Rightarrow> False) m))\<rparr>"

interpretation list_metrics: prometheus listMetrics
  by unfold_locales (simp_all add: listMetrics_def)

section \<open>Properties\<close>

text \<open>The metrics add up. After any sequence of requests, the counter of a label set is the number of requests that
  had these labels, the duration histogram has as many observations, and each of its buckets the number of
  those that took no longer than its bound. Requests outside HTTP leave no trace, and a label names the
  pattern of the route, never the address requested.\<close>
theorem metrics_add_up:
  assumes "prometheus P"
    and "po_value P ''http_requests_total'' l m = 0" "po_count P ''http_request_duration_seconds'' l m = 0"
    and "po_bucket P ''http_request_duration_seconds'' l le m = 0"
  shows "po_value P ''http_requests_total'' l (metricsAfter P exs m) = length (filter (labelled l) exs) \<and>
    po_count P ''http_request_duration_seconds'' l (metricsAfter P exs m) = po_value P ''http_requests_total'' l (metricsAfter P exs m) \<and>
    po_bucket P ''http_request_duration_seconds'' l le (metricsAfter P exs m) = length (filter (\<lambda>x. labelled l x \<and> seconds x \<le> le) exs) \<and>
    po_bucket P ''http_request_duration_seconds'' l le (metricsAfter P exs m) \<le> po_count P ''http_request_duration_seconds'' l (metricsAfter P exs m)"
proof -
  have "length (filter (\<lambda>x. labelled l x \<and> seconds x \<le> le) exs) \<le> length (filter (labelled l) exs)"
    by (induction exs) auto
  with assms show ?thesis by (simp add: prometheus.metricsAfter_counts)
qed


definition sampleExchange :: exchange where
  "sampleExchange = \<lparr>ex_type = ''http'', ex_method = ''POST'', ex_originalUrl = ''/sessions/1'', ex_requestId = None,
     ex_routePath = Some ''/sessions/:id'', ex_uuid = ''u'', ex_start = 0, ex_end = 12345678\<rparr>"

theorem metrics_add_up_witness:
  "po_value listMetrics ''http_requests_total'' (httpLabels ''POST'' ''/sessions/:id'' 201)
     (metricsAfter listMetrics [(sampleExchange, 201), (sampleExchange, 404), (sampleExchange, 201)] []) = 2"
proof -
  have "labelled (httpLabels ''POST'' ''/sessions/:id'' 201) (sampleExchange, 201)"
    "\<not> labelled (httpLabels ''POST'' ''/sessions/:id'' 201) (sampleExchange, 404)"
    by (simp_all add: labelled_def sampleExchange_def routeLabel_def httpLabels_def) code_simp
  then show ?thesis
    using metrics_add_up [OF list_metrics.prometheus_axioms, of "httpLabels ''POST'' ''/sessions/:id'' 201" "[]" 0
        "[(sampleExchange, 201), (sampleExchange, 404), (sampleExchange, 201)]"]
    by (simp add: listMetrics_def)
qed


text \<open>The gauges are registered once, however often the service is constructed.\<close>

lemma addGauge_names: "fst ` set (addGauge reg g) = insert (fst g) (fst ` set reg)"
  by (cases g) (auto simp: map_of_eq_None_iff)

lemma addGauges_names: "fst ` set (foldl addGauge reg gs) = fst ` set reg \<union> fst ` set gs"
  by (induction gs arbitrary: reg) (auto simp: addGauge_names)

lemma addGauges_again: "fst ` set gs \<subseteq> fst ` set reg \<Longrightarrow> foldl addGauge reg gs = reg"
  by (induction gs) (auto simp: map_of_eq_None_iff image_iff, force)

lemma registerGauges_once: "registerGauges (registerGauges reg) = registerGauges reg"
  unfolding registerGauges_def by (rule addGauges_again) (simp add: addGauges_names)

end
