(* ===== verification/Bootstrap.thy ===== *)
theory Bootstrap
  imports Observability Server
begin

text \<open>
  Starting the server (\<^verbatim>\<open>main.ts\<close>): the validated environment, the constructors that refuse to run without their
  secrets, the CORS options, the API documentation, and the hooks that run before the first request: the
  connection to the database, the seed of the catalogue, the backfill of device fingerprints and Firebase. Any
  failure ends the process with status 1. What the framework does between these steps is not in the model.
\<close>

record corsOptions =
  co_origin :: "string option \<Rightarrow> bool"
  co_credentials :: bool
  co_methods :: "string list"
  co_allowedHeaders :: "string list"
  co_exposedHeaders :: "string list"

definition corsOptions_main :: "env \<Rightarrow> corsOptions" where
  "corsOptions_main config =
     \<lparr>co_origin = corsOrigin config, co_credentials = True,
      co_methods = [''GET'', ''POST'', ''PATCH'', ''DELETE'', ''OPTIONS''],
      co_allowedHeaders = [''Authorization'', ''Content-Type'', ''X-Request-Id'', ''X-Gateway-Token''],
      co_exposedHeaders = [''X-Request-Id'']\<rparr>"

record 's served =
  sv_cors :: corsOptions
  sv_docsPath :: "string option"
  sv_port :: rat
  sv_tracing :: "traceConfig option"
  sv_firebase :: firebaseState
  sv_store :: 's

text \<open>What the constructors of the module tree need: \<^verbatim>\<open>ConfigModule\<close> validates the environment first.\<close>

definition createApp :: "crypto \<Rightarrow> env \<Rightarrow> unit result" where
  "createApp K config =
     (case validateEnv config of
        Inl e \<Rightarrow> Inl e
      | Inr c \<Rightarrow>
          (case authConstructor (c ''JWT_SECRET'') (c ''JWT_REFRESH_SECRET'') (c ''JWT_EXPIRATION'') (c ''JWT_REFRESH_EXPIRATION'') of
             Inl e \<Rightarrow> Inl e
           | Inr _ \<Rightarrow> (case encryptionKey K (c ''ENCRYPTION_KEY'') of Inl e \<Rightarrow> Inl e | Inr _ \<Rightarrow> Inr ())))"

text \<open>The hooks of \<^verbatim>\<open>onModuleInit\<close>; \<open>connect\<close> is what the database client answers.\<close>

definition initModules ::
  "'k firebaseLib \<Rightarrow> hashes \<Rightarrow> unit result \<Rightarrow> env \<Rightarrow> time \<Rightarrow> 'z store_scheme \<Rightarrow> (firebaseState \<times> 'z store_scheme) result" where
  "initModules L H connect config now s =
     (case connect of
        Inl e \<Rightarrow> Inl e
      | Inr _ \<Rightarrow>
          (case initializeOnce L config freshFirebase of
             (Inl e, st) \<Rightarrow> Inl e
           | (Inr _, st) \<Rightarrow> Inr (st, backfillFingerprints H now (seedDefaultDomainsIfEmpty s))))"

text \<open>\<open>bind\<close> is what the operating system answers to listening on a port. \<open>Inl\<close> is the exit with status 1.\<close>

definition bootstrap ::
  "crypto \<Rightarrow> 'k firebaseLib \<Rightarrow> hashes \<Rightarrow> unit result \<Rightarrow> (rat \<Rightarrow> unit result) \<Rightarrow> env \<Rightarrow> time \<Rightarrow> 'z store_scheme \<Rightarrow>
   'z store_scheme served result" where
  "bootstrap K L H connect bind config now s =
     (case createApp K config of
        Inl e \<Rightarrow> Inl e
      | Inr _ \<Rightarrow>
          (case initModules L H connect config now s of
             Inl e \<Rightarrow> Inl e
           | Inr (st, s1) \<Rightarrow>
               (let port = listenPort config in
                case bind port of
                  Inl e \<Rightarrow> Inl e
                | Inr _ \<Rightarrow>
                    Inr \<lparr>sv_cors = corsOptions_main config,
                         sv_docsPath = (if isProduction config then None else Some ''api/docs''),
                         sv_port = port, sv_tracing = tracing config, sv_firebase = st, sv_store = s1\<rparr>)))"

lemma createApp_ok: "is_ok (createApp K config) \<longleftrightarrow> is_ok (validateEnv config)"
proof (cases "validateEnv config")
  case (Inr c)
  with validated_env_starts [OF Inr, of K] show ?thesis by (auto simp: createApp_def is_ok_iff split: sum.splits)
qed (simp add: createApp_def)

lemma initModules_ok:
  "is_ok (initModules L H connect config now s) \<longleftrightarrow> is_ok connect \<and> is_ok (fst (initializeOnce L config freshFirebase))"
  by (auto simp: initModules_def is_ok_iff split: sum.splits prod.splits)

lemma bootstrap_ok:
  "is_ok (bootstrap K L H connect bind config now s) \<longleftrightarrow>
     is_ok (validateEnv config) \<and> is_ok connect \<and> is_ok (fst (initializeOnce L config freshFirebase)) \<and> is_ok (bind (listenPort config))"
proof -
  have "is_ok (bootstrap K L H connect bind config now s) \<longleftrightarrow>
      is_ok (createApp K config) \<and> is_ok (initModules L H connect config now s) \<and> is_ok (bind (listenPort config))"
    by (auto simp: bootstrap_def is_ok_iff Let_def split: sum.splits prod.splits)
  then show ?thesis by (simp add: createApp_ok initModules_ok)
qed

lemma bootstrap_Inr:
  assumes "bootstrap K L H connect bind config now s = Inr sv"
  shows "sv_port sv = listenPort config" "sv_docsPath sv = (if isProduction config then None else Some ''api/docs'')"
    "sv_cors sv = corsOptions_main config" "sv_store sv = backfillFingerprints H now (seedDefaultDomainsIfEmpty s)"
    "sv_firebase sv = snd (initializeOnce L config freshFirebase)"
  using assms by (auto simp: bootstrap_def initModules_def Let_def split: sum.splits prod.splits)

lemma backfill_domains: "findBlockedDomain q (backfillFingerprints H now s) = findBlockedDomain q s"
  by (simp add: backfillFingerprints_def findBlockedDomain_def)

lemma updateMany_all: "(\<And>d. P d \<Longrightarrow> Q (f d)) \<Longrightarrow> (\<And>d. d \<in> set ds \<Longrightarrow> \<not> P d \<Longrightarrow> Q d) \<Longrightarrow> d \<in> set (updateMany P f ds) \<Longrightarrow> Q d"
  by (induction ds) (auto split: if_splits)

text \<open>C24: What a started server has. The process listens exactly when the environment is valid, the database answers,
  the initialisation of Firebase does not throw and the port is free. Then the port lies between 1 and 65535;
  in production there is no API documentation, no secret is a placeholder and a browser origin is trusted only
  when it is configured; messages can be sent exactly when Firebase is ready; every domain of the seed is in an initially
  empty catalogue with its subdomains; and every device with a MAC address has a fingerprint.\<close>
theorem bootstrap_outcome:
  "(is_ok (bootstrap K L H connect bind config now s) \<longleftrightarrow>
      is_ok (validateEnv config) \<and> is_ok connect \<and> is_ok (fst (initializeOnce L config freshFirebase)) \<and> is_ok (bind (listenPort config))) \<and>
   (\<forall>sv. bootstrap K L H connect bind config now s = Inr sv \<longrightarrow>
      1 \<le> sv_port sv \<and> sv_port sv \<le> 65535 \<and>
      (isProduction config \<longrightarrow> sv_docsPath sv = None \<and>
         (\<forall>key v. key \<in> {''JWT_SECRET'', ''JWT_REFRESH_SECRET'', ''ENCRYPTION_KEY''} \<longrightarrow> config key = Some v \<longrightarrow> \<not> looksLikePlaceholder v) \<and>
         (\<forall>origin. origin \<noteq> [] \<longrightarrow> co_origin (sv_cors sv) (Some origin) \<longrightarrow>
            origin \<in> set (map trim (splitOn (CHR '','') (patch (config ''CORS_ORIGINS'') []))))) \<and>
      (is_ok (getMessaging (sv_firebase sv)) \<longleftrightarrow> isReady (sv_firebase sv)) \<and>
      (blockedDomains s = [] \<longrightarrow> (\<forall>(d, c, w) \<in> set SEED_DOMAINS. \<forall>q. normDomain q = d \<or> endsWith (normDomain q) (''.'' @ d) \<longrightarrow>
         findBlockedDomain q (sv_store sv) \<noteq> None)) \<and>
      (\<forall>d \<in> set (devices (sv_store sv)). dev_macAddress d \<noteq> None \<longrightarrow> dev_fingerprintHash d \<noteq> None))"
proof (intro conjI allI impI)
  fix sv assume b: "bootstrap K L H connect bind config now s = Inr sv"
  note sv = bootstrap_Inr [OF b]
  obtain c where "validateEnv config = Inr c"
    using b bootstrap_ok [of K L H connect bind config now s] by (auto simp: is_ok_iff)
  note env = validated_env_starts [OF this, of K]
  show "1 \<le> sv_port sv" "sv_port sv \<le> 65535" using env by (auto simp: sv)
  show "is_ok (getMessaging (sv_firebase sv)) \<longleftrightarrow> isReady (sv_firebase sv)" by (simp add: sv firebase_ready)
  show "\<forall>(d, c, w) \<in> set SEED_DOMAINS. \<forall>q. normDomain q = d \<or> endsWith (normDomain q) (''.'' @ d) \<longrightarrow>
      findBlockedDomain q (sv_store sv) \<noteq> None" if "blockedDomains s = []"
    using seed_effective [OF that, of "[]"] by (simp add: sv backfill_domains)
  show "\<forall>d \<in> set (devices (sv_store sv)). dev_macAddress d \<noteq> None \<longrightarrow> dev_fingerprintHash d \<noteq> None"
    unfolding sv backfillFingerprints_def by (auto dest!: updateMany_all [rotated 2, where Q = "\<lambda>d. dev_macAddress d \<noteq> None \<longrightarrow> dev_fingerprintHash d \<noteq> None"])
  assume p: "isProduction config"
  then show "sv_docsPath sv = None" by (simp add: sv)
  show "\<not> looksLikePlaceholder v" if "key \<in> {''JWT_SECRET'', ''JWT_REFRESH_SECRET'', ''ENCRYPTION_KEY''}" "config key = Some v" for key v
    using env p that by blast
  show "origin \<in> set (map trim (splitOn (CHR '','') (patch (config ''CORS_ORIGINS'') [])))"
    if "origin \<noteq> []" "co_origin (sv_cors sv) (Some origin)" for origin
    using p that by (auto simp: sv corsOptions_main_def corsOrigin_def allowedOrigins_def truthy_def)
qed (simp_all add: bootstrap_ok)

text \<open>A production environment, with no Firebase credentials, over an empty database.\<close>

definition noFirebase :: "unit firebaseLib" where
  "noFirebase = \<lparr>fb_defaultApp = False, fb_certFile = (\<lambda>_. Inl []), fb_applicationDefault = Inl [],
     fb_cert = (\<lambda>_. Inl []), fb_initializeApp = (\<lambda>_. Inl [])\<rparr>"

definition demoBoot :: "mapStore gstore served result" where
  "demoBoot = bootstrap hexCipher noFirebase (ae_hashes demoAgent) (Inr ()) (\<lambda>_. Inr ()) demoEnv 0 bootStore"

theorem bootstrap_outcome_witness:
  "\<exists>sv. demoBoot = Inr sv \<and> sv_docsPath sv = None \<and> \<not> co_origin (sv_cors sv) (Some ''http://localhost:3000'')"
proof -
  have "is_ok (fst (initializeOnce noFirebase demoEnv freshFirebase))"
    by (simp add: initializeOnce_ok resolveCredential_ok demoEnv_def truthy_def)
  then obtain sv where sv: "demoBoot = Inr sv"
    using bootstrap_outcome [of hexCipher noFirebase "ae_hashes demoAgent" "Inr ()" "\<lambda>_. Inr ()" demoEnv 0 bootStore]
    by (auto simp: demoBoot_def demoEnv_valid is_ok_iff)
  moreover have "isProduction demoEnv" "set (map trim (splitOn (CHR '','') (patch (demoEnv ''CORS_ORIGINS'') []))) = {[]}"
    by (simp_all add: isProduction_def demoEnv_def) code_simp
  ultimately show ?thesis
    using bootstrap_outcome [of hexCipher noFirebase "ae_hashes demoAgent" "Inr ()" "\<lambda>_. Inr ()" demoEnv 0 bootStore]
    by (auto simp: demoBoot_def)
qed

end
