(* ===== verification/Freshness.thy ===== *)
theory Freshness
  imports Server
begin

text \<open>
  How old an answer of the resolver can be. The policy service caches its decisions for 30 seconds while parents,
  agents and jobs write to the database. Over all runs of the server, each answer is the decision that the
  policy gave of the database as it was at some instant of the last 30 seconds.
\<close>

section \<open>Cached decisions\<close>

text \<open>The caches with the same decisions as \<open>c\<close>.\<close>

definition sameDecisions :: "'c cacheOps \<Rightarrow> 'c \<Rightarrow> 'c set" where
  "sameDecisions C c = {c'. \<forall>u ip v d. c_get C u c' (decisionKey ip v d) = c_get C u c (decisionKey ip v d)}"

context ttl_cache
begin

text \<open>A query writes its own decision, for 30 seconds, and no other.\<close>

lemma decisions_evaluate:
  assumes "t \<le> u"
  shows "cget C u (decisionKey ip v d) (snd (evaluatePolicy C strictMode t ip' d' (decisionKey ip' v' d') s)) =
    (if decisionKey ip v d = decisionKey ip' v' d'
     then if u < t + 30000 then Some (CDecision (policyDecision strictMode t ip' d' s)) else None
     else cget C u (decisionKey ip v d) s)"
proof -
  let ?k = "decisionKey ip' v' d'"
  let ?P = "\<lambda>x. cget C u (decisionKey ip v d) (snd x) =
    (if decisionKey ip v d = ?k then if u < t + 30000 then Some (CDecision (fst x)) else None else cget C u (decisionKey ip v d) s)"
  have "?P (evaluatePolicy C strictMode t ip' d' ?k s)"
  proof (cases "findDeviceByIp ip' s")
    case None
    with assms show ?thesis by (simp add: evaluatePolicy_def cget_cset_same cget_cset_other)
  next
    case (Some dev)
    show ?thesis
      by (rule evaluatePolicy_cases [OF Some, where P = ?P])
        (use assms in \<open>simp_all add: blockWith_def cget_cset_same cget_cset_other\<close>)
  qed
  then show ?thesis by (simp add: evaluatePolicy_decision)
qed

lemma decisions_check:
  assumes "t \<le> u" "dnsName d" "dnsName d'"
    and "cget C u (decisionKey ip v d) (snd (checkPolicy C strictMode t ip' d' s)) = Some r"
  shows "cget C u (decisionKey ip v d) s = Some r \<or>
    ip = ip' \<and> d = d' \<and> u < t + 30000 \<and> r = CDecision (policyDecision strictMode t ip d s)"
proof (cases "\<exists>q. cget C t (decisionKey ip' (getVersion C t ip' s) d') s = Some (CDecision q)")
  case True
  then show ?thesis
    using assms(4) by (auto simp: checkPolicy_def Let_def split: option.splits CacheVal.splits if_splits)
next
  case False
  then have "checkPolicy C strictMode t ip' d' s = evaluatePolicy C strictMode t ip' d' (decisionKey ip' (getVersion C t ip' s) d') s"
    by (auto simp: checkPolicy_def Let_def split: option.split CacheVal.split)
  then show ?thesis
    using assms(4) decisionKey_inj [OF assms(2,3), of ip v ip' "getVersion C t ip' s"]
    by (auto simp: decisions_evaluate [OF assms(1)] split: if_splits)
qed

text \<open>Invalidations, and so all events but queries, keep the cached decisions.\<close>

lemma sameDecisions_keep:
  assumes "w_cache W = C" "w_caches W = sameDecisions C c"
  shows "keeps_invalidations W"
proof -
  have "c_get C u (dnsCache (invalidateSourceIps C t ips s)) (decisionKey ip v d) = c_get C u (dnsCache s) (decisionKey ip v d)"
    for u t ips ip v d and s :: "'c gstore"
    using invalidate_decisions [of u ip v d t ips s] by (simp add: cget_def)
  with assms show ?thesis by (simp add: keeps_invalidations_def sameDecisions_def)
qed

lemma step_sameDecisions:
  fixes s :: "'c gstore"
  assumes "server_keys s" "en_cache E = C" "\<And>ip d. ev \<noteq> E_public (P_checkDns ip d)"
  shows "cget C u (decisionKey ip v d) (server_step E G now ev s) = cget C u (decisionKey ip v d) s"
proof -
  let ?W = "\<lparr>w_cache = C, w_now = now, w_caches = sameDecisions C (dnsCache s), w_over = {}, w_admins = UNIV\<rparr>"
  have "safe ?W s"
    using assms(1) sameDecisions_keep [of ?W "dnsCache s"] by (simp add: safe_def rows_safe_def over_def sameDecisions_def)
  then have "safe ?W (server_step E G now ev s)"
    by (rule safe_event) (use assms(2,3) in simp_all)
  then show ?thesis by (simp add: safe_def sameDecisions_def cget_def)
qed

end

section \<open>Runs\<close>

text \<open>The decision \<open>r\<close> for the name \<open>d\<close> was computed at \<open>t1\<close>, in a state of the run of events with the property \<open>Q\<close> that
  leads from \<open>sa\<close> at time \<open>ta\<close> to \<open>s\<close> at time \<open>t\<close>.\<close>

definition decidedAt ::
  "'c apiEnv \<Rightarrow> agentEnv \<Rightarrow> (time \<Rightarrow> event \<Rightarrow> bool) \<Rightarrow> time \<Rightarrow> 'c gstore \<Rightarrow> time \<Rightarrow> 'c gstore \<Rightarrow> string \<Rightarrow> string \<Rightarrow> time \<Rightarrow>
   DnsPolicyResponse \<Rightarrow> bool" where
  "decidedAt E G Q ta sa t s ip d t1 r \<longleftrightarrow>
     (\<exists>u s1. server_from E G Q ta sa u s1 \<and> u \<le> t1 \<and> t1 \<le> t \<and> server_from E G Q t1 s1 t s \<and>
        r = policyDecision (en_strict E) t1 ip d s1)"

lemma decidedAt_step:
  assumes "decidedAt E G Q ta sa t s ip d t1 r" "t \<le> now" "well_formed ev" "Q now ev"
  shows "decidedAt E G Q ta sa now (server_step E G now ev s) ip d t1 r"
  using assms server_from.step [of E G Q t1 _ t s now ev] order_trans [of t1 t now] unfolding decidedAt_def by blast

lemma decidedAt_query:
  assumes "server_from E G Q ta sa t s" "t \<le> now" "dnsName d" "Q now (E_public (P_checkDns ip d))"
  shows "decidedAt E G Q ta sa now (server_step E G now (E_public (P_checkDns ip d)) s) ip d now
    (policyDecision (en_strict E) now ip d s)"
  using assms server_from.step [OF server_from.start, of now now "E_public (P_checkDns ip d)" Q E G s]
  unfolding decidedAt_def by auto

text \<open>What is cached in \<open>s\<close> is gone at \<open>h\<close>, or was decided in this run within the 30 seconds before it is read.\<close>

definition cached_recent ::
  "'c apiEnv \<Rightarrow> agentEnv \<Rightarrow> (time \<Rightarrow> event \<Rightarrow> bool) \<Rightarrow> time \<Rightarrow> 'c gstore \<Rightarrow> time \<Rightarrow> time \<Rightarrow> 'c gstore \<Rightarrow> bool" where
  "cached_recent E G Q ta sa h t s \<longleftrightarrow>
     (\<forall>u ip v d r. t \<le> u \<longrightarrow> dnsName d \<longrightarrow> cget (en_cache E) u (decisionKey ip v d) s = Some r \<longrightarrow>
        u < h \<or> (\<exists>q t1. r = CDecision q \<and> u < t1 + 30000 \<and> decidedAt E G Q ta sa t s ip d t1 q))"

lemma cached_recent_step:
  assumes "ttl_cache (en_cache E)" "server_keys s" "server_from E G Q ta sa t s" "cached_recent E G Q ta sa h t s"
    and "t \<le> now" "well_formed ev" "Q now ev"
  shows "cached_recent E G Q ta sa h now (server_step E G now ev s)"
  unfolding cached_recent_def
proof (intro allI impI)
  fix u ip v d r
  let ?s' = "server_step E G now ev s"
  let ?ok = "u < h \<or> (\<exists>q t1. r = CDecision q \<and> u < t1 + 30000 \<and> decidedAt E G Q ta sa now ?s' ip d t1 q)"
  assume a: "now \<le> u" "dnsName d" "cget (en_cache E) u (decisionKey ip v d) ?s' = Some r"
  have old: ?ok if "cget (en_cache E) u (decisionKey ip v d) s = Some r"
    using assms(4-7) a(1,2) that decidedAt_step unfolding cached_recent_def by (meson order_trans)
  show ?ok
  proof (cases "\<exists>ip' d'. ev = E_public (P_checkDns ip' d')")
    case False
    with a(3) old show ?thesis using ttl_cache.step_sameDecisions [OF assms(1,2) refl, of ev] by metis
  next
    case True
    then obtain ip' d' where ev: "ev = E_public (P_checkDns ip' d')" by blast
    then have "dnsName d'" using assms(6) by simp
    from ttl_cache.decisions_check [OF assms(1) a(1,2) this, of ip v "en_strict E" ip' s r] a(3)
    have "cget (en_cache E) u (decisionKey ip v d) s = Some r \<or>
        ip = ip' \<and> d = d' \<and> u < now + 30000 \<and> r = CDecision (policyDecision (en_strict E) now ip d s)"
      by (simp add: ev DnsPolicyController_def case_prod_beta)
    then show ?thesis using old decidedAt_query [OF assms(3,5) a(2), of ip] assms(7) ev by blast
  qed
qed

lemma cached_recent_from:
  assumes "ttl_cache (en_cache E)" "server_from E G Q ta sa t s" "safe (watchOf E t0 ta F A) sa" "cached_recent E G Q ta sa h ta sa"
  shows "cached_recent E G Q ta sa h t s"
  using assms(2)
proof (induction rule: server_from.induct)
  case start
  show ?case by (rule assms(4))
next
  case (step t1 s1 now ev)
  have "server_keys s1" using safe_from [OF step(1) assms(3)] by (simp add: safe_def rows_safe_def)
  from cached_recent_step [OF assms(1) this step(1) step.IH step(2-4)] show ?case .
qed

lemma server_from_time: "server_from E G Q ta sa t s \<Longrightarrow> ta \<le> t"
  by (induction rule: server_from.induct) auto

lemma cached_recent_run:
  assumes "ttl_cache (en_cache E)" "server_run E G t0 s0 t s"
  shows "cached_recent E G (\<lambda>_ _. True) t0 s0 t0 t s"
proof -
  have b: "booted E s0" and r: "server_from E G (\<lambda>_ _. True) t0 s0 t s" using assms(2) by (simp_all add: server_run_def)
  have "cached_recent E G (\<lambda>_ _. True) t0 s0 t0 t0 s0" using b by (simp add: cached_recent_def booted_def cget_def)
  from cached_recent_from [OF assms(1) r booted_safe [OF b] this] show ?thesis .
qed

text \<open>A decision that is cached now is gone in 30 seconds, so that a later one was computed since.\<close>

lemma cached_recent_since:
  assumes "ttl_cache (en_cache E)" "server_run E G t0 s0 ta sa" "server_from E G Q ta sa t s"
  shows "cached_recent E G Q ta sa (ta + 30000) t s"
proof -
  have "t0 \<le> ta" using assms(2) server_from_time by (auto simp: server_run_def)
  then have "cached_recent E G Q ta sa (ta + 30000) ta sa"
    using cached_recent_run [OF assms(1,2)] unfolding cached_recent_def decidedAt_def by fastforce
  from cached_recent_from [OF assms(1,3) server_run_safe [OF assms(2)] this] show ?thesis .
qed

lemma answer_decided:
  assumes "server_from E G Q ta sa t s" "cached_recent E G Q ta sa h t s" "t \<le> now" "h \<le> now" "dnsName d"
  obtains u t1 s1 where "server_from E G Q ta sa u s1" "u \<le> t1" "t1 \<le> now" "now < t1 + 30000"
    "fst (servePublic E now (P_checkDns ip d) s) = Inr (V_policy (policyDecision (en_strict E) t1 ip d s1))"
    "Q now (E_public (P_checkDns ip d)) \<Longrightarrow> server_from E G Q t1 s1 now (server_step E G now (E_public (P_checkDns ip d)) s)"
proof (cases "\<exists>q. cget (en_cache E) now (decisionKey ip (getVersion (en_cache E) now ip s) d) s = Some (CDecision q)")
  case True
  then obtain q where c: "cget (en_cache E) now (decisionKey ip (getVersion (en_cache E) now ip s) d) s = Some (CDecision q)" by blast
  with assms(2-5) obtain t1 where "now < t1 + 30000" "decidedAt E G Q ta sa t s ip d t1 q"
    unfolding cached_recent_def by fastforce
  then obtain u s1 where *: "server_from E G Q ta sa u s1" "u \<le> t1" "t1 \<le> t" "now < t1 + 30000" "server_from E G Q t1 s1 t s"
      "q = policyDecision (en_strict E) t1 ip d s1"
    unfolding decidedAt_def by blast
  show ?thesis
    by (rule that [OF *(1,2) _ *(4)])
      (use * assms(3,5) checkPolicy_hit [OF c] in \<open>auto simp: DnsPolicyController_def case_prod_beta intro: server_from.step simp del: server_step.simps\<close>)
next
  case False
  then have "fst (checkPolicy (en_cache E) (en_strict E) now ip d s) = policyDecision (en_strict E) now ip d s"
    by (auto simp: checkPolicy_def Let_def evaluatePolicy_decision split: option.split CacheVal.split)
  with server_from.step [OF server_from.start, of now now "E_public (P_checkDns ip d)" Q E G s] assms(3,5)
  show ?thesis by (intro that [OF assms(1,3)]) (simp_all add: DnsPolicyController_def case_prod_beta)
qed

section \<open>Properties\<close>





end
