(* ===== verification/Response_Cache.thy ===== *)
theory Response_Cache
  imports Prelude
begin

text \<open>
  Read-through caching of whole answers, as \<^verbatim>\<open>device-health.service.ts\<close> (15 s) and \<^verbatim>\<open>reports.service.ts\<close>
  (5 min) do it: look the key up, answer the cached value if there is one, else compute, store with a
  time to live and answer. The cache server is a parameter with the documented laws of a keyed store
  with expiry (locale \<open>response_cache\<close>); the answers are of any type. A run is a sequence of requests at
  growing times (of queries that are \<open>valid\<close>), each against the database as it is then; the history keeps the databases the requests
  saw.
\<close>

record ('c, 'v) memoOps =
  mo_get :: "time \<Rightarrow> 'c \<Rightarrow> string \<Rightarrow> 'v option"
  mo_set :: "time \<Rightarrow> string \<Rightarrow> 'v \<Rightarrow> int \<Rightarrow> 'c \<Rightarrow> 'c"

definition memoised ::
  "('c, 'v) memoOps \<Rightarrow> string \<Rightarrow> int \<Rightarrow> time \<Rightarrow> 'v result \<Rightarrow> 'c \<Rightarrow> 'v result \<times> 'c" where
  "memoised C k ttl now answer c =
     (case mo_get C now c k of
        Some v \<Rightarrow> (Inr v, c)
      | None \<Rightarrow> (case answer of Inl e \<Rightarrow> (Inl e, c) | Inr v \<Rightarrow> (Inr v, mo_set C now k v ttl c)))"

inductive memo_run ::
  "('c, 'v) memoOps \<Rightarrow> ('q \<Rightarrow> bool) \<Rightarrow> ('q \<Rightarrow> string) \<Rightarrow> int \<Rightarrow> ('q \<Rightarrow> time \<Rightarrow> 's \<Rightarrow> 'v result) \<Rightarrow> time \<Rightarrow> 'c \<Rightarrow>
   (time \<times> 's) list \<Rightarrow> bool"
  for C valid key ttl compute where
  empty: "(\<And>t k. mo_get C t c k = None) \<Longrightarrow> memo_run C valid key ttl compute t0 c []"
| request: "memo_run C valid key ttl compute t c h \<Longrightarrow> t \<le> t' \<Longrightarrow> valid q \<Longrightarrow>
    memo_run C valid key ttl compute t' (snd (memoised C (key q) ttl t' (compute q t' s) c)) ((t', s) # h)"

text \<open>A value was computed within the last \<open>ttl\<close> milliseconds for the key.\<close>

definition recent ::
  "('q \<Rightarrow> bool) \<Rightarrow> ('q \<Rightarrow> string) \<Rightarrow> int \<Rightarrow> ('q \<Rightarrow> time \<Rightarrow> 's \<Rightarrow> 'v result) \<Rightarrow> (time \<times> 's) list \<Rightarrow> time \<Rightarrow> string \<Rightarrow>
   'v \<Rightarrow> bool" where
  "recent valid key ttl compute h now k v \<longleftrightarrow>
     (\<exists>q t0 s0. (t0, s0) \<in> set h \<and> valid q \<and> key q = k \<and> compute q t0 s0 = Inr v \<and> t0 \<le> now \<and> now < t0 + ttl)"

lemma recent_mono: "recent valid key ttl compute h now k v \<Longrightarrow> set h \<subseteq> set h' \<Longrightarrow> recent valid key ttl compute h' now k v"
  unfolding recent_def by blast

locale response_cache =
  fixes C :: "('c, 'v) memoOps"
  assumes mget_same: "t \<le> t' \<Longrightarrow>
      mo_get C t' (mo_set C t k v ttl c) k = (if t' < t + ttl then Some v else None)"
    and mget_other: "k' \<noteq> k \<Longrightarrow> mo_get C t' (mo_set C t k v ttl c) k' = mo_get C t' c k'"
begin

lemma cached_recent:
  assumes "memo_run C valid key ttl compute t c h"
  shows "t \<le> now \<Longrightarrow> mo_get C now c k = Some v \<Longrightarrow> recent valid key ttl compute h now k v"
  using assms
proof (induction arbitrary: now k v rule: memo_run.induct)
  case (empty c t0)
  then show ?case by simp
next
  case (request t c h t' q s)
  have old: "recent valid key ttl compute ((t', s) # h) now k v" if "mo_get C now c k = Some v"
    using request.IH [OF _ that] request.hyps(2) request.prems(1) by (auto intro: recent_mono)
  show ?case
  proof (cases "mo_get C t' c (key q) = None \<and> (\<exists>w. compute q t' s = Inr w) \<and> k = key q")
    case True
    then obtain w where w: "compute q t' s = Inr w" and miss: "mo_get C t' c (key q) = None" "k = key q" by blast
    have "w = v \<and> now < t' + ttl"
      using request.prems by (simp add: memoised_def w miss mget_same split: if_splits)
    with w miss(2) request.prems(1) request.hyps(3) show ?thesis unfolding recent_def by auto
  next
    case False
    then show ?thesis
      using request.prems(2) old by (auto simp: memoised_def mget_other split: option.splits sum.splits)
  qed
qed

text \<open>Every answer is one that the service computed within the time to live, from the database as it
  was at that moment.\<close>

lemma answer_recent:
  assumes "memo_run C valid key ttl compute t c h" "t \<le> now" "0 < ttl" "valid q"
    and answer: "fst (memoised C (key q) ttl now (compute q now s) c) = Inr v"
  shows "recent valid key ttl compute ((now, s) # h) now (key q) v"
proof (cases "mo_get C now c (key q)")
  case None
  with answer have "compute q now s = Inr v" by (simp add: memoised_def split: sum.splits)
  with assms(3,4) show ?thesis
    unfolding recent_def by (intro exI [of _ q] exI [of _ now] exI [of _ s]) simp
next
  case (Some w)
  with answer have "w = v" by (simp add: memoised_def)
  with cached_recent [OF assms(1,2)] Some have "recent valid key ttl compute h now (key q) v" by simp
  then show ?thesis by (rule recent_mono) auto
qed

end

text \<open>A keyed store with expiry times has the laws.\<close>

definition mapMemo :: "(string \<Rightarrow> ('v \<times> time) option, 'v) memoOps" where
  "mapMemo =
     \<lparr>mo_get = (\<lambda>t c k. case c k of None \<Rightarrow> None | Some (v, e) \<Rightarrow> if t < e then Some v else None),
      mo_set = (\<lambda>t k v ttl c. c(k \<mapsto> (v, t + ttl)))\<rparr>"

interpretation map_memo: response_cache mapMemo
  by unfold_locales (auto simp: mapMemo_def)

end
