(* ===== verification/Health.thy ===== *)
theory Health
  imports Notify Response_Cache Js_Number
begin

text \<open>
  Protection health: the verdict per device (\<^verbatim>\<open>device-health.types.ts\<close>), the summary over the devices of a
  parent with its 15 s cache (\<^verbatim>\<open>device-health.service.ts\<close>), and the household rollup with its weighted
  score (\<^verbatim>\<open>network-health.types.ts\<close>, \<^verbatim>\<open>network-health.service.ts\<close>). The order in which the database
  sorts devices by name (its collation) is the parameter \<open>byName\<close>.

  Percentages are computed by the code as \<^verbatim>\<open>Math.round((a / b) * 100)\<close> on double-precision numbers, where
  the two roundings can move an exact tie: \<^verbatim>\<open>23/40*100\<close> is \<^verbatim>\<open>57.49999999999999\<close>, shown as 57. \<open>percentOf\<close> of
  theory \<open>Js_Number\<close> computes them bit for bit.
\<close>

section \<open>The verdict on a device\<close>

datatype DeviceHealthState = VERIFIED | IDLE | NEEDS_ATTENTION | NEVER_VERIFIED | NOT_CONFIGURED

datatype HealthSeverity = SEV_OK | SEV_INFO | SEV_WARNING

record DeviceHealthInput =
  dhi_dnsConfigured :: bool
  dhi_lastDnsSeenAt :: "time option"
  dhi_internetLocked :: bool
  dhi_hasActiveSession :: bool

record DeviceHealthVerdict =
  dhv_state :: DeviceHealthState
  dhv_severity :: HealthSeverity
  dhv_filteringActive :: bool
  dhv_title :: string
  dhv_message :: string
  dhv_recommendedAction :: "string option"
  dhv_lastDnsSeenAt :: "time option"
  dhv_ageMinutes :: "int option"

definition FRESH_THRESHOLD_MINUTES :: int where "FRESH_THRESHOLD_MINUTES = 15"

definition evaluateDeviceHealth :: "DeviceHealthInput \<Rightarrow> time \<Rightarrow> DeviceHealthVerdict" where
  "evaluateDeviceHealth input now =
     (let seen = dhi_lastDnsSeenAt input;
          ageMinutes = map_option (\<lambda>t. max 0 ((now - t) div 60000)) seen;
          verdict = (\<lambda>st sev active title msg act.
            \<lparr>dhv_state = st, dhv_severity = sev, dhv_filteringActive = active, dhv_title = title, dhv_message = msg,
             dhv_recommendedAction = act, dhv_lastDnsSeenAt = seen, dhv_ageMinutes = ageMinutes\<rparr>)
      in
      case ageMinutes of
        None \<Rightarrow>
          if \<not> dhi_dnsConfigured input then
            verdict NOT_CONFIGURED SEV_INFO False ''Not set up yet''
              ''DNS filtering has not been configured for this device.'' (Some ''Run the DNS setup guide'')
          else
            verdict NEVER_VERIFIED SEV_WARNING False ''Never verified''
              (''This device is marked as configured, but we have never seen DNS traffic from '' @ ''it. The DNS may be set incorrectly.'')
              (Some ''Re-check the DNS setup and run a verification'')
      | Some age \<Rightarrow>
          if age \<le> FRESH_THRESHOLD_MINUTES then
            verdict VERIFIED SEV_OK True ''Protected''
              (''DNS filtering is active '' @ emdash @ '' we saw traffic from this device just now.'') None
          else if dhi_internetLocked input \<or> dhi_hasActiveSession input then
            verdict NEEDS_ATTENTION SEV_WARNING False ''Needs attention''
              (if dhi_internetLocked input
               then (''This device is locked but no DNS traffic is reaching us. The child may have '' @ ''changed DNS, started a VPN, or switched to a hotspot.'')
               else (''A session is active but no DNS traffic is reaching us '' @ emdash @ '' filtering may be bypassed.''))
              (Some ''Check router DNS, private DNS, and for a VPN or hotspot'')
          else
            verdict IDLE SEV_INFO False ''Idle''
              (''No recent DNS traffic. The device is likely powered off or not currently '' @ ''online. Filtering resumes automatically when it reconnects.'')
              None)"

section \<open>The summary of a parent\<close>

record DeviceHealthItem =
  dit_deviceId :: ident
  dit_name :: string
  dit_type :: DeviceType
  dit_childId :: "ident option"
  dit_verdict :: DeviceHealthVerdict

record DeviceHealthSummary =
  dhs_generatedAt :: string
  dhs_total :: nat
  dhs_protectedCount :: nat
  dhs_needsAttentionCount :: nat
  dhs_notConfiguredCount :: nat
  dhs_counts :: "DeviceHealthState \<Rightarrow> nat"
  dhs_devices :: "DeviceHealthItem list"

definition SUMMARY_TTL_MS :: int where "SUMMARY_TTL_MS = 15000"

definition activeSessionDeviceIds :: "ident \<Rightarrow> 'z store_scheme \<Rightarrow> ident set" where
  "activeSessionDeviceIds parentId s =
     set (map ses_deviceId (findMany (\<lambda>x. ses_parentId x = parentId \<and> ses_status x \<in> {ACTIVE, PAUSED}) (sessions s)))"

definition healthItem :: "time \<Rightarrow> ident set \<Rightarrow> Device \<Rightarrow> DeviceHealthItem" where
  "healthItem now activeIds device =
     \<lparr>dit_deviceId = dev_id device, dit_name = dev_name device, dit_type = dev_type device, dit_childId = dev_childId device,
      dit_verdict = evaluateDeviceHealth
        \<lparr>dhi_dnsConfigured = dev_dnsConfigured device, dhi_lastDnsSeenAt = dev_lastDnsSeenAt device,
         dhi_internetLocked = dev_internetLocked device, dhi_hasActiveSession = dev_id device \<in> activeIds\<rparr> now\<rparr>"

definition countState :: "DeviceHealthItem list \<Rightarrow> DeviceHealthState \<Rightarrow> nat" where
  "countState items st = foldl (\<lambda>n item. if dhv_state (dit_verdict item) = st then n + 1 else n) 0 items"

definition buildSummary :: "(Device list \<Rightarrow> Device list) \<Rightarrow> time \<Rightarrow> ident \<Rightarrow> 'z store_scheme \<Rightarrow> DeviceHealthSummary" where
  "buildSummary byName now parentId s =
     (let devs = byName (findMany (\<lambda>d. dev_parentId d = parentId) (devices s));
          items = map (healthItem now (activeSessionDeviceIds parentId s)) devs;
          counts = countState items
      in \<lparr>dhs_generatedAt = toISOString now, dhs_total = length items, dhs_protectedCount = counts VERIFIED,
          dhs_needsAttentionCount = counts NEEDS_ATTENTION + counts NEVER_VERIFIED,
          dhs_notConfiguredCount = counts NOT_CONFIGURED, dhs_counts = counts, dhs_devices = items\<rparr>)"

definition healthKey :: "ident \<Rightarrow> string" where "healthKey parentId = ''device-health:'' @ parentId"

definition getSummary_Device ::
  "('c, DeviceHealthSummary) memoOps \<Rightarrow> (Device list \<Rightarrow> Device list) \<Rightarrow> time \<Rightarrow> ident \<Rightarrow> 'z store_scheme \<Rightarrow> 'c \<Rightarrow>
   DeviceHealthSummary result \<times> 'c" where
  "getSummary_Device C byName now parentId s c =
     memoised C (healthKey parentId) SUMMARY_TTL_MS now (Inr (buildSummary byName now parentId s)) c"

definition getForDevice :: "time \<Rightarrow> ident \<Rightarrow> ident \<Rightarrow> 'z store_scheme \<Rightarrow> DeviceHealthItem result" where
  "getForDevice now parentId deviceId s =
     (case owned dev_parentId ''Device not found'' ''Not your device'' parentId (findDevice s deviceId) of
        Inl e \<Rightarrow> Inl e
      | Inr device \<Rightarrow> Inr (healthItem now (activeSessionDeviceIds parentId s) device))"

section \<open>The household\<close>

datatype HealthColor = GREEN | YELLOW | RED | GREY

record HealthSection =
  hse_label :: string
  hse_state :: string
  hse_color :: HealthColor
  hse_percent :: "nat option"
  hse_detail :: string

record NetworkHealthInput =
  nhi_dnsTotal :: nat
  nhi_dnsProtected :: nat
  nhi_routerTested :: nat
  nhi_routerHealthy :: nat
  nhi_anyGateway :: bool
  nhi_pluginConsidered :: nat
  nhi_pluginSucceeded :: nat
  nhi_vpnDetections24h :: nat
  nhi_bypassSuspected :: nat
  nhi_dohDetections24h :: nat
  nhi_devicesOnline :: nat
  nhi_devicesTotal :: nat
  nhi_lastSynchronization :: "time option"

record NetworkHealthSummary =
  nhs_generatedAt :: string
  nhs_overallProtection :: nat
  nhs_overallColor :: HealthColor
  nhs_router :: HealthSection
  nhs_dns :: HealthSection
  nhs_plugin :: HealthSection
  nhs_security :: HealthSection
  nhs_vpn :: HealthSection
  nhs_privateDns :: HealthSection
  nhs_doh :: HealthSection
  nhs_networkStability :: HealthSection
  nhs_lastSynchronization :: "string option"

definition colorForPercent :: "nat \<Rightarrow> HealthColor" where
  "colorForPercent p = (if 80 \<le> p then GREEN else if 50 \<le> p then YELLOW else RED)"

definition ratioPercent :: "nat \<Rightarrow> nat \<Rightarrow> nat option" where
  "ratioPercent a b = (if 0 < b then Some (percentOf a b) else None)"

definition healthSection :: "string \<Rightarrow> string \<Rightarrow> HealthColor \<Rightarrow> nat option \<Rightarrow> string \<Rightarrow> HealthSection" where
  "healthSection label st color percent detail =
     \<lparr>hse_label = label, hse_state = st, hse_color = color, hse_percent = percent, hse_detail = detail\<rparr>"

text \<open>A measured section: its state in three bands and the colour of its percentage.\<close>

definition measured :: "string \<Rightarrow> string \<Rightarrow> string \<Rightarrow> string \<Rightarrow> nat \<Rightarrow> string \<Rightarrow> HealthSection" where
  "measured label high mid low p detail =
     healthSection label (if 80 \<le> p then high else if 50 \<le> p then mid else low) (colorForPercent p) (Some p) detail"

definition shown :: "nat \<Rightarrow> string" where "shown n = showInt (int n)"

definition dnsSection :: "NetworkHealthInput \<Rightarrow> HealthSection" where
  "dnsSection input =
     (case ratioPercent (nhi_dnsProtected input) (nhi_dnsTotal input) of
        None \<Rightarrow> healthSection ''DNS'' ''Not Configured'' GREY None ''No devices set up for DNS filtering yet.''
      | Some p \<Rightarrow> measured ''DNS'' ''Healthy'' ''Degraded'' ''Needs Attention'' p
          (shown (nhi_dnsProtected input) @ ''/'' @ shown (nhi_dnsTotal input) @ '' devices confirmed filtering.''))"

definition routerSection :: "NetworkHealthInput \<Rightarrow> HealthSection" where
  "routerSection input =
     (if \<not> nhi_anyGateway input then healthSection ''Router'' ''Not Configured'' GREY None ''No gateway added yet.''
      else
        case ratioPercent (nhi_routerHealthy input) (nhi_routerTested input) of
          None \<Rightarrow> healthSection ''Router'' ''Not Tested'' GREY None ''Router connection has not been tested yet.''
        | Some p \<Rightarrow> measured ''Router'' ''Healthy'' ''Degraded'' ''Needs Attention'' p
            (shown (nhi_routerHealthy input) @ ''/'' @ shown (nhi_routerTested input) @
             '' router(s) passing their last connection test.''))"

definition pluginSection :: "NetworkHealthInput \<Rightarrow> HealthSection" where
  "pluginSection input =
     (case ratioPercent (nhi_pluginSucceeded input) (nhi_pluginConsidered input) of
        None \<Rightarrow> healthSection ''Plugin'' ''No Recent Activity'' GREY None ''No enforcement commands sent recently.''
      | Some p \<Rightarrow> measured ''Plugin'' ''Healthy'' ''Degraded'' ''Needs Attention'' p
          (shown (nhi_pluginSucceeded input) @ ''/'' @ shown (nhi_pluginConsidered input) @
           '' recent enforcement commands acknowledged successfully.''))"

definition vpnSection :: "NetworkHealthInput \<Rightarrow> HealthSection" where
  "vpnSection input =
     (if 0 < nhi_vpnDetections24h input
      then healthSection ''VPN'' ''Detected'' YELLOW (Some 60)
             (shown (nhi_vpnDetections24h input) @ '' VPN detection(s) in the last 24h.'')
      else healthSection ''VPN'' ''Not Detected'' GREEN (Some 100) ''No VPN use detected in the last 24h.'')"

definition privateDnsSection :: "NetworkHealthInput \<Rightarrow> HealthSection" where
  "privateDnsSection input =
     (if 0 < nhi_bypassSuspected input
      then healthSection ''Private DNS'' ''Bypass Suspected'' RED (Some 30)
             (shown (nhi_bypassSuspected input) @ '' device(s) flagged for a possible DNS bypass.'')
      else healthSection ''Private DNS'' ''Disabled'' GREEN (Some 100)
             ''No devices are bypassing the assigned DNS resolver.'')"

definition dohSection :: "NetworkHealthInput \<Rightarrow> HealthSection" where
  "dohSection input =
     (if 0 < nhi_dohDetections24h input
      then healthSection ''DoH'' ''Detected'' YELLOW (Some 60)
             (shown (nhi_dohDetections24h input) @ '' DoH/DoT detection(s) in the last 24h.'')
      else healthSection ''DoH'' ''Clean'' GREEN (Some 100)
             ''No encrypted-DNS bypass attempts detected in the last 24h.'')"

definition percentOr0 :: "HealthSection \<Rightarrow> nat" where
  "percentOr0 h = (case hse_percent h of None \<Rightarrow> 0 | Some p \<Rightarrow> p)"

definition roundQuot :: "nat \<Rightarrow> nat \<Rightarrow> nat" where
  "roundQuot a b = nat (roundDiv (int a) (int b))"

definition securitySection :: "NetworkHealthInput \<Rightarrow> HealthSection" where
  "securitySection input =
     (let p = roundQuot (percentOr0 (vpnSection input) + percentOr0 (privateDnsSection input) + percentOr0 (dohSection input)) 3
      in measured ''Security'' ''Healthy'' ''Monitor'' ''At Risk'' p ''VPN, Private DNS, and DoH bypass signals combined.'')"

definition stabilitySection :: "NetworkHealthInput \<Rightarrow> HealthSection" where
  "stabilitySection input =
     (case ratioPercent (nhi_devicesOnline input) (nhi_devicesTotal input) of
        None \<Rightarrow> healthSection ''Network Stability'' ''Not Configured'' GREY None ''No devices registered yet.''
      | Some p \<Rightarrow> measured ''Network Stability'' ''Stable'' ''Unstable'' ''Unreachable'' p
          (shown (nhi_devicesOnline input) @ ''/'' @ shown (nhi_devicesTotal input) @ '' devices currently online.''))"

text \<open>The sections that count, with their weights. The router section counts when a router was tested.\<close>

definition weighted :: "NetworkHealthInput \<Rightarrow> (HealthSection \<times> nat) list" where
  "weighted input =
     (if 0 < nhi_dnsTotal input then [(dnsSection input, 30)] else []) @
     (if 0 < nhi_routerTested input then [(routerSection input, 20)] else []) @
     (if 0 < nhi_pluginConsidered input then [(pluginSection input, 15)] else []) @
     [(securitySection input, 20)] @
     (if 0 < nhi_devicesTotal input then [(stabilitySection input, 15)] else [])"

definition overallOf :: "(HealthSection \<times> nat) list \<Rightarrow> nat" where
  "overallOf sections =
     (let totalWeight = sum_list (map snd sections) in
      if 0 < totalWeight then roundQuot (sum_list (map (\<lambda>(h, w). percentOr0 h * w) sections)) totalWeight else 0)"

definition computeNetworkHealth :: "NetworkHealthInput \<Rightarrow> time \<Rightarrow> NetworkHealthSummary" where
  "computeNetworkHealth input now =
     (let overall = overallOf (weighted input) in
      \<lparr>nhs_generatedAt = toISOString now, nhs_overallProtection = overall, nhs_overallColor = colorForPercent overall,
       nhs_router = routerSection input, nhs_dns = dnsSection input, nhs_plugin = pluginSection input,
       nhs_security = securitySection input, nhs_vpn = vpnSection input, nhs_privateDns = privateDnsSection input,
       nhs_doh = dohSection input, nhs_networkStability = stabilitySection input,
       nhs_lastSynchronization = map_option toISOString (nhi_lastSynchronization input)\<rparr>)"

definition lastSync :: "Gateway list \<Rightarrow> time option" where
  "lastSync gs =
     foldl (\<lambda>latest g. case gwy_lastSeen g of
        None \<Rightarrow> latest
      | Some t \<Rightarrow> (case latest of None \<Rightarrow> Some t | Some l \<Rightarrow> if l < t then Some t else latest)) None gs"

definition networkInput :: "time \<Rightarrow> ident \<Rightarrow> DeviceHealthSummary \<Rightarrow> 'z store_scheme \<Rightarrow> NetworkHealthInput" where
  "networkInput now parentId dnsSummary s =
     (let since24h = now - 24 * 60 * 60 * 1000;
          gws = findMany (\<lambda>g. gwy_parentId g = parentId) (gateways s);
          devs = findMany (\<lambda>d. dev_parentId d = parentId) (devices s);
          gatewayIds = set (map gwy_id gws);
          deviceIds = set (map dev_id devs);
          routers = findMany (\<lambda>r. rtr_gatewayId r \<in> gatewayIds) (detectedRouters s);
          recentCommands = take 20 (orderByDesc rcm_createdAt
            (findMany (\<lambda>c. rcm_gatewayId c \<in> gatewayIds \<and> rcm_status c \<in> {CMD_ACKNOWLEDGED, CMD_FAILED}) (routerCommands s)));
          tested = filter (\<lambda>r. rtr_lastTestResult r \<noteq> None) routers
      in
      \<lparr>nhi_dnsTotal = dhs_total dnsSummary, nhi_dnsProtected = dhs_protectedCount dnsSummary,
       nhi_routerTested = length tested, nhi_routerHealthy = length (filter (\<lambda>r. rtr_lastTestResult r = Some True) tested),
       nhi_anyGateway = (gws \<noteq> []), nhi_pluginConsidered = length recentCommands,
       nhi_pluginSucceeded = length (filter (\<lambda>c. rcm_status c = CMD_ACKNOWLEDGED) recentCommands),
       nhi_vpnDetections24h = length (findMany (\<lambda>v. vpn_gatewayId v \<in> gatewayIds \<and> since24h \<le> vpn_detectedAt v) (vpnDetections s)),
       nhi_bypassSuspected = length (filter (\<lambda>d. dev_protectionStatus d \<noteq> NORMAL) devs),
       nhi_dohDetections24h = length (findMany (\<lambda>a. aud_action a = ''doh_dot_detected'' \<and>
          (\<exists>i \<in> deviceIds. aud_entityId a = Some i) \<and> since24h \<le> aud_createdAt a) (auditLogs s)),
       nhi_devicesOnline = length (filter (\<lambda>d. dev_status d = DEV_ONLINE) devs), nhi_devicesTotal = length devs,
       nhi_lastSynchronization = lastSync gws\<rparr>)"

definition getSummary_Network ::
  "('c, DeviceHealthSummary) memoOps \<Rightarrow> (Device list \<Rightarrow> Device list) \<Rightarrow> time \<Rightarrow> ident \<Rightarrow> 'z store_scheme \<Rightarrow> 'c \<Rightarrow>
   NetworkHealthSummary result \<times> 'c" where
  "getSummary_Network C byName now parentId s c =
     (case getSummary_Device C byName now parentId s c of
        (Inl e, c') \<Rightarrow> (Inl e, c')
      | (Inr dnsSummary, c') \<Rightarrow> (Inr (computeNetworkHealth (networkInput now parentId dnsSummary s) now), c'))"

section \<open>Controller\<close>

datatype deviceHealthRoute = DH_network | DH_summary | DH_device ident

datatype deviceHealthValue = HV_network NetworkHealthSummary | HV_summary DeviceHealthSummary | HV_device DeviceHealthItem

fun DeviceHealthController ::
  "('c, DeviceHealthSummary) memoOps \<Rightarrow> (Device list \<Rightarrow> Device list) \<Rightarrow> time \<Rightarrow> ident \<Rightarrow> deviceHealthRoute \<Rightarrow> 'z store_scheme \<Rightarrow>
   'c \<Rightarrow> deviceHealthValue result \<times> 'c" where
  "DeviceHealthController C byName now p DH_network s c = mapResult HV_network (getSummary_Network C byName now p s c)"
| "DeviceHealthController C byName now p DH_summary s c = mapResult HV_summary (getSummary_Device C byName now p s c)"
| "DeviceHealthController C byName now p (DH_device deviceId) s c = mapResult HV_device (getForDevice now p deviceId s, c)"

section \<open>Bounds\<close>

lemma countState_eq: "countState items st = length (filter (\<lambda>i. dhv_state (dit_verdict i) = st) items)"
proof -
  have "foldl (\<lambda>n i. if dhv_state (dit_verdict i) = st then n + 1 else n) n items =
        n + length (filter (\<lambda>i. dhv_state (dit_verdict i) = st) items)" for n
    by (induction items arbitrary: n) simp_all
  then show ?thesis by (simp add: countState_def)
qed

lemma countState_total:
  "length items = countState items VERIFIED + countState items IDLE + countState items NEEDS_ATTENTION +
     countState items NEVER_VERIFIED + countState items NOT_CONFIGURED"
proof (induction items)
  case (Cons i items)
  then show ?case by (cases "dhv_state (dit_verdict i)") (simp_all add: countState_eq)
qed (simp add: countState_eq)

lemma buildSummary_protected: "dhs_protectedCount (buildSummary byName now p s) \<le> dhs_total (buildSummary byName now p s)"
  unfolding buildSummary_def Let_def countState_eq DeviceHealthSummary.simps by (rule length_filter_le)

text \<open>A weighted mean lies between the bounds of what it averages.\<close>

lemma weighted_sum_bounds:
  assumes "\<And>h w. (h, w) \<in> set xs \<Longrightarrow> lo \<le> percentOr0 h \<and> percentOr0 h \<le> hi"
  shows "lo * sum_list (map snd xs) \<le> sum_list (map (\<lambda>(h, w). percentOr0 h * w) xs) \<and>
         sum_list (map (\<lambda>(h, w). percentOr0 h * w) xs) \<le> hi * sum_list (map snd xs)"
  using assms
proof (induction xs)
  case (Cons x xs)
  obtain h w where x: "x = (h, w)" by (cases x)
  have "lo \<le> percentOr0 h" "percentOr0 h \<le> hi" using Cons.prems x by auto
  then have "lo * w \<le> percentOr0 h * w" "percentOr0 h * w \<le> hi * w" by (auto intro: mult_le_mono1)
  moreover have "lo * sum_list (map snd xs) \<le> sum_list (map (\<lambda>(h, w). percentOr0 h * w) xs) \<and>
         sum_list (map (\<lambda>(h, w). percentOr0 h * w) xs) \<le> hi * sum_list (map snd xs)"
    using Cons.prems by (intro Cons.IH) auto
  ultimately show ?case unfolding x by (simp add: distrib_left add_mono)
qed simp

lemma roundQuot_bounds:
  assumes "0 < b" "lo * b \<le> a" "a \<le> hi * b"
  shows "lo \<le> roundQuot a b \<and> roundQuot a b \<le> hi"
proof
  have "int a \<le> int hi * int b" using assms(3) by (metis of_nat_le_iff of_nat_mult)
  then show "roundQuot a b \<le> hi"
    using roundDiv_bounds [of "int b" "int a" "int hi"] assms(1) by (simp add: roundQuot_def nat_le_iff)
  have "int lo * int b \<le> int a" using assms(2) by (metis of_nat_le_iff of_nat_mult)
  then have "int lo * (2 * int b) \<le> 2 * int a + int b" by simp
  then have "int lo \<le> roundDiv (int a) (int b)"
    using assms(1) by (simp add: roundDiv_def zdiv_mono1 [of "int lo * (2 * int b)" _ "2 * int b", simplified])
  then show "lo \<le> roundQuot a b" by (simp add: roundQuot_def)
qed

lemma overallOf_bounds:
  assumes "\<And>h w. (h, w) \<in> set xs \<Longrightarrow> lo \<le> percentOr0 h \<and> percentOr0 h \<le> hi" "0 < sum_list (map snd xs)"
  shows "lo \<le> overallOf xs \<and> overallOf xs \<le> hi"
proof -
  have "lo * sum_list (map snd xs) \<le> sum_list (map (\<lambda>(h, w). percentOr0 h * w) xs) \<and>
        sum_list (map (\<lambda>(h, w). percentOr0 h * w) xs) \<le> hi * sum_list (map snd xs)"
    using assms(1) by (rule weighted_sum_bounds)
  then have "lo \<le> roundQuot (sum_list (map (\<lambda>(h, w). percentOr0 h * w) xs)) (sum_list (map snd xs)) \<and>
        roundQuot (sum_list (map (\<lambda>(h, w). percentOr0 h * w) xs)) (sum_list (map snd xs)) \<le> hi"
    by (intro roundQuot_bounds [OF assms(2)]) blast+
  then show ?thesis using assms(2) by (simp add: overallOf_def Let_def)
qed

definition networkWf :: "NetworkHealthInput \<Rightarrow> bool" where
  "networkWf i \<longleftrightarrow> nhi_dnsProtected i \<le> nhi_dnsTotal i \<and> nhi_routerHealthy i \<le> nhi_routerTested i \<and>
     nhi_pluginSucceeded i \<le> nhi_pluginConsidered i \<and> nhi_devicesOnline i \<le> nhi_devicesTotal i"

text \<open>A section is unmeasured and grey, or has a percentage and its colour.\<close>

definition sectionWf :: "HealthSection \<Rightarrow> bool" where
  "sectionWf h = (case hse_percent h of None \<Rightarrow> hse_color h = GREY | Some p \<Rightarrow> p \<le> 100 \<and> hse_color h = colorForPercent p)"

lemma ratioPercent_le: "a \<le> b \<Longrightarrow> ratioPercent a b = Some p \<Longrightarrow> p \<le> 100"
  by (auto simp: ratioPercent_def percentOf_le split: if_splits)

lemma sectionWf_measured [simp]: "p \<le> 100 \<Longrightarrow> sectionWf (measured l a b c p d)"
  by (simp add: sectionWf_def measured_def healthSection_def)

lemma sections_wf:
  assumes "networkWf i"
  shows "sectionWf (dnsSection i)" "sectionWf (routerSection i)" "sectionWf (pluginSection i)"
    "sectionWf (stabilitySection i)" "sectionWf (securitySection i)"
proof -
  show "sectionWf (dnsSection i)" "sectionWf (pluginSection i)" "sectionWf (stabilitySection i)"
    using assms ratioPercent_le
    by (auto simp: dnsSection_def pluginSection_def stabilitySection_def networkWf_def
        split: option.splits) (simp_all add: sectionWf_def healthSection_def)
  show "sectionWf (routerSection i)"
    using assms ratioPercent_le
    by (auto simp: routerSection_def networkWf_def split: option.splits) (simp_all add: sectionWf_def healthSection_def)
  have "roundQuot (percentOr0 (vpnSection i) + percentOr0 (privateDnsSection i) + percentOr0 (dohSection i)) 3 \<le> 100"
    using roundQuot_bounds [where lo = 0 and hi = 100 and b = 3]
    by (simp add: percentOr0_def vpnSection_def privateDnsSection_def dohSection_def healthSection_def)
  then show "sectionWf (securitySection i)" by (simp add: securitySection_def Let_def)
qed

lemma weighted_bounded:
  assumes "networkWf i" "(h, w) \<in> set (weighted i)"
  shows "percentOr0 h \<le> 100"
proof -
  have "sectionWf h" using assms(2) sections_wf [OF assms(1)] by (auto simp: weighted_def split: if_splits)
  then show ?thesis by (auto simp: sectionWf_def percentOr0_def split: option.splits)
qed

lemma overall_min_max:
  "0 < sum_list (map snd xs) \<Longrightarrow> Min (percentOr0 ` fst ` set xs) \<le> overallOf xs \<and> overallOf xs \<le> Max (percentOr0 ` fst ` set xs)"
proof (rule overallOf_bounds)
  fix h w assume "(h, w) \<in> set xs"
  then have "percentOr0 h \<in> percentOr0 ` fst ` set xs" by force
  then show "Min (percentOr0 ` fst ` set xs) \<le> percentOr0 h \<and> percentOr0 h \<le> Max (percentOr0 ` fst ` set xs)"
    by (intro conjI Min_le Max_ge) simp_all
qed

lemma networkInput_wf: "dhs_protectedCount d \<le> dhs_total d \<Longrightarrow> networkWf (networkInput now p d s)"
  unfolding networkWf_def networkInput_def Let_def NetworkHealthInput.simps by (intro conjI length_filter_le)

section \<open>Properties\<close>

text \<open>The verdict on a device is honest. Filtering is reported active exactly when DNS traffic was seen
  less than 16 minutes before (15 whole minutes), a device is reported as needing attention exactly when
  it was seen longer ago while locked or in a session, and as never verified or not configured exactly
  when it was never seen; only the warnings are raised as warnings.\<close>
theorem device_verdict_honest:
  fixes i :: DeviceHealthInput and now :: time
  defines "v \<equiv> evaluateDeviceHealth i now"
  shows "(dhv_filteringActive v \<longleftrightarrow> (\<exists>t. dhi_lastDnsSeenAt i = Some t \<and> now - t < 16 * 60000)) \<and>
    (dhv_state v = NEEDS_ATTENTION \<longleftrightarrow> (\<exists>t. dhi_lastDnsSeenAt i = Some t \<and> 16 * 60000 \<le> now - t) \<and>
       (dhi_internetLocked i \<or> dhi_hasActiveSession i)) \<and>
    (dhv_state v = NEVER_VERIFIED \<longleftrightarrow> dhi_lastDnsSeenAt i = None \<and> dhi_dnsConfigured i) \<and>
    (dhv_state v = NOT_CONFIGURED \<longleftrightarrow> dhi_lastDnsSeenAt i = None \<and> \<not> dhi_dnsConfigured i) \<and>
    (dhv_severity v = SEV_WARNING \<longleftrightarrow> dhv_state v \<in> {NEEDS_ATTENTION, NEVER_VERIFIED}) \<and>
    (dhv_filteringActive v \<longleftrightarrow> dhv_state v = VERIFIED)"
proof (cases "dhi_lastDnsSeenAt i")
  case None
  then show ?thesis by (simp add: v_def evaluateDeviceHealth_def Let_def)
next
  case (Some t)
  have "max 0 ((now - t) div 60000) \<le> FRESH_THRESHOLD_MINUTES \<longleftrightarrow> now - t < 16 * 60000"
    by (auto simp: FRESH_THRESHOLD_MINUTES_def)
  with Some show ?thesis by (auto simp: v_def evaluateDeviceHealth_def Let_def)
qed

abbreviation deviceHealth_run ::
  "('c, DeviceHealthSummary) memoOps \<Rightarrow> (Device list \<Rightarrow> Device list) \<Rightarrow> time \<Rightarrow> 'c \<Rightarrow> (time \<times> 'z store_scheme) list \<Rightarrow> bool" where
  "deviceHealth_run C byName \<equiv> memo_run C (\<lambda>p. True) healthKey SUMMARY_TTL_MS (\<lambda>p t s. Inr (buildSummary byName t p s))"

lemma healthKey_inj: "healthKey p = healthKey q \<longleftrightarrow> p = q"
  by (simp add: healthKey_def)

lemma summary_recent:
  assumes "response_cache C" "deviceHealth_run C byName t c h" "t \<le> now"
    and "getSummary_Device C byName now p s c = (Inr r, c')"
  shows "\<exists>t0 s0. (t0, s0) \<in> set ((now, s) # h) \<and> t0 \<le> now \<and> now < t0 + 15000 \<and> r = buildSummary byName t0 p s0"
proof -
  have "recent (\<lambda>p. True) healthKey SUMMARY_TTL_MS (\<lambda>p t s. Inr (buildSummary byName t p s)) ((now, s) # h) now (healthKey p) r"
    by (rule response_cache.answer_recent [OF assms(1-3)])
      (use assms(4) in \<open>simp_all add: getSummary_Device_def SUMMARY_TTL_MS_def\<close>)
  then show ?thesis by (auto simp: recent_def healthKey_inj SUMMARY_TTL_MS_def)
qed

text \<open>A health summary is at most 15 seconds old and complete. Whatever requests came before, the
  answer to a parent was built for that parent from a state of the database that is less than 15 seconds
  old, covers exactly the devices of the parent, and its five counts add up to the total.\<close>
theorem device_summary_recent:
  assumes "response_cache C" and "\<And>ds. set (byName ds) = set ds"
    and "deviceHealth_run C byName t c h" "t \<le> now"
    and "getSummary_Device C byName now p s c = (Inr r, c')"
  shows "\<exists>t0 s0. (t0, s0) \<in> set ((now, s) # h) \<and> t0 \<le> now \<and> now < t0 + 15000 \<and>
    set (dhs_devices r) = healthItem t0 (activeSessionDeviceIds p s0) ` {d \<in> set (devices s0). dev_parentId d = p} \<and>
    dhs_total r = dhs_protectedCount r + dhs_counts r IDLE + dhs_needsAttentionCount r + dhs_notConfiguredCount r"
proof -
  from summary_recent [OF assms(1,3-5)] obtain t0 s0 where t0: "(t0, s0) \<in> set ((now, s) # h)" "t0 \<le> now" "now < t0 + 15000"
    and r: "r = buildSummary byName t0 p s0" by blast
  have "set (dhs_devices r) = healthItem t0 (activeSessionDeviceIds p s0) ` {d \<in> set (devices s0). dev_parentId d = p}"
    by (simp add: r buildSummary_def Let_def assms(2))
  moreover have "dhs_total r = dhs_protectedCount r + dhs_counts r IDLE + dhs_needsAttentionCount r + dhs_notConfiguredCount r"
    using countState_total by (simp add: r buildSummary_def Let_def)
  ultimately show ?thesis using t0 by blast
qed

theorem device_summary_recent_witness:
  "\<exists>r c. getSummary_Device mapMemo id 5 ''p'' (emptyStore (\<lambda>n. [])) (\<lambda>k. None) = (Inr r, c) \<and> dhs_total r = 0"
proof -
  have run: "deviceHealth_run mapMemo id 0 (\<lambda>k. None) ([] :: (time \<times> store) list)"
    by (rule memo_run.empty) (simp add: mapMemo_def)
  obtain r c where g: "getSummary_Device mapMemo id 5 ''p'' (emptyStore (\<lambda>n. [])) (\<lambda>k. None) = (Inr r, c)"
    by (simp add: getSummary_Device_def memoised_def mapMemo_def)
  from device_summary_recent [OF map_memo.response_cache_axioms _ run _ g]
  have "set (dhs_devices r) = {}" by (simp add: emptyStore_def)
  moreover have "dhs_total r = length (dhs_devices r)"
    using g by (auto simp: getSummary_Device_def memoised_def mapMemo_def buildSummary_def Let_def)
  ultimately show ?thesis by (simp add: g)
qed



end
