(* ===== verification/Reports.thy ===== *)
theory Reports
  imports Notify Response_Cache
begin

text \<open>
  Usage reports: the date windows and daily buckets (\<^verbatim>\<open>reports.util.ts\<close>), the weekly and monthly reports
  with their 5-minute cache (\<^verbatim>\<open>reports.service.ts\<close>) and the parsing of the requested offset
  (\<^verbatim>\<open>reports.controller.ts\<close>). Days are days of the host's time zone, of constant offset \<open>tz\<close>; months are shown in
  US English. Groups with equal sums come in the order in which the database scans them.
\<close>

section \<open>Windows and buckets\<close>

record ReportRange =
  rng_start :: time
  rng_end :: time
  rng_days :: int
  rng_label :: string

definition MONTHS :: "string list" where
  "MONTHS = [''Jan'', ''Feb'', ''Mar'', ''Apr'', ''May'', ''Jun'', ''Jul'', ''Aug'', ''Sep'', ''Oct'', ''Nov'', ''Dec'']"

definition fmt :: "int \<Rightarrow> time \<Rightarrow> string" where
  "fmt tz t = (case civil ((t + tz) div msPerDay) of (y, m, d) \<Rightarrow> MONTHS ! nat (m - 1) @ '' '' @ showInt d)"

definition resolveRange :: "int \<Rightarrow> time \<Rightarrow> int \<Rightarrow> int \<Rightarrow> ReportRange" where
  "resolveRange tz now days offset =
     (let safeDays = max 1 days;
          safeOffset = max 0 offset;
          end' = startOfDay tz now + (1 - safeDays * safeOffset) * msPerDay;
          start' = end' - safeDays * msPerDay;
          lastDay = end' - msPerDay
      in \<lparr>rng_start = start', rng_end = end', rng_days = safeDays, rng_label = fmt tz start' @ '' '' @ [CHR 0xE2, CHR 0x80, CHR 0x93] @ '' '' @ fmt tz lastDay\<rparr>)"

definition bucketDaily :: "(time \<times> int) list \<Rightarrow> ReportRange \<Rightarrow> int list" where
  "bucketDaily items rng =
     foldl (\<lambda>buckets (at, minutes).
        let idx = (at - rng_start rng) div msPerDay in
        if 0 \<le> idx \<and> idx < rng_days rng then buckets[nat idx := buckets ! nat idx + minutes] else buckets)
       (replicate (nat (rng_days rng)) 0) items"

section \<open>The report\<close>

text \<open>The offset of a request: \<^verbatim>\<open>parseInt\<close> of digits that overflow double precision is infinite.\<close>

definition parseOffset :: "string option \<Rightarrow> int" where
  "parseOffset raw =
     (case parseInt10 (patch raw ''0'') of
        None \<Rightarrow> 0
      | Some n \<Rightarrow> if 2 ^ 1024 - 2 ^ 970 \<le> n \<or> n < 0 then 0 else min n 52)"


datatype reportPeriod = WEEK | MONTH

primrec showPeriod :: "reportPeriod \<Rightarrow> string" where
  "showPeriod WEEK = ''week''"
| "showPeriod MONTH = ''month''"

record ReportChildBreakdown =
  rcb_childId :: ident
  rcb_name :: string
  rcb_screenMinutes :: int
  rcb_sessions :: int

record ReportTopApp =
  rta_name :: string
  rta_minutes :: int

record ReportDeviceActivity =
  rda_deviceId :: ident
  rda_name :: string
  rda_type :: DeviceType
  rda_protected :: bool

record PeriodReport =
  prp_period :: reportPeriod
  prp_start :: string
  prp_end :: string
  prp_label :: string
  prp_scope :: "ident option"
  prp_sessionsCount :: nat
  prp_screenMinutes :: int
  prp_trackedMinutes :: int
  prp_gamingMinutes :: int
  prp_dailyMinutes :: "int list"
  prp_topApps :: "ReportTopApp list"
  prp_byChild :: "ReportChildBreakdown list"
  prp_devices :: "ReportDeviceActivity list"
  prp_protectedDevices :: nat
  prp_totalDevices :: nat
  prp_generatedAt :: string

definition FRESH_MINUTES :: int where "FRESH_MINUTES = 15"
definition REPORT_TTL_MS :: int where "REPORT_TTL_MS = 5 * 60000"

record reportQuery =
  rq_parentId :: ident
  rq_childId :: "ident option"
  rq_period :: reportPeriod
  rq_offset :: int

definition reportKey :: "reportQuery \<Rightarrow> string" where
  "reportKey q = ''report:'' @ rq_parentId q @ '':'' @ (case rq_childId q of None \<Rightarrow> ''all'' | Some c \<Rightarrow> c) @ '':'' @
     showPeriod (rq_period q) @ '':'' @ showInt (rq_offset q)"

text \<open>The database's grouping of usage by application, as (application, total seconds).\<close>

fun addGroup :: "string option \<Rightarrow> int \<Rightarrow> (string option \<times> int) list \<Rightarrow> (string option \<times> int) list" where
  "addGroup a n [] = [(a, n)]"
| "addGroup a n ((b, m) # gs) = (if a = b then (b, m + n) # gs else (b, m) # addGroup a n gs)"

definition groupByApp :: "UsageLog list \<Rightarrow> (string option \<times> int) list" where
  "groupByApp logs = foldl (\<lambda>gs u. addGroup (ulg_appName u) (ulg_durationSec u) gs) [] logs"

definition sumSec :: "UsageLog list \<Rightarrow> int" where
  "sumSec logs = sum_list (map ulg_durationSec logs)"

text \<open>\<^verbatim>\<open>byChildMap\<close>: one entry per child in the order of the first session.\<close>

fun addChildMinutes :: "(ident \<Rightarrow> string) \<Rightarrow> Session \<Rightarrow> ReportChildBreakdown list \<Rightarrow> ReportChildBreakdown list" where
  "addChildMinutes nameOf x [] =
     [\<lparr>rcb_childId = ses_childId x, rcb_name = nameOf (ses_childId x), rcb_screenMinutes = ses_durationMinutes x, rcb_sessions = 1\<rparr>]"
| "addChildMinutes nameOf x (e # es) =
     (if rcb_childId e = ses_childId x
      then e\<lparr>rcb_screenMinutes := rcb_screenMinutes e + ses_durationMinutes x, rcb_sessions := rcb_sessions e + 1\<rparr> # es
      else e # addChildMinutes nameOf x es)"

definition childBreakdown :: "(ident \<Rightarrow> string) \<Rightarrow> Session list \<Rightarrow> ReportChildBreakdown list" where
  "childBreakdown nameOf xs = foldl (\<lambda>es x. addChildMinutes nameOf x es) [] xs"

definition deviceActivity :: "time \<Rightarrow> Device \<Rightarrow> ReportDeviceActivity" where
  "deviceActivity now d =
     \<lparr>rda_deviceId = dev_id d, rda_name = dev_name d, rda_type = dev_type d,
      rda_protected = (case dev_lastDnsSeenAt d of None \<Rightarrow> False | Some t \<Rightarrow> now - t \<le> FRESH_MINUTES * 60000)\<rparr>"

definition inRange :: "ReportRange \<Rightarrow> time \<Rightarrow> bool" where
  "inRange rng t = (rng_start rng \<le> t \<and> t < rng_end rng)"

definition reportSessions :: "ReportRange \<Rightarrow> reportQuery \<Rightarrow> 'z store_scheme \<Rightarrow> Session list" where
  "reportSessions rng q s =
     findMany (\<lambda>x. ses_parentId x = rq_parentId q \<and> inRange rng (ses_startedAt x) \<and>
        (if truthy (rq_childId q) then rq_childId q = Some (ses_childId x) else True)) (sessions s)"

definition periodDays :: "reportPeriod \<Rightarrow> int" where
  "periodDays p = (case p of WEEK \<Rightarrow> 7 | MONTH \<Rightarrow> 30)"

definition computeReport :: "int \<Rightarrow> reportQuery \<Rightarrow> time \<Rightarrow> 'z store_scheme \<Rightarrow> PeriodReport result" where
  "computeReport tz q now s =
     (let rng = resolveRange tz now (periodDays (rq_period q)) (rq_offset q);
          kids = findMany (\<lambda>c. chd_parentId c = rq_parentId q \<and>
                   (if truthy (rq_childId q) then rq_childId q = Some (chd_id c) else True)) (children s)
      in
      if truthy (rq_childId q) \<and> kids = [] then Inl (ForbiddenException ''Not your child'')
      else
        let childIds = set (map chd_id kids);
            nameOf = (\<lambda>i. case findFirst (\<lambda>c. chd_id c = i) (rev kids) of None \<Rightarrow> ''Child'' | Some c \<Rightarrow> chd_name c);
            xs = reportSessions rng q s;
            logs = findMany (\<lambda>u. ulg_childId u \<in> childIds \<and> inRange rng (ulg_loggedAt u)) (usageLogs s);
            gaming = filter (\<lambda>u. case ulg_category u of None \<Rightarrow> False | Some c \<Rightarrow> toLowerCase c = ''gaming'') logs;
            devs = findMany (\<lambda>d. dev_parentId d = rq_parentId q) (devices s);
            activity = map (deviceActivity now) devs
        in
        Inr \<lparr>prp_period = rq_period q, prp_start = toISOString (rng_start rng), prp_end = toISOString (rng_end rng),
             prp_label = rng_label rng, prp_scope = rq_childId q, prp_sessionsCount = length xs,
             prp_screenMinutes = sum_list (map ses_durationMinutes xs),
             prp_trackedMinutes = roundDiv (sumSec logs) 60, prp_gamingMinutes = roundDiv (sumSec gaming) 60,
             prp_dailyMinutes = bucketDaily (map (\<lambda>x. (ses_startedAt x, ses_durationMinutes x)) xs) rng,
             prp_topApps = map (\<lambda>(a, n). \<lparr>rta_name = (case a of None \<Rightarrow> ''Unknown'' | Some x \<Rightarrow> x), rta_minutes = roundDiv n 60\<rparr>)
               (take 5 (orderByDesc snd (groupByApp logs))),
             prp_byChild = orderByDesc rcb_screenMinutes (childBreakdown nameOf xs),
             prp_devices = activity, prp_protectedDevices = length (filter rda_protected activity),
             prp_totalDevices = length activity, prp_generatedAt = toISOString now\<rparr>)"

definition build_Report ::
  "('c, PeriodReport) memoOps \<Rightarrow> int \<Rightarrow> reportQuery \<Rightarrow> time \<Rightarrow> 'z store_scheme \<Rightarrow> 'c \<Rightarrow> PeriodReport result \<times> 'c" where
  "build_Report C tz q now s c = memoised C (reportKey q) REPORT_TTL_MS now (computeReport tz q now s) c"

definition weekly where
  "weekly C tz parentId childId offset =
     build_Report C tz \<lparr>rq_parentId = parentId, rq_childId = childId, rq_period = WEEK, rq_offset = offset\<rparr>"

definition monthly where
  "monthly C tz parentId childId offset =
     build_Report C tz \<lparr>rq_parentId = parentId, rq_childId = childId, rq_period = MONTH, rq_offset = offset\<rparr>"

text \<open>The controller: an empty child identifier means all children.\<close>

datatype reportsRoute = RP_weekly "string option" "string option" | RP_monthly "string option" "string option"

fun ReportsController ::
  "('c, PeriodReport) memoOps \<Rightarrow> int \<Rightarrow> ident \<Rightarrow> reportsRoute \<Rightarrow> time \<Rightarrow> 'z store_scheme \<Rightarrow> 'c \<Rightarrow> PeriodReport result \<times> 'c" where
  "ReportsController C tz p (RP_weekly childId offset) now s c =
     weekly C tz p (if truthy childId then childId else None) (parseOffset offset) now s c"
| "ReportsController C tz p (RP_monthly childId offset) now s c =
     monthly C tz p (if truthy childId then childId else None) (parseOffset offset) now s c"

section \<open>Sums\<close>

lemma sum_list_add_at: "k < length xs \<Longrightarrow> sum_list (xs[k := xs ! k + m]) = sum_list xs + (m :: int)"
  by (induction xs arbitrary: k) (auto split: nat.split)

text \<open>Folding values into buckets keeps the number of buckets and adds up to what fell into the window.\<close>

lemma bucketDaily_sum:
  assumes "\<And>at m. (at, m) \<in> set items \<Longrightarrow> rng_start r \<le> at \<and> at < rng_start r + rng_days r * msPerDay"
  shows "length (bucketDaily items r) = nat (rng_days r) \<and> sum_list (bucketDaily items r) = sum_list (map snd items)"
proof -
  let ?f = "\<lambda>bs (at, m). let idx = (at - rng_start r) div msPerDay in
        if 0 \<le> idx \<and> idx < rng_days r then bs[nat idx := bs ! nat idx + m] else bs"
  have "length (foldl ?f bs items) = length bs \<and> sum_list (foldl ?f bs items) = sum_list bs + sum_list (map snd items)"
    if "length bs = nat (rng_days r)" for bs :: "int list"
    using assms that
  proof (induction items arbitrary: bs)
    case (Cons x items)
    obtain at m where x: "x = (at, m)" by (cases x)
    let ?i = "(at - rng_start r) div msPerDay"
    have r: "0 \<le> at - rng_start r" "at - rng_start r < rng_days r * msPerDay" using Cons.prems(1) [of at m] x by auto
    have pos: "0 < msPerDay" by (simp add: msPerDay_def)
    have i: "0 \<le> ?i" "?i < rng_days r"
      using r pos by (simp add: pos_imp_zdiv_nonneg_iff, intro div_less_of_less_mult)
    have f: "?f bs x = bs[nat ?i := bs ! nat ?i + m]" using i by (simp add: x Let_def)
    have "sum_list (?f bs x) = sum_list bs + m"
      unfolding f using i Cons.prems(2) by (simp add: sum_list_add_at)
    moreover have "length (foldl ?f (?f bs x) items) = length (?f bs x) \<and>
        sum_list (foldl ?f (?f bs x) items) = sum_list (?f bs x) + sum_list (map snd items)"
      by (rule Cons.IH) (use Cons.prems f in auto)
    ultimately show ?case using f by (simp add: x)
  qed simp
  from this [of "replicate (nat (rng_days r)) 0"] show ?thesis by (simp add: bucketDaily_def sum_list_replicate)
qed

lemma addChild_sums:
  "sum_list (map rcb_screenMinutes (addChildMinutes nm x es)) = sum_list (map rcb_screenMinutes es) + ses_durationMinutes x"
  "sum_list (map rcb_sessions (addChildMinutes nm x es)) = sum_list (map rcb_sessions es) + 1"
  "set (map rcb_childId (addChildMinutes nm x es)) = insert (ses_childId x) (set (map rcb_childId es))"
  "distinct (map rcb_childId es) \<Longrightarrow> distinct (map rcb_childId (addChildMinutes nm x es))"
proof -
  have sets: "rcb_childId ` set (addChildMinutes nm x es) = insert (ses_childId x) (rcb_childId ` set es)" for nm x es
    by (induction nm x es rule: addChildMinutes.induct) auto
  then show "set (map rcb_childId (addChildMinutes nm x es)) = insert (ses_childId x) (set (map rcb_childId es))" by simp
  show "distinct (map rcb_childId es) \<Longrightarrow> distinct (map rcb_childId (addChildMinutes nm x es))"
    by (induction nm x es rule: addChildMinutes.induct) (simp_all add: sets, metis)
qed (induction nm x es rule: addChildMinutes.induct; simp)+

lemma childBreakdown_sums:
  "sum_list (map rcb_screenMinutes (childBreakdown nm xs)) = sum_list (map ses_durationMinutes xs)"
  "sum_list (map rcb_sessions (childBreakdown nm xs)) = int (length xs)"
  "set (map rcb_childId (childBreakdown nm xs)) = set (map ses_childId xs)"
  "distinct (map rcb_childId (childBreakdown nm xs))"
  unfolding childBreakdown_def by (induction xs rule: rev_induct) (simp_all add: addChild_sums del: set_map list.set_map)

lemma sum_list_orderByDesc: "sum_list (map g (orderByDesc f xs)) = (sum_list (map g xs) :: int)"
proof -
  have "mset (orderByDesc f xs) = mset xs" by (simp add: orderByDesc_def)
  then have "mset (map g (orderByDesc f xs)) = mset (map g xs)" by simp
  then show ?thesis by (metis sum_mset_sum_list)
qed

lemma resolveRange_span: "rng_end (resolveRange tz now days off) = rng_start (resolveRange tz now days off) +
    rng_days (resolveRange tz now days off) * msPerDay"
  by (simp add: resolveRange_def Let_def)

section \<open>Properties\<close>

text \<open>The windows tile the past. Each window is a whole number of days, the windows of consecutive
  offsets are adjacent, the window of offset 0 contains the present and ends within a day, and a
  requested offset is between 0 and 52.\<close>
theorem report_windows_tile:
  assumes "0 \<le> off"
  shows "rng_end (resolveRange tz now days (off + 1)) = rng_start (resolveRange tz now days off) \<and>
    rng_end (resolveRange tz now days off) = rng_start (resolveRange tz now days off) + max 1 days * msPerDay \<and>
    inRange (resolveRange tz now days 0) now \<and> rng_end (resolveRange tz now days 0) \<le> now + msPerDay \<and>
    0 \<le> parseOffset raw \<and> parseOffset raw \<le> 52"
proof -
  have "msPerDay \<le> max 1 days * msPerDay" by (simp add: msPerDay_def)
  moreover have "rng_start (resolveRange tz now days 0) = startOfDay tz now + msPerDay - max 1 days * msPerDay"
    "rng_end (resolveRange tz now days 0) = startOfDay tz now + msPerDay"
    by (simp_all add: resolveRange_def Let_def)
  ultimately have "inRange (resolveRange tz now days 0) now"
    unfolding inRange_def using startOfDay_le [of tz now] startOfDay_lt [of now tz] by linarith
  moreover have "rng_end (resolveRange tz now days 0) \<le> now + msPerDay"
    using startOfDay_le [of tz now] by (simp add: resolveRange_def Let_def)
  moreover have "0 \<le> parseOffset raw \<and> parseOffset raw \<le> 52" by (simp add: parseOffset_def split: option.splits)
  ultimately show ?thesis using assms by (simp add: resolveRange_def Let_def algebra_simps)
qed

theorem report_windows_tile_witness:
  "rng_end (resolveRange 0 1700000000000 7 1) = rng_start (resolveRange 0 1700000000000 7 0)"
  using report_windows_tile [of 0 0 1700000000000 7] by simp


definition reportStore :: store where
  "reportStore = (emptyStore (\<lambda>n. []))\<lparr>sessions :=
     [\<lparr>ses_id = ''s'', ses_deviceId = ''d'', ses_childId = ''c'', ses_parentId = ''p'', ses_status = STOPPED,
       ses_startedAt = 1699999999000, ses_pausedAt = None, ses_resumedAt = None, ses_stoppedAt = None, ses_expiredAt = None,
       ses_durationMinutes = 30, ses_remainingMinutes = 0, ses_extendedMinutes = 0, ses_violated = False, ses_activeApp = None\<rparr>]\<rparr>"


text \<open>The key of a report names the parent: identifiers have no colon.\<close>

lemma reportKey_parent:
  assumes "reportKey q = reportKey q'" "CHR '':'' \<notin> set (rq_parentId q)" "CHR '':'' \<notin> set (rq_parentId q')"
  shows "rq_parentId q = rq_parentId q'"
proof -
  have "takeWhile (\<lambda>ch. ch \<noteq> CHR '':'') (p @ CHR '':'' # u) = p" if "CHR '':'' \<notin> set p" for p u
    using that by (induction p) auto
  then show ?thesis
    using arg_cong [OF assms(1), of "\<lambda>k. takeWhile (\<lambda>ch. ch \<noteq> CHR '':'') (drop 7 k)"] assms(2,3)
    by (simp add: reportKey_def)
qed

definition parentIdOk :: "reportQuery \<Rightarrow> bool" where
  "parentIdOk q = (CHR '':'' \<notin> set (rq_parentId q))"



end
