(* ===== verification/Throttling.thy ===== *)
theory Throttling
  imports Startup
begin

text \<open>
  Rate limits: the three throttlers of \<^verbatim>\<open>app.module.ts\<close> and the decorators of the controllers that change or skip
  them. \<^verbatim>\<open>ThrottlerGuard\<close>, the global guard, is a class of the package \<^verbatim>\<open>@nestjs/throttler\<close>: it is the
  parameter record \<open>throttlerGuard\<close>, with what the package documents in the locale \<open>throttling\<close>. Requests are
  counted per throttler, client address and handler; a request lasts \<open>ttl\<close> milliseconds in the store, and a
  handler runs when every throttler that is not skipped has counted fewer than its limit. Whether a refused
  request is counted is left open.
\<close>

section \<open>Configuration\<close>

record throttler =
  th_name :: string
  th_ttl :: int
  th_limit :: nat

text \<open>The throttler without a name is the one called \<^verbatim>\<open>default\<close>.\<close>

definition throttlers :: "throttler list" where
  "throttlers =
     [\<lparr>th_name = ''default'', th_ttl = 60000, th_limit = 100\<rparr>,
      \<lparr>th_name = ''auth_login'', th_ttl = 60000, th_limit = 5\<rparr>,
      \<lparr>th_name = ''auth_register'', th_ttl = 60000, th_limit = 10\<rparr>]"

text \<open>The metadata that the decorators \<^verbatim>\<open>@Throttle\<close> and \<^verbatim>\<open>@SkipThrottle\<close> leave on a handler or its class.\<close>

record throttleMeta =
  tm_limits :: "(string \<times> nat \<times> int) list"
  tm_skip :: "string list"

record handlerRef =
  hr_class :: string
  hr_handler :: string

definition throttleTo :: "nat \<Rightarrow> throttleMeta" where
  "throttleTo limit = \<lparr>tm_limits = [(''default'', limit, 60000)], tm_skip = []\<rparr>"

definition skipThrottle :: throttleMeta where
  "skipThrottle = \<lparr>tm_limits = [], tm_skip = [''default'', ''auth_login'', ''auth_register'']\<rparr>"

definition AuthController_throttle :: "string \<Rightarrow> throttleMeta" where
  "AuthController_throttle handler =
     (if handler = ''register'' then throttleTo 10
      else if handler = ''login'' then throttleTo 5
      else if handler = ''refresh'' then throttleTo 10
      else \<lparr>tm_limits = [], tm_skip = []\<rparr>)"

definition PairingController_throttle :: "string \<Rightarrow> throttleMeta" where
  "PairingController_throttle handler = (if handler = ''start'' then throttleTo 5 else \<lparr>tm_limits = [], tm_skip = []\<rparr>)"

definition DnsPolicyController_throttle :: throttleMeta where
  "DnsPolicyController_throttle = skipThrottle"

definition DnsPairController_throttle :: throttleMeta where
  "DnsPairController_throttle = skipThrottle"

text \<open>No other controller has one of the two decorators.\<close>

definition throttleMetaOf :: "handlerRef \<Rightarrow> throttleMeta" where
  "throttleMetaOf h =
     (if hr_class h = ''AuthController'' then AuthController_throttle (hr_handler h)
      else if hr_class h = ''PairingController'' then PairingController_throttle (hr_handler h)
      else if hr_class h = ''DnsPolicyController'' then DnsPolicyController_throttle
      else if hr_class h = ''DnsPairController'' then DnsPairController_throttle
      else \<lparr>tm_limits = [], tm_skip = []\<rparr>)"

definition exempt :: "handlerRef \<Rightarrow> bool" where
  "exempt h \<longleftrightarrow> hr_class h \<in> {''DnsPolicyController'', ''DnsPairController''}"

section \<open>The guard\<close>

text \<open>\<open>tg_canActivate\<close> decides on a request and counts it; \<open>tg_hits\<close> reads the times counted for a throttler.\<close>

record 's throttlerGuard =
  tg_canActivate :: "throttler list \<Rightarrow> throttleMeta \<Rightarrow> string \<Rightarrow> handlerRef \<Rightarrow> time \<Rightarrow> 's \<Rightarrow> bool \<times> 's"
  tg_hits :: "'s \<Rightarrow> string \<Rightarrow> string \<Rightarrow> handlerRef \<Rightarrow> time list"

definition applies :: "throttleMeta \<Rightarrow> throttler \<Rightarrow> bool" where
  "applies m t \<longleftrightarrow> th_name t \<notin> set (tm_skip m)"

definition limitFor :: "throttleMeta \<Rightarrow> throttler \<Rightarrow> nat" where
  "limitFor m t = (case map_of (tm_limits m) (th_name t) of None \<Rightarrow> th_limit t | Some (limit, ttl) \<Rightarrow> limit)"

definition ttlFor :: "throttleMeta \<Rightarrow> throttler \<Rightarrow> int" where
  "ttlFor m t = (case map_of (tm_limits m) (th_name t) of None \<Rightarrow> th_ttl t | Some (limit, ttl) \<Rightarrow> ttl)"

definition recentHits :: "int \<Rightarrow> time \<Rightarrow> time list \<Rightarrow> nat" where
  "recentHits ttl now ts = length (filter (\<lambda>t. now < t + ttl) ts)"

definition underLimit :: "throttleMeta \<Rightarrow> time \<Rightarrow> (string \<Rightarrow> time list) \<Rightarrow> throttler \<Rightarrow> bool" where
  "underLimit m now hits t \<longleftrightarrow> (applies m t \<longrightarrow> recentHits (ttlFor m t) now (hits (th_name t)) < limitFor m t)"

text \<open>What a count may become: it keeps what was counted, and adds at most the present request.\<close>

definition counts :: "time \<Rightarrow> time list \<Rightarrow> time list \<Rightarrow> bool" where
  "counts now ts ts' \<longleftrightarrow> ts' = ts \<or> ts' = now # ts"

locale throttling =
  fixes G :: "'s throttlerGuard"
  assumes admits: "distinct (map th_name cfg) \<Longrightarrow>
      fst (tg_canActivate G cfg m ip h now s) \<longleftrightarrow> list_all (underLimit m now (\<lambda>n. tg_hits G s n ip h)) cfg"
    and counted: "distinct (map th_name cfg) \<Longrightarrow> fst (tg_canActivate G cfg m ip h now s) \<Longrightarrow> t \<in> set cfg \<Longrightarrow> applies m t \<Longrightarrow>
      tg_hits G (snd (tg_canActivate G cfg m ip h now s)) (th_name t) ip h = now # tg_hits G s (th_name t) ip h"
    and own: "distinct (map th_name cfg) \<Longrightarrow> counts now (tg_hits G s n ip h) (tg_hits G (snd (tg_canActivate G cfg m ip h now s)) n ip h)"
    and others: "(ip', h') \<noteq> (ip, h) \<Longrightarrow>
      tg_hits G (snd (tg_canActivate G cfg m ip h now s)) n ip' h' = tg_hits G s n ip' h'"

section \<open>Runs\<close>

text \<open>The guard on the requests of the server, each with its time, client address and handler: what it admits.\<close>

definition guardRequest :: "'s throttlerGuard \<Rightarrow> time \<times> string \<times> handlerRef \<Rightarrow> 's \<Rightarrow> bool \<times> 's" where
  "guardRequest G r s = (case r of (now, ip, h) \<Rightarrow> tg_canActivate G throttlers (throttleMetaOf h) ip h now s)"

fun admitted :: "'s throttlerGuard \<Rightarrow> (time \<times> string \<times> handlerRef) list \<Rightarrow> 's \<Rightarrow> (time \<times> string \<times> handlerRef) list" where
  "admitted G [] s = []"
| "admitted G (r # rs) s =
     (case guardRequest G r s of (ok, s1) \<Rightarrow> if ok then r # admitted G rs s1 else admitted G rs s1)"

definition window :: "time \<Rightarrow> time \<Rightarrow> bool" where
  "window a t \<longleftrightarrow> a \<le> t \<and> t < a + 60000"

definition polls :: "time \<Rightarrow> string \<Rightarrow> handlerRef \<Rightarrow> nat list \<Rightarrow> (time \<times> string \<times> handlerRef) list" where
  "polls a ip h is = map (\<lambda>i. (a + 3000 * int i, ip, h)) is"

lemma throttlers_distinct: "distinct (map th_name throttlers)"
  by (simp add: throttlers_def)

lemma meta_cases:
  "exempt h \<Longrightarrow> throttleMetaOf h = skipThrottle"
  "\<not> exempt h \<Longrightarrow> throttleMetaOf h = \<lparr>tm_limits = [], tm_skip = []\<rparr> \<or> throttleMetaOf h = throttleTo 5 \<or> throttleMetaOf h = throttleTo 10"
  by (auto simp: exempt_def throttleMetaOf_def AuthController_throttle_def PairingController_throttle_def
      DnsPolicyController_throttle_def DnsPairController_throttle_def)

lemmas meta_defs = throttleTo_def skipThrottle_def applies_def limitFor_def ttlFor_def

text \<open>The login throttler holds for every handler that is not exempt, and no limit is below its own.\<close>

lemma login_applies:
  assumes "\<not> exempt h" "t \<in> set throttlers"
  shows "applies (throttleMetaOf h) t \<and> ttlFor (throttleMetaOf h) t = 60000 \<and> 5 \<le> limitFor (throttleMetaOf h) t \<and>
    (th_name t = ''auth_login'' \<longrightarrow> limitFor (throttleMetaOf h) t = 5)"
  using meta_cases(2) [OF assms(1)] assms(2) by (auto simp: throttlers_def meta_defs)

lemma exempt_within: "exempt h \<Longrightarrow> list_all (underLimit (throttleMetaOf h) now hits) throttlers"
  by (simp add: meta_cases(1) throttlers_def underLimit_def meta_defs)

lemma login_within:
  assumes "\<not> exempt h" "list_all (underLimit (throttleMetaOf h) now hits) throttlers"
  shows "recentHits 60000 now (hits ''auth_login'') < 5"
proof -
  let ?t = "throttlers ! 1"
  have t: "?t \<in> set throttlers" "th_name ?t = ''auth_login''" by (simp_all add: throttlers_def)
  then have "underLimit (throttleMetaOf h) now hits ?t" using assms(2) by (simp add: list_all_iff)
  then show ?thesis using login_applies [OF assms(1) t(1)] t(2) by (simp add: underLimit_def)
qed

lemma few_within:
  assumes "\<not> exempt h" "\<forall>t\<in>set throttlers. length (hits (th_name t)) < 5"
  shows "list_all (underLimit (throttleMetaOf h) now hits) throttlers"
  unfolding list_all_iff
proof
  fix t assume t: "t \<in> set throttlers"
  have "recentHits 60000 now (hits (th_name t)) \<le> length (hits (th_name t))" by (simp add: recentHits_def)
  then show "underLimit (throttleMetaOf h) now hits t"
    using login_applies [OF assms(1) t] assms(2) t by (fastforce simp: underLimit_def)
qed

lemma window_recent: "window a now \<Longrightarrow> length (filter (window a) ts) \<le> recentHits 60000 now ts"
  by (induction ts) (auto simp: recentHits_def window_def)

context throttling
begin

text \<open>Within a window a client is admitted at most as often as the login throttler has not counted yet.\<close>

lemma window_capped:
  assumes h: "\<not> exempt h"
  shows "length (filter (\<lambda>(t, ip', h'). window a t \<and> ip' = ip \<and> h' = h) (admitted G rs s)) \<le>
    5 - length (filter (window a) (tg_hits G s ''auth_login'' ip h))"
proof (induction rs arbitrary: s)
  case (Cons r rs)
  obtain now ip1 h1 where r: "r = (now, ip1, h1)" by (cases r)
  define s1 where "s1 = snd (guardRequest G r s)"
  have s1: "s1 = snd (tg_canActivate G throttlers (throttleMetaOf h1) ip1 h1 now s)" by (simp add: s1_def guardRequest_def r)
  let ?w = "\<lambda>s. length (filter (window a) (tg_hits G s ''auth_login'' ip h))"
  show ?case
  proof (cases "ip1 = ip \<and> h1 = h \<and> fst (guardRequest G r s)")
    case True
    then have ok: "fst (tg_canActivate G throttlers (throttleMetaOf h) ip h now s)" by (auto simp: guardRequest_def r)
    have lt: "recentHits 60000 now (tg_hits G s ''auth_login'' ip h) < 5"
      using ok by (intro login_within [OF h, of now "\<lambda>n. tg_hits G s n ip h"]) (simp add: admits [OF throttlers_distinct])
    have "tg_hits G s1 ''auth_login'' ip h = now # tg_hits G s ''auth_login'' ip h"
      using counted [OF throttlers_distinct ok, of "throttlers ! 1"] login_applies [OF h, of "throttlers ! 1"] True s1
      by (simp add: throttlers_def)
    then show ?thesis
      using True lt window_recent [of a now "tg_hits G s ''auth_login'' ip h"] Cons.IH [of s1]
      by (auto simp: r s1_def case_prod_beta split: if_splits)
  next
    case False
    have "?w s \<le> ?w s1"
    proof (cases "ip1 = ip \<and> h1 = h")
      case True
      then show ?thesis using own [OF throttlers_distinct, of now s "''auth_login''" ip h "throttleMetaOf h"] s1 by (auto simp: counts_def)
    next
      case False
      then show ?thesis using others [of ip h ip1 h1 throttlers "throttleMetaOf h1" now s "''auth_login''"] s1 by auto
    qed
    then show ?thesis using False Cons.IH [of s1] by (auto simp: r s1_def case_prod_beta)
  qed
qed simp

lemma exempt_admitted: "exempt h \<Longrightarrow> fst (guardRequest G (now, ip, h) s)"
  by (simp add: guardRequest_def admits [OF throttlers_distinct] exempt_within)

lemma exempt_all: "filter (\<lambda>(t, ip', h'). exempt h') (admitted G rs s) = filter (\<lambda>(t, ip', h'). exempt h') rs"
proof (induction rs arbitrary: s)
  case (Cons r rs)
  then show ?case using exempt_admitted [of "snd (snd r)" "fst r" "fst (snd r)" s] by (auto simp: case_prod_beta)
qed simp

text \<open>A client that polls one handler: the first five requests, and then none while those five last.\<close>

lemma polls_first:
  assumes h: "\<not> exempt h" and "\<forall>t\<in>set throttlers. length (tg_hits G s (th_name t) ip h) + length is \<le> 5"
  shows "admitted G (polls a ip h is @ rs) s = polls a ip h is @ admitted G rs (foldl (\<lambda>s r. snd (guardRequest G r s)) s (polls a ip h is)) \<and>
    (\<forall>t\<in>set throttlers. tg_hits G (foldl (\<lambda>s r. snd (guardRequest G r s)) s (polls a ip h is)) (th_name t) ip h =
       rev (map fst (polls a ip h is)) @ tg_hits G s (th_name t) ip h)"
  using assms(2)
proof (induction "is" arbitrary: s)
  case (Cons i "is")
  let ?r = "(a + 3000 * int i, ip, h)"
  have ok: "fst (tg_canActivate G throttlers (throttleMetaOf h) ip h (a + 3000 * int i) s)"
    using Cons.prems by (subst admits [OF throttlers_distinct], intro few_within [OF h]) force
  have c: "tg_hits G (snd (guardRequest G ?r s)) (th_name t) ip h = (a + 3000 * int i) # tg_hits G s (th_name t) ip h"
    if "t \<in> set throttlers" for t
    using counted [OF throttlers_distinct ok that] login_applies [OF h that] by (simp add: guardRequest_def)
  have "\<forall>t\<in>set throttlers. length (tg_hits G (snd (guardRequest G ?r s)) (th_name t) ip h) + length is \<le> 5"
    using Cons.prems c by simp
  from Cons.IH [OF this] show ?case
    using ok c by (simp add: polls_def guardRequest_def case_prod_beta)
qed (simp add: polls_def)

lemma polls_refused:
  assumes h: "\<not> exempt h" and "5 \<le> recentHits 60000 e (tg_hits G s ''auth_login'' ip h)" and "\<forall>i\<in>set is. a + 3000 * int i \<le> e"
  shows "admitted G (polls a ip h is) s = []"
  using assms(2,3)
proof (induction "is" arbitrary: s)
  case (Cons i "is")
  let ?now = "a + 3000 * int i"
  let ?s1 = "snd (tg_canActivate G throttlers (throttleMetaOf h) ip h ?now s)"
  have mono: "recentHits 60000 e ts \<le> recentHits 60000 ?now ts" for ts
    using Cons.prems(2) by (induction ts) (auto simp: recentHits_def)
  have "\<not> fst (tg_canActivate G throttlers (throttleMetaOf h) ip h ?now s)"
    using login_within [OF h, of ?now "\<lambda>n. tg_hits G s n ip h"] mono [of "tg_hits G s ''auth_login'' ip h"] Cons.prems(1)
    by (auto simp: admits [OF throttlers_distinct])
  moreover have "recentHits 60000 e (tg_hits G s ''auth_login'' ip h) \<le> recentHits 60000 e (tg_hits G ?s1 ''auth_login'' ip h)"
    using own [OF throttlers_distinct, of ?now s "''auth_login''" ip h "throttleMetaOf h"] by (auto simp: counts_def recentHits_def)
  ultimately show ?case
    using Cons by (simp add: polls_def guardRequest_def case_prod_beta)
qed (simp add: polls_def)

end

section \<open>A guard\<close>

text \<open>A guard that counts what it admits, in a list of throttler, client, handler and time.\<close>

definition listGuard :: "(string \<times> string \<times> handlerRef \<times> time) list throttlerGuard" where
  "listGuard =
     (let hits = (\<lambda>s n ip h. map (\<lambda>(_, _, _, t). t) (filter (\<lambda>(n', ip', h', _). n' = n \<and> ip' = ip \<and> h' = h) s)) in
      \<lparr>tg_canActivate = (\<lambda>cfg m ip h now s.
         if list_all (underLimit m now (\<lambda>n. hits s n ip h)) cfg
         then (True, map (\<lambda>t. (th_name t, ip, h, now)) (filter (applies m) cfg) @ s) else (False, s)),
       tg_hits = hits\<rparr>)"

lemma named_once:
  "distinct (map th_name cfg) \<Longrightarrow>
   filter (\<lambda>(n', ip', h', _). n' = n \<and> ip' = ip \<and> h' = h) (map (\<lambda>t. (th_name t, ip, h, now)) (filter P cfg)) =
   (if \<exists>t\<in>set cfg. P t \<and> th_name t = n then [(n, ip, h, now)] else [])"
  by (induction cfg) (auto simp: filter_empty_conv image_iff)

interpretation list_guard: throttling listGuard
proof unfold_locales
  fix cfg :: "throttler list" and m ip h now s n ip' h' t
  let ?s1 = "snd (tg_canActivate listGuard cfg m ip h now s)"
  show "fst (tg_canActivate listGuard cfg m ip h now s) \<longleftrightarrow> list_all (underLimit m now (\<lambda>n. tg_hits listGuard s n ip h)) cfg"
    by (simp add: listGuard_def Let_def)
  show "(ip', h') \<noteq> (ip, h) \<Longrightarrow> tg_hits listGuard ?s1 n ip' h' = tg_hits listGuard s n ip' h'"
    by (auto simp: listGuard_def Let_def filter_empty_conv)
  assume d: "distinct (map th_name cfg)"
  show "counts now (tg_hits listGuard s n ip h) (tg_hits listGuard ?s1 n ip h)"
    using named_once [OF d, of n ip h now "applies m"] by (simp add: listGuard_def Let_def counts_def)
  assume "fst (tg_canActivate listGuard cfg m ip h now s)" "t \<in> set cfg" "applies m t"
  then show "tg_hits listGuard ?s1 (th_name t) ip h = now # tg_hits listGuard s (th_name t) ip h"
    using named_once [OF d, of "th_name t" ip h now "applies m"] by (auto simp: listGuard_def Let_def split: if_splits)
qed

section \<open>Properties\<close>

text \<open>C25: The limits in force. Whatever requests arrive, in any span of 60 seconds a client is admitted at most five
  times to any handler outside the two internal DNS controllers, whatever its decorators say; and no request
  to those two is ever refused, so the resolver is not made to fail open.\<close>
theorem throttle_bounds:
  assumes "throttling G"
  shows "(\<not> exempt h \<longrightarrow> length (filter (\<lambda>(t, ip', h'). window a t \<and> ip' = ip \<and> h' = h) (admitted G rs s)) \<le> 5) \<and>
    filter (\<lambda>(t, ip', h'). exempt h') (admitted G rs s) = filter (\<lambda>(t, ip', h'). exempt h') rs"
  using throttling.window_capped [OF assms, of h a ip rs s] throttling.exempt_all [OF assms, of rs s] by auto

definition policies :: handlerRef where
  "policies = \<lparr>hr_class = ''GatewayController'', hr_handler = ''getPolicies''\<rparr>"

definition dnsCheck :: handlerRef where
  "dnsCheck = \<lparr>hr_class = ''DnsPolicyController'', hr_handler = ''check''\<rparr>"

theorem throttle_bounds_witness:
  "length (filter (\<lambda>(t, ip', h'). window 0 t \<and> ip' = ''10.0.0.1'' \<and> h' = policies)
     (admitted listGuard (polls 0 ''10.0.0.1'' policies [0..<12] @ polls 0 ''10.0.0.1'' dnsCheck [0..<12]) [])) \<le> 5 \<and>
   length (filter (\<lambda>(t, ip', h'). exempt h')
     (admitted listGuard (polls 0 ''10.0.0.1'' policies [0..<12] @ polls 0 ''10.0.0.1'' dnsCheck [0..<12]) [])) = 12"
  using throttle_bounds [OF list_guard.throttling_axioms, of policies 0 "''10.0.0.1''"
      "polls 0 ''10.0.0.1'' policies [0..<12] @ polls 0 ''10.0.0.1'' dnsCheck [0..<12]" "[]"]
  by (simp add: exempt_def policies_def dnsCheck_def polls_def)

text \<open>C33: The agent of a gateway outruns the limits. It polls every three seconds, as the service and the staging
  configuration say, and the general limit of 100 requests a minute would let it. Of the polls of a fresh
  minute the first five are admitted and the other fifteen are refused: the login throttler, registered for all
  handlers, is in force on the policies too.\<close>
theorem agent_polls_refused:
  assumes "throttling G" and "\<forall>n. tg_hits G s n ip policies = []"
  shows "admitted G (polls a ip policies [0..<20]) s = polls a ip policies [0..<5]"
proof -
  have h: "\<not> exempt policies" by (simp add: exempt_def policies_def)
  define s1 where "s1 = foldl (\<lambda>s r. snd (guardRequest G r s)) s (polls a ip policies [0..<5])"
  have split: "polls a ip policies [0..<20] = polls a ip policies [0..<5] @ polls a ip policies [5..<20]"
    using upt_add_eq_append [of 0 5 15] by (simp add: polls_def)
  have first: "admitted G (polls a ip policies [0..<20]) s = polls a ip policies [0..<5] @ admitted G (polls a ip policies [5..<20]) s1"
    and hits: "\<forall>t\<in>set throttlers. tg_hits G s1 (th_name t) ip policies = rev (map fst (polls a ip policies [0..<5]))"
    using throttling.polls_first [OF assms(1) h, of s ip "[0..<5]" a "polls a ip policies [5..<20]"] assms(2)
    by (simp_all add: split s1_def)
  have "tg_hits G s1 ''auth_login'' ip policies = rev (map fst (polls a ip policies [0..<5]))"
    using hits by (simp add: throttlers_def)
  then have "5 \<le> recentHits 60000 (a + 57000) (tg_hits G s1 ''auth_login'' ip policies)"
    by (simp add: recentHits_def polls_def upt_rec)
  then have "admitted G (polls a ip policies [5..<20]) s1 = []"
    by (rule throttling.polls_refused [OF assms(1) h]) auto
  with first show ?thesis by simp
qed

theorem agent_polls_refused_witness:
  "length (admitted listGuard (polls 0 ''10.0.0.1'' policies [0..<20]) []) = 5"
  using agent_polls_refused [OF list_guard.throttling_axioms, of "[]" "''10.0.0.1''" 0] by (simp add: listGuard_def polls_def)

end
