(* ===== verification/Spec2Isabelle.thy ===== *)
theory Spec2Isabelle
  imports Addresses Bootstrap Freshness Health Reports Throttling
begin

text \<open>
  The GuardTime backend (\<^verbatim>\<open>src/src\<close>, NestJS and Prisma): a server with which parents limit what the
  devices of their children may do.

  \<^bold>\<open>The program.\<close> A parent registers, adds children and devices, and gives them rules, timed sessions, locks,
  bedtimes, category blocks and bandwidth limits. Three parties enforce them. The DNS resolver asks
  \<^verbatim>\<open>dns-policy.service.ts\<close> for every query of a paired device whether to answer it. A gateway agent in the
  home polls \<^verbatim>\<open>gateway.service.ts\<close> for the devices to block and \<^verbatim>\<open>router-command.service.ts\<close> for commands to
  the router. An agent on the device polls \<^verbatim>\<open>child-agent.service.ts\<close> for commands. Periodic jobs
  (\<^verbatim>\<open>scheduler.service.ts\<close>) end sessions, apply bedtimes and daily limits and look for devices that bypass the
  resolver. What the parties share is the database, and the cache of DNS decisions and answers.

  \<^bold>\<open>The state.\<close> A table of the database is the list of its rows, a row a record (\<open>Schema\<close>); the database is the
  record \<open>store\<close> of the tables, with a tape of identifiers \<open>db_uuid\<close>, \<open>db_next\<close> that stands for the UUIDs that the
  database and the services draw. The DNS engine's store extends it with the contents of the cache
  (\<open>gstore\<close>). Operations are functions from their arguments, the clock and the store to a result
  (\<open>Inl\<close> an exception of the source, \<open>Inr\<close> the answer) and the new store: each \<^verbatim>\<open>throw\<close> is a branch. Writes made
  before an exception stay, unless the source makes them in a transaction (\<open>runInTransaction\<close>). Fields of
  records carry a prefix of the type (\<open>dev_status\<close>, \<open>ses_status\<close>); operations keep their name in the
  source, with the component as a suffix where several have the same one (\<open>extend_Session\<close>).

  \<^bold>\<open>Shared layer.\<close>
  \<^item> \<open>Js_Runtime\<close>, \<open>Js_Number\<close>: what the source uses of the language: strings, \<^verbatim>\<open>parseInt\<close>, calendar dates with
    the host's offset, and double-precision rounding of the percentages.
  \<^item> \<open>Prelude\<close>: exceptions, queries on tables (\<open>findUnique\<close>, \<open>findFirst\<close>, \<open>updateMany\<close>, \<open>deleteMany\<close>), and the
    locale \<open>owner_guarded\<close>: the contract of every operation that checks who owns a row before it acts. It is
    interpreted for the operations of sessions, devices, children, limits, gateways, pairing and schedules.
  \<^item> \<open>Schema\<close>: \<^verbatim>\<open>prisma/schema.prisma\<close>.
  \<^item> \<open>Response_Cache\<close>: the read-through cache of health summaries and reports (locale \<open>response_cache\<close>).

  \<^bold>\<open>Policy and enforcement.\<close>
  \<^item> \<open>Rules\<close>, \<open>Sessions\<close>: \<^verbatim>\<open>rules.service.ts\<close>, \<^verbatim>\<open>sessions.service.ts\<close>. Sessions are a state machine;
    \<open>session_run\<close> is the set of states that sequences of operations with an advancing clock reach, with its
    invariant, the finality of terminated sessions, and the daily limit. Two theorems show that pausing and
    resuming gives used time back and that two sessions of one device can be active.
  \<^item> \<open>Dns_Policy\<close>: \<open>checkPolicy\<close> is the code with its versioned cache, \<open>policyDecision\<close> the specification over the
    tables alone. The answer is the cached decision of the current version, else that of the
    specification; after \<open>invalidateSourceIps\<close> the next query of that address gets the decision of the database as it
    is, as long as the version counter lives, and a theorem shows what happens when it does not. The cache is a parameter with the laws of the locale \<open>ttl_cache\<close>, interpreted by \<open>mapCache\<close>.
  \<^item> \<open>Adapters\<close>, \<open>Enforcement\<close>: \<^verbatim>\<open>enforcement/\<close>. A block takes effect on DNS at once and its report is honest. The
    locale \<open>control_adapter\<close> states what all five adapters keep.
  \<^item> \<open>Devices\<close>, \<open>Family\<close>, \<open>Catalog\<close>, \<open>Usage\<close>, \<open>Protection\<close>: device registry, children, account and its erasure, bandwidth
    limits, offline control, domain catalogue, usage logs, child agent, schedules and scores.
  \<^item> \<open>Guides\<close>, \<open>Legal\<close>: the setup and offline guides with their lookups by name, the public legal pages and the
    privacy form.
  \<^item> \<open>Scheduler\<close>: every job over the store. The session job expires every overdue active session that has a
    device.
  \<^item> \<open>Router_Matrix\<close>, \<open>Router_Capability\<close>, \<open>Router_Commands\<close>: \<^verbatim>\<open>router-integration/\<close>. The locale \<open>command_queue\<close> gives
    at-most-once delivery; both the router queue and the queue of the device agent interpret it.
  \<^item> \<open>Gateway\<close>: \<^verbatim>\<open>gateway.service.ts\<close>, fingerprints and \<^verbatim>\<open>gateway-token.guard.ts\<close>: soundness of the guard, token
    rotation with its grace period, agreement of the gateway's policy with the DNS engine.

  \<^bold>\<open>Accounts, linking, information.\<close>
  \<^item> \<open>Auth\<close>: \<^verbatim>\<open>auth.service.ts\<close> and the guards. \<open>refresh\<close> is split at its database race into \<open>refreshPrepare\<close> and
    \<open>refreshCommit\<close>, so that single use of a refresh token also covers two concurrent requests.
  \<^item> \<open>Encryption\<close>, \<open>OAuth\<close>: secrets at rest and the linked Microsoft account, with round trips.
  \<^item> \<open>Pairing\<close>: the DNS handshake that binds a device to an address. \<open>pairing_run\<close> is the set of its reachable states;
    only the credentials of a device move it, a token works once, and the handshake succeeds.
  \<^item> \<open>Notify\<close>: audit log, push delivery with its retry loop, notifications.
  \<^item> \<open>Health\<close>, \<open>Reports\<close>: cached summaries, the household score and the usage reports: bounds, sums, isolation.

  \<^bold>\<open>The server.\<close>
  \<^item> \<open>Startup\<close>: validation of the environment, port, CORS, Firebase and Redis settings, readiness, error answers; a
    validated environment satisfies every constructor.
  \<^item> \<open>Dto\<close>: what the validation pipe accepts of each body.
  \<^item> \<open>Api\<close>: the controllers. \<open>serve\<close> takes a request with an authorisation header through the token guard, the
    role guard, the validation and the service; \<open>servePublic\<close> takes the requests that need no token.
  \<^item> \<open>Gateway_Api\<close>: the endpoints of the gateway agent behind its guard (\<open>serveAgent\<close>).
  \<^item> \<open>Isolation\<close>: one request of \<open>serve\<close> on a store with unique keys touches no rows of another parent, and only
    administrators change the global blocklist. \<open>Gateway_Api\<close> has the same for gateways, with the exception of four
    endpoints that a theorem shows not to be confined.
  \<^item> \<open>Exposure\<close>: over all of \<open>servePublic\<close>, nothing weakens the protection; two theorems show what it does allow.
  \<^item> \<open>Server_Frame\<close>, \<open>Server\<close>: the whole server. \<open>server_step\<close> takes one event (a request with or without a token, a
    request of a gateway agent, a job), \<open>server_run\<close> holds of the states that a booted deployment reaches with an
    advancing clock. \<open>Server_Frame\<close> has one lemma per operation on what all of them keep; \<open>Server\<close> concludes that
    keys stay unique (which is what \<open>Isolation\<close> and \<open>Gateway_Api\<close> assume), that nobody becomes administrator, that a
    session that is over stays over, that a family is not changed by others, that a lock request is obeyed
    by the resolver and that a lock holds until its parent lifts it. What agents, anonymous clients and jobs
    leave alone is proved once in the locale \<open>quiet_view\<close>, with the interpretations \<open>family_view\<close> and \<open>lock_view\<close>.
  \<^item> \<open>Freshness\<close>: over all runs of the server, each answer of the resolver is the decision of the policy in the state
    that the server had at an instant of the last 30 seconds; so a device that its parent has locked is cut
    off 30 seconds later and stays so, whatever others send and the jobs do, until the parent lifts the lock.
  \<^item> \<open>Addresses\<close>: where that guarantee ends. The resolver knows a device by its address: two theorems show a discovery
    report that replaces the paired address, and two families with the same address.

  \<^bold>\<open>Around the requests.\<close>
  \<^item> \<open>Bootstrap\<close>: \<^verbatim>\<open>main.ts\<close>, from the environment to a listening server, and what a server that started has.
  \<^item> \<open>Throttling\<close>: the registered throttlers and their decorators. Over any sequence of requests a client is admitted
    five times a minute to a handler and the resolver always; a theorem shows that this stops the polls of a
    gateway agent.
  \<^item> \<open>Observability\<close>: access log, metrics, queue gauges, tracing and the health endpoints. The metrics add up to
    the requests seen; a theorem shows that failures are recorded under the status of a success.

  \<^bold>\<open>Parameters.\<close> Code outside the repository is an argument of the definitions that use it, with what
  is assumed of it as a hypothesis of the theorems: the cache server (\<open>cacheOps\<close>, \<open>memoOps\<close>), the answers of
  Firebase (\<open>fcm\<close>: one per attempt, as many responses as tokens), bcrypt, JWT and SHA-256 (\<open>tokenLib\<close>,
  \<open>token_laws\<close>: a digest determines its token, a signed token determines its identifier \<^verbatim>\<open>jti\<close>, and the
  claims in a token do not depend on when it is verified), AES and scrypt (\<open>crypto\<close>, \<open>cbc\<close>), the
  hashes of the guard, Microsoft's token endpoint, the URL parser, \<^verbatim>\<open>JSON.parse\<close>, the checks of the validator package
  (\<open>validators\<close>), the guard of the throttler package (\<open>throttlerGuard\<close>, \<open>throttling\<close>), the metrics registry
  (\<open>promOps\<close>, \<open>prometheus\<close>) and the database's collation order. Each is instantiated by a concrete function in the witnesses.

  \<^bold>\<open>Termination and bounds.\<close> There is no fuel: every loop is a total function. The push loops end after
  \<open>MAX_RETRIES\<close> by a measure, the jobs are folds over the rows they read, and the scaling loops of
  double-precision rounding end by a measure on the numerator. Integers of the source are unbounded
  \<open>int\<close>: they are minutes, milliseconds and counters far below 2^53; where the code divides and rounds, the
  rounding of the quotient to 53 bits is written out.

  \<^bold>\<open>Conventions.\<close> One operation reads the clock once. Concurrent requests are interleaved at the granularity of
  operations, except where the source is written against a race (\<open>refreshCommit\<close>, transactions). Texts are
  byte strings, with characters outside ASCII in UTF-8.

  \<^bold>\<open>Not modelled.\<close> Swagger declarations, dependency injection and module files, the connections to the database and to
  Redis, the default process metrics, and the headers that \<^verbatim>\<open>helmet\<close> sets: they hold no state that an operation reads. The
  controllers of reports and of device health are defined in \<open>Reports\<close> and \<open>Health\<close> with a cache of their own and are
  not events of \<open>Server\<close>: they change no row.
\<close>

end
